(* ===== verification/Prelude.thy ===== *)
theory Prelude
  imports Main "HOL-Library.Product_Lexorder" "HOL-Library.Option_ord"
begin

text \<open>
  What every component shares: Go's error values with \<open>errors.Is\<close>, \<open>errors.Join\<close> and
  \<open>Error()\<close>; fallible state-passing code and its sequencing; SQL tables as lists of rows with the
  statements the queries use (\<open>UPDATE .. WHERE\<close> with its row count, \<open>SELECT .. LIMIT 1\<close>,
  \<open>ORDER BY .. LIMIT 1\<close>, \<open>INSERT .. ON CONFLICT\<close>); reachability in a step relation and the
  invariant rule for it. The collection \<open>io_simps\<close> unfolds the sequencing combinators and
  \<open>table_simps\<close> the table statements.
\<close>

named_theorems io_simps \<open>unfolding of the fallible state-passing combinators\<close>
named_theorems keeps_intros \<open>code that leaves a part of the state as it is\<close>
named_theorems yields_intros \<open>what code returns when it succeeds\<close>
named_theorems table_simps \<open>unfolding of table statements\<close>

type_synonym uuid = string
type_synonym time = int
type_synonym duration = int

section \<open>Go errors\<close>

text \<open>
  The package-level error values that the code compares with \<open>errors.Is\<close>. The two
  \<open>ErrStaleGeneration\<close> values of the packages work and reconcile are different values with the same
  text.
\<close>

datatype sentinel =
    ErrOperationProviderMissing
  | ErrOperationNotReady
  | work_ErrStaleGeneration
  | ErrLeaseLost
  | reconcile_ErrStaleGeneration
  | ErrLeaseRepositoryRequired
  | ErrOperationCAS
  | ErrRuntimeBindingCAS
  | ErrReservationNotFound
  | ErrNotFound
  | ErrGenerationConflict
  | ErrOperationActive
  | ErrInvalidState
  | ErrIdempotencyConflict
  | ErrInvalidUUID
  | ErrNoRows
  | ErrInvalidRefund
  | accesskey_ErrNotFound
  | accesskey_ErrInvalidInput
  | ErrAlreadyRevoked
  | ErrIdempotencyReplay
  | ErrSecretUnavailable
  | ErrScopeDenied
  | accesspolicy_ErrInvalidInput
  | accesspolicy_ErrNotFound
  | accesspolicy_ErrInUse
  | ErrIncompletePullScope
  | ErrInvalidPageToken
  | context_Canceled
  | context_DeadlineExceeded

fun sentinel_text :: "sentinel \<Rightarrow> string" where
  "sentinel_text ErrOperationProviderMissing = ''operation provider is not configured''"
| "sentinel_text ErrOperationNotReady = ''operation provider has not reached the required state''"
| "sentinel_text work_ErrStaleGeneration = ''stale generation''"
| "sentinel_text ErrLeaseLost = ''work lease expired, superseded, or generation changed''"
| "sentinel_text reconcile_ErrStaleGeneration = ''stale generation''"
| "sentinel_text ErrLeaseRepositoryRequired = ''lease-scoped reconcile repository is required''"
| "sentinel_text ErrOperationCAS = ''operation state CAS failed''"
| "sentinel_text ErrRuntimeBindingCAS = ''runtime binding CAS conflict''"
| "sentinel_text ErrReservationNotFound = ''quota reservation not found''"
| "sentinel_text ErrNotFound = ''inference service not found''"
| "sentinel_text ErrGenerationConflict = ''inference generation changed''"
| "sentinel_text ErrOperationActive = ''inference service has an active operation''"
| "sentinel_text ErrInvalidState = ''inference command is not valid for the current state''"
| "sentinel_text ErrIdempotencyConflict = ''idempotency key already used with a different request''"
| "sentinel_text ErrInvalidUUID = ''invalid UUID''"
| "sentinel_text ErrNoRows = ''no rows in result set''"
| "sentinel_text ErrInvalidRefund = ''invalid managed GPU release''"
| "sentinel_text accesskey_ErrNotFound = ''inference access key not found''"
| "sentinel_text accesskey_ErrInvalidInput = ''invalid inference access key input''"
| "sentinel_text ErrAlreadyRevoked = ''inference access key is already revoked''"
| "sentinel_text ErrIdempotencyReplay = ''inference access key idempotency replay''"
| "sentinel_text ErrSecretUnavailable = ''inference access key secret is unavailable''"
| "sentinel_text ErrScopeDenied = ''inference access key scope denied''"
| "sentinel_text accesspolicy_ErrInvalidInput = ''invalid inference access policy''"
| "sentinel_text accesspolicy_ErrNotFound = ''inference access policy not found''"
| "sentinel_text accesspolicy_ErrInUse = ''inference access policy is bound to a key''"
| "sentinel_text ErrIncompletePullScope =
     ''image pull scope requires tenant, cluster, namespace and registry''"
| "sentinel_text ErrInvalidPageToken = ''invalid page token''"
| "sentinel_text context_Canceled = ''context canceled''"
| "sentinel_text context_DeadlineExceeded = ''context deadline exceeded''"

text \<open>
  An error value: a package-level value, the result of \<open>errors.New\<close> or of \<open>fmt.Errorf\<close> without
  \<open>%w\<close> (\<open>Errorf\<close>), the result of \<open>fmt.Errorf\<close> with one \<open>%w\<close> between a prefix and a suffix
  (\<open>Wrapf\<close>), the result of \<open>errors.Join\<close> of two errors, an error of the PostgreSQL server with
  its SQLSTATE code and message (\<open>PgError\<close>), or a gRPC status with its code and message
  (\<open>GrpcStatus\<close>).
\<close>

datatype grpc_code =
    InvalidArgument
  | NotFound
  | AlreadyExists
  | PermissionDenied
  | Unauthenticated
  | FailedPrecondition
  | Aborted
  | OutOfRange
  | Unimplemented
  | InternalCode
  | Unavailable
  | DeadlineExceeded
  | Canceled
  | ResourceExhausted
  | UnknownCode

fun grpc_code_text :: "grpc_code \<Rightarrow> string" where
  "grpc_code_text InvalidArgument = ''InvalidArgument''"
| "grpc_code_text NotFound = ''NotFound''"
| "grpc_code_text AlreadyExists = ''AlreadyExists''"
| "grpc_code_text PermissionDenied = ''PermissionDenied''"
| "grpc_code_text Unauthenticated = ''Unauthenticated''"
| "grpc_code_text FailedPrecondition = ''FailedPrecondition''"
| "grpc_code_text Aborted = ''Aborted''"
| "grpc_code_text OutOfRange = ''OutOfRange''"
| "grpc_code_text Unimplemented = ''Unimplemented''"
| "grpc_code_text InternalCode = ''Internal''"
| "grpc_code_text Unavailable = ''Unavailable''"
| "grpc_code_text DeadlineExceeded = ''DeadlineExceeded''"
| "grpc_code_text Canceled = ''Canceled''"
| "grpc_code_text ResourceExhausted = ''ResourceExhausted''"
| "grpc_code_text UnknownCode = ''Unknown''"

datatype error =
    Sentinel sentinel
  | Errorf string
  | Wrapf string error string
  | Joined error error
  | PgError string string
  | GrpcStatus grpc_code string

fun errors_Is :: "error \<Rightarrow> sentinel \<Rightarrow> bool" where
  "errors_Is (Sentinel s) t = (s = t)"
| "errors_Is (Errorf m) t = False"
| "errors_Is (Wrapf p e q) t = errors_Is e t"
| "errors_Is (Joined a b) t = (errors_Is a t \<or> errors_Is b t)"
| "errors_Is (PgError code msg) t = False"
| "errors_Is (GrpcStatus c msg) t = False"

fun error_text :: "error \<Rightarrow> string" where
  "error_text (Sentinel s) = sentinel_text s"
| "error_text (Errorf m) = m"
| "error_text (Wrapf p e q) = p @ error_text e @ q"
| "error_text (Joined a b) = error_text a @ [CHR 0x0A] @ error_text b"
| "error_text (PgError code msg) = ''ERROR: '' @ msg @ '' (SQLSTATE '' @ code @ '')''"
| "error_text (GrpcStatus c msg) = ''rpc error: code = '' @ grpc_code_text c @ '' desc = '' @ msg"

text \<open>\<open>errors.Join\<close> of two possibly nil errors: nil values are discarded.\<close>

fun errors_Join :: "error option \<Rightarrow> error option \<Rightarrow> error option" where
  "errors_Join None b = b"
| "errors_Join a None = a"
| "errors_Join (Some a) (Some b) = Some (Joined a b)"

lemma errors_Join_None_right [simp]: "errors_Join a None = a"
  by (cases a) simp_all

lemma errors_Join_eq_None [simp]: "errors_Join a b = None \<longleftrightarrow> a = None \<and> b = None"
  by (cases a; cases b) simp_all

section \<open>Fallible code over a state\<close>

text \<open>
  Code that calls ports and the database is a function of the state of its environment that returns
  an error or a value and the state it leaves: \<open>bindE m f\<close> is Go's
  \<^verbatim>\<open>x, err := m(); if err != nil { return err }; f(x)\<close>, and \<open>tryE m\<close> hands the error to the caller
  as a value, for code that inspects it.
\<close>

type_synonym 'a result = "error + 'a"
type_synonym ('s, 'a) io = "'s \<Rightarrow> 'a result \<times> 's"

definition returnE :: "'a \<Rightarrow> ('s, 'a) io" where
  [io_simps]: "returnE a s = (Inr a, s)"

definition failE :: "error \<Rightarrow> ('s, 'a) io" where
  [io_simps]: "failE e s = (Inl e, s)"

definition bindE :: "('s, 'a) io \<Rightarrow> ('a \<Rightarrow> ('s, 'b) io) \<Rightarrow> ('s, 'b) io" where
  "bindE m f s = (case m s of (Inl e, t) \<Rightarrow> (Inl e, t) | (Inr a, t) \<Rightarrow> f a t)"

definition tryE :: "('s, 'a) io \<Rightarrow> ('s, 'a result) io" where
  [io_simps]: "tryE m s = (case m s of (r, t) \<Rightarrow> (Inr r, t))"

definition liftE :: "'a result \<Rightarrow> ('s, 'a) io" where
  [io_simps]: "liftE r s = (r, s)"

lemma bindE_eq_Inr:
  "bindE m f s = (Inr b, t) \<longleftrightarrow> (\<exists>a u. m s = (Inr a, u) \<and> f a u = (Inr b, t))"
  by (auto simp: bindE_def split: prod.splits sum.splits)

lemma bindE_eq_Inl:
  "bindE m f s = (Inl e, t) \<longleftrightarrow>
     m s = (Inl e, t) \<or> (\<exists>a u. m s = (Inr a, u) \<and> f a u = (Inl e, t))"
  by (auto simp: bindE_def split: prod.splits sum.splits)

lemma bindE_Inr [simp]: "m s = (Inr a, t) \<Longrightarrow> bindE m f s = f a t"
  by (simp add: bindE_def)

lemma bindE_Inl [simp]: "m s = (Inl e, t) \<Longrightarrow> bindE m f s = (Inl e, t)"
  by (simp add: bindE_def)

lemma bindE_returnE [simp]: "bindE (returnE a) f = f a"
  by (rule ext) (simp add: bindE_def returnE_def)

lemma bindE_failE [simp]: "bindE (failE e) f = failE e"
  by (rule ext) (simp add: bindE_def failE_def)

lemma returnE_eq [simp]: "returnE a s = (r, t) \<longleftrightarrow> r = Inr a \<and> t = s"
  by (auto simp: returnE_def)

lemma failE_eq [simp]: "failE e s = (r, t) \<longleftrightarrow> r = Inl e \<and> t = s"
  by (auto simp: failE_def)

lemma liftE_eq [simp]: "liftE x s = (r, t) \<longleftrightarrow> r = x \<and> t = s"
  by (auto simp: liftE_def)

lemma tryE_eq [simp]: "tryE m s = (r, t) \<longleftrightarrow> (\<exists>x. m s = (x, t) \<and> r = Inr x)"
  by (auto simp: tryE_def split: prod.splits)

text \<open>A loop that stops at the first error.\<close>

fun forE :: "('a \<Rightarrow> ('s, unit) io) \<Rightarrow> 'a list \<Rightarrow> ('s, unit) io" where
  "forE f [] = returnE ()"
| "forE f (x # xs) = bindE (f x) (\<lambda>_. forE f xs)"

lemma forE_invariant:
  assumes "\<And>x s r t. x \<in> set xs \<Longrightarrow> P s \<Longrightarrow> f x s = (r, t) \<Longrightarrow> P t"
    and "P s" and "forE f xs s = (r, t)"
  shows "P t"
  using assms
proof (induction xs arbitrary: s r)
  case Nil
  then show ?case by simp
next
  case (Cons x xs)
  obtain r1 u where run: "f x s = (r1, u)" by (cases "f x s")
  then have P: "P u" using Cons.prems(1,2) by (meson list.set_intros(1))
  show ?case
  proof (cases r1)
    case (Inl e)
    with run Cons.prems(3) P show ?thesis by simp
  next
    case (Inr a)
    with run Cons.prems(3) have "forE f xs u = (r, t)" by simp
    with Cons.IH Cons.prems(1) P show ?thesis by (meson list.set_intros(2))
  qed
qed

text \<open>
  A loop whose turns succeed under an invariant runs to its end, and what a turn establishes for its
  element still holds there when later turns keep it.
\<close>

lemma forE_total:
  assumes "\<And>x s. x \<in> set xs \<Longrightarrow> I s \<Longrightarrow> \<exists>t. f x s = (Inr (), t) \<and> I t \<and> Q x t"
    and "\<And>x y s t. x \<in> set xs \<Longrightarrow> I s \<Longrightarrow> f x s = (Inr (), t) \<Longrightarrow> Q y s \<Longrightarrow> Q y t"
    and "I s"
  shows "\<exists>t. forE f xs s = (Inr (), t) \<and> I t \<and> (\<forall>y. y \<in> set xs \<or> Q y s \<longrightarrow> Q y t)"
  using assms
proof (induction xs arbitrary: s)
  case Nil
  then show ?case by simp
next
  case (Cons x xs)
  have mem: "x \<in> set (x # xs)" by simp
  obtain u where run: "f x s = (Inr (), u)" and u: "I u" "Q x u"
    using Cons.prems(1) [OF mem Cons.prems(3)] by blast
  have "\<exists>t. forE f xs u = (Inr (), t) \<and> I t \<and> (\<forall>y. y \<in> set xs \<or> Q y u \<longrightarrow> Q y t)"
  proof (rule Cons.IH [OF _ _ u(1)])
    fix z s'
    assume "z \<in> set xs" "I s'"
    then show "\<exists>t. f z s' = (Inr (), t) \<and> I t \<and> Q z t"
      by (intro Cons.prems(1) list.set_intros(2))
  next
    fix z y s' t'
    assume z: "z \<in> set xs" and q: "I s'" "f z s' = (Inr (), t')" "Q y s'"
    from z have "z \<in> set (x # xs)" by simp
    from this q show "Q y t'" by (rule Cons.prems(2))
  qed
  then obtain t where t: "forE f xs u = (Inr (), t)" "I t" "\<forall>y. y \<in> set xs \<or> Q y u \<longrightarrow> Q y t"
    by blast
  have "Q y t" if "y \<in> set (x # xs) \<or> Q y s" for y
    using that t(3) u(2) Cons.prems(2) [OF mem Cons.prems(3) run] by auto
  with t run show ?case by auto
qed

text \<open>
  Code that leaves a part \<open>g\<close> of the state as it is, whether it succeeds or fails. The rules of the
  collection \<open>keeps_intros\<close> follow the structure of the code.
\<close>

definition keeps :: "('s \<Rightarrow> 'v) \<Rightarrow> ('s, 'a) io \<Rightarrow> bool" where
  "keeps g m \<longleftrightarrow> (\<forall>s r t. m s = (r, t) \<longrightarrow> g t = g s)"

lemma keepsD: "keeps g m \<Longrightarrow> m s = (r, t) \<Longrightarrow> g t = g s"
  by (simp add: keeps_def)

lemma keeps_returnE [keeps_intros]: "keeps g (returnE a)"
  by (simp add: keeps_def)

lemma keeps_failE [keeps_intros]: "keeps g (failE e)"
  by (simp add: keeps_def)

lemma keeps_liftE [keeps_intros]: "keeps g (liftE x)"
  by (simp add: keeps_def)

lemma keeps_tryE [keeps_intros]: "keeps g m \<Longrightarrow> keeps g (tryE m)"
  by (auto simp: keeps_def)

lemma keeps_bindE [keeps_intros]: "keeps g m \<Longrightarrow> (\<And>a. keeps g (f a)) \<Longrightarrow> keeps g (bindE m f)"
  by (simp add: keeps_def bindE_def split: prod.split sum.split)

lemma keeps_if [keeps_intros]: "(p \<Longrightarrow> keeps g a) \<Longrightarrow> (\<not> p \<Longrightarrow> keeps g b) \<Longrightarrow> keeps g (if p then a else b)"
  by simp

lemma keeps_option [keeps_intros]:
  "(y = None \<Longrightarrow> keeps g a) \<Longrightarrow> (\<And>x. y = Some x \<Longrightarrow> keeps g (f x)) \<Longrightarrow> keeps g (case y of None \<Rightarrow> a | Some x \<Rightarrow> f x)"
  by (cases y) simp_all

lemma keeps_sum [keeps_intros]:
  "(\<And>e. y = Inl e \<Longrightarrow> keeps g (f e)) \<Longrightarrow> (\<And>x. y = Inr x \<Longrightarrow> keeps g (h x)) \<Longrightarrow> keeps g (case y of Inl e \<Rightarrow> f e | Inr x \<Rightarrow> h x)"
  by (cases y) simp_all

lemma keeps_pair [keeps_intros]: "(\<And>a b. p = (a, b) \<Longrightarrow> keeps g (f a b)) \<Longrightarrow> keeps g (case p of (a, b) \<Rightarrow> f a b)"
  by (cases p) simp

lemma keeps_forE [keeps_intros]: "(\<And>x. keeps g (f x)) \<Longrightarrow> keeps g (forE f xs)"
  by (induction xs) (auto intro: keeps_intros)

text \<open>Code that returns only values with a property when it succeeds.\<close>

definition yields :: "('a \<Rightarrow> bool) \<Rightarrow> ('s, 'a) io \<Rightarrow> bool" where
  "yields q m \<longleftrightarrow> (\<forall>s a t. m s = (Inr a, t) \<longrightarrow> q a)"

lemma yieldsD: "yields q m \<Longrightarrow> m s = (Inr a, t) \<Longrightarrow> q a"
  unfolding yields_def by blast

lemma yields_returnE [yields_intros]: "q a \<Longrightarrow> yields q (returnE a)"
  by (simp add: yields_def)

lemma yields_failE [yields_intros]: "yields q (failE e)"
  by (simp add: yields_def)

lemma yields_bindE [yields_intros]: "(\<And>a. yields q (f a)) \<Longrightarrow> yields q (bindE m f)"
  unfolding yields_def bindE_eq_Inr by blast

lemma yields_then: "yields p m \<Longrightarrow> (\<And>a. p a \<Longrightarrow> yields q (f a)) \<Longrightarrow> yields q (bindE m f)"
  unfolding yields_def bindE_eq_Inr by blast

lemma yields_if [yields_intros]: "(p \<Longrightarrow> yields q a) \<Longrightarrow> (\<not> p \<Longrightarrow> yields q b) \<Longrightarrow> yields q (if p then a else b)"
  by simp

lemma yields_option [yields_intros]:
  "(y = None \<Longrightarrow> yields q a) \<Longrightarrow> (\<And>x. y = Some x \<Longrightarrow> yields q (f x)) \<Longrightarrow> yields q (case y of None \<Rightarrow> a | Some x \<Rightarrow> f x)"
  by (cases y) simp_all

lemma yields_sum [yields_intros]:
  "(\<And>e. y = Inl e \<Longrightarrow> yields q (f e)) \<Longrightarrow> (\<And>x. y = Inr x \<Longrightarrow> yields q (g x)) \<Longrightarrow> yields q (case y of Inl e \<Rightarrow> f e | Inr x \<Rightarrow> g x)"
  by (cases y) simp_all

lemma yields_pair [yields_intros]: "(\<And>a b. p = (a, b) \<Longrightarrow> yields q (f a b)) \<Longrightarrow> yields q (case p of (a, b) \<Rightarrow> f a b)"
  by (cases p) simp

section \<open>Tables\<close>

text \<open>
  A table is the list of its rows. \<open>update_where\<close> is \<open>UPDATE .. SET .. WHERE\<close> and \<open>rows_where\<close> the
  number of rows such a statement reports; \<open>find\<close> is a \<open>SELECT\<close> of at most one row.
\<close>

definition update_where :: "('r \<Rightarrow> bool) \<Rightarrow> ('r \<Rightarrow> 'r) \<Rightarrow> 'r list \<Rightarrow> 'r list" where
  "update_where p f rs = map (\<lambda>r. if p r then f r else r) rs"

definition rows_where :: "('r \<Rightarrow> bool) \<Rightarrow> 'r list \<Rightarrow> nat" where
  "rows_where p rs = length (filter p rs)"

definition delete_where :: "('r \<Rightarrow> bool) \<Rightarrow> 'r list \<Rightarrow> 'r list" where
  "delete_where p rs = filter (\<lambda>r. \<not> p r) rs"

text \<open>\<open>ORDER BY key LIMIT 1\<close>: the first row with the least key.\<close>

fun first_by :: "('r \<Rightarrow> 'k::linorder) \<Rightarrow> 'r list \<Rightarrow> 'r option" where
  "first_by k [] = None"
| "first_by k (r # rs) =
     (case first_by k rs of None \<Rightarrow> Some r | Some m \<Rightarrow> if k m < k r then Some m else Some r)"

lemma first_by_eq_None [simp]: "first_by k rs = None \<longleftrightarrow> rs = []"
  by (cases rs) (simp_all split: option.splits)

lemma first_by_min: "first_by k rs = Some m \<Longrightarrow> m \<in> set rs \<and> (\<forall>r \<in> set rs. k m \<le> k r)"
proof (induction rs arbitrary: m)
  case Nil
  then show ?case by simp
next
  case (Cons a rs)
  show ?case
  proof (cases "first_by k rs")
    case None
    with Cons.prems show ?thesis by simp
  next
    case (Some b)
    with Cons.IH have "b \<in> set rs" and "\<forall>r \<in> set rs. k b \<le> k r" by simp_all
    with Cons.prems Some show ?thesis by (auto split: if_splits)
  qed
qed

text \<open>Rows identified by a key: a primary key or unique index.\<close>

definition keyed :: "('r \<Rightarrow> 'k) \<Rightarrow> 'r list \<Rightarrow> bool" where
  "keyed k rs \<longleftrightarrow> distinct (map k rs)"

lemma keyed_Nil [simp]: "keyed k []"
  by (simp add: keyed_def)

lemma keyed_unique: "keyed k rs \<Longrightarrow> a \<in> set rs \<Longrightarrow> b \<in> set rs \<Longrightarrow> k a = k b \<Longrightarrow> a = b"
  by (auto simp: keyed_def distinct_map inj_on_def)

lemma keyed_append_one: "keyed k (rs @ [r]) \<longleftrightarrow> keyed k rs \<and> k r \<notin> k ` set rs"
  by (auto simp: keyed_def)

lemma set_update_where: "set (update_where p f rs) = (\<lambda>r. if p r then f r else r) ` set rs"
  by (simp add: update_where_def)

lemma map_update_where [table_simps]:
  "(\<And>r. k (f r) = k r) \<Longrightarrow> map k (update_where p f rs) = map k rs"
  by (simp add: update_where_def)

lemma keyed_update_where: "(\<And>r. k (f r) = k r) \<Longrightarrow> keyed k (update_where p f rs) = keyed k rs"
  by (simp add: keyed_def map_update_where)

lemma update_where_none: "(\<And>r. r \<in> set rs \<Longrightarrow> \<not> p r) \<Longrightarrow> update_where p f rs = rs"
  by (simp add: update_where_def map_idI)

lemma rows_where_zero: "rows_where p rs = 0 \<longleftrightarrow> (\<forall>r \<in> set rs. \<not> p r)"
  by (auto simp: rows_where_def filter_empty_conv)

lemma rows_where_keyed:
  assumes "keyed k rs" and "\<And>r. r \<in> set rs \<Longrightarrow> p r \<Longrightarrow> k r = x"
  shows "rows_where p rs \<le> 1"
proof -
  have "distinct (map k (filter p rs))"
    using assms(1) by (simp add: keyed_def distinct_map_filter)
  moreover have "set (map k (filter p rs)) \<subseteq> {x}"
    using assms(2) by auto
  ultimately have "length (map k (filter p rs)) \<le> card {x}"
    by (metis card_mono distinct_card finite.emptyI finite.insertI)
  then show ?thesis by (simp add: rows_where_def)
qed

lemma rows_where_one:
  assumes "keyed k rs" and "\<And>r. r \<in> set rs \<Longrightarrow> p r \<Longrightarrow> k r = x"
  shows "rows_where p rs = 1 \<longleftrightarrow> (\<exists>r \<in> set rs. p r)"
proof
  assume "rows_where p rs = 1"
  then show "\<exists>r \<in> set rs. p r"
    using rows_where_zero [of p rs] by force
next
  assume "\<exists>r \<in> set rs. p r"
  then have "rows_where p rs \<noteq> 0" by (simp add: rows_where_zero)
  moreover have "rows_where p rs \<le> 1"
    using assms by (rule rows_where_keyed)
  ultimately show "rows_where p rs = 1" by linarith
qed

text \<open>
  \<open>UPDATE .. WHERE key = x AND q\<close> on a keyed table changes the one row of that key or nothing.
\<close>

lemma update_keyed:
  assumes "keyed k rs"
  shows "rows_where (\<lambda>r. k r = x \<and> q r) rs = (if \<exists>r \<in> set rs. k r = x \<and> q r then 1 else 0)"
    and "update_where (\<lambda>r. k r = x \<and> q r) f rs =
      (if \<exists>r \<in> set rs. k r = x \<and> q r then update_where (\<lambda>r. k r = x) f rs else rs)"
proof -
  show "rows_where (\<lambda>r. k r = x \<and> q r) rs = (if \<exists>r \<in> set rs. k r = x \<and> q r then 1 else 0)"
    using rows_where_one [OF assms, of "\<lambda>r. k r = x \<and> q r" x] rows_where_zero [of _ rs] by auto
  show "update_where (\<lambda>r. k r = x \<and> q r) f rs =
      (if \<exists>r \<in> set rs. k r = x \<and> q r then update_where (\<lambda>r. k r = x) f rs else rs)"
  proof (cases "\<exists>r \<in> set rs. k r = x \<and> q r")
    case True
    then have "\<And>r. r \<in> set rs \<Longrightarrow> k r = x \<Longrightarrow> q r" using keyed_unique [OF assms] by metis
    with True show ?thesis by (auto simp: update_where_def)
  next
    case False
    then have "update_where (\<lambda>r. k r = x \<and> q r) f rs = rs" by (intro update_where_none) auto
    then show ?thesis by (simp only: False if_False)
  qed
qed

lemma find_eq_None: "find p rs = None \<longleftrightarrow> (\<forall>r \<in> set rs. \<not> p r)"
  by (induction rs) auto

lemma find_Some_mem: "find p rs = Some r \<Longrightarrow> r \<in> set rs \<and> p r"
  by (induction rs) (auto split: if_splits)

lemma find_keyed:
  assumes "keyed k rs" and "r \<in> set rs" and "p r" and "\<And>q. q \<in> set rs \<Longrightarrow> p q \<Longrightarrow> k q = k r"
  shows "find p rs = Some r"
proof -
  from assms(2,3) obtain q where q: "find p rs = Some q"
    by (metis find_eq_None not_None_eq)
  with find_Some_mem [OF q] assms have "q = r"
    by (metis keyed_unique)
  with q show ?thesis by simp
qed

section \<open>Reachable states\<close>

inductive reachable :: "('s \<Rightarrow> bool) \<Rightarrow> ('s \<Rightarrow> 's \<Rightarrow> bool) \<Rightarrow> 's \<Rightarrow> bool"
  for initial :: "'s \<Rightarrow> bool" and step :: "'s \<Rightarrow> 's \<Rightarrow> bool" where
  start: "initial s \<Longrightarrow> reachable initial step s"
| next_state: "reachable initial step s \<Longrightarrow> step s t \<Longrightarrow> reachable initial step t"

text \<open>The contract of an inductive invariant; every component with a step relation interprets it.\<close>

locale inductive_invariant =
  fixes initial :: "'s \<Rightarrow> bool"
    and step :: "'s \<Rightarrow> 's \<Rightarrow> bool"
    and inv :: "'s \<Rightarrow> bool"
  assumes inv_initial: "initial s \<Longrightarrow> inv s"
    and inv_step: "inv s \<Longrightarrow> step s t \<Longrightarrow> inv t"
begin

lemma inv_reachable: "reachable initial step s \<Longrightarrow> inv s"
  by (induction rule: reachable.induct) (auto intro: inv_initial inv_step)

lemma inv_steps: "step\<^sup>*\<^sup>* s t \<Longrightarrow> inv s \<Longrightarrow> inv t"
  by (induction rule: rtranclp_induct) (auto intro: inv_step)

end

end
