(* ===== verification/Go_Strings.thy ===== *)
theory Go_Strings
  imports Prelude "HOL-Library.Sublist" "HOL-Library.List_Lexorder" "HOL-Library.Char_ord"
begin

text \<open>
  The parts of Go's packages strings and strconv that the components use. A Go string is its UTF-8
  bytes, a list of \<open>char\<close>; the order on strings is the bytewise lexicographic one.
  \<open>TrimSpace\<close> removes the UTF-8 encodings of Unicode's White\_Space code points at both ends.
\<close>

section \<open>Trimming\<close>

definition white_space :: "string list" where
  "white_space =
     [[CHR 0x09], [CHR 0x0A], [CHR 0x0B], [CHR 0x0C], [CHR 0x0D], [CHR 0x20],
      [CHR 0xC2, CHR 0x85], [CHR 0xC2, CHR 0xA0],
      [CHR 0xE1, CHR 0x9A, CHR 0x80],
      [CHR 0xE2, CHR 0x80, CHR 0x80], [CHR 0xE2, CHR 0x80, CHR 0x81], [CHR 0xE2, CHR 0x80, CHR 0x82],
      [CHR 0xE2, CHR 0x80, CHR 0x83], [CHR 0xE2, CHR 0x80, CHR 0x84], [CHR 0xE2, CHR 0x80, CHR 0x85],
      [CHR 0xE2, CHR 0x80, CHR 0x86], [CHR 0xE2, CHR 0x80, CHR 0x87], [CHR 0xE2, CHR 0x80, CHR 0x88],
      [CHR 0xE2, CHR 0x80, CHR 0x89], [CHR 0xE2, CHR 0x80, CHR 0x8A],
      [CHR 0xE2, CHR 0x80, CHR 0xA8], [CHR 0xE2, CHR 0x80, CHR 0xA9], [CHR 0xE2, CHR 0x80, CHR 0xAF],
      [CHR 0xE2, CHR 0x81, CHR 0x9F], [CHR 0xE3, CHR 0x80, CHR 0x80]]"

function trim_by :: "string list \<Rightarrow> string \<Rightarrow> string" where
  "trim_by ws s =
     (case find (\<lambda>w. w \<noteq> [] \<and> prefix w s) ws of
        None \<Rightarrow> s
      | Some w \<Rightarrow> trim_by ws (drop (length w) s))"
  by pat_completeness auto
termination
proof (relation "measure (\<lambda>(ws, s). length s)")
  fix ws s w
  assume "find (\<lambda>w. w \<noteq> [] \<and> prefix w s) ws = Some (w :: string)"
  then have "w \<noteq> []" and "prefix w s" by (auto dest: find_Some_mem)
  then show "((ws, drop (length w) s), (ws, s)) \<in> measure (\<lambda>(ws, s). length s)"
    using prefix_length_le [of w s] by (cases w) auto
qed simp

declare trim_by.simps [simp del]

definition TrimSpace :: "string \<Rightarrow> string" where
  "TrimSpace s = rev (trim_by (map rev white_space) (rev (trim_by white_space s)))"

definition untrimmable :: "string list \<Rightarrow> string \<Rightarrow> bool" where
  "untrimmable ws s \<longleftrightarrow> (\<forall>w \<in> set ws. w \<noteq> [] \<longrightarrow> \<not> prefix w s)"

lemma trim_by_id: "untrimmable ws s \<Longrightarrow> trim_by ws s = s"
  by (subst trim_by.simps) (auto simp: untrimmable_def find_eq_None split: option.splits dest: find_Some_mem)

lemma untrimmable_trim_by: "untrimmable ws (trim_by ws s)"
proof (induction ws s rule: trim_by.induct)
  case (1 ws s)
  show ?case
  proof (cases "find (\<lambda>w. w \<noteq> [] \<and> prefix w s) ws")
    case None
    then have "untrimmable ws s" by (auto simp: untrimmable_def find_eq_None)
    then show ?thesis by (simp add: trim_by_id)
  next
    case (Some w)
    with 1 have "untrimmable ws (trim_by ws (drop (length w) s))" by simp
    with Some show ?thesis by (subst trim_by.simps) simp
  qed
qed

lemma suffix_trim_by: "suffix (trim_by ws s) s"
proof (induction ws s rule: trim_by.induct)
  case (1 ws s)
  show ?case
  proof (cases "find (\<lambda>w. w \<noteq> [] \<and> prefix w s) ws")
    case None
    then show ?thesis by (subst trim_by.simps) simp
  next
    case (Some w)
    with 1 have "suffix (trim_by ws (drop (length w) s)) (drop (length w) s)" by simp
    then have "suffix (trim_by ws (drop (length w) s)) s"
      using suffix_drop suffix_order.trans by blast
    with Some show ?thesis by (subst trim_by.simps) simp
  qed
qed

lemma untrimmable_prefix: "untrimmable ws s \<Longrightarrow> prefix t s \<Longrightarrow> untrimmable ws t"
  unfolding untrimmable_def using prefix_order.trans by blast

lemma TrimSpace_left: "untrimmable white_space (TrimSpace s)"
proof -
  have "prefix (TrimSpace s) (trim_by white_space s)"
    using suffix_trim_by [of "map rev white_space" "rev (trim_by white_space s)"]
    by (simp add: TrimSpace_def suffix_to_prefix)
  with untrimmable_trim_by show ?thesis by (rule untrimmable_prefix)
qed

lemma TrimSpace_right: "untrimmable (map rev white_space) (rev (TrimSpace s))"
  by (simp add: TrimSpace_def untrimmable_trim_by)

lemma TrimSpace_idem [simp]: "TrimSpace (TrimSpace s) = TrimSpace s"
proof -
  have left: "trim_by white_space (TrimSpace s) = TrimSpace s"
    by (rule trim_by_id) (rule TrimSpace_left)
  have "trim_by (map rev white_space) (rev (TrimSpace s)) = rev (TrimSpace s)"
    by (rule trim_by_id) (rule TrimSpace_right)
  then show ?thesis
    unfolding TrimSpace_def [of "TrimSpace s"] left by simp
qed

section \<open>Quoting\<close>

text \<open>
  The verb \<^verbatim>\<open>%q\<close> on strings without characters to escape; error texts are for the reader only, no
  code inspects them.
\<close>

definition quoted :: "string \<Rightarrow> string" where
  "quoted s = [CHR 0x22] @ s @ [CHR 0x22]"

section \<open>Decimal numbers\<close>

definition digit :: "nat \<Rightarrow> char" where
  "digit d = char_of (48 + d)"

definition digit_val :: "char \<Rightarrow> nat" where
  "digit_val c = of_char c - 48"

definition is_digit :: "char \<Rightarrow> bool" where
  "is_digit c \<longleftrightarrow> 48 \<le> (of_char c :: nat) \<and> (of_char c :: nat) \<le> 57"

lemma of_char_digit: "d < 10 \<Longrightarrow> of_char (digit d) = 48 + d"
  by (simp add: digit_def)

lemma digit_val_digit [simp]: "d < 10 \<Longrightarrow> digit_val (digit d) = d"
  by (simp add: digit_val_def of_char_digit)

lemma is_digit_digit [simp]: "d < 10 \<Longrightarrow> is_digit (digit d)"
  by (simp add: is_digit_def of_char_digit)

fun dec_nat :: "nat \<Rightarrow> string" where
  "dec_nat n = (if n < 10 then [digit n] else dec_nat (n div 10) @ [digit (n mod 10)])"

declare dec_nat.simps [simp del]

definition dec_val :: "string \<Rightarrow> nat" where
  "dec_val s = foldl (\<lambda>a c. 10 * a + digit_val c) 0 s"

definition FormatInt :: "int \<Rightarrow> string" where
  "FormatInt i = (if i < 0 then CHR ''-'' # dec_nat (nat (- i)) else dec_nat (nat i))"

lemma dec_val_dec_nat [simp]: "dec_val (dec_nat n) = n"
proof (induction n rule: dec_nat.induct)
  case (1 n)
  show ?case
  proof (cases "n < 10")
    case True
    then show ?thesis by (subst dec_nat.simps) (simp add: dec_val_def)
  next
    case False
    with 1 have "dec_val (dec_nat (n div 10)) = n div 10" by simp
    with False show ?thesis by (subst dec_nat.simps) (simp add: dec_val_def)
  qed
qed

lemma dec_nat_digits: "dec_nat n \<noteq> [] \<and> list_all is_digit (dec_nat n)"
proof (induction n rule: dec_nat.induct)
  case (1 n)
  show ?case
    by (subst (1 2) dec_nat.simps) (use 1 in auto)
qed

lemma dec_nat_inject [simp]: "dec_nat m = dec_nat n \<longleftrightarrow> m = n"
  by (metis dec_val_dec_nat)

text \<open>\<open>strconv.ParseInt(s, 10, 64)\<close>: an optional sign and decimal digits, in the range of int64.\<close>

definition int64_range :: "int \<Rightarrow> bool" where
  "int64_range i \<longleftrightarrow> - (2 ^ 63) \<le> i \<and> i < 2 ^ 63"

definition parse_digits :: "string \<Rightarrow> int option" where
  "parse_digits s = (if s \<noteq> [] \<and> list_all is_digit s then Some (int (dec_val s)) else None)"

definition ParseInt :: "string \<Rightarrow> int option" where
  "ParseInt s =
     (let v = (case s of
                 [] \<Rightarrow> None
               | c # cs \<Rightarrow>
                   if c = CHR ''-'' then map_option uminus (parse_digits cs)
                   else if c = CHR ''+'' then parse_digits cs
                   else parse_digits s)
      in case v of None \<Rightarrow> None | Some i \<Rightarrow> if int64_range i then Some i else None)"

lemma parse_digits_dec_nat [simp]: "parse_digits (dec_nat n) = Some (int n)"
  by (simp add: parse_digits_def dec_nat_digits)

lemma dec_nat_head: "\<exists>c cs. dec_nat n = c # cs \<and> c \<noteq> CHR ''-'' \<and> c \<noteq> CHR ''+''"
  using dec_nat_digits [of n] by (cases "dec_nat n") (auto simp: is_digit_def)

lemma ParseInt_FormatInt [simp]: "int64_range i \<Longrightarrow> ParseInt (FormatInt i) = Some i"
proof (cases "i < 0")
  case True
  assume "int64_range i"
  with True show ?thesis by (simp add: FormatInt_def ParseInt_def)
next
  case False
  assume "int64_range i"
  obtain c cs where c: "dec_nat (nat i) = c # cs" "c \<noteq> CHR ''-''" "c \<noteq> CHR ''+''"
    using dec_nat_head by blast
  have "parse_digits (c # cs) = Some i"
    using parse_digits_dec_nat [of "nat i"] c(1) False by simp
  with c False \<open>int64_range i\<close> show ?thesis by (simp add: FormatInt_def ParseInt_def)
qed

lemma FormatInt_inject [simp]: "FormatInt i = FormatInt j \<longleftrightarrow> i = j"
proof
  assume eq: "FormatInt i = FormatInt j"
  obtain c cs d ds where heads: "dec_nat (nat i) = c # cs" "c \<noteq> CHR ''-''"
      "dec_nat (nat j) = d # ds" "d \<noteq> CHR ''-''"
    using dec_nat_head by metis
  consider "i < 0" "j < 0" | "\<not> i < 0" "\<not> j < 0"
    using eq heads by (force simp: FormatInt_def split: if_splits)
  then show "i = j"
    using eq by cases (simp_all add: FormatInt_def)
qed simp

text \<open>A string of digits has nothing to trim.\<close>

lemma untrimmable_chars:
  assumes "list_all q s" and "\<forall>w \<in> set ws. w \<noteq> [] \<longrightarrow> \<not> q (hd w)"
  shows "untrimmable ws s"
proof -
  have "q (hd w)" if "prefix w s" "w \<noteq> []" for w
    using that assms(1) by (cases w; cases s) auto
  with assms(2) show ?thesis by (auto simp: untrimmable_def)
qed

lemma TrimSpace_chars:
  assumes "list_all q s" and "\<forall>w \<in> set white_space. \<not> q (hd w) \<and> \<not> q (last w)"
  shows "TrimSpace s = s"
proof -
  have "trim_by white_space s = s" "trim_by (map rev white_space) (rev s) = rev s"
    using assms by (auto intro!: trim_by_id untrimmable_chars [of q] simp: list_all_rev hd_rev)
  then show ?thesis by (simp add: TrimSpace_def)
qed

lemma TrimSpace_digits: "list_all is_digit s \<Longrightarrow> TrimSpace s = s"
  by (erule TrimSpace_chars) (simp add: white_space_def is_digit_def)

section \<open>Timestamps\<close>

text \<open>
  \<open>time.Parse(time.RFC3339Nano, s)\<close>, whether it succeeds. \<open>scan\<close> functions consume a prefix of the
  value and return the number read and the rest. As in Go the hour may have one digit, the fraction
  may start with a comma, and an offset may have 24 hours or 60 minutes.
\<close>

definition scan_fixed :: "nat \<Rightarrow> string \<Rightarrow> (nat \<times> string) option" where
  "scan_fixed n s =
     (if n \<le> length s \<and> list_all is_digit (take n s) then Some (dec_val (take n s), drop n s) else None)"

definition scan_char :: "char list \<Rightarrow> string \<Rightarrow> string option" where
  "scan_char cs s = (case s of [] \<Rightarrow> None | c # rest \<Rightarrow> if c \<in> set cs then Some rest else None)"

definition scan_hour :: "string \<Rightarrow> (nat \<times> string) option" where
  "scan_hour s = (case scan_fixed 2 s of Some r \<Rightarrow> Some r | None \<Rightarrow> scan_fixed 1 s)"

definition scan_fraction :: "string \<Rightarrow> string" where
  "scan_fraction s =
     (case s of
        c # d # rest \<Rightarrow>
          if (c = CHR ''.'' \<or> c = CHR '','') \<and> is_digit d then dropWhile is_digit rest else s
      | _ \<Rightarrow> s)"

definition scan_zone :: "string \<Rightarrow> string option" where
  "scan_zone s =
     (case scan_char ''Z'' s of
        Some rest \<Rightarrow> Some rest
      | None \<Rightarrow> Option.bind (scan_char ''+-'' s) (\<lambda>s.
          Option.bind (scan_fixed 2 s) (\<lambda>(hr, s).
          Option.bind (scan_char '':'' s) (\<lambda>s.
          Option.bind (scan_fixed 2 s) (\<lambda>(mm, s).
          if hr \<le> 24 \<and> mm \<le> 60 then Some s else None)))))"

definition leap_year :: "nat \<Rightarrow> bool" where
  "leap_year y \<longleftrightarrow> y mod 4 = 0 \<and> (y mod 100 \<noteq> 0 \<or> y mod 400 = 0)"

definition days_in :: "nat \<Rightarrow> nat \<Rightarrow> nat" where
  "days_in month year =
     (if month = 2 then (if leap_year year then 29 else 28)
      else if month \<in> {4, 6, 9, 11} then 30 else 31)"

definition time_Parse_RFC3339Nano :: "string \<Rightarrow> bool" where
  "time_Parse_RFC3339Nano s =
     (case Option.bind (scan_fixed 4 s) (\<lambda>(year, s).
        Option.bind (scan_char ''-'' s) (\<lambda>s.
        Option.bind (scan_fixed 2 s) (\<lambda>(month, s).
        Option.bind (scan_char ''-'' s) (\<lambda>s.
        Option.bind (scan_fixed 2 s) (\<lambda>(day, s).
        Option.bind (scan_char ''T'' s) (\<lambda>s.
        Option.bind (scan_hour s) (\<lambda>(hour, s).
        Option.bind (scan_char '':'' s) (\<lambda>s.
        Option.bind (scan_fixed 2 s) (\<lambda>(minute, s).
        Option.bind (scan_char '':'' s) (\<lambda>s.
        Option.bind (scan_fixed 2 s) (\<lambda>(second, s).
        Option.bind (scan_zone (scan_fraction s)) (\<lambda>s.
        if 1 \<le> month \<and> month \<le> 12 \<and> hour < 24 \<and> minute < 60 \<and> second < 60 \<and> s = ''''
           \<and> 1 \<le> day \<and> day \<le> days_in month year
        then Some () else None)))))))))))) of
        None \<Rightarrow> False
      | Some _ \<Rightarrow> True)"

section \<open>Lower case\<close>

text \<open>\<open>strings.ToLower\<close> on the letters of ASCII; other bytes are kept.\<close>

definition lower_char :: "char \<Rightarrow> char" where
  "lower_char c =
     (let n = (of_char c :: nat) in if 65 \<le> n \<and> n \<le> 90 then char_of (n + 32) else c)"

definition ToLower :: "string \<Rightarrow> string" where
  "ToLower s = map lower_char s"

end
