(* ===== verification/Operation_Machine.thy ===== *)
theory Operation_Machine
  imports Go_Strings
begin

text \<open>
  The local operation state machine: \<^verbatim>\<open>internal/biz/inference/operation.go\<close> and the phases of
  \<^verbatim>\<open>internal/biz/inference/model.go\<close>. Phases, steps and kinds are Go strings with named constants;
  each is a datatype with one constructor per constant and one for any other string. The declarative
  edge relation \<open>op_edge\<close> is what \<open>ValidateOperationStepTransition\<close> decides, and \<open>op_run\<close> adds the
  retry edge and the list of the steps an operation has completed.
\<close>

section \<open>Phases, steps, kinds\<close>

datatype OperationPhase =
    OperationPending | OperationRunning | OperationSucceeded | OperationFailed
  | PhaseOther string

datatype OperationStep =
    StepAdmission | StepReserveQuota | StepResolveGPU | StepApplyCR | StepMaterializeModel
  | StepApplyRuntime | StepObserveRuntime | StepWithdrawPublication | StepDeleteRuntime
  | StepObserveAbsence | StepDeleteCR | StepPublish | StepReleaseQuota | StepReleasePreviousQuota
  | StepComplete
  | StepOther string

datatype OperationKind =
    KindCreate | KindStart | KindUpdate | KindRestart | KindStop | KindDelete | KindOther string

fun phase_string :: "OperationPhase \<Rightarrow> string" where
  "phase_string OperationPending = ''pending''"
| "phase_string OperationRunning = ''running''"
| "phase_string OperationSucceeded = ''succeeded''"
| "phase_string OperationFailed = ''failed''"
| "phase_string (PhaseOther s) = s"

fun step_string :: "OperationStep \<Rightarrow> string" where
  "step_string StepAdmission = ''admission''"
| "step_string StepReserveQuota = ''reserve_quota''"
| "step_string StepResolveGPU = ''resolve_gpu''"
| "step_string StepApplyCR = ''apply_cr''"
| "step_string StepMaterializeModel = ''materialize_model''"
| "step_string StepApplyRuntime = ''apply_runtime''"
| "step_string StepObserveRuntime = ''observe_runtime''"
| "step_string StepWithdrawPublication = ''withdraw_publication''"
| "step_string StepDeleteRuntime = ''delete_runtime''"
| "step_string StepObserveAbsence = ''observe_absence''"
| "step_string StepDeleteCR = ''delete_cr''"
| "step_string StepPublish = ''publish''"
| "step_string StepReleaseQuota = ''release_quota''"
| "step_string StepReleasePreviousQuota = ''release_previous_quota''"
| "step_string StepComplete = ''complete''"
| "step_string (StepOther s) = s"

fun kind_string :: "OperationKind \<Rightarrow> string" where
  "kind_string KindCreate = ''create''"
| "kind_string KindStart = ''start''"
| "kind_string KindUpdate = ''update''"
| "kind_string KindRestart = ''restart''"
| "kind_string KindStop = ''stop''"
| "kind_string KindDelete = ''delete''"
| "kind_string (KindOther s) = s"

section \<open>The paths\<close>

fun operationPaths :: "OperationKind \<Rightarrow> OperationStep list option" where
  "operationPaths KindCreate = Some
     [StepAdmission, StepReserveQuota, StepResolveGPU, StepApplyCR, StepMaterializeModel,
      StepApplyRuntime, StepObserveRuntime, StepPublish, StepComplete]"
| "operationPaths KindStart = Some
     [StepReserveQuota, StepResolveGPU, StepApplyCR, StepMaterializeModel, StepApplyRuntime,
      StepObserveRuntime, StepPublish, StepComplete]"
| "operationPaths KindUpdate = Some
     [StepWithdrawPublication, StepDeleteRuntime, StepObserveAbsence, StepReleasePreviousQuota,
      StepReserveQuota, StepResolveGPU, StepApplyCR, StepMaterializeModel, StepApplyRuntime,
      StepObserveRuntime, StepPublish, StepComplete]"
| "operationPaths KindRestart = Some
     [StepWithdrawPublication, StepDeleteRuntime, StepObserveAbsence, StepReleasePreviousQuota,
      StepReserveQuota, StepResolveGPU, StepApplyCR, StepMaterializeModel, StepApplyRuntime,
      StepObserveRuntime, StepPublish, StepComplete]"
| "operationPaths KindStop = Some
     [StepWithdrawPublication, StepDeleteRuntime, StepObserveAbsence, StepReleaseQuota,
      StepComplete]"
| "operationPaths KindDelete = Some
     [StepWithdrawPublication, StepDeleteRuntime, StepObserveAbsence, StepDeleteCR,
      StepReleaseQuota, StepComplete]"
| "operationPaths (KindOther s) = None"

text \<open>The loop of \<open>operationStepIndex\<close>, with the index of the candidate it looks at.\<close>

fun step_index_from :: "int \<Rightarrow> OperationStep list \<Rightarrow> OperationStep \<Rightarrow> int" where
  "step_index_from i [] step = -1"
| "step_index_from i (candidate # path) step =
     (if candidate = step then i else step_index_from (i + 1) path step)"

definition operationStepIndex :: "OperationStep list \<Rightarrow> OperationStep \<Rightarrow> int" where
  "operationStepIndex path step = step_index_from 0 path step"

definition ValidateOperationStepTransition ::
  "OperationKind \<Rightarrow> OperationPhase \<Rightarrow> OperationStep \<Rightarrow> OperationPhase \<Rightarrow> OperationStep \<Rightarrow> error option"
where
  "ValidateOperationStepTransition kind fromPhase fromStep toPhase toStep =
     (case operationPaths kind of
        None \<Rightarrow> Some (Errorf (''unknown operation kind '' @ quoted (kind_string kind)))
      | Some path \<Rightarrow>
        if fromPhase \<noteq> OperationPending \<and> fromPhase \<noteq> OperationRunning then
          Some (Errorf (''operation phase '' @ quoted (phase_string fromPhase) @ '' is not active''))
        else let from = operationStepIndex path fromStep in
        if from < 0 \<or> from \<ge> int (length path) - 1 then
          Some (Errorf (''step '' @ quoted (step_string fromStep) @ '' is not an active step for ''
                        @ kind_string kind))
        else if toPhase = OperationFailed then
          (if toStep \<noteq> StepComplete then
             Some (Errorf (''failed operation must use '' @ quoted (step_string StepComplete) @ '' step''))
           else None)
        else if toPhase = OperationSucceeded then
          (if fromPhase \<noteq> OperationRunning \<or> toStep \<noteq> StepComplete
              \<or> from \<noteq> int (length path) - 2 then
             Some (Errorf (''cannot succeed '' @ kind_string kind @ '' from '' @ phase_string fromPhase
                           @ ''/'' @ step_string fromStep))
           else None)
        else if toPhase = OperationPending then
          Some (Errorf ''running operation cannot return to pending; use retry'')
        else if toPhase \<noteq> OperationRunning then
          Some (Errorf (''unsupported target phase '' @ quoted (phase_string toPhase)))
        else let to = operationStepIndex path toStep in
        if to < 0 \<or> to \<ge> int (length path) - 1 then
          Some (Errorf (''step '' @ quoted (step_string toStep) @ '' is not an active step for ''
                        @ kind_string kind))
        else if fromPhase = OperationPending then
          (if from \<noteq> to then
             Some (Errorf (''pending operation must be claimed at step ''
                           @ quoted (step_string fromStep) @ '' before advancing''))
           else None)
        else if fromStep = StepReserveQuota \<and> toStep = StepApplyCR
             \<and> path ! nat (from + 1) = StepResolveGPU then None
        else if to \<noteq> from + 1 then
          Some (Errorf (''operation '' @ kind_string kind @ '' must advance from ''
                        @ quoted (step_string fromStep) @ '' to ''
                        @ quoted (step_string (path ! nat (from + 1)))))
        else None)"

section \<open>The declarative machine\<close>

text \<open>
  The edges of one operation of a kind with its path: a pending operation is claimed at its step, a
  running one moves to the next step of its path (or over \<open>resolve_gpu\<close>), the last working step
  succeeds into \<open>complete\<close>, and every active step may fail into \<open>complete\<close>.
\<close>

inductive op_edge ::
  "OperationStep list \<Rightarrow> OperationPhase \<times> OperationStep \<Rightarrow> OperationPhase \<times> OperationStep \<Rightarrow> bool"
  for path :: "OperationStep list" where
  claim: "a \<in> set (butlast path) \<Longrightarrow> op_edge path (OperationPending, a) (OperationRunning, a)"
| advance: "path = xs @ a # b # ys \<Longrightarrow> ys \<noteq> [] \<Longrightarrow>
     op_edge path (OperationRunning, a) (OperationRunning, b)"
| skip_gpu: "path = xs @ StepReserveQuota # StepResolveGPU # StepApplyCR # ys \<Longrightarrow> ys \<noteq> [] \<Longrightarrow>
     op_edge path (OperationRunning, StepReserveQuota) (OperationRunning, StepApplyCR)"
| succeed: "path = xs @ [a, b] \<Longrightarrow>
     op_edge path (OperationRunning, a) (OperationSucceeded, StepComplete)"
| fail: "a \<in> set (butlast path) \<Longrightarrow> p = OperationPending \<or> p = OperationRunning \<Longrightarrow>
     op_edge path (p, a) (OperationFailed, StepComplete)"

inductive_cases op_edge_from_pending: "op_edge path (OperationPending, a) t"
inductive_cases op_edge_to_running: "op_edge path s (OperationRunning, b)"
inductive_cases op_edge_to_succeeded: "op_edge path s (OperationSucceeded, b)"

text \<open>
  A run of one operation: it starts pending at the first step of its path, takes edges, and may be
  put back to pending at the step it is at. The list holds the steps left by an \<open>advance\<close>,
  \<open>skip_gpu\<close> or \<open>succeed\<close> edge, in order.
\<close>

inductive op_run ::
  "OperationStep list \<Rightarrow> OperationPhase \<times> OperationStep \<Rightarrow> OperationStep list \<Rightarrow> bool"
  for path :: "OperationStep list" where
  accepted: "path \<noteq> [] \<Longrightarrow> op_run path (OperationPending, hd path) []"
| edge: "op_run path (OperationRunning, a) hist \<Longrightarrow> op_edge path (OperationRunning, a) (q, b) \<Longrightarrow>
     op_run path (q, b) (if q = OperationFailed then hist else hist @ [a])"
| claimed: "op_run path (OperationPending, a) hist \<Longrightarrow> op_edge path (OperationPending, a) (q, b) \<Longrightarrow>
     op_run path (q, b) hist"
| retried: "op_run path (p, a) hist \<Longrightarrow> p = OperationPending \<or> p = OperationRunning \<Longrightarrow>
     op_run path (OperationPending, a) hist"

section \<open>The validator decides the edges\<close>

lemma step_index_from_shift:
  "step_index_from i path a =
     (if a \<in> set path then i + int (length (takeWhile (\<lambda>x. x \<noteq> a) path)) else -1)"
  by (induction path arbitrary: i) auto

lemma operationStepIndex_eq:
  "operationStepIndex path a =
     (if a \<in> set path then int (length (takeWhile (\<lambda>x. x \<noteq> a) path)) else -1)"
  by (simp add: operationStepIndex_def step_index_from_shift)

lemma takeWhile_split: "a \<notin> set xs \<Longrightarrow> takeWhile (\<lambda>x. x \<noteq> a) (xs @ a # ys) = xs"
  by (induction xs) auto

lemma takeWhile_length_less: "a \<in> set path \<Longrightarrow> length (takeWhile (\<lambda>x. x \<noteq> a) path) < length path"
  by (induction path) auto

lemma operationStepIndex_split:
  "distinct (xs @ a # ys) \<Longrightarrow> operationStepIndex (xs @ a # ys) a = int (length xs)"
  by (simp add: operationStepIndex_eq takeWhile_split)

lemma operationStepIndex_bounds:
  "operationStepIndex path a < int (length path) \<and> (operationStepIndex path a < 0 \<longleftrightarrow> a \<notin> set path)"
  by (auto simp: operationStepIndex_eq takeWhile_length_less)

lemma operationStepIndex_nth:
  "distinct path \<Longrightarrow> i < length path \<Longrightarrow> operationStepIndex path (path ! i) = int i"
  using operationStepIndex_split [of "take i path" "path ! i" "drop (Suc i) path"]
  by (simp add: id_take_nth_drop [symmetric])

lemma operationStepIndex_path:
  assumes "operationStepIndex path a = i" and "0 \<le> i"
  shows "nat i < length path \<and> path ! nat i = a"
proof -
  from assms have "a \<in> set path" and i: "nat i = length (takeWhile (\<lambda>x. x \<noteq> a) path)"
    by (auto simp: operationStepIndex_eq split: if_splits)
  then have less: "length (takeWhile (\<lambda>x. x \<noteq> a) path) < length path"
    by (simp add: takeWhile_length_less)
  from nth_length_takeWhile [OF this] less i show ?thesis by simp
qed

lemma operationPaths_shape:
  "operationPaths kind = Some path \<Longrightarrow>
     distinct path \<and> 3 \<le> length path \<and> last path = StepComplete \<and> hd path \<noteq> StepResolveGPU"
  by (cases kind) auto

lemma operationPaths_gpu:
  assumes "operationPaths kind = Some path" and "i + 1 < length path"
    and "path ! i = StepReserveQuota"
  shows "path ! (i + 1) = StepResolveGPU \<and> i + 3 < length path \<and> path ! (i + 2) = StepApplyCR"
  using assms by (cases kind) (auto simp: nth_Cons' split: if_splits)

lemma butlast_index:
  assumes "distinct path" and "path \<noteq> []"
  shows "a \<in> set (butlast path) \<longleftrightarrow>
    0 \<le> operationStepIndex path a \<and> operationStepIndex path a < int (length path) - 1"
proof
  assume "a \<in> set (butlast path)"
  then obtain i where i: "i < length path - 1" "path ! i = a"
    by (auto simp: in_set_conv_nth nth_butlast)
  then have "operationStepIndex path a = int i"
    using operationStepIndex_nth [OF assms(1), of i] by auto
  with i(1) show "0 \<le> operationStepIndex path a \<and> operationStepIndex path a < int (length path) - 1"
    by auto
next
  assume idx: "0 \<le> operationStepIndex path a \<and> operationStepIndex path a < int (length path) - 1"
  then have "path ! nat (operationStepIndex path a) = a"
    using operationStepIndex_path by blast
  with idx show "a \<in> set (butlast path)"
    by (auto simp: in_set_conv_nth nth_butlast intro!: exI [of _ "nat (operationStepIndex path a)"])
qed

lemma adjacent_index:
  assumes "distinct path"
  shows "(\<exists>xs ys. path = xs @ a # b # ys \<and> ys \<noteq> []) \<longleftrightarrow>
    0 \<le> operationStepIndex path a \<and> operationStepIndex path b = operationStepIndex path a + 1
    \<and> operationStepIndex path b < int (length path) - 1"
proof
  assume "\<exists>xs ys. path = xs @ a # b # ys \<and> ys \<noteq> []"
  then obtain xs ys where path: "path = xs @ a # b # ys" and "ys \<noteq> []" by blast
  have "operationStepIndex path a = int (length xs)"
    using operationStepIndex_split [of xs a "b # ys"] assms path by simp
  moreover have "operationStepIndex path b = int (length xs) + 1"
    using operationStepIndex_split [of "xs @ [a]" b ys] assms path by simp
  ultimately show "0 \<le> operationStepIndex path a \<and> operationStepIndex path b = operationStepIndex path a + 1
    \<and> operationStepIndex path b < int (length path) - 1"
    using path \<open>ys \<noteq> []\<close> by simp
next
  assume idx: "0 \<le> operationStepIndex path a \<and> operationStepIndex path b = operationStepIndex path a + 1
    \<and> operationStepIndex path b < int (length path) - 1"
  define i where "i = nat (operationStepIndex path a)"
  have a: "path ! i = a" "i < length path"
    using operationStepIndex_path [of path a] idx by (auto simp: i_def)
  have b: "path ! Suc i = b"
    using operationStepIndex_path [of path b] idx by (auto simp: i_def nat_add_distrib)
  have len: "Suc (Suc i) < length path" using idx by (auto simp: i_def)
  then have "path = take i path @ a # b # drop (Suc (Suc i)) path"
    using a b id_take_nth_drop [of i path] Cons_nth_drop_Suc [of "Suc i" path] by simp
  moreover have "drop (Suc (Suc i)) path \<noteq> []" using len by simp
  ultimately show "\<exists>xs ys. path = xs @ a # b # ys \<and> ys \<noteq> []" by blast
qed

lemma last_two_index:
  assumes "distinct path" and "2 \<le> length path"
  shows "(\<exists>xs b. path = xs @ [a, b]) \<longleftrightarrow> operationStepIndex path a = int (length path) - 2"
proof
  assume "\<exists>xs b. path = xs @ [a, b]"
  then obtain xs b where "path = xs @ a # [b]" by auto
  with assms(1) show "operationStepIndex path a = int (length path) - 2"
    using operationStepIndex_split [of xs a "[b]"] by simp
next
  assume idx: "operationStepIndex path a = int (length path) - 2"
  obtain ys b where ys: "path = ys @ [b]"
    using assms(2) by (cases path rule: rev_cases) auto
  obtain xs c where xs: "ys = xs @ [c]"
    using assms(2) ys by (cases ys rule: rev_cases) auto
  have "path ! length xs = a"
    using operationStepIndex_path [of path a] idx ys xs by (simp add: nat_diff_distrib)
  then have "c = a" using ys xs by (simp add: nth_append)
  with ys xs show "\<exists>xs b. path = xs @ [a, b]" by simp
qed

lemma op_edge_iff:
  "op_edge path (fp, fs) (tp, ts) \<longleftrightarrow>
     (fp = OperationPending \<and> tp = OperationRunning \<and> ts = fs \<and> fs \<in> set (butlast path)) \<or>
     (fp = OperationRunning \<and> tp = OperationRunning \<and>
        (\<exists>xs ys. path = xs @ fs # ts # ys \<and> ys \<noteq> [])) \<or>
     (fp = OperationRunning \<and> tp = OperationRunning \<and> fs = StepReserveQuota \<and> ts = StepApplyCR \<and>
        (\<exists>xs ys. path = xs @ StepReserveQuota # StepResolveGPU # StepApplyCR # ys \<and> ys \<noteq> [])) \<or>
     (fp = OperationRunning \<and> tp = OperationSucceeded \<and> ts = StepComplete \<and>
        (\<exists>xs b. path = xs @ [fs, b])) \<or>
     (tp = OperationFailed \<and> ts = StepComplete \<and> fs \<in> set (butlast path) \<and>
        (fp = OperationPending \<or> fp = OperationRunning))"
  by (auto simp: op_edge.simps)

lemma gpu_segment:
  assumes "operationPaths kind = Some path"
  shows "(\<exists>xs ys. path = xs @ StepReserveQuota # StepResolveGPU # StepApplyCR # ys \<and> ys \<noteq> []) \<longleftrightarrow>
    StepReserveQuota \<in> set path"
proof
  assume "StepReserveQuota \<in> set path"
  then obtain i where i: "i < length path" "path ! i = StepReserveQuota"
    by (auto simp: in_set_conv_nth)
  have "i + 1 < length path"
  proof (rule ccontr)
    assume "\<not> i + 1 < length path"
    with i(1) have "i = length path - 1" and "path \<noteq> []" by auto
    then have "path ! i = last path" by (simp add: last_conv_nth)
    with i(2) operationPaths_shape [OF assms] show False by simp
  qed
  with i operationPaths_gpu [OF assms, of i]
  have g: "path ! Suc i = StepResolveGPU" "path ! Suc (Suc i) = StepApplyCR" "i + 3 < length path"
    by simp_all
  then have "path = take i path @ StepReserveQuota # StepResolveGPU # StepApplyCR
      # drop (Suc (Suc (Suc i))) path"
    using i id_take_nth_drop [of i path] Cons_nth_drop_Suc [of "Suc i" path]
      Cons_nth_drop_Suc [of "Suc (Suc i)" path] by simp
  moreover have "drop (Suc (Suc (Suc i))) path \<noteq> []" using g(3) by simp
  ultimately show "\<exists>xs ys. path = xs @ StepReserveQuota # StepResolveGPU # StepApplyCR # ys \<and> ys \<noteq> []"
    by blast
qed auto

lemma gpu_indices:
  assumes "operationPaths kind = Some path" and "StepReserveQuota \<in> set path"
  shows "path ! nat (operationStepIndex path StepReserveQuota + 1) = StepResolveGPU \<and>
    operationStepIndex path StepApplyCR = operationStepIndex path StepReserveQuota + 2 \<and>
    operationStepIndex path StepApplyCR < int (length path) - 1"
proof -
  from gpu_segment [OF assms(1)] assms(2) obtain xs ys where
    path: "path = xs @ StepReserveQuota # StepResolveGPU # StepApplyCR # ys" and "ys \<noteq> []" by blast
  have dist: "distinct path" using operationPaths_shape [OF assms(1)] by simp
  have "operationStepIndex path StepReserveQuota = int (length xs)"
    using operationStepIndex_split [of xs StepReserveQuota] dist path by simp
  moreover have "operationStepIndex path StepApplyCR = int (length xs) + 2"
    using operationStepIndex_split [of "xs @ [StepReserveQuota, StepResolveGPU]" StepApplyCR ys] dist path
    by simp
  ultimately show ?thesis
    using path \<open>ys \<noteq> []\<close> by (simp add: nat_add_distrib nth_append)
qed

lemma validate_edge:
  assumes "operationPaths kind = Some path"
  shows "ValidateOperationStepTransition kind fp fs tp ts = None \<longleftrightarrow> op_edge path (fp, fs) (tp, ts)"
proof -
  from operationPaths_shape [OF assms] have dist: "distinct path" and len: "3 \<le> length path"
    and ne: "path \<noteq> []" and len2: "2 \<le> length path" by auto
  note index = butlast_index [OF dist ne] adjacent_index [OF dist] last_two_index [OF dist len2]
    gpu_segment [OF assms]
  have reserve: "StepReserveQuota \<in> set path \<longleftrightarrow> 0 \<le> operationStepIndex path StepReserveQuota"
    using operationStepIndex_bounds [of path StepReserveQuota] by auto
  define i where "i = operationStepIndex path fs"
  define j where "j = operationStepIndex path ts"
  have gpu: "fs = StepReserveQuota \<Longrightarrow> 0 \<le> i \<Longrightarrow> path ! nat (i + 1) = StepResolveGPU"
    using gpu_indices [OF assms] reserve by (auto simp: i_def)
  have gpu': "fs = StepReserveQuota \<Longrightarrow> 0 \<le> i \<Longrightarrow> ts = StepApplyCR \<Longrightarrow>
      0 \<le> j \<and> j < int (length path) - 1 \<and> i < int (length path) - 1"
    using gpu_indices [OF assms] reserve by (auto simp: i_def j_def)
  have same: "ts = fs" if "0 \<le> j" "i = j"
  proof -
    have "path ! nat j = ts" using operationStepIndex_path [OF j_def [symmetric] that(1)] by simp
    moreover have "path ! nat j = fs"
      using operationStepIndex_path [OF i_def [symmetric]] that by simp
    ultimately show ?thesis by simp
  qed
  have same': "i = j" if "ts = fs"
    using that by (simp add: i_def j_def)
  have self: "fs = StepReserveQuota \<Longrightarrow> operationStepIndex path StepReserveQuota = i"
    by (simp add: i_def)
  note edge = op_edge_iff [of path fp fs tp ts, unfolded index reserve, folded i_def j_def]
  note val = ValidateOperationStepTransition_def [of kind fp fs tp ts, unfolded assms option.case,
      folded i_def j_def]
  consider (other) "tp \<noteq> OperationRunning \<or> fp \<noteq> OperationPending \<and> fp \<noteq> OperationRunning"
    | (claim) "tp = OperationRunning" "fp = OperationPending"
    | (skip) "tp = OperationRunning" "fp = OperationRunning" "fs = StepReserveQuota" "ts = StepApplyCR"
    | (advance) "tp = OperationRunning" "fp = OperationRunning"
        "\<not> (fs = StepReserveQuota \<and> ts = StepApplyCR)"
    by blast
  then show ?thesis
  proof cases
    case other
    then show ?thesis unfolding edge val using len by (cases tp; cases fp) (auto simp: Let_def)
  next
    case claim
    then show ?thesis unfolding edge val using same same' len by (auto simp: Let_def)
  next
    case skip
    then show ?thesis unfolding edge val using gpu gpu' self len
      by (cases "0 \<le> operationStepIndex path StepReserveQuota") (auto simp: Let_def)
  next
    case advance
    then show ?thesis unfolding edge val by (auto simp: Let_def)
  qed
qed

section \<open>What a succeeded operation has completed\<close>

text \<open>The steps of a path without the optional GPU step.\<close>

definition required_steps :: "OperationStep list \<Rightarrow> OperationStep list" where
  "required_steps xs = filter (\<lambda>a. a \<noteq> StepResolveGPU) xs"

lemma required_steps_append [simp]:
  "required_steps (xs @ ys) = required_steps xs @ required_steps ys"
  by (simp add: required_steps_def)

definition progress_inv ::
  "OperationStep list \<Rightarrow> OperationPhase \<times> OperationStep \<Rightarrow> OperationStep list \<Rightarrow> bool" where
  "progress_inv path s hist \<longleftrightarrow> (case s of (p, a) \<Rightarrow>
     (p = OperationPending \<or> p = OperationRunning \<longrightarrow>
        a \<in> set (butlast path) \<and> required_steps hist = required_steps (takeWhile (\<lambda>x. x \<noteq> a) path)) \<and>
     (p = OperationSucceeded \<longrightarrow> required_steps hist = required_steps (butlast path)))"

lemma progress_inv_edge:
  assumes "distinct path" and "progress_inv path (OperationRunning, a) hist"
    and "op_edge path (OperationRunning, a) (q, b)"
  shows "progress_inv path (q, b) (if q = OperationFailed then hist else hist @ [a])"
  using assms(3)
proof cases
  case (advance xs ys)
  with assms(1) have "takeWhile (\<lambda>x. x \<noteq> a) path = xs" "takeWhile (\<lambda>x. x \<noteq> b) path = xs @ [a]"
    using takeWhile_split [of a xs] takeWhile_split [of b "xs @ [a]"] by auto
  with advance assms(2) show ?thesis
    by (simp add: progress_inv_def butlast_append)
next
  case (skip_gpu xs ys)
  with assms(1) have "takeWhile (\<lambda>x. x \<noteq> a) path = xs"
      "takeWhile (\<lambda>x. x \<noteq> b) path = xs @ [StepReserveQuota, StepResolveGPU]"
    using takeWhile_split [of a xs] takeWhile_split [of b "xs @ [StepReserveQuota, StepResolveGPU]"]
    by auto
  with skip_gpu assms(2) show ?thesis
    by (simp add: progress_inv_def butlast_append required_steps_def)
next
  case (succeed xs c)
  with assms(1) have "takeWhile (\<lambda>x. x \<noteq> a) path = xs"
    using takeWhile_split [of a xs] by auto
  with succeed assms(2) show ?thesis by (simp add: progress_inv_def butlast_append)
qed (use assms in \<open>auto simp: progress_inv_def\<close>)

lemma op_run_progress:
  assumes "distinct path" and "2 \<le> length path" and "op_run path s hist"
  shows "progress_inv path s hist"
  using assms(3)
proof (induction rule: op_run.induct)
  case accepted
  have "hd path \<in> set (butlast path)" and "takeWhile (\<lambda>x. x \<noteq> hd path) path = []"
    using assms(2) by (cases path; cases "tl path"; auto)+
  then show ?case by (simp add: progress_inv_def required_steps_def)
next
  case (edge a hist q b)
  then show ?case using progress_inv_edge assms(1) by blast
next
  case (claimed a hist q b)
  then show ?case by (auto simp: progress_inv_def elim: op_edge_from_pending)
next
  case (retried p a hist)
  then show ?case by (auto simp: progress_inv_def)
qed

lemma op_run_completes:
  "op_run path (OperationRunning, a) hist \<Longrightarrow> op_edge path (OperationRunning, a) (q, b) \<Longrightarrow>
     q \<noteq> OperationFailed \<Longrightarrow> op_run path (q, b) (hist @ [a])"
  using op_run.edge by fastforce

section \<open>Properties\<close>

text \<open>
  C18: the validator of persisted transitions accepts a transition exactly when the kind has a path
  and the transition is an edge of the declarative machine on that path.
\<close>

theorem validate_transition_iff_edge:
  "ValidateOperationStepTransition kind fromPhase fromStep toPhase toStep = None \<longleftrightarrow>
     (\<exists>path. operationPaths kind = Some path \<and>
        op_edge path (fromPhase, fromStep) (toPhase, toStep))"
proof (cases "operationPaths kind")
  case None
  then show ?thesis by (simp add: ValidateOperationStepTransition_def)
next
  case (Some path)
  then show ?thesis using validate_edge by simp
qed



end
