(* ===== verification/Gpu.thy ===== *)
theory Gpu
  imports Go_Strings "HOL-Library.Word" "HOL-Library.Multiset"
begin

text \<open>
  The accelerator contract of \<^verbatim>\<open>internal/biz/gpu\<close>: the request, execution and snapshot vals with their
  validators (\<^verbatim>\<open>gpu.go\<close>), the release notification (\<^verbatim>\<open>refund.go\<close>) and the release proof
  (\<^verbatim>\<open>release.go\<close>). Go's uint64, uint32 and int32 are words of that width, the signed ones read with
  \<open>sint\<close>. A \<^verbatim>\<open>map[string]string\<close> is its list of entries; Go visits them in any order, which changes only
  the text of the error returned. The regular expressions of the package are the predicates
  \<open>uuidPattern\<close>, \<open>namePattern\<close> and \<open>digestPattern\<close>.
\<close>

section \<open>Values\<close>

record Request =
  ClusterID :: string
  PoolID :: string
  ProfileID :: string
  ProfileVersion :: "64 word"
  Replicas :: "32 word"
  DevicesPerReplica :: "32 word"
  ContainerName :: string

record Execution =
  SchedulerName :: string
  QueueName :: string
  RuntimeClassName :: string
  NodeSelector :: "(string \<times> string) list"
  PodAnnotations :: "(string \<times> string) list"
  ExecResources :: "(string \<times> string) list"
  ExecutionDigest :: string

record Display =
  DisplayProfileID :: string
  DisplayProfileVersion :: "64 word"
  ProfileName :: string
  ModelKey :: string
  DisplayMode :: "32 word"

record Snapshot =
  SnapRequest :: "Request option"
  SnapExecution :: "Execution option"
  SnapDisplay :: "Display option"
  SnapExecutionDigest :: string

section \<open>Patterns\<close>

definition is_lower_hex :: "char \<Rightarrow> bool" where
  "is_lower_hex c \<longleftrightarrow> is_digit c \<or> c \<in> set ''abcdef''"

definition is_lower_alnum :: "char \<Rightarrow> bool" where
  "is_lower_alnum c \<longleftrightarrow> is_digit c \<or> 97 \<le> (of_char c :: nat) \<and> (of_char c :: nat) \<le> 122"

text \<open>One character class per position of the pattern.\<close>

definition uuid_shape :: "(char \<Rightarrow> bool) list" where
  "uuid_shape =
     replicate 8 is_lower_hex @ [\<lambda>c. c = CHR ''-''] @
     replicate 4 is_lower_hex @ [\<lambda>c. c = CHR ''-''] @
     [\<lambda>c. c \<in> set ''12345678''] @ replicate 3 is_lower_hex @ [\<lambda>c. c = CHR ''-''] @
     [\<lambda>c. c \<in> set ''89ab''] @ replicate 3 is_lower_hex @ [\<lambda>c. c = CHR ''-''] @
     replicate 12 is_lower_hex"

definition uuidPattern :: "string \<Rightarrow> bool" where
  "uuidPattern s \<longleftrightarrow> list_all2 (\<lambda>p c. p c) uuid_shape s"

definition namePattern :: "string \<Rightarrow> bool" where
  "namePattern s \<longleftrightarrow>
     s \<noteq> [] \<and> is_lower_alnum (hd s) \<and> is_lower_alnum (last s)
     \<and> list_all (\<lambda>c. c = CHR ''-'' \<or> is_lower_alnum c) s"

definition digestPattern :: "string \<Rightarrow> bool" where
  "digestPattern s \<longleftrightarrow> length s = 64 \<and> list_all is_lower_hex s"

section \<open>Request and topology\<close>

definition ValidateRequest :: "Request option \<Rightarrow> error option" where
  "ValidateRequest ro =
     (case ro of
        None \<Rightarrow> Some (Errorf ''invalid GPU request'')
      | Some r \<Rightarrow>
        if \<not> uuidPattern (ClusterID r) \<or> \<not> uuidPattern (PoolID r) \<or> \<not> uuidPattern (ProfileID r)
           \<or> ProfileVersion r = 0
        then Some (Errorf ''invalid GPU request'')
        else if Replicas r < 1 \<or> Replicas r > 16 \<or> DevicesPerReplica r < 1
           \<or> length (ContainerName r) = 0 \<or> length (ContainerName r) > 63
           \<or> \<not> namePattern (ContainerName r)
        then Some (Errorf ''unsupported GPU request shape'')
        else None)"

text \<open>int32 arguments are compared as signed; the product is computed in int64.\<close>

definition TotalPods :: "32 word \<Rightarrow> string \<Rightarrow> 32 word \<Rightarrow> (32 word) result" where
  "TotalPods replicas mode workers =
     (if sint replicas < 1 then Inl (Errorf ''replicas must be positive'')
      else if mode = '''' \<or> mode = ''deployment'' then
        (if sint workers > 1 \<or> sint workers < 0
         then Inl (Errorf ''worker_replicas is only valid for leader_worker_set'')
         else Inr replicas)
      else if mode = ''leader_worker_set'' then
        (if sint workers < 1 then Inl (Errorf ''leader_worker_set requires workers'')
         else let total = (scast replicas :: 64 word) * ((scast workers :: 64 word) + 1) in
              if sint total > 2147483647 then Inl (Errorf ''GPU topology overflows pod count'')
              else Inr (scast total))
      else Inl (Errorf (''unsupported runtime mode '' @ quoted mode)))"

definition ValidateTopology ::
  "Request option \<Rightarrow> 32 word \<Rightarrow> string \<Rightarrow> 32 word \<Rightarrow> error option"
where
  "ValidateTopology ro replicas mode workers =
     (case ValidateRequest ro of
        Some err \<Rightarrow> Some err
      | None \<Rightarrow>
        if sint replicas < 1 then Some (Errorf ''replicas must be positive'')
        else (case TotalPods replicas mode workers of
          Inl err \<Rightarrow> Some err
        | Inr expected \<Rightarrow>
          let r = the ro in
          if Replicas r \<noteq> expected then
            Some (Errorf (''GPU replicas must match GPU-bearing pod count '' @ FormatInt (sint expected)))
          else if mode = '''' \<or> mode = ''deployment'' then
            (if sint workers > 1 \<or> sint workers < 0 then
               Some (Errorf ''worker_replicas is only valid for leader_worker_set'')
             else if ContainerName r \<noteq> ''kserve-container'' then
               Some (Errorf ''deployment GPU container must be kserve-container'')
             else None)
          else if mode = ''leader_worker_set'' then
            (if sint workers < 1 then Some (Errorf ''leader_worker_set requires workers'')
             else if ContainerName r \<noteq> ''main'' then
               Some (Errorf ''leader_worker_set GPU container must be main'')
             else None)
          else Some (Errorf (''unsupported runtime mode '' @ quoted mode))))"

section \<open>Execution and snapshot\<close>

definition has_blank_entry :: "(string \<times> string) list \<Rightarrow> bool" where
  "has_blank_entry vals \<longleftrightarrow> list_ex (\<lambda>(k, v). TrimSpace k = '''' \<or> TrimSpace v = '''') vals"

fun blank_execution_entry :: "(string \<times> (string \<times> string) list) list \<Rightarrow> error option" where
  "blank_execution_entry [] = None"
| "blank_execution_entry ((name, vals) # rest) =
     (if has_blank_entry vals then Some (Errorf (''empty GPU execution '' @ name @ '' key/value''))
      else blank_execution_entry rest)"

definition ValidateExecution :: "Execution option \<Rightarrow> error option" where
  "ValidateExecution eo =
     (case eo of
        None \<Rightarrow> Some (Errorf ''GPU execution digest is required'')
      | Some e \<Rightarrow>
        if \<not> digestPattern (TrimSpace (ExecutionDigest e))
        then Some (Errorf ''GPU execution digest is required'')
        else blank_execution_entry
          [(''node_selector'', NodeSelector e), (''pod_annotations'', PodAnnotations e),
           (''resources'', ExecResources e)])"

text \<open>
  \<open>ValidateSnapshot\<close> fills an empty execution digest of the snapshot it is given, so it returns the
  snapshot together with the error.
\<close>

definition ValidateSnapshot ::
  "Snapshot option \<Rightarrow> Request option \<Rightarrow> error option \<times> Snapshot option"
where
  "ValidateSnapshot so request =
     (case (so, request) of
        (Some s, Some req) \<Rightarrow>
          (case (SnapRequest s, SnapExecution s, SnapDisplay s) of
             (Some sreq, Some exec, Some disp) \<Rightarrow>
               if sreq \<noteq> req then (Some (Errorf ''invalid GPU execution snapshot''), so)
               else (case ValidateRequest (Some req) of
                 Some err \<Rightarrow> (Some err, so)
               | None \<Rightarrow> (case ValidateExecution (Some exec) of
                   Some err \<Rightarrow> (Some err, so)
                 | None \<Rightarrow>
                   if \<not> uuidPattern (DisplayProfileID disp) \<or> DisplayProfileID disp \<noteq> ProfileID req
                      \<or> DisplayProfileVersion disp = 0 \<or> TrimSpace (ProfileName disp) = ''''
                      \<or> TrimSpace (ModelKey disp) = ''''
                   then (Some (Errorf ''invalid GPU display selection''), so)
                   else if DisplayProfileVersion disp \<noteq> ProfileVersion req
                      \<or> DisplayMode disp \<noteq> 1 \<and> DisplayMode disp \<noteq> 2
                   then (Some (Errorf ''GPU display does not match request''), so)
                   else
                     let s' = (if SnapExecutionDigest s = ''''
                               then s\<lparr>SnapExecutionDigest := ExecutionDigest exec\<rparr> else s) in
                     if SnapExecutionDigest s' = '''' \<or> ExecutionDigest exec = ''''
                        \<or> SnapExecutionDigest s' \<noteq> ExecutionDigest exec
                     then (Some (Errorf ''GPU execution digest is required''), Some s')
                     else (None, Some s')))
           | _ \<Rightarrow> (Some (Errorf ''invalid GPU execution snapshot''), so))
      | _ \<Rightarrow> (Some (Errorf ''invalid GPU execution snapshot''), so))"

text \<open>
  The digest of the canonical JSON of the three parts, as a function of them: \<open>digest\<close> stands for
  \<^verbatim>\<open>hex(sha256(prefix ++ json))\<close>.
\<close>

definition SnapshotDigest ::
  "(Request \<times> Execution \<times> Display \<Rightarrow> string) \<Rightarrow> Snapshot option \<Rightarrow> string result"
where
  "SnapshotDigest digest so =
     (case so of
        None \<Rightarrow> Inl (Errorf ''invalid GPU execution snapshot'')
      | Some s \<Rightarrow>
        (case (SnapRequest s, SnapExecution s, SnapDisplay s) of
           (Some req, Some exec, Some disp) \<Rightarrow> Inr (digest (req, exec, disp))
         | _ \<Rightarrow> Inl (Errorf ''invalid GPU execution snapshot'')))"

section \<open>Release notification\<close>

record RefundContext =
  ResourceClass :: string
  CreateCommandDigest :: string
  RefundTenantID :: string
  RefundResourceID :: string
  OriginalCreateOperationID :: string
  DeleteOperationID :: string
  OwnerService :: string
  RefundClusterID :: string
  RefundSnapshot :: "Snapshot option"

datatype ReleaseReason = ResourceReleased | AbortedCleaned | ReasonOther string

record ReleaseNotification =
  ReleaseEventID :: string
  CreateOperationID :: string
  NotifResourceID :: string
  Reason :: ReleaseReason

definition invalid_refund :: "string \<Rightarrow> error option" where
  "invalid_refund message = Some (Wrapf '''' (Sentinel ErrInvalidRefund) ('': '' @ message))"

definition ValidateRefund :: "ReleaseNotification \<Rightarrow> RefundContext \<Rightarrow> error option" where
  "ValidateRefund n original =
     (if \<not> uuidPattern (ReleaseEventID n) then invalid_refund ''release_event_id must be a UUID''
      else if \<not> uuidPattern (CreateOperationID n) then
        invalid_refund ''create_operation_id must be a UUID''
      else if \<not> uuidPattern (NotifResourceID n) then invalid_refund ''resource_id must be a UUID''
      else if CreateOperationID n \<noteq> OriginalCreateOperationID original
           \<or> NotifResourceID n \<noteq> RefundResourceID original then
        invalid_refund ''release identity mismatch''
      else if \<not> uuidPattern (DeleteOperationID original)
           \<or> DeleteOperationID original = OriginalCreateOperationID original then
        invalid_refund ''persisted DELETE operation is required''
      else if Reason n \<noteq> ResourceReleased \<and> Reason n \<noteq> AbortedCleaned then
        invalid_refund ''release reason is required''
      else if OwnerService original \<noteq> ''ani-inference'' then
        invalid_refund ''owner service mismatch''
      else None)"

section \<open>Release proof\<close>

record PodRef =
  PodClusterID :: string
  PodNamespace :: string
  PodName :: string
  PodUID :: string
  PodContainerName :: string

record ReleaseProofInput =
  ProofTenantID :: string
  ProofResourceID :: string
  ProofCreateOperationID :: string
  ProofDeleteOperationID :: string
  SealedAt :: string
  Pods :: "PodRef list"

record ReleaseProof =
  EvidenceID :: string
  EvidenceDigest :: string

fun required :: "(string \<times> string) list \<Rightarrow> error option" where
  "required [] = None"
| "required ((name, value) # rest) =
     (if TrimSpace value = '''' then Some (Errorf (name @ '' is required'')) else required rest)"

definition pod_fields :: "PodRef \<Rightarrow> (string \<times> string) list" where
  "pod_fields pod =
     [(''pod.cluster_id'', PodClusterID pod), (''pod.namespace'', PodNamespace pod),
      (''pod.name'', PodName pod), (''pod.uid'', PodUID pod),
      (''pod.container_name'', PodContainerName pod)]"

definition proof_fields :: "ReleaseProofInput \<Rightarrow> (string \<times> string) list" where
  "proof_fields inp =
     [(''tenant_id'', ProofTenantID inp), (''resource_id'', ProofResourceID inp),
      (''create_operation_id'', ProofCreateOperationID inp),
      (''delete_operation_id'', ProofDeleteOperationID inp), (''sealed_at'', SealedAt inp)]"

fun validate_pods :: "string set \<Rightarrow> PodRef list \<Rightarrow> error option" where
  "validate_pods seen [] = None"
| "validate_pods seen (pod # pods) =
     (case required (pod_fields pod) of
        Some err \<Rightarrow> Some err
      | None \<Rightarrow>
        if PodUID pod \<in> seen then Some (Errorf (''duplicate pod UID '' @ quoted (PodUID pod)))
        else validate_pods (insert (PodUID pod) seen) pods)"

definition ValidateReleaseProofInput :: "ReleaseProofInput \<Rightarrow> error option" where
  "ValidateReleaseProofInput inp =
     (case required (proof_fields inp) of
        Some err \<Rightarrow> Some err
      | None \<Rightarrow>
        if \<not> time_Parse_RFC3339Nano (SealedAt inp) then
          Some (Wrapf ''sealed_at must be RFC3339Nano: '' (Errorf ''parsing time'') '''')
        else validate_pods {} (Pods inp))"

text \<open>
  \<open>sort.Slice\<close> by UID is a sort by that key: the UIDs of a validated input are distinct, so the result
  does not depend on the algorithm. The functions \<open>uuid_NewSHA1\<close> and \<open>digest\<close> stand for the
  name-based UUID of a URL and for \<^verbatim>\<open>hex(sha256(json.Marshal(in)))\<close>.
\<close>

definition NewReleaseProof ::
  "(string \<Rightarrow> string) \<Rightarrow> (ReleaseProofInput \<Rightarrow> string) \<Rightarrow> ReleaseProofInput \<Rightarrow> ReleaseProof result"
where
  "NewReleaseProof uuid_NewSHA1 digest inp =
     (case ValidateReleaseProofInput inp of
        Some err \<Rightarrow> Inl err
      | None \<Rightarrow>
        let inp = inp\<lparr>Pods := sort_key PodUID (Pods inp)\<rparr> in
        Inr \<lparr>EvidenceID = uuid_NewSHA1 (''ani-inference/managed-gpu-release-proof/''
                                        @ ProofDeleteOperationID inp),
             EvidenceDigest = ''sha256:'' @ digest inp\<rparr>)"

section \<open>What the validators accept\<close>

definition wf_request :: "Request \<Rightarrow> bool" where
  "wf_request r \<longleftrightarrow>
     uuidPattern (ClusterID r) \<and> uuidPattern (PoolID r) \<and> uuidPattern (ProfileID r)
     \<and> 1 \<le> unat (ProfileVersion r)
     \<and> 1 \<le> unat (Replicas r) \<and> unat (Replicas r) \<le> 16 \<and> 1 \<le> unat (DevicesPerReplica r)
     \<and> namePattern (ContainerName r) \<and> length (ContainerName r) \<le> 63"

lemma ValidateRequest_iff: "ValidateRequest ro = None \<longleftrightarrow> (\<exists>r. ro = Some r \<and> wf_request r)"
proof (cases ro)
  case None
  then show ?thesis by (simp add: ValidateRequest_def)
next
  case (Some r)
  have "\<not> (Replicas r < 1 \<or> Replicas r > 16) \<longleftrightarrow> 1 \<le> unat (Replicas r) \<and> unat (Replicas r) \<le> 16"
    by (auto simp: word_less_nat_alt not_less not_le Suc_le_eq)
  moreover have "\<not> DevicesPerReplica r < 1 \<longleftrightarrow> 1 \<le> unat (DevicesPerReplica r)"
    by (simp add: word_less_nat_alt not_less Suc_le_eq)
  moreover have "ProfileVersion r \<noteq> 0 \<longleftrightarrow> 1 \<le> unat (ProfileVersion r)"
    by (simp add: unat_gt_0 Suc_le_eq)
  moreover have "namePattern (ContainerName r) \<Longrightarrow> length (ContainerName r) \<noteq> 0"
    by (simp add: namePattern_def)
  ultimately show ?thesis
    using Some by (auto simp: ValidateRequest_def wf_request_def)
qed

text \<open>The number of GPU-bearing pods of a topology, over the integers.\<close>

definition pod_count :: "int \<Rightarrow> string \<Rightarrow> int \<Rightarrow> int" where
  "pod_count replicas mode workers =
     (if mode = ''leader_worker_set'' then replicas * (workers + 1) else replicas)"

definition wf_topology :: "int \<Rightarrow> string \<Rightarrow> int \<Rightarrow> bool" where
  "wf_topology replicas mode workers \<longleftrightarrow>
     1 \<le> replicas
     \<and> ((mode = '''' \<or> mode = ''deployment'') \<and> 0 \<le> workers \<and> workers \<le> 1
        \<or> mode = ''leader_worker_set'' \<and> 1 \<le> workers)
     \<and> pod_count replicas mode workers < 2 ^ 31"

lemma sint32_bounds: "- (2 ^ 31) \<le> sint (w :: 32 word)" "sint (w :: 32 word) < 2 ^ 31"
  using sint_ge [of w] sint_lt [of w] by simp_all

lemma sint_of_int:
  assumes "- (2 ^ (LENGTH('a) - 1)) \<le> i" and "i < 2 ^ (LENGTH('a) - 1)"
  shows "sint (word_of_int i :: 'a::len word) = i"
  unfolding sint_sbintrunc' using assms by (rule signed_take_bit_int_eq_self)

lemma sint_scast_64: "sint (scast (w :: 32 word) :: 64 word) = sint w"
  by (rule sint_up_scast) (simp add: is_up)

lemma sint_scast_32:
  assumes "- (2 ^ 31) \<le> sint (w :: 64 word)" and "sint w < 2 ^ 31"
  shows "sint (scast w :: 32 word) = sint w"
  unfolding scast_eq by (rule sint_of_int) (use assms in simp_all)

text \<open>The int64 product cannot wrap: both factors come from int32 vals.\<close>

lemma sint_pod_product:
  fixes replicas workers :: "32 word"
  assumes "1 \<le> sint replicas" and "1 \<le> sint workers"
  shows "sint ((scast replicas :: 64 word) * ((scast workers :: 64 word) + 1))
           = sint replicas * (sint workers + 1)"
proof -
  have "sint replicas * (sint workers + 1) \<le> (2 ^ 31) * (2 ^ 31)"
    using sint32_bounds [of replicas] sint32_bounds [of workers] assms
    by (intro mult_mono) auto
  moreover have "0 \<le> sint replicas * (sint workers + 1)"
    using assms by simp
  moreover have "(scast replicas :: 64 word) * ((scast workers :: 64 word) + 1)
                   = word_of_int (sint replicas * (sint workers + 1))"
    unfolding scast_eq by simp
  moreover have "sint (word_of_int (sint replicas * (sint workers + 1)) :: 64 word)
                   = sint replicas * (sint workers + 1)"
    by (rule sint_of_int) (use calculation(1,2) in simp_all)
  ultimately show ?thesis by metis
qed

lemma sint_inject: "sint (a :: 'a::len word) = sint b \<longleftrightarrow> a = b"
  using signed_word_eqI by blast

lemma TotalPods_iff:
  "TotalPods replicas mode workers = Inr pods \<longleftrightarrow>
     wf_topology (sint replicas) mode (sint workers)
     \<and> sint pods = pod_count (sint replicas) mode (sint workers)"
proof -
  consider (small) "sint replicas < 1"
    | (dep) "1 \<le> sint replicas" "mode = '''' \<or> mode = ''deployment''"
    | (lws) "1 \<le> sint replicas" "mode = ''leader_worker_set''"
    | (bad) "1 \<le> sint replicas" "mode \<notin> {'''', ''deployment'', ''leader_worker_set''}"
    by fastforce
  then show ?thesis
  proof cases
    case small
    then show ?thesis by (simp add: TotalPods_def wf_topology_def)
  next
    case dep
    then show ?thesis
      using sint32_bounds [of replicas]
      by (auto simp: TotalPods_def wf_topology_def pod_count_def sint_inject)
  next
    case lws
    define total where "total = (scast replicas :: 64 word) * ((scast workers :: 64 word) + 1)"
    have cast: "sint (scast total :: 32 word) = sint total" if "0 \<le> sint total" "sint total < 2 ^ 31"
      by (rule sint_scast_32) (use that in simp_all)
    have prod: "sint total = sint replicas * (sint workers + 1) \<and> 0 \<le> sint total"
      if "1 \<le> sint workers"
      using sint_pod_product [OF lws(1) that] lws(1) that by (simp add: total_def)
    have run: "TotalPods replicas mode workers =
        (if sint workers < 1 then Inl (Errorf ''leader_worker_set requires workers'')
         else if sint total > 2147483647 then Inl (Errorf ''GPU topology overflows pod count'')
         else Inr (scast total))"
      using lws by (simp add: TotalPods_def total_def Let_def)
    have eq: "scast total = pods \<longleftrightarrow> sint pods = sint total"
      if "0 \<le> sint total" "sint total < 2 ^ 31"
      using cast [OF that] sint_inject [of pods "scast total :: 32 word"] by auto
    show ?thesis
      unfolding run using lws prod eq by (auto simp: wf_topology_def pod_count_def)
  next
    case bad
    then show ?thesis by (simp add: TotalPods_def wf_topology_def)
  qed
qed

lemma unat_of_sint:
  assumes "0 \<le> sint (w :: 32 word)"
  shows "int (unat w) = sint w"
proof -
  have "uint w = sint w mod 2 ^ LENGTH(32)"
    using uint_word_of_int [of "sint w", where ?'a = 32] by (simp only: of_int_sint scast_id)
  moreover have "sint w mod 2 ^ LENGTH(32) = sint w"
    using assms sint32_bounds [of w] by simp
  ultimately show ?thesis by simp
qed

lemma sint_of_unat:
  assumes "unat (w :: 32 word) < 2 ^ 31"
  shows "sint w = int (unat w)"
proof -
  have "int (unat w) < 2 ^ 31"
    using assms by (metis of_nat_less_iff of_nat_numeral of_nat_power)
  then have "uint w < 2 ^ 31" by simp
  then have "sint (word_of_int (uint w) :: 32 word) = uint w"
    by (intro sint_of_int order.trans [OF _ uint_ge_0]) simp_all
  then have "sint w = uint w" by (simp only: word_of_int_uint)
  then show ?thesis by simp
qed

text \<open>
  C38: \<open>ValidateTopology\<close> accepts a GPU request exactly when the request is well formed, the runtime
  topology is one of the supported ones, the request's replica count is the number of GPU-bearing
  pods computed without wrap-around (replicas, or replicas * (workers + 1) for a leader-worker set),
  and the container name is the one of the runtime mode.
\<close>

theorem validate_topology_iff:
  "ValidateTopology ro replicas mode workers = None \<longleftrightarrow>
     (\<exists>r. ro = Some r \<and> wf_request r
        \<and> wf_topology (sint replicas) mode (sint workers)
        \<and> int (unat (Replicas r)) = pod_count (sint replicas) mode (sint workers)
        \<and> ContainerName r = (if mode = ''leader_worker_set'' then ''main'' else ''kserve-container''))"
proof (cases "ValidateRequest ro")
  case (Some err)
  then show ?thesis
    using ValidateRequest_iff [of ro] by (auto simp: ValidateTopology_def)
next
  case None
  then obtain r where ro: "ro = Some r" and wf: "wf_request r"
    using ValidateRequest_iff by blast
  have sr: "sint (Replicas r) = int (unat (Replicas r))"
    by (rule sint_of_unat) (use wf in \<open>simp add: wf_request_def\<close>)
  have pods: "TotalPods replicas mode workers = Inr (Replicas r) \<longleftrightarrow>
      wf_topology (sint replicas) mode (sint workers)
      \<and> int (unat (Replicas r)) = pod_count (sint replicas) mode (sint workers)"
    by (simp add: TotalPods_iff sr)
  have run: "ValidateTopology ro replicas mode workers = None \<longleftrightarrow>
      TotalPods replicas mode workers = Inr (Replicas r)
      \<and> ContainerName r = (if mode = ''leader_worker_set'' then ''main'' else ''kserve-container'')"
  proof (cases "TotalPods replicas mode workers")
    case (Inl err)
    then show ?thesis using None by (simp add: ValidateTopology_def)
  next
    case (Inr expected)
    then have "wf_topology (sint replicas) mode (sint workers)" by (simp add: TotalPods_iff)
    then consider "1 \<le> sint replicas" "mode = ''''" "0 \<le> sint workers" "sint workers \<le> 1"
      | "1 \<le> sint replicas" "mode = ''deployment''" "0 \<le> sint workers" "sint workers \<le> 1"
      | "1 \<le> sint replicas" "mode = ''leader_worker_set''" "1 \<le> sint workers"
      unfolding wf_topology_def by blast
    then show ?thesis
      using None Inr ro by cases (simp_all add: ValidateTopology_def eq_commute [of expected])
  qed
  show ?thesis
    unfolding run pods by (simp only: ro wf option.inject simp_thms conj_assoc)
qed

lemma required_None: "required fs = None \<longleftrightarrow> (\<forall>(name, value) \<in> set fs. TrimSpace value \<noteq> '''')"
  by (induction fs rule: required.induct) auto

definition complete_pod :: "PodRef \<Rightarrow> bool" where
  "complete_pod pod \<longleftrightarrow>
     TrimSpace (PodClusterID pod) \<noteq> '''' \<and> TrimSpace (PodNamespace pod) \<noteq> ''''
     \<and> TrimSpace (PodName pod) \<noteq> '''' \<and> TrimSpace (PodUID pod) \<noteq> ''''
     \<and> TrimSpace (PodContainerName pod) \<noteq> ''''"

lemma validate_pods_None:
  "validate_pods seen pods = None \<longleftrightarrow>
     (\<forall>pod \<in> set pods. complete_pod pod \<and> PodUID pod \<notin> seen) \<and> keyed PodUID pods"
proof (induction pods arbitrary: seen)
  case Nil
  then show ?case by simp
next
  case (Cons pod pods)
  have "required (pod_fields pod) = None \<longleftrightarrow> complete_pod pod"
    by (simp add: required_None complete_pod_def pod_fields_def del: required.simps)
  with Cons.IH [of "insert (PodUID pod) seen"] show ?case
    by (auto 0 3 simp: keyed_def image_iff split: option.split)
qed

lemma sort_key_unique:
  assumes "mset xs = mset ys" and "keyed k xs"
  shows "sort_key k xs = sort_key k ys"
proof (rule sort_key_inj_key_eq)
  show "mset xs = mset (sort_key k ys)" by (simp add: assms(1))
  show "inj_on k (set xs)" using assms(2) by (simp add: keyed_def distinct_map)
  show "sorted (map k (sort_key k ys))" by simp
qed

lemma keyed_mset: "mset xs = mset ys \<Longrightarrow> keyed k xs \<longleftrightarrow> keyed k ys"
  unfolding keyed_def by (metis mset_eq_imp_distinct_iff mset_map)

text \<open>
  C40: The release proof of a DELETE does not depend on the order in which the pods were recorded:
  inputs that differ only by a permutation of the pod scope give the same evidence, or both are
  rejected. A retried release therefore reproduces the stored evidence.
\<close>

theorem release_proof_permutation:
  assumes "mset pods' = mset (Pods inp)"
  shows "case (NewReleaseProof uuid_NewSHA1 digest inp,
               NewReleaseProof uuid_NewSHA1 digest (inp\<lparr>Pods := pods'\<rparr>)) of
           (Inr proof1, Inr proof2) \<Rightarrow> proof1 = proof2
         | (Inl err1, Inl err2) \<Rightarrow> True
         | _ \<Rightarrow> False"
proof -
  let ?inp' = "inp\<lparr>Pods := pods'\<rparr>"
  have "validate_pods {} pods' = None \<longleftrightarrow> validate_pods {} (Pods inp) = None"
    using mset_eq_setD [OF assms] by (simp add: validate_pods_None keyed_mset [OF assms])
  then have same: "ValidateReleaseProofInput ?inp' = None \<longleftrightarrow> ValidateReleaseProofInput inp = None"
    by (simp add: ValidateReleaseProofInput_def proof_fields_def del: required.simps split: option.split)
  show ?thesis
  proof (cases "ValidateReleaseProofInput inp")
    case (Some err)
    with same obtain err' where "ValidateReleaseProofInput ?inp' = Some err'" by auto
    with Some show ?thesis by (simp add: NewReleaseProof_def)
  next
    case None
    then have "keyed PodUID (Pods inp)"
      by (simp add: ValidateReleaseProofInput_def validate_pods_None
          del: required.simps split: option.splits if_splits)
    then have "sort_key PodUID pods' = sort_key PodUID (Pods inp)"
      using assms sort_key_unique by metis
    with None same show ?thesis by (simp add: NewReleaseProof_def)
  qed
qed

definition example_pod :: "string \<Rightarrow> PodRef" where
  "example_pod uid = \<lparr>PodClusterID = ''c'', PodNamespace = ''ns'', PodName = ''p'' @ uid, PodUID = uid,
     PodContainerName = ''main''\<rparr>"

definition example_proof_input :: ReleaseProofInput where
  "example_proof_input = \<lparr>ProofTenantID = ''t'', ProofResourceID = ''r'', ProofCreateOperationID = ''o1'',
     ProofDeleteOperationID = ''o2'', SealedAt = ''2024-02-29T01:02:03.5Z'',
     Pods = [example_pod ''b'', example_pod ''a'']\<rparr>"

lemma example_proof_valid: "ValidateReleaseProofInput example_proof_input = None"
  by code_simp

theorem release_proof_permutation_witness:
  "\<exists>evidence.
     NewReleaseProof id (\<lambda>inp. concat (map PodUID (Pods inp))) example_proof_input = Inr evidence
     \<and> NewReleaseProof id (\<lambda>inp. concat (map PodUID (Pods inp)))
         (example_proof_input\<lparr>Pods := [example_pod ''a'', example_pod ''b'']\<rparr>) = Inr evidence"
proof -
  let ?pods = "[example_pod ''a'', example_pod ''b'']"
  have "mset ?pods = mset (Pods example_proof_input)"
    by (simp add: example_proof_input_def)
  from release_proof_permutation [OF this, of id "\<lambda>inp. concat (map PodUID (Pods inp))"]
    example_proof_valid
  show ?thesis
    by (auto simp: NewReleaseProof_def [of _ _ example_proof_input] Let_def split: sum.splits)
qed

text \<open>
  C39: A snapshot that \<open>ValidateSnapshot\<close> accepts carries exactly the request it was resolved for, a
  well-formed request, a displayed profile and version equal to the requested ones, and leaves with
  the execution's digest as its own; validating the result again accepts it unchanged, so a frozen
  snapshot passes the same check on every replay, and its stable digest is defined.
\<close>

theorem validate_snapshot_accepts:
  assumes "ValidateSnapshot so request = (None, so')"
  shows "\<exists>s r e d. so = Some s \<and> request = Some r \<and> wf_request r
           \<and> SnapRequest s = Some r \<and> SnapExecution s = Some e \<and> SnapDisplay s = Some d
           \<and> DisplayProfileID d = ProfileID r \<and> DisplayProfileVersion d = ProfileVersion r
           \<and> SnapExecutionDigest s \<in> {'''', ExecutionDigest e}
           \<and> so' = Some (s\<lparr>SnapExecutionDigest := ExecutionDigest e\<rparr>)
           \<and> ValidateSnapshot so' request = (None, so')
           \<and> SnapshotDigest digest so' = Inr (digest (r, e, d))"
proof -
  obtain s r where s: "so = Some s" "request = Some r"
    using assms by (auto simp: ValidateSnapshot_def split: option.splits)
  moreover obtain e d where p: "SnapRequest s = Some r" "SnapExecution s = Some e" "SnapDisplay s = Some d"
    using assms s by (auto simp: ValidateSnapshot_def split: option.splits if_splits)
  moreover have ok: "ValidateRequest (Some r) = None"
    using assms s p by (simp add: ValidateSnapshot_def split: option.splits)
  moreover have "wf_request r" using ok by (simp add: ValidateRequest_iff)
  moreover have "ValidateExecution (Some e) = None"
    using assms s p ok by (simp add: ValidateSnapshot_def split: option.splits)
  ultimately show ?thesis
    using assms by (auto simp: ValidateSnapshot_def SnapshotDigest_def Let_def split: if_splits)
qed

definition example_request :: Request where
  "example_request = \<lparr>ClusterID = ''10000000-0000-4000-8000-000000000001'',
     PoolID = ''10000000-0000-4000-8000-000000000002'',
     ProfileID = ''10000000-0000-4000-8000-000000000003'', ProfileVersion = 1, Replicas = 1,
     DevicesPerReplica = 1, ContainerName = ''kserve-container''\<rparr>"

definition example_snapshot :: Snapshot where
  "example_snapshot = \<lparr>SnapRequest = Some example_request,
     SnapExecution = Some \<lparr>SchedulerName = ''volcano'', QueueName = ''queue'', RuntimeClassName = '''',
       NodeSelector = [(''a'', ''b'')], PodAnnotations = [], ExecResources = [(''nvidia.com/gpu'', ''1'')],
       ExecutionDigest = replicate 64 CHR ''a''\<rparr>,
     SnapDisplay = Some \<lparr>DisplayProfileID = ''10000000-0000-4000-8000-000000000003'',
       DisplayProfileVersion = 1, ProfileName = ''shared'', ModelKey = ''model'', DisplayMode = 2\<rparr>,
     SnapExecutionDigest = ''''\<rparr>"

lemma example_snapshot_valid:
  "ValidateSnapshot (Some example_snapshot) (Some example_request)
     = (None, Some (example_snapshot\<lparr>SnapExecutionDigest := replicate 64 CHR ''a''\<rparr>))"
  by code_simp

theorem validate_snapshot_accepts_witness:
  "\<exists>s r e d. example_snapshot = s \<and> example_request = r \<and> wf_request r
     \<and> SnapRequest s = Some r \<and> SnapExecution s = Some e \<and> SnapDisplay s = Some d
     \<and> DisplayProfileID d = ProfileID r \<and> DisplayProfileVersion d = ProfileVersion r"
  using validate_snapshot_accepts [OF example_snapshot_valid, of "\<lambda>_. ''digest''"] by auto

end
