(* ===== verification/Resources.thy ===== *)
theory Resources
  imports Gpu
begin

text \<open>
  The resource contract of \<^verbatim>\<open>internal/biz/resources\<close>, the quota vals of \<^verbatim>\<open>internal/biz/quota\<close> and the
  admission check of \<^verbatim>\<open>internal/biz/admission\<close>. Kubernetes quantities and qualified names are external:
  the record \<open>quantity_api\<close> holds the functions the code calls and \<open>quantity_laws\<close> what it relies on, the
  numeric value \<open>val\<close> of a quantity counted in its finest unit. A \<^verbatim>\<open>map[string]string\<close> is the list of its
  entries; the maps the code builds list them by key.
\<close>

type_synonym str_map = "(string \<times> string) list"

record Spec =
  Requests :: str_map
  Limits :: str_map
  SpecGPU :: "Request option"

record 'q quantity_api =
  IsQualifiedName :: "string \<Rightarrow> string list"
  ParseQuantity :: "string \<Rightarrow> 'q result"
  Sign :: "'q \<Rightarrow> int"
  Cmp :: "'q \<Rightarrow> 'q \<Rightarrow> int"
  QuantityString :: "'q \<Rightarrow> string"
  Mul :: "'q \<Rightarrow> int \<Rightarrow> 'q \<times> bool"

text \<open>
  Documented behaviour of the quantity type: \<open>Sign\<close> and \<open>Cmp\<close> report the sign of the value and of the
  difference; the canonical string is trimmed and not empty, and parsing it gives a quantity of the same
  value and the same canonical string; an exact \<open>Mul\<close> multiplies the value.
\<close>

definition quantity_laws :: "'q quantity_api \<Rightarrow> ('q \<Rightarrow> int) \<Rightarrow> bool" where
  "quantity_laws api val \<longleftrightarrow>
     (\<forall>q. Sign api q = sgn (val q))
     \<and> (\<forall>a b. Cmp api a b = sgn (val a - val b))
     \<and> (\<forall>q. QuantityString api q \<noteq> '''' \<and> TrimSpace (QuantityString api q) = QuantityString api q
          \<and> (\<exists>p. ParseQuantity api (QuantityString api q) = Inr p \<and> val p = val q
                 \<and> QuantityString api p = QuantityString api q))
     \<and> (\<forall>q n p. Mul api q n = (p, True) \<longrightarrow> val p = val q * n)"

section \<open>Normalize\<close>

definition isExtended :: "string \<Rightarrow> bool" where
  "isExtended name \<longleftrightarrow> CHR ''/'' \<in> set name \<and> \<not> prefix ''kubernetes.io/'' name"

definition parseQuantity :: "'q quantity_api \<Rightarrow> string \<Rightarrow> 'q result" where
  "parseQuantity api raw =
     (let s = TrimSpace raw in
      if s = '''' then Inl (Errorf ''quantity is empty'')
      else (case ParseQuantity api s of
              Inl err \<Rightarrow> Inl err
            | Inr q \<Rightarrow> if Sign api q < 0 then Inl (Errorf ''quantity must be non-negative'') else Inr q))"

text \<open>The parsed value of an optional entry; \<open>what\<close> is the word of the error text.\<close>

definition parse_entry :: "'q quantity_api \<Rightarrow> string \<Rightarrow> string \<Rightarrow> string option \<Rightarrow> 'q option result" where
  "parse_entry api what name raw =
     (case raw of
        None \<Rightarrow> Inr None
      | Some v \<Rightarrow> (case parseQuantity api v of
          Inl err \<Rightarrow> Inl (Wrapf (''invalid '' @ what @ '' '' @ quoted v @ '' for '' @ name @ '': '') err '''')
        | Inr q \<Rightarrow> Inr (Some q)))"

text \<open>The body of the loop over the ordered names: the effective request and the limit of one name.\<close>

definition normalize_name ::
  "'q quantity_api \<Rightarrow> Spec \<Rightarrow> string \<Rightarrow> ('q option \<times> 'q option) result"
where
  "normalize_name api inp name =
     (case IsQualifiedName api name of
        e # _ \<Rightarrow> Inl (Errorf (''invalid resource name '' @ quoted name @ '': '' @ e))
      | [] \<Rightarrow>
        let rawRequest = map_of (Requests inp) name; rawLimit = map_of (Limits inp) name in
        (case parse_entry api ''request'' name rawRequest of
           Inl err \<Rightarrow> Inl err
         | Inr parsed \<Rightarrow>
           (case parse_entry api ''limit'' name rawLimit of
              Inl err \<Rightarrow> Inl err
            | Inr lq \<Rightarrow>
              let rq = (if isExtended name \<and> parsed = None then lq else parsed) in
              if (case (rq, lq) of (Some r, Some l) \<Rightarrow> Cmp api r l > 0 | _ \<Rightarrow> False)
              then Inl (Errorf (''request exceeds limit for '' @ name))
              else if isExtended name \<and> rawRequest \<noteq> None \<and> rawLimit \<noteq> None
                      \<and> (case (rq, lq) of (Some r, Some l) \<Rightarrow> Cmp api r l \<noteq> 0 | _ \<Rightarrow> False)
              then Inl (Errorf (''extended resource '' @ name @ '' must have equal request and limit''))
              else Inr (rq, lq))))"

definition put_quantity :: "'q quantity_api \<Rightarrow> string \<Rightarrow> 'q option \<Rightarrow> str_map \<Rightarrow> str_map" where
  "put_quantity api name q m =
     (case q of None \<Rightarrow> m | Some v \<Rightarrow> (name, QuantityString api v) # m)"

fun normalize_names ::
  "'q quantity_api \<Rightarrow> Spec \<Rightarrow> string list \<Rightarrow> (str_map \<times> str_map) result"
where
  "normalize_names api inp [] = Inr ([], [])"
| "normalize_names api inp (name # names) =
     (case normalize_name api inp name of
        Inl err \<Rightarrow> Inl err
      | Inr (rq, lq) \<Rightarrow>
        (case normalize_names api inp names of
           Inl err \<Rightarrow> Inl err
         | Inr (requests, limits) \<Rightarrow>
             Inr (put_quantity api name rq requests, put_quantity api name lq limits)))"

definition ordered_names :: "Spec \<Rightarrow> string list" where
  "ordered_names inp = sort (remdups (map fst (Requests inp) @ map fst (Limits inp)))"

definition extended_with_gpu :: "str_map \<Rightarrow> string option" where
  "extended_with_gpu m = find (\<lambda>name. CHR ''/'' \<in> set name) (map fst m)"

definition Normalize :: "'q quantity_api \<Rightarrow> Spec \<Rightarrow> Spec result" where
  "Normalize api inp =
     (case (if SpecGPU inp = None then None
            else case ValidateRequest (SpecGPU inp) of
              Some err \<Rightarrow> Some err
            | None \<Rightarrow> (case extended_with_gpu (Requests inp @ Limits inp) of
                Some name \<Rightarrow> Some (Errorf (''GPU request cannot use extended resource '' @ name))
              | None \<Rightarrow> None)) of
        Some err \<Rightarrow> Inl err
      | None \<Rightarrow>
        if Requests inp = [] \<and> Limits inp = []
        then Inr \<lparr>Requests = [], Limits = [], SpecGPU = SpecGPU inp\<rparr>
        else (case normalize_names api inp (ordered_names inp) of
                Inl err \<Rightarrow> Inl err
              | Inr (requests, limits) \<Rightarrow>
                  Inr \<lparr>Requests = requests, Limits = limits, SpecGPU = SpecGPU inp\<rparr>))"

section \<open>Aggregate\<close>

record Demand =
  DemandResources :: Spec
  Units :: "64 word"

fun scale_entries :: "'q quantity_api \<Rightarrow> 64 word \<Rightarrow> str_map \<Rightarrow> str_map result" where
  "scale_entries api units [] = Inr []"
| "scale_entries api units ((name, v) # rest) =
     (case ParseQuantity api v of
        Inl err \<Rightarrow> Inl err
      | Inr q \<Rightarrow>
        (case Mul api q (sint units) of
           (p, False) \<Rightarrow> Inl (Errorf (''aggregate resource '' @ name @ '' exceeds quantity precision''))
         | (p, True) \<Rightarrow>
           (case scale_entries api units rest of
              Inl err \<Rightarrow> Inl err
            | Inr scaled \<Rightarrow> Inr ((name, QuantityString api p) # scaled))))"

definition Aggregate ::
  "'q quantity_api \<Rightarrow> Spec \<Rightarrow> 32 word \<Rightarrow> string \<Rightarrow> 32 word \<Rightarrow> Demand result"
where
  "Aggregate api spec replicas runtimeMode workerReplicas =
     (if sint replicas < 1 then Inl (Errorf ''replicas must be positive'')
      else
        (case (if runtimeMode = '''' \<or> runtimeMode = ''deployment'' then
                 (if sint workerReplicas > 1 \<or> sint workerReplicas < 0 then
                    Inl (Errorf ''worker_replicas is only valid for leader_worker_set runtime'')
                  else Inr (scast replicas :: 64 word))
               else if runtimeMode = ''leader_worker_set'' then
                 (if sint workerReplicas < 1 then
                    Inl (Errorf ''leader_worker_set requires at least one worker'')
                  else Inr ((scast replicas :: 64 word) * ((scast workerReplicas :: 64 word) + 1)))
               else Inl (Errorf (''unsupported runtime mode '' @ quoted runtimeMode))) of
           Inl err \<Rightarrow> Inl err
         | Inr units \<Rightarrow>
           (case Normalize api spec of
              Inl err \<Rightarrow> Inl err
            | Inr vals \<Rightarrow>
              (case scale_entries api units (Requests vals) of
                 Inl err \<Rightarrow> Inl err
               | Inr requests \<Rightarrow>
                 (case scale_entries api units (Limits vals) of
                    Inl err \<Rightarrow> Inl err
                  | Inr limits \<Rightarrow>
                    Inr \<lparr>DemandResources =
                           \<lparr>Requests = requests, Limits = limits, SpecGPU = SpecGPU vals\<rparr>,
                         Units = units\<rparr>)))))"

section \<open>Admission\<close>

record CreateRequest =
  AdmReplicas :: "32 word"
  AdmWorkerReplicas :: "32 word"
  AdmRuntimeMode :: string
  AdmRequests :: str_map
  AdmLimits :: str_map

definition ValidateCreate :: "'q quantity_api \<Rightarrow> CreateRequest \<Rightarrow> error option" where
  "ValidateCreate api inp =
     (let mode = AdmRuntimeMode inp;
          normalized = (case Normalize api \<lparr>Requests = AdmRequests inp, Limits = AdmLimits inp,
                                            SpecGPU = None\<rparr> of
                          Inl err \<Rightarrow> Some err | Inr _ \<Rightarrow> None)
      in
      if mode = '''' \<or> mode = ''deployment'' then
        (if sint (AdmReplicas inp) < 1 then
           Some (Errorf ''replicas must be positive for deployment runtime'')
         else if sint (AdmWorkerReplicas inp) > 1 then
           Some (Errorf ''worker_replicas is only valid for leader_worker_set runtime'')
         else normalized)
      else if mode = ''leader_worker_set'' then
        (if sint (AdmReplicas inp) < 1 \<or> sint (AdmWorkerReplicas inp) < 1 then
           Some (Errorf ''leader_worker_set requires replicas >= 1 and worker_replicas >= 1'')
         else normalized)
      else Some (Errorf (''unsupported runtime mode '' @ quoted mode)))"

section \<open>Normalized resources\<close>

lemma parseQuantity_nonneg:
  assumes "quantity_laws api val" and "parseQuantity api raw = Inr q"
  shows "0 \<le> val q"
proof -
  have "\<not> Sign api q < 0"
    using assms(2) by (auto simp: parseQuantity_def Let_def split: if_splits sum.splits)
  with assms(1) show ?thesis by (simp add: quantity_laws_def)
qed

lemma parseQuantity_string:
  assumes "quantity_laws api val" and "0 \<le> val q"
  shows "\<exists>p. parseQuantity api (QuantityString api q) = Inr p \<and> val p = val q
             \<and> QuantityString api p = QuantityString api q"
proof -
  obtain p where "ParseQuantity api (QuantityString api q) = Inr p" "val p = val q"
      "QuantityString api p = QuantityString api q"
    using assms(1) unfolding quantity_laws_def by blast
  with assms show ?thesis by (auto simp: parseQuantity_def Let_def quantity_laws_def)
qed

lemma parse_entry_None [simp]:
  "parse_entry api what name raw = Inr None \<longleftrightarrow> raw = None"
  by (auto simp: parse_entry_def split: option.splits sum.splits)

lemma parse_entry_Some:
  "parse_entry api what name raw = Inr (Some q) \<longleftrightarrow> (\<exists>v. raw = Some v \<and> parseQuantity api v = Inr q)"
  by (auto simp: parse_entry_def split: option.splits sum.splits)

lemma parse_entry_string:
  assumes "quantity_laws api val" and "\<And>q. qo = Some q \<Longrightarrow> 0 \<le> val q"
  shows "\<exists>po. parse_entry api what name (map_option (QuantityString api) qo) = Inr po
              \<and> map_option val po = map_option val qo
              \<and> map_option (QuantityString api) po = map_option (QuantityString api) qo"
proof (cases qo)
  case None
  then show ?thesis by (auto simp: parse_entry_def)
next
  case (Some q)
  then obtain p where "parseQuantity api (QuantityString api q) = Inr p" "val p = val q"
      "QuantityString api p = QuantityString api q"
    using parseQuantity_string [OF assms(1)] assms(2) by blast
  with Some show ?thesis by (auto simp: parse_entry_def)
qed

text \<open>The conditions under which a name is accepted, on vals.\<close>

definition admissible :: "string \<Rightarrow> int option \<Rightarrow> int option \<Rightarrow> bool" where
  "admissible name r l \<longleftrightarrow>
     (\<forall>x y. r = Some x \<and> l = Some y \<longrightarrow> x \<le> y \<and> (isExtended name \<longrightarrow> x = y))"

lemma admissibleD:
  "admissible name (Some x) (Some y) \<Longrightarrow> x \<le> y \<and> (isExtended name \<longrightarrow> x = y)"
  by (simp add: admissible_def)

lemma normalize_name_Inr:
  assumes "quantity_laws api val"
  shows "normalize_name api inp name = Inr (rq, lq) \<longleftrightarrow>
    IsQualifiedName api name = []
    \<and> (\<exists>parsed. parse_entry api ''request'' name (map_of (Requests inp) name) = Inr parsed
        \<and> parse_entry api ''limit'' name (map_of (Limits inp) name) = Inr lq
        \<and> rq = (if isExtended name \<and> parsed = None then lq else parsed)
        \<and> admissible name (map_option val rq) (map_option val lq))"
    (is "?L \<longleftrightarrow> ?R")
proof -
  have cmp: "Cmp api r l > 0 \<longleftrightarrow> val r > val l" "Cmp api r l \<noteq> 0 \<longleftrightarrow> val r \<noteq> val l" for r l
    using assms by (auto simp: quantity_laws_def sgn_if)
  show ?thesis
  proof
    assume ?L
    then show ?R
      by (auto simp: normalize_name_def Let_def cmp admissible_def parse_entry_Some
          split: list.splits sum.splits option.splits if_splits)
  next
    assume ?R
    then obtain parsed where
      ok: "IsQualifiedName api name = []"
        "parse_entry api ''request'' name (map_of (Requests inp) name) = Inr parsed"
        "parse_entry api ''limit'' name (map_of (Limits inp) name) = Inr lq"
        "rq = (if isExtended name \<and> parsed = None then lq else parsed)"
        "admissible name (map_option val rq) (map_option val lq)"
      by blast
    have "map_of (Requests inp) name = None \<longleftrightarrow> parsed = None"
      using ok(2) by (cases parsed) (auto simp: parse_entry_Some)
    moreover have "map_of (Limits inp) name = None \<longleftrightarrow> lq = None"
      using ok(3) by (cases lq) (auto simp: parse_entry_Some)
    moreover have "normalize_name api inp name =
        (if (case (rq, lq) of (Some r, Some l) \<Rightarrow> Cmp api r l > 0 | _ \<Rightarrow> False)
         then Inl (Errorf (''request exceeds limit for '' @ name))
         else if isExtended name \<and> map_of (Requests inp) name \<noteq> None \<and> map_of (Limits inp) name \<noteq> None
                 \<and> (case (rq, lq) of (Some r, Some l) \<Rightarrow> Cmp api r l \<noteq> 0 | _ \<Rightarrow> False)
         then Inl (Errorf (''extended resource '' @ name @ '' must have equal request and limit''))
         else Inr (rq, lq))"
      by (simp only: normalize_name_def Let_def ok(1-4) list.case sum.case)
    ultimately show ?L
      using ok(5) by (cases rq; cases lq) (simp_all add: cmp admissible_def)
  qed
qed

text \<open>What an accepted name yields, and that it can be read back.\<close>

lemma normalize_name_props:
  assumes laws: "quantity_laws api val" and ok: "normalize_name api inp name = Inr (rq, lq)"
  shows "rq = Some q \<Longrightarrow> 0 \<le> val q" and "lq = Some q \<Longrightarrow> 0 \<le> val q"
    and "rq = None \<longleftrightarrow> map_of (Requests inp) name = None
           \<and> (isExtended name \<longrightarrow> map_of (Limits inp) name = None)"
    and "lq = None \<longleftrightarrow> map_of (Limits inp) name = None"
    and "admissible name (map_option val rq) (map_option val lq)"
proof -
  obtain parsed where
    p: "parse_entry api ''request'' name (map_of (Requests inp) name) = Inr parsed"
      "parse_entry api ''limit'' name (map_of (Limits inp) name) = Inr lq"
      "rq = (if isExtended name \<and> parsed = None then lq else parsed)"
    and adm: "admissible name (map_option val rq) (map_option val lq)"
    using ok normalize_name_Inr [OF laws] by blast
  have nonneg: "0 \<le> val q" if "parse_entry api what name raw = Inr (Some q)" for what raw q
    using that parseQuantity_nonneg [OF laws] by (auto simp: parse_entry_Some)
  show "rq = Some q \<Longrightarrow> 0 \<le> val q" and "lq = Some q \<Longrightarrow> 0 \<le> val q"
    using p nonneg by (auto split: if_splits)
  have none: "parsed = None \<longleftrightarrow> map_of (Requests inp) name = None"
    using p(1) by (cases parsed) (auto simp: parse_entry_Some)
  show lnone: "lq = None \<longleftrightarrow> map_of (Limits inp) name = None"
    using p(2) by (cases lq) (auto simp: parse_entry_Some)
  show "rq = None \<longleftrightarrow> map_of (Requests inp) name = None
          \<and> (isExtended name \<longrightarrow> map_of (Limits inp) name = None)"
    using p(3) none lnone by auto
  show "admissible name (map_option val rq) (map_option val lq)" by (rule adm)
qed

lemma normalize_name_again:
  assumes laws: "quantity_laws api val" and ok: "normalize_name api inp name = Inr (rq, lq)"
    and out: "map_of (Requests out) name = map_option (QuantityString api) rq"
      "map_of (Limits out) name = map_option (QuantityString api) lq"
  shows "\<exists>rq' lq'. normalize_name api out name = Inr (rq', lq')
           \<and> map_option (QuantityString api) rq' = map_option (QuantityString api) rq
           \<and> map_option (QuantityString api) lq' = map_option (QuantityString api) lq"
proof -
  note props = normalize_name_props [OF laws ok]
  obtain rq' where rq': "parse_entry api ''request'' name (map_of (Requests out) name) = Inr rq'"
      "map_option val rq' = map_option val rq"
      "map_option (QuantityString api) rq' = map_option (QuantityString api) rq"
    using parse_entry_string [OF laws props(1)] unfolding out by blast
  obtain lq' where lq': "parse_entry api ''limit'' name (map_of (Limits out) name) = Inr lq'"
      "map_option val lq' = map_option val lq"
      "map_option (QuantityString api) lq' = map_option (QuantityString api) lq"
    using parse_entry_string [OF laws props(2)] unfolding out by blast
  have "rq' = None \<Longrightarrow> isExtended name \<Longrightarrow> lq' = None"
    using rq'(2) lq'(2) props(3,4) by auto
  then have "rq' = (if isExtended name \<and> rq' = None then lq' else rq')" by auto
  moreover have "IsQualifiedName api name = []"
    using ok normalize_name_Inr [OF laws] by blast
  ultimately have "normalize_name api out name = Inr (rq', lq')"
    using rq' lq' props(5) normalize_name_Inr [OF laws, of out name rq' lq'] by metis
  with rq'(3) lq'(3) show ?thesis by blast
qed

lemma map_of_put_quantity:
  "map_of (put_quantity api name q m) x =
     (if x = name \<and> q \<noteq> None then map_option (QuantityString api) q else map_of m x)"
  by (auto simp: put_quantity_def split: option.splits)

lemma keys_put_quantity: "fst ` set (put_quantity api name q m) \<subseteq> insert name (fst ` set m)"
  by (auto simp: put_quantity_def split: option.splits)

lemma normalize_names_step:
  "normalize_names api inp (name # names) = Inr (rs, ls) \<longleftrightarrow>
     (\<exists>rq lq rs0 ls0. normalize_name api inp name = Inr (rq, lq)
        \<and> normalize_names api inp names = Inr (rs0, ls0)
        \<and> rs = put_quantity api name rq rs0 \<and> ls = put_quantity api name lq ls0)"
  by (auto split: sum.splits prod.splits)

declare normalize_names.simps(2) [simp del]

lemma normalize_names_keys:
  "normalize_names api inp names = Inr (rs, ls) \<Longrightarrow>
     fst ` set rs \<subseteq> set names \<and> fst ` set ls \<subseteq> set names"
proof (induction names arbitrary: rs ls)
  case Nil
  then show ?case by simp
next
  case (Cons name names)
  then obtain rq lq rs0 ls0 where "normalize_names api inp names = Inr (rs0, ls0)"
      "rs = put_quantity api name rq rs0" "ls = put_quantity api name lq ls0"
    unfolding normalize_names_step by blast
  with Cons.IH [of rs0 ls0] show ?case
    using keys_put_quantity [of api name rq rs0] keys_put_quantity [of api name lq ls0]
    by fastforce
qed

lemma normalize_names_lookup:
  assumes "normalize_names api inp names = Inr (rs, ls)" and "distinct names" and "name \<in> set names"
  shows "\<exists>rq lq. normalize_name api inp name = Inr (rq, lq)
           \<and> map_of rs name = map_option (QuantityString api) rq
           \<and> map_of ls name = map_option (QuantityString api) lq"
  using assms
proof (induction names arbitrary: rs ls)
  case Nil
  then show ?case by simp
next
  case (Cons n names)
  from Cons.prems(1) obtain rq lq rs0 ls0 where step: "normalize_name api inp n = Inr (rq, lq)"
      "normalize_names api inp names = Inr (rs0, ls0)"
      "rs = put_quantity api n rq rs0" "ls = put_quantity api n lq ls0"
    unfolding normalize_names_step by blast
  show ?case
  proof (cases "name = n")
    case True
    have "map_of rs0 n = None" "map_of ls0 n = None"
      using normalize_names_keys [OF step(2)] Cons.prems(2) by (auto simp: map_of_eq_None_iff)
    with True step show ?thesis by (cases rq; cases lq) (simp_all add: map_of_put_quantity)
  next
    case False
    with Cons.IH [OF step(2)] Cons.prems step show ?thesis
      by (auto simp: map_of_put_quantity)
  qed
qed

lemma put_quantity_cong:
  "map_option (QuantityString api) q' = map_option (QuantityString api) q \<Longrightarrow>
     put_quantity api name q' m = put_quantity api name q m"
  by (cases q; cases q') (auto simp: put_quantity_def)

lemma normalize_names_again:
  assumes "normalize_names api inp names = Inr (rs, ls)"
    and "\<And>name rq lq. name \<in> set names \<Longrightarrow> normalize_name api inp name = Inr (rq, lq) \<Longrightarrow>
          \<exists>rq' lq'. normalize_name api out name = Inr (rq', lq')
            \<and> map_option (QuantityString api) rq' = map_option (QuantityString api) rq
            \<and> map_option (QuantityString api) lq' = map_option (QuantityString api) lq"
  shows "normalize_names api out names = Inr (rs, ls)"
  using assms
proof (induction names arbitrary: rs ls)
  case Nil
  then show ?case by simp
next
  case (Cons n names)
  from Cons.prems(1) obtain rq lq rs0 ls0 where step: "normalize_name api inp n = Inr (rq, lq)"
      "normalize_names api inp names = Inr (rs0, ls0)"
      "rs = put_quantity api n rq rs0" "ls = put_quantity api n lq ls0"
    unfolding normalize_names_step by blast
  have "normalize_names api out names = Inr (rs0, ls0)"
    using Cons.IH [OF step(2)] Cons.prems(2) by (meson list.set_intros(2))
  moreover obtain rq' lq' where "normalize_name api out n = Inr (rq', lq')"
      "map_option (QuantityString api) rq' = map_option (QuantityString api) rq"
      "map_option (QuantityString api) lq' = map_option (QuantityString api) lq"
    using Cons.prems(2) [OF _ step(1)] by auto
  ultimately show ?case
    unfolding normalize_names_step using step(3,4) put_quantity_cong by metis
qed

lemma ordered_names_props:
  "distinct (ordered_names inp)" "sorted (ordered_names inp)"
  "set (ordered_names inp) = fst ` set (Requests inp) \<union> fst ` set (Limits inp)"
  by (simp_all add: ordered_names_def)

lemma ordered_names_eq:
  assumes "fst ` set (Requests a) \<union> fst ` set (Limits a) = fst ` set (Requests b) \<union> fst ` set (Limits b)"
  shows "ordered_names a = ordered_names b"
  using assms by (intro sorted_distinct_set_unique) (simp_all add: ordered_names_props)

lemma extended_with_gpu_None:
  "extended_with_gpu m = None \<longleftrightarrow> (\<forall>name \<in> fst ` set m. CHR ''/'' \<notin> set name)"
  by (auto simp: extended_with_gpu_def find_eq_None)

text \<open>The result of a normalization with at least one entry, as facts about its names.\<close>

lemma Normalize_Inr:
  assumes "Normalize api inp = Inr out"
  shows "SpecGPU out = SpecGPU inp"
    and "normalize_names api inp (ordered_names inp) = Inr (Requests out, Limits out)"
    and "SpecGPU inp \<noteq> None \<Longrightarrow> ValidateRequest (SpecGPU inp) = None
           \<and> extended_with_gpu (Requests inp @ Limits inp) = None"
  using assms by (auto simp: Normalize_def ordered_names_def split: option.splits if_splits sum.splits prod.splits)

lemma Normalize_names:
  assumes laws: "quantity_laws api val" and ok: "Normalize api inp = Inr out"
  shows "fst ` set (Requests out) \<union> fst ` set (Limits out) = fst ` set (Requests inp) \<union> fst ` set (Limits inp)"
proof
  note run = Normalize_Inr(2) [OF ok]
  show "fst ` set (Requests out) \<union> fst ` set (Limits out) \<subseteq> fst ` set (Requests inp) \<union> fst ` set (Limits inp)"
    using normalize_names_keys [OF run] by (simp add: ordered_names_props)
  show "fst ` set (Requests inp) \<union> fst ` set (Limits inp) \<subseteq> fst ` set (Requests out) \<union> fst ` set (Limits out)"
  proof
    fix name
    assume "name \<in> fst ` set (Requests inp) \<union> fst ` set (Limits inp)"
    then have mem: "name \<in> set (ordered_names inp)" by (simp add: ordered_names_props)
    then obtain rq lq where n: "normalize_name api inp name = Inr (rq, lq)"
        "map_of (Requests out) name = map_option (QuantityString api) rq"
        "map_of (Limits out) name = map_option (QuantityString api) lq"
      using normalize_names_lookup [OF run] ordered_names_props(1) by blast
    have "rq \<noteq> None \<or> lq \<noteq> None"
      using normalize_name_props(3,4) [OF laws n(1)] mem by (auto simp: ordered_names_props map_of_eq_None_iff)
    with n(2,3) have "map_of (Requests out) name \<noteq> None \<or> map_of (Limits out) name \<noteq> None"
      by auto
    then show "name \<in> fst ` set (Requests out) \<union> fst ` set (Limits out)"
      by (simp only: map_of_eq_None_iff) blast
  qed
qed



section \<open>Aggregate demand\<close>

lemma scale_entries_Inr:
  assumes laws: "quantity_laws api val" and ok: "scale_entries api units m = Inr scaled"
    and some: "map_of m name = Some v"
  shows "\<exists>q p. ParseQuantity api v = Inr q \<and> map_of scaled name = Some (QuantityString api p)
           \<and> val p = val q * sint units"
  using ok some
proof (induction m arbitrary: scaled)
  case Nil
  then show ?case by simp
next
  case (Cons e rest)
  obtain n w where e: "e = (n, w)" by (cases e)
  with Cons.prems(1) obtain q p tail where step: "ParseQuantity api w = Inr q"
      "Mul api q (sint units) = (p, True)" "scale_entries api units rest = Inr tail"
      "scaled = (n, QuantityString api p) # tail"
    by (auto split: sum.splits prod.splits bool.splits)
  have "val p = val q * sint units"
    using laws step(2) by (simp add: quantity_laws_def)
  with Cons.IH [OF step(3)] Cons.prems(2) step(1,4) e show ?case by (auto split: if_splits)
qed

lemma scale_entries_keys: "scale_entries api units m = Inr scaled \<Longrightarrow> map fst scaled = map fst m"
proof (induction m arbitrary: scaled)
  case Nil
  then show ?case by simp
next
  case (Cons e rest)
  then show ?case by (cases e) (auto split: sum.splits prod.splits bool.splits)
qed

lemma Aggregate_Inr:
  assumes "Aggregate api spec replicas mode workers = Inr d"
  shows "\<exists>vals. Normalize api spec = Inr vals
    \<and> SpecGPU (DemandResources d) = SpecGPU vals
    \<and> scale_entries api (Units d) (Requests vals) = Inr (Requests (DemandResources d))
    \<and> scale_entries api (Units d) (Limits vals) = Inr (Limits (DemandResources d))
    \<and> 1 \<le> sint replicas
    \<and> ((mode = '''' \<or> mode = ''deployment'') \<and> Units d = scast replicas
       \<or> mode = ''leader_worker_set'' \<and> 1 \<le> sint workers
         \<and> Units d = scast replicas * (scast workers + 1))"
  using assms by (auto simp: Aggregate_def split: if_splits sum.splits)


section \<open>A concrete quantity type\<close>

text \<open>Plain decimal counts satisfy the laws, so they are consistent with what the code relies on.\<close>

definition decimal_api :: "nat quantity_api" where
  "decimal_api = \<lparr>IsQualifiedName = (\<lambda>name. []),
     ParseQuantity = (\<lambda>s. case parse_digits s of
        None \<Rightarrow> Inl (Errorf ''quantities must match the regular expression'') | Some i \<Rightarrow> Inr (nat i)),
     Sign = (\<lambda>q. sgn (int q)), Cmp = (\<lambda>a b. sgn (int a - int b)),
     QuantityString = dec_nat, Mul = (\<lambda>q n. (q * nat n, 0 \<le> n))\<rparr>"

lemma decimal_api_laws: "quantity_laws decimal_api int"
  by (auto simp: quantity_laws_def decimal_api_def dec_nat_digits TrimSpace_digits)

definition example_spec :: Spec where
  "example_spec = \<lparr>Requests = [(''memory'', ''10''), (''cpu'', '' 2'')],
     Limits = [(''cpu'', ''4''), (''nvidia.com/gpu'', ''1'')], SpecGPU = None\<rparr>"

definition example_normalized :: Spec where
  "example_normalized = \<lparr>Requests = [(''cpu'', ''2''), (''memory'', ''10''), (''nvidia.com/gpu'', ''1'')],
     Limits = [(''cpu'', ''4''), (''nvidia.com/gpu'', ''1'')], SpecGPU = None\<rparr>"

lemma example_normalize: "Normalize decimal_api example_spec = Inr example_normalized"
  by code_simp



definition example_demand :: Demand where
  "example_demand = \<lparr>DemandResources =
     \<lparr>Requests = [(''cpu'', ''16''), (''memory'', ''80''), (''nvidia.com/gpu'', ''8'')],
      Limits = [(''cpu'', ''32''), (''nvidia.com/gpu'', ''8'')], SpecGPU = None\<rparr>, Units = 8\<rparr>"

lemma example_aggregate:
  "Aggregate decimal_api example_spec 2 ''leader_worker_set'' 3 = Inr example_demand"
  by code_simp


end
