(* ===== verification/Work.thy ===== *)
theory Work
  imports Go_Strings
begin

text \<open>
  The durable-work boundary of \<^verbatim>\<open>internal/biz/work\<close>: the worker that claims, executes and commits one
  item (\<^verbatim>\<open>worker.go\<close>) and the scheduling loop over tenants (\<^verbatim>\<open>loop.go\<close>). The store, the executor and the
  callbacks are functions over the state \<open>'s\<close> of everything outside the loop (database, providers, the
  context and the clock); a nil interface or function is \<open>None\<close>, and \<open>ctx_err\<close> is \<open>ctx.Err()\<close> at a
  state. Metrics are not modelled: they are not read back.
\<close>

section \<open>Worker\<close>

record Item =
  ItemTenantID :: string
  ItemServiceID :: string
  ItemGeneration :: int
  ItemDirtyVersion :: int
  ItemLeaseToken :: string

record Result =
  ResultGeneration :: int

record 's Store =
  Claim :: "string \<Rightarrow> ('s, Item option) io"
  Commit :: "Item \<Rightarrow> Result \<Rightarrow> ('s, unit) io"
  Retry :: "Item \<Rightarrow> error \<Rightarrow> ('s, unit) io"

type_synonym 's Executor = "Item \<Rightarrow> ('s, Result) io"

definition finish_item :: "'s Store \<Rightarrow> Item \<Rightarrow> Result result \<Rightarrow> ('s, unit) io" where
  "finish_item store item res =
     (case res of
        Inl err \<Rightarrow> bindE (Retry store item err) (\<lambda>_. failE err)
      | Inr r \<Rightarrow>
          if ResultGeneration r \<noteq> ItemGeneration item then failE (Sentinel work_ErrStaleGeneration)
          else Commit store item r)"

definition Worker_RunOnce :: "'s Store \<Rightarrow> 's Executor \<Rightarrow> string \<Rightarrow> ('s, unit) io" where
  "Worker_RunOnce store execute tenantID =
     bindE (Claim store tenantID) (\<lambda>claimed.
       case claimed of
         None \<Rightarrow> returnE ()
       | Some item \<Rightarrow> bindE (tryE (execute item)) (finish_item store item))"

section \<open>Loop\<close>

record 's Worker =
  WorkerStore :: "'s Store option"
  WorkerExecute :: "'s Executor option"

record 's Loop =
  LoopWorker :: "'s Worker option"
  Tenants :: "('s, string list) io option"
  Interval :: duration
  OnError :: "(error \<Rightarrow> 's \<Rightarrow> 's) option"
  Recover :: "('s, unit) io option"
  Close :: "('s, unit) io option"
  Repair :: "('s, unit) io option"
  RecoveryInterval :: duration

definition Loop_validate :: "'s Loop \<Rightarrow> error option" where
  "Loop_validate l =
     (case LoopWorker l of
        None \<Rightarrow> Some (Errorf ''durable work loop worker is nil'')
      | Some w \<Rightarrow>
        if WorkerStore w = None then Some (Errorf ''durable work loop worker is nil'')
        else if WorkerExecute w = None then Some (Errorf ''durable work loop executor is nil'')
        else if Tenants l = None then Some (Errorf ''durable work loop tenant source is nil'')
        else None)"

definition Loop_worker :: "'s Loop \<Rightarrow> string \<Rightarrow> ('s, unit) io" where
  "Loop_worker l = (let w = the (LoopWorker l) in
     Worker_RunOnce (the (WorkerStore w)) (the (WorkerExecute w)))"

fun run_tenants ::
  "('s \<Rightarrow> error option) \<Rightarrow> (string \<Rightarrow> ('s, unit) io) \<Rightarrow> string list \<Rightarrow> error option \<Rightarrow> 's
     \<Rightarrow> error option \<times> 's"
where
  "run_tenants ctx_err worker [] joined s = (errors_Join joined (ctx_err s), s)"
| "run_tenants ctx_err worker (tenant # tenants) joined s =
     (case ctx_err s of
        Some e \<Rightarrow> (errors_Join joined (Some e), s)
      | None \<Rightarrow>
        if tenant = '''' then run_tenants ctx_err worker tenants joined s
        else (case worker tenant s of
          (Inl err, t) \<Rightarrow> run_tenants ctx_err worker tenants
             (errors_Join joined (Some (Wrapf (''durable work tenant '' @ quoted tenant @ '': '') err ''''))) t
        | (Inr _, t) \<Rightarrow> run_tenants ctx_err worker tenants joined t))"

definition run_close :: "'s Loop \<Rightarrow> 's \<Rightarrow> error option \<times> 's" where
  "run_close l s =
     (case Close l of
        None \<Rightarrow> (None, s)
      | Some close \<Rightarrow> (case close s of
          (Inl err, t) \<Rightarrow> (Some (Wrapf ''managed close: '' err ''''), t)
        | (Inr _, t) \<Rightarrow> (None, t)))"

definition Loop_RunOnce :: "('s \<Rightarrow> error option) \<Rightarrow> 's Loop \<Rightarrow> 's \<Rightarrow> error option \<times> 's" where
  "Loop_RunOnce ctx_err l s =
     (case Loop_validate l of
        Some e \<Rightarrow> (Some e, s)
      | None \<Rightarrow>
        (case ctx_err s of
           Some e \<Rightarrow> (Some e, s)
         | None \<Rightarrow>
           let (joined, s1) = run_close l s
           in (case the (Tenants l) s1 of
                 (Inl err, s2) \<Rightarrow>
                   (errors_Join joined (Some (Wrapf ''durable work list tenants: '' err '''')), s2)
               | (Inr tenants, s2) \<Rightarrow> run_tenants ctx_err (Loop_worker l) tenants joined s2)))"

text \<open>
  \<open>Run\<close>: \<open>clock\<close> is \<open>time.Now()\<close> at a state and \<open>wait\<close> the select on the context and the ticker: it
  returns when one of them fires and says whether the context's case was taken. \<open>lastRecovery\<close> is
  \<open>None\<close> for the zero time. One turn of the loop returns what \<open>Run\<close> returns, or \<open>None\<close> to go on with
  the next value of \<open>lastRecovery\<close>.
\<close>

definition report :: "'s Loop \<Rightarrow> error \<Rightarrow> 's \<Rightarrow> 's" where
  "report l err s = (case OnError l of None \<Rightarrow> s | Some f \<Rightarrow> f err s)"

definition recovery_interval :: "'s Loop \<Rightarrow> duration" where
  "recovery_interval l = (if RecoveryInterval l \<le> 0 then 60000000 else RecoveryInterval l)"

definition run_recovery :: "('s \<Rightarrow> time) \<Rightarrow> 's Loop \<Rightarrow> time option \<Rightarrow> 's \<Rightarrow> time option \<times> 's" where
  "run_recovery clock l lastRecovery s =
     (if (Recover l \<noteq> None \<or> Repair l \<noteq> None)
         \<and> (case lastRecovery of None \<Rightarrow> True | Some t \<Rightarrow> clock s - t \<ge> recovery_interval l)
      then
        let recovery = (if lastRecovery \<noteq> None \<and> Repair l \<noteq> None then Repair l else Recover l)
        in (Some (clock s),
            (case recovery of
               None \<Rightarrow> s
             | Some f \<Rightarrow> (case f s of
                 (Inl err, t) \<Rightarrow> report l (Wrapf ''durable work recovery: '' err '''') t
               | (Inr _, t) \<Rightarrow> t)))
      else (lastRecovery, s))"

type_synonym 's run_state = "time option \<times> 's"

definition Run_turn ::
  "('s \<Rightarrow> error option) \<Rightarrow> ('s \<Rightarrow> time) \<Rightarrow> ('s \<Rightarrow> bool \<times> 's) \<Rightarrow> 's Loop \<Rightarrow> 's run_state
     \<Rightarrow> error option option \<times> 's run_state"
where
  "Run_turn ctx_err clock wait l st =
     (let (recovered, s1) = run_recovery clock l (fst st) (snd st);
          (err, s2) = Loop_RunOnce ctx_err l s1
      in if ctx_err s2 \<noteq> None then (Some (ctx_err s2), recovered, s2)
         else
           let (cancelled, s3) = wait (case err of None \<Rightarrow> s2 | Some e \<Rightarrow> report l e s2)
           in (if cancelled then Some (ctx_err s3) else None, recovered, s3))"

partial_function (option) Run_loop ::
  "('s \<Rightarrow> error option) \<Rightarrow> ('s \<Rightarrow> time) \<Rightarrow> ('s \<Rightarrow> bool \<times> 's) \<Rightarrow> 's Loop \<Rightarrow> 's run_state
     \<Rightarrow> (error option \<times> 's) option"
where
  "Run_loop ctx_err clock wait l st =
     (case Run_turn ctx_err clock wait l st of
        (Some r, st') \<Rightarrow> Some (r, snd st')
      | (None, st') \<Rightarrow> Run_loop ctx_err clock wait l st')"

definition Loop_Run ::
  "('s \<Rightarrow> error option) \<Rightarrow> ('s \<Rightarrow> time) \<Rightarrow> ('s \<Rightarrow> bool \<times> 's) \<Rightarrow> 's Loop \<Rightarrow> 's
     \<Rightarrow> (error option \<times> 's) option"
where
  "Loop_Run ctx_err clock wait l s =
     (case Loop_validate l of
        Some e \<Rightarrow> Some (Some e, s)
      | None \<Rightarrow> Run_loop ctx_err clock wait l (None, s))"

section \<open>Best-effort passes\<close>

text \<open>What a pass does to the state when the context stays open: every tenant in turn.\<close>

definition attempt_all :: "(string \<Rightarrow> ('s, unit) io) \<Rightarrow> string list \<Rightarrow> 's \<Rightarrow> 's" where
  "attempt_all worker tenants s = fold (\<lambda>t s. snd (worker t s)) (filter (\<lambda>t. t \<noteq> '''') tenants) s"

text \<open>The errors of the tenants' attempts, in order.\<close>

fun attempt_errors :: "(string \<Rightarrow> ('s, unit) io) \<Rightarrow> string list \<Rightarrow> 's \<Rightarrow> error list" where
  "attempt_errors worker [] s = []"
| "attempt_errors worker (t # ts) s =
     (if t = '''' then attempt_errors worker ts s
      else (case worker t s of
              (Inl err, u) \<Rightarrow> err # attempt_errors worker ts u
            | (Inr _, u) \<Rightarrow> attempt_errors worker ts u))"

lemma errors_Is_Join:
  "errors_Join a b = Some e \<Longrightarrow>
     errors_Is e x \<longleftrightarrow> (\<exists>d. (a = Some d \<or> b = Some d) \<and> errors_Is d x)"
  by (cases a; cases b) auto

lemma run_tenants_open:
  assumes "\<And>s. ctx_err s = None"
  shows "snd (run_tenants ctx_err worker tenants joined s) = attempt_all worker tenants s
    \<and> (fst (run_tenants ctx_err worker tenants joined s) = None \<longleftrightarrow>
         joined = None \<and> attempt_errors worker tenants s = [])
    \<and> (\<forall>e x. fst (run_tenants ctx_err worker tenants joined s) = Some e \<longrightarrow>
         (errors_Is e x \<longleftrightarrow> (\<exists>d. joined = Some d \<and> errors_Is d x)
            \<or> (\<exists>d \<in> set (attempt_errors worker tenants s). errors_Is d x)))"
proof (induction tenants arbitrary: joined s)
  case Nil
  then show ?case by (simp add: assms attempt_all_def)
next
  case (Cons tenant tenants)
  show ?case
  proof (cases "tenant = ''''")
    case True
    with Cons.IH [of joined s] show ?thesis by (simp add: assms attempt_all_def)
  next
    case False
    obtain r u where w: "worker tenant s = (r, u)" by (cases "worker tenant s")
    show ?thesis
    proof (cases r)
      case (Inr a)
      with w False Cons.IH [of joined u] show ?thesis by (simp add: assms attempt_all_def)
    next
      case (Inl err)
      let ?j = "errors_Join joined (Some (Wrapf (''durable work tenant '' @ quoted tenant @ '': '') err ''''))"
      have j: "?j \<noteq> None" by simp
      then obtain d where d: "?j = Some d" by blast
      have "errors_Is d x \<longleftrightarrow> (\<exists>d. joined = Some d \<and> errors_Is d x) \<or> errors_Is err x" for x
        using errors_Is_Join [OF d, of x] by auto
      with w False Inl Cons.IH [of ?j u] d show ?thesis
        by (simp add: assms attempt_all_def)
    qed
  qed
qed

text \<open>
  C32: A pass of the loop is best effort: with an open context it attempts every non-empty tenant
  scope once and in order, whatever the managed close or earlier tenants returned; it reports no error
  exactly when the close and every attempt succeeded, and every error value of the close or of an
  attempt can be found with errors.Is in the error it returns.
\<close>

theorem loop_pass_best_effort:
  assumes "Loop_validate l = None" and "\<And>s. ctx_err s = None"
    and "run_close l s = (closeErr, s1)" and "the (Tenants l) s1 = (Inr tenants, s2)"
  shows "snd (Loop_RunOnce ctx_err l s) = attempt_all (Loop_worker l) tenants s2
    \<and> (fst (Loop_RunOnce ctx_err l s) = None \<longleftrightarrow>
         closeErr = None \<and> attempt_errors (Loop_worker l) tenants s2 = [])
    \<and> (\<forall>e x. fst (Loop_RunOnce ctx_err l s) = Some e \<longrightarrow>
         (errors_Is e x \<longleftrightarrow> (\<exists>d. closeErr = Some d \<and> errors_Is d x)
            \<or> (\<exists>d \<in> set (attempt_errors (Loop_worker l) tenants s2). errors_Is d x)))"
  using run_tenants_open [of ctx_err "Loop_worker l" tenants closeErr s2] assms
  by (simp add: Loop_RunOnce_def)

section \<open>Running until cancelled\<close>

text \<open>The state after \<open>n\<close> turns, while none of them ends the loop.\<close>

fun run_turns ::
  "('s \<Rightarrow> error option) \<Rightarrow> ('s \<Rightarrow> time) \<Rightarrow> ('s \<Rightarrow> bool \<times> 's) \<Rightarrow> 's Loop \<Rightarrow> nat \<Rightarrow> 's run_state
     \<Rightarrow> 's run_state option"
where
  "run_turns ctx_err clock wait l 0 st = Some st"
| "run_turns ctx_err clock wait l (Suc n) st =
     (case Run_turn ctx_err clock wait l st of
        (Some r, st') \<Rightarrow> None
      | (None, st') \<Rightarrow> run_turns ctx_err clock wait l n st')"

lemma Run_loop_returns:
  assumes "run_turns ctx_err clock wait l n st = Some st'"
    and "Run_turn ctx_err clock wait l st' = (Some r, st'')"
  shows "Run_loop ctx_err clock wait l st = Some (r, snd st'')"
  using assms
proof (induction n arbitrary: st)
  case 0
  then show ?case by (subst Run_loop.simps) simp
next
  case (Suc n)
  obtain res u where turn: "Run_turn ctx_err clock wait l st = (res, u)"
    by (cases "Run_turn ctx_err clock wait l st")
  with Suc.prems(1) have "res = None" and "run_turns ctx_err clock wait l n u = Some st'"
    by (auto split: option.splits)
  with Suc.IH [of u] Suc.prems(2) turn show ?case
    by (subst Run_loop.simps) simp
qed

lemma Run_loop_returned:
  assumes "Run_loop ctx_err clock wait l st = Some y"
  shows "\<exists>n st' st''. run_turns ctx_err clock wait l n st = Some st'
           \<and> Run_turn ctx_err clock wait l st' = (Some (fst y), st'') \<and> snd y = snd st''"
proof (rule Run_loop.raw_induct [OF _ assms])
  fix run :: "('a \<Rightarrow> error option) \<Rightarrow> ('a \<Rightarrow> time) \<Rightarrow> ('a \<Rightarrow> bool \<times> 'a) \<Rightarrow> 'a Loop \<Rightarrow> 'a run_state
      \<Rightarrow> (error option \<times> 'a) option"
    and ctx_err clock wait l st y
  assume IH: "\<And>ctx_err clock wait l st y. run ctx_err clock wait l st = Some y \<Longrightarrow>
      \<exists>n st' st''. run_turns ctx_err clock wait l n st = Some st'
        \<and> Run_turn ctx_err clock wait l st' = (Some (fst y), st'') \<and> snd y = snd st''"
    and step: "(case Run_turn ctx_err clock wait l st of
        (None, st') \<Rightarrow> run ctx_err clock wait l st'
      | (Some r, st') \<Rightarrow> Some (r, snd st')) = Some y"
  obtain res st' where turn: "Run_turn ctx_err clock wait l st = (res, st')"
    by (cases "Run_turn ctx_err clock wait l st")
  show "\<exists>n st' st''. run_turns ctx_err clock wait l n st = Some st'
      \<and> Run_turn ctx_err clock wait l st' = (Some (fst y), st'') \<and> snd y = snd st''"
  proof (cases res)
    case (Some r)
    with turn step show ?thesis
      by (intro exI [of _ 0] exI [of _ st] exI [of _ st']) auto
  next
    case None
    with turn step have "run ctx_err clock wait l st' = Some y" by simp
    from IH [OF this] obtain n u v where "run_turns ctx_err clock wait l n st' = Some u"
        "Run_turn ctx_err clock wait l u = (Some (fst y), v)" "snd y = snd v" by blast
    with None turn show ?thesis
      by (intro exI [of _ "Suc n"] exI [of _ u] exI [of _ v]) auto
  qed
qed

lemma Run_turn_cancelled:
  assumes "Run_turn ctx_err clock wait l st = (Some r, st')"
    and "\<And>s t. wait s = (True, t) \<Longrightarrow> ctx_err t \<noteq> None"
  shows "r = ctx_err (snd st') \<and> r \<noteq> None"
proof -
  obtain recovered s1 where rec: "run_recovery clock l (fst st) (snd st) = (recovered, s1)"
    by (cases "run_recovery clock l (fst st) (snd st)")
  obtain err s2 where once: "Loop_RunOnce ctx_err l s1 = (err, s2)"
    by (cases "Loop_RunOnce ctx_err l s1")
  obtain cancelled s3 where wait: "wait (case err of None \<Rightarrow> s2 | Some e \<Rightarrow> report l e s2) = (cancelled, s3)"
    by (cases "wait (case err of None \<Rightarrow> s2 | Some e \<Rightarrow> report l e s2)")
  show ?thesis
  proof (cases "ctx_err s2")
    case (Some e)
    then have "r = ctx_err s2 \<and> st' = (recovered, s2)"
      using assms(1) by (simp add: Run_turn_def rec once)
    with Some show ?thesis by simp
  next
    case None
    with assms(1) have "cancelled" "r = ctx_err s3" "st' = (recovered, s3)"
      by (auto simp: Run_turn_def rec once wait split: if_splits)
    with assms(2) wait show ?thesis by simp
  qed
qed

text \<open>
  C33: \<open>Run\<close> on a valid loop ends only when the context is cancelled and then returns the context's
  error: errors of recovery, of the managed close, of listing tenants or of a tenant's work never end
  it. It ends exactly when some turn of the loop observes the cancellation. (The select takes the
  context's case only when the context is done.)
\<close>

theorem run_ends_iff_cancelled:
  assumes "Loop_validate l = None" and "\<And>s t. wait s = (True, t) \<Longrightarrow> ctx_err t \<noteq> None"
  shows "Loop_Run ctx_err clock wait l s = Some (r, t) \<longleftrightarrow>
           r \<noteq> None \<and> r = ctx_err t
           \<and> (\<exists>n st st'. run_turns ctx_err clock wait l n (None, s) = Some st
                \<and> Run_turn ctx_err clock wait l st = (Some r, st') \<and> t = snd st')"
    (is "?L \<longleftrightarrow> ?R")
proof
  assume ?L
  then have "Run_loop ctx_err clock wait l (None, s) = Some (r, t)"
    using assms(1) by (simp add: Loop_Run_def)
  from Run_loop_returned [OF this] obtain n st st' where
    "run_turns ctx_err clock wait l n (None, s) = Some st"
    "Run_turn ctx_err clock wait l st = (Some r, st')" "t = snd st'" by auto
  moreover from this(2) have "r = ctx_err (snd st') \<and> r \<noteq> None"
    by (rule Run_turn_cancelled) (rule assms(2))
  ultimately show ?R by blast
next
  assume ?R
  then obtain n st st' where "run_turns ctx_err clock wait l n (None, s) = Some st"
    "Run_turn ctx_err clock wait l st = (Some r, st')" "t = snd st'" by blast
  with Run_loop_returns [OF this(1,2)] show ?L
    using assms(1) by (simp add: Loop_Run_def)
qed

section \<open>An example loop\<close>

text \<open>
  A loop over counters of attempts and remaining turns: tenant \<open>b\<close> always fails, the context is
  cancelled after the second turn.
\<close>

definition example_store :: "(nat \<times> nat) Store" where
  "example_store = \<lparr>Claim = (\<lambda>t s. if t = ''b'' then (Inl (Sentinel ErrLeaseLost), s)
       else (Inr None, (fst s + 1, snd s))),
     Commit = (\<lambda>i r s. (Inr (), s)), Retry = (\<lambda>i e s. (Inr (), s))\<rparr>"

definition example_loop :: "(nat \<times> nat) Loop" where
  "example_loop = \<lparr>LoopWorker = Some \<lparr>WorkerStore = Some example_store,
       WorkerExecute = Some (\<lambda>i s. (Inr \<lparr>ResultGeneration = 1\<rparr>, s))\<rparr>,
     Tenants = Some (\<lambda>s. (Inr [''a'', ''b'', '''', ''c''], s)), Interval = 0, OnError = None,
     Recover = None, Close = None, Repair = None, RecoveryInterval = 0\<rparr>"

theorem loop_pass_best_effort_witness:
  "snd (Loop_RunOnce (\<lambda>_. None) example_loop (0, 2)) = (2, 2)
   \<and> (\<exists>e. fst (Loop_RunOnce (\<lambda>_. None) example_loop (0, 2)) = Some e \<and> errors_Is e ErrLeaseLost)"
proof -
  let ?run = "Loop_RunOnce (\<lambda>_. None) example_loop (0, 2)"
  have "Loop_validate example_loop = None" and "run_close example_loop (0, 2) = (None, (0, 2))"
    and "the (Tenants example_loop) (0, 2) = (Inr [''a'', ''b'', '''', ''c''], (0, 2))"
    by (simp_all add: example_loop_def Loop_validate_def run_close_def)
  from loop_pass_best_effort [of example_loop "\<lambda>_. None", OF this(1) _ this(2,3)]
  have best: "snd ?run = attempt_all (Loop_worker example_loop) [''a'', ''b'', '''', ''c''] (0, 2)"
      "fst ?run = None \<longleftrightarrow> attempt_errors (Loop_worker example_loop) [''a'', ''b'', '''', ''c''] (0, 2) = []"
      "\<And>e. fst ?run = Some e \<Longrightarrow> errors_Is e ErrLeaseLost \<longleftrightarrow>
         (\<exists>d \<in> set (attempt_errors (Loop_worker example_loop) [''a'', ''b'', '''', ''c''] (0, 2)).
            errors_Is d ErrLeaseLost)"
    by simp_all
  have w: "Loop_worker example_loop t s = (if t = ''b'' then (Inl (Sentinel ErrLeaseLost), s)
      else (Inr (), (fst s + 1, snd s)))" for t s
    by (simp add: Loop_worker_def example_loop_def Worker_RunOnce_def example_store_def bindE_def returnE_def)
  have "attempt_errors (Loop_worker example_loop) [''a'', ''b'', '''', ''c''] (0, 2) = [Sentinel ErrLeaseLost]"
    by (simp add: w)
  with best show ?thesis by (auto simp: attempt_all_def w)
qed

theorem run_ends_iff_cancelled_witness:
  "Loop_Run (\<lambda>s. if snd s = 0 then Some (Sentinel context_Canceled) else None) (\<lambda>_. 0)
     (\<lambda>s. (False, (fst s, snd s - 1))) example_loop (0, 2)
   = Some (Some (Sentinel context_Canceled), (4, 0))"
proof -
  let ?ctx = "\<lambda>s :: nat \<times> nat. if snd s = 0 then Some (Sentinel context_Canceled) else None"
  let ?wait = "\<lambda>s :: nat \<times> nat. (False, (fst s, snd s - 1))"
  have v: "Loop_validate example_loop = None"
    by (simp add: example_loop_def Loop_validate_def)
  have w: "Loop_worker example_loop t s = (if t = ''b'' then (Inl (Sentinel ErrLeaseLost), s)
      else (Inr (), (fst s + 1, snd s)))" for t s
    by (simp add: Loop_worker_def example_loop_def Worker_RunOnce_def example_store_def bindE_def returnE_def)
  have l: "Close example_loop = None" "Recover example_loop = None" "Repair example_loop = None"
      "OnError example_loop = None" "the (Tenants example_loop) s = (Inr [''a'', ''b'', '''', ''c''], s)" for s
    by (simp_all add: example_loop_def)
  have t: "Run_turn ?ctx (\<lambda>_. 0) ?wait example_loop (None, (a, Suc n)) = (None, None, (a + 2, n))" for a n
    by (simp add: Run_turn_def run_recovery_def Loop_RunOnce_def v w l run_close_def report_def)
  have c: "Run_turn ?ctx (\<lambda>_. 0) ?wait example_loop (None, (a, 0)) =
      (Some (Some (Sentinel context_Canceled)), None, (a, 0))" for a
    by (simp add: Run_turn_def run_recovery_def Loop_RunOnce_def v w l run_close_def report_def)
  have "run_turns ?ctx (\<lambda>_. 0) ?wait example_loop 2 (None, (0, 2)) = Some (None, (4, 0))"
    using t [of 0 1] t [of 2 0] by (simp add: numeral_2_eq_2)
  then show ?thesis
    using c [of 4] run_ends_iff_cancelled [of example_loop ?wait ?ctx "\<lambda>_. 0" "(0, 2)"
        "Some (Sentinel context_Canceled)" "(4, 0)", OF v] by (auto simp del: run_turns.simps)
qed

end
