(* ===== verification/Reconcile.thy ===== *)
theory Reconcile
  imports Work Gpu
begin

text \<open>
  The infrastructure-neutral reconciler of \<^verbatim>\<open>internal/biz/reconcile/reconcile.go\<close>: its facts, its ports
  as records of functions over the state of the environment, and its two entry points. A nil port and
  an interface that the repository does not implement are \<open>None\<close>.
\<close>

record Desired =
  DesiredTenantID :: string
  DesiredServiceID :: string
  DesiredGeneration :: int

record RuntimeObject =
  BindingGeneration :: int
  ObjectKind :: string
  ObjectNamespace :: string
  ObjectName :: string
  ObjectUID :: string
  ObjectResourceVersion :: string
  ObjectRole :: string
  ExpectedUID :: string
  ExpectedResourceVersion :: string
  Missing :: bool
  Terminating :: bool

record Observation =
  ObsGeneration :: int
  ObsRuntimePhase :: string
  ObsReadyReplicas :: "32 word"
  ObsReadyGroups :: "32 word"
  ObsReadyWorkers :: "32 word"
  ObsModelReady :: bool
  ObsModelReadyKnown :: bool
  ObsPublicationPhase :: string
  ObsInvocationHealth :: string
  ObsRuntimeMode :: string
  ObsLWSUID :: string
  ObsReason :: string
  ObsObjects :: "RuntimeObject list"

record 's LeasedRepository =
  CurrentForWork :: "Item \<Rightarrow> ('s, Desired) io"
  SaveObservationForWork :: "Item \<Rightarrow> Observation \<Rightarrow> ('s, unit) io"

record 's Repository =
  Current :: "string \<Rightarrow> string \<Rightarrow> ('s, Desired) io"
  SaveObservation :: "string \<Rightarrow> string \<Rightarrow> int \<Rightarrow> Observation \<Rightarrow> ('s, unit) io"
  AsLeased :: "'s LeasedRepository option"

record 's Reconciler =
  ReconcilerRepository :: "'s Repository option"
  ReconcilerRuntime :: "(Desired \<Rightarrow> ('s, Observation) io) option"

text \<open>The event-driven entry point; the source dereferences both ports without a check.\<close>

definition Reconcile ::
  "'s Repository \<Rightarrow> (Desired \<Rightarrow> ('s, Observation) io) \<Rightarrow> string \<Rightarrow> string \<Rightarrow> ('s, unit) io"
where
  "Reconcile repo ensure tenantID serviceID =
     bindE (Current repo tenantID serviceID) (\<lambda>desired.
     bindE (ensure desired) (\<lambda>observation.
       if ObsGeneration observation \<noteq> DesiredGeneration desired
       then failE (Sentinel reconcile_ErrStaleGeneration)
       else SaveObservation repo tenantID serviceID (DesiredGeneration desired) observation))"

definition incomplete_item :: "Item \<Rightarrow> bool" where
  "incomplete_item item \<longleftrightarrow> ItemTenantID item = '''' \<or> ItemServiceID item = ''''
     \<or> ItemGeneration item < 1 \<or> ItemLeaseToken item = ''''"

definition Reconciler_Execute :: "'s Reconciler \<Rightarrow> Item \<Rightarrow> ('s, Result) io" where
  "Reconciler_Execute r item =
     (case (ReconcilerRepository r, ReconcilerRuntime r) of
        (Some repository, Some ensure) \<Rightarrow>
          (case AsLeased repository of
             None \<Rightarrow> failE (Sentinel ErrLeaseRepositoryRequired)
           | Some repo \<Rightarrow>
             if incomplete_item item then failE (Sentinel reconcile_ErrStaleGeneration)
             else
               bindE (CurrentForWork repo item) (\<lambda>desired.
                 if DesiredTenantID desired \<noteq> ItemTenantID item
                    \<or> DesiredServiceID desired \<noteq> ItemServiceID item
                    \<or> DesiredGeneration desired \<noteq> ItemGeneration item
                 then failE (Sentinel reconcile_ErrStaleGeneration)
                 else
                   bindE (ensure desired) (\<lambda>observation.
                     if ObsGeneration observation \<noteq> ItemGeneration item
                     then failE (Sentinel reconcile_ErrStaleGeneration)
                     else
                       bindE (SaveObservationForWork repo item observation)
                         (\<lambda>_. returnE \<lparr>ResultGeneration = ItemGeneration item\<rparr>))))
      | _ \<Rightarrow> failE (Errorf ''reconcile repository and runtime are required''))"

text \<open>
  C29: A reconciled work item only ever records an observation of the generation it was claimed for: a
  successful run has read the item's own desired state under its lease, has observed the runtime for
  that state, and has saved an observation of exactly that generation; its result carries the
  generation that the commit of the item requires.
\<close>

theorem reconcile_records_claimed_generation:
  assumes "Reconciler_Execute r item s = (Inr res, s')"
  shows "ResultGeneration res = ItemGeneration item \<and> 1 \<le> ItemGeneration item
    \<and> (\<exists>repository ensure repo desired observation s1 s2.
         ReconcilerRepository r = Some repository \<and> ReconcilerRuntime r = Some ensure
         \<and> AsLeased repository = Some repo
         \<and> CurrentForWork repo item s = (Inr desired, s1)
         \<and> DesiredTenantID desired = ItemTenantID item \<and> DesiredServiceID desired = ItemServiceID item
         \<and> DesiredGeneration desired = ItemGeneration item
         \<and> ensure desired s1 = (Inr observation, s2)
         \<and> ObsGeneration observation = ItemGeneration item
         \<and> SaveObservationForWork repo item observation s2 = (Inr (), s'))"
proof -
  obtain repository ensure where r: "ReconcilerRepository r = Some repository" "ReconcilerRuntime r = Some ensure"
    using assms by (auto simp: Reconciler_Execute_def split: option.splits)
  then obtain repo where repo: "AsLeased repository = Some repo"
    using assms by (cases "AsLeased repository") (auto simp: Reconciler_Execute_def)
  from assms show ?thesis
    unfolding Reconciler_Execute_def r repo
    by (auto simp: r repo bindE_eq_Inr incomplete_item_def split: if_splits)
qed

theorem reconcile_records_claimed_generation_witness:
  "\<exists>r :: unit Reconciler. \<exists>item res. Reconciler_Execute r item () = (Inr res, ())
     \<and> ResultGeneration res = ItemGeneration item \<and> 1 \<le> ItemGeneration item"
proof -
  let ?item = "\<lparr>ItemTenantID = ''t'', ItemServiceID = ''s'', ItemGeneration = 4, ItemDirtyVersion = 9,
    ItemLeaseToken = ''k''\<rparr>"
  let ?obs = "\<lparr>ObsGeneration = 4, ObsRuntimePhase = ''ready'', ObsReadyReplicas = 1, ObsReadyGroups = 0,
    ObsReadyWorkers = 0, ObsModelReady = True, ObsModelReadyKnown = True, ObsPublicationPhase = '''',
    ObsInvocationHealth = '''', ObsRuntimeMode = ''deployment'', ObsLWSUID = '''', ObsReason = '''', ObsObjects = []\<rparr>"
  let ?desired = "\<lparr>DesiredTenantID = ''t'', DesiredServiceID = ''s'', DesiredGeneration = 4\<rparr>"
  let ?repo = "\<lparr>Current = \<lambda>t i. returnE ?desired, SaveObservation = \<lambda>t i g obs. returnE (),
    AsLeased = Some \<lparr>CurrentForWork = \<lambda>item. returnE ?desired, SaveObservationForWork = \<lambda>item obs. returnE ()\<rparr>\<rparr>"
  let ?r = "\<lparr>ReconcilerRepository = Some ?repo, ReconcilerRuntime = Some (\<lambda>d. returnE ?obs)\<rparr> :: unit Reconciler"
  have run: "Reconciler_Execute ?r ?item () = (Inr \<lparr>ResultGeneration = 4\<rparr>, ())"
    by (simp add: Reconciler_Execute_def incomplete_item_def)
  from reconcile_records_claimed_generation [OF this] run show ?thesis by blast
qed

end
