(* ===== verification/Messages.thy ===== *)
theory Messages
  imports Operation_Machine Resources
begin

text \<open>
  JSON values, the messages of \<^verbatim>\<open>api/inference/v1/inference.proto\<close> that the commands and the reads
  build, and the accepted image selection of \<^verbatim>\<open>internal/biz/inference/image.go\<close>. A message field that
  is not set is \<open>None\<close>, \<open>0\<close> or the empty string, as in Go.
\<close>

section \<open>JSON\<close>

text \<open>A JSON document. A \<^verbatim>\<open>jsonb\<close> object has each key once.\<close>

datatype json =
    JNull
  | JBool bool
  | JNumber string
  | JString string
  | JArray "json list"
  | JObject "(string \<times> json) list"

text \<open>\<^verbatim>\<open>a || b\<close> of two \<^verbatim>\<open>jsonb\<close> objects: the right one wins.\<close>

definition json_overlay :: "json \<Rightarrow> json \<Rightarrow> json" where
  "json_overlay a b =
     (case (a, b) of
        (JObject xs, JObject ys) \<Rightarrow> JObject (filter (\<lambda>kv. fst kv \<notin> fst ` set ys) xs @ ys)
      | _ \<Rightarrow> b)"

definition json_field :: "json \<Rightarrow> string \<Rightarrow> json option" where
  "json_field j k = (case j of JObject xs \<Rightarrow> map_of xs k | _ \<Rightarrow> None)"

lemma map_of_filter_keys:
  "map_of (filter (\<lambda>kv. fst kv \<notin> A) xs) k = (if k \<in> A then None else map_of xs k)"
  by (induction xs) auto

lemma json_field_overlay:
  "json_field (json_overlay (JObject xs) (JObject ys)) k =
     (case map_of ys k of None \<Rightarrow> map_of xs k | Some v \<Rightarrow> Some v)"
proof (cases "k \<in> fst ` set ys")
  case True
  then obtain v where "map_of ys k = Some v" by (metis map_of_eq_None_iff not_None_eq)
  with True show ?thesis
    by (simp add: json_field_def json_overlay_def map_add_def map_of_filter_keys)
next
  case False
  then have "map_of ys k = None" by (simp add: map_of_eq_None_iff)
  with False show ?thesis
    by (simp add: json_field_def json_overlay_def map_add_def map_of_filter_keys split: option.split)
qed

section \<open>Messages\<close>

record EndpointSpec =
  ep_ContainerPort :: "32 word"
  ep_ServicePort :: "32 word"
  ep_TargetPort :: string
  ep_Protocol :: string

datatype RuntimeMode =
    RUNTIME_MODE_UNSPECIFIED
  | RUNTIME_MODE_DEPLOYMENT
  | RUNTIME_MODE_LEADER_WORKER_SET

record RuntimeSpecMsg =
  rm_Mode :: RuntimeMode
  rm_WorkerReplicas :: "32 word"
  rm_Endpoint :: "EndpointSpec option"
  rm_Provider :: string

record ModelArtifact =
  ma_Provider :: string
  ma_Reference :: string
  ma_Sha256 :: string

record EngineSpec =
  en_Type :: string
  en_Image :: string
  en_Command :: string
  en_ImageId :: string
  en_ImageScope :: string

record ServiceMsg =
  sm_Id :: string
  sm_Name :: string
  sm_DesiredState :: string
  sm_Generation :: int
  sm_ModelVersionId :: string
  sm_Resource :: "Spec option"
  sm_Replicas :: "32 word"
  sm_RuntimePhase :: string
  sm_PublicationPhase :: string
  sm_InvocationHealth :: string
  sm_ObservedAt :: "time option"
  sm_Runtime :: "RuntimeSpecMsg option"
  sm_ModelArtifact :: "ModelArtifact option"
  sm_Engine :: "EngineSpec option"
  sm_AppliedGeneration :: int
  sm_ServedModelName :: string

record OperationMsg =
  om_Id :: string
  om_ServiceId :: string
  om_Kind :: string
  om_Phase :: string
  om_Step :: string
  om_TargetGeneration :: int
  om_ErrorCode :: string
  om_ErrorMessage :: string
  om_CreatedAt :: "time option"
  om_CompletedAt :: "time option"

record DurableOwnerAck =
  ack_OperationId :: string
  ack_ResourceId :: string
  ack_Accepted :: bool

record OperationResponse =
  rsp_Resource :: "ServiceMsg option"
  rsp_Operation :: "OperationMsg option"
  rsp_DurableOwnerAck :: "DurableOwnerAck option"

definition empty_service :: ServiceMsg where
  "empty_service = \<lparr>sm_Id = '''', sm_Name = '''', sm_DesiredState = '''', sm_Generation = 0,
     sm_ModelVersionId = '''', sm_Resource = None, sm_Replicas = 0, sm_RuntimePhase = '''',
     sm_PublicationPhase = '''', sm_InvocationHealth = '''', sm_ObservedAt = None, sm_Runtime = None,
     sm_ModelArtifact = None, sm_Engine = None, sm_AppliedGeneration = 0, sm_ServedModelName = ''''\<rparr>"

definition empty_operation :: OperationMsg where
  "empty_operation = \<lparr>om_Id = '''', om_ServiceId = '''', om_Kind = '''', om_Phase = '''', om_Step = '''',
     om_TargetGeneration = 0, om_ErrorCode = '''', om_ErrorMessage = '''', om_CreatedAt = None,
     om_CompletedAt = None\<rparr>"

definition owner_ack :: "string \<Rightarrow> string \<Rightarrow> DurableOwnerAck" where
  "owner_ack operation resource =
     \<lparr>ack_OperationId = operation, ack_ResourceId = resource, ack_Accepted = True\<rparr>"

text \<open>\<^verbatim>\<open>response.GetOperation().GetId()\<close> and \<^verbatim>\<open>response.GetResource().GetId()\<close>: the getters of a nil message return the zero value.\<close>

definition response_operation_id :: "OperationResponse \<Rightarrow> string" where
  "response_operation_id r = (case rsp_Operation r of None \<Rightarrow> '''' | Some m \<Rightarrow> om_Id m)"

definition response_resource_id :: "OperationResponse \<Rightarrow> string" where
  "response_resource_id r = (case rsp_Resource r of None \<Rightarrow> '''' | Some m \<Rightarrow> sm_Id m)"

text \<open>A stored snapshot of a response: the message that it encodes, or a text that is not one.\<close>

datatype snapshot_json = SnapshotResponse OperationResponse | SnapshotOther string

section \<open>Image selection\<close>

record ImageSelection =
  im_ImageID :: string
  im_Scope :: string
  im_OS :: string
  im_Architecture :: string
  im_Variant :: string
  im_RegistryAuthority :: string
  im_PullSecretRef :: string

definition image_json :: "ImageSelection \<Rightarrow> json" where
  "image_json im = JObject ([(''image_id'', JString (im_ImageID im)), (''scope'', JString (im_Scope im)),
     (''os'', JString (im_OS im)), (''architecture'', JString (im_Architecture im))]
     @ (if im_Variant im = '''' then [] else [(''variant'', JString (im_Variant im))])
     @ [(''registry_authority'', JString (im_RegistryAuthority im)),
        (''pull_secret_ref'', JString (im_PullSecretRef im))])"

text \<open>Decoding a string field: a missing field and \<^verbatim>\<open>null\<close> leave the zero value, another type is an error.\<close>

definition json_string :: "json \<Rightarrow> string \<Rightarrow> string result" where
  "json_string j k =
     (case json_field j k of
        None \<Rightarrow> Inr ''''
      | Some JNull \<Rightarrow> Inr ''''
      | Some (JString s) \<Rightarrow> Inr s
      | Some _ \<Rightarrow> Inl (Errorf (''json: cannot unmarshal value into Go struct field '' @ k)))"

fun json_strings :: "json \<Rightarrow> string list \<Rightarrow> string list result" where
  "json_strings j [] = Inr []"
| "json_strings j (k # ks) =
     (case json_string j k of
        Inl e \<Rightarrow> Inl e
      | Inr s \<Rightarrow> (case json_strings j ks of Inl e \<Rightarrow> Inl e | Inr ss \<Rightarrow> Inr (s # ss)))"

definition image_fields :: "string list" where
  "image_fields = [''image_id'', ''scope'', ''os'', ''architecture'', ''variant'', ''registry_authority'',
     ''pull_secret_ref'']"

definition decode_image :: "json \<Rightarrow> ImageSelection option result" where
  "decode_image j =
     (case j of
        JNull \<Rightarrow> Inr None
      | JObject _ \<Rightarrow>
        (case json_strings j image_fields of
           Inr [i, sc, os, arch, variant, registry, pull] \<Rightarrow>
             Inr (Some \<lparr>im_ImageID = i, im_Scope = sc, im_OS = os, im_Architecture = arch,
                       im_Variant = variant, im_RegistryAuthority = registry, im_PullSecretRef = pull\<rparr>)
         | Inl e \<Rightarrow> Inl e
         | _ \<Rightarrow> Inr None)
      | _ \<Rightarrow> Inl (Errorf ''json: cannot unmarshal value into Go struct field image_selection''))"

text \<open>The image selection of a specification document.\<close>

definition spec_image :: "json \<Rightarrow> ImageSelection option result" where
  "spec_image spec =
     (case spec of
        JNull \<Rightarrow> Inr None
      | JObject _ \<Rightarrow> (case json_field spec ''image_selection'' of None \<Rightarrow> Inr None | Some j \<Rightarrow> decode_image j)
      | _ \<Rightarrow> Inl (Errorf ''json: cannot unmarshal value into Go value''))"

lemma decode_image_json [simp]: "decode_image (image_json im) = Inr (Some im)"
  by (cases "im_Variant im = ''''")
    (simp_all add: decode_image_def image_json_def image_fields_def json_string_def json_field_def)

end
