(* ===== verification/Database.thy ===== *)
theory Database
  imports Operation_Machine Resources Reconcile Messages
begin

text \<open>
  The PostgreSQL tables of the control plane as lists of rows, one record per sqlc row type of
  \<^verbatim>\<open>internal/data/postgres/models.go\<close>, with the constraints of the migrations that the code relies on,
  and the predicates that the statements share. A UUID is its canonical text, a timestamp an integer
  number of microseconds; a text column with named constants is the datatype of these constants; a
  JSON column is the value that it encodes. Columns that no statement reads or writes are left out.
  The field \<open>now\<close> is the reading of \<open>clock_timestamp()\<close>: a statement and a transaction read it once.
  Counters are unbounded, PostgreSQL raises an error where bigint would overflow.
\<close>

section \<open>Rows\<close>

record InferenceService =
  s_tenant :: uuid
  s_id :: uuid
  s_name :: string
  s_desired_state :: string
  s_desired_generation :: int
  s_current_operation :: "uuid option"
  s_deleted_at :: "time option"
  s_created_at :: time
  s_updated_at :: time
  s_applied_generation :: int

record InferenceResourceWork =
  w_tenant :: uuid
  w_service :: uuid
  w_dirty :: int
  w_acknowledged :: int
  w_next_run_at :: "time option"
  w_attempt :: int
  w_lease_owner :: "string option"
  w_lease_until :: "time option"
  w_lease_token :: "uuid option"
  w_last_error :: string
  w_updated_at :: time

record InferenceOperation =
  o_tenant :: uuid
  o_id :: uuid
  o_service :: uuid
  o_kind :: OperationKind
  o_phase :: OperationPhase
  o_step :: OperationStep
  o_target_generation :: int
  o_request_hash :: string
  o_attempt :: int
  o_retry_at :: "time option"
  o_lease_owner :: "string option"
  o_lease_until :: "time option"
  o_lease_token :: "uuid option"
  o_error_code :: string
  o_error_message :: string
  o_result_snapshot :: "snapshot_json option"
  o_created_at :: time
  o_updated_at :: time
  o_completed_at :: "time option"

record InferenceSpec =
  sp_tenant :: uuid
  sp_id :: uuid
  sp_service :: uuid
  sp_generation :: int
  sp_model_id :: "uuid option"
  sp_model_version_id :: uuid
  sp_artifact_provider :: string
  sp_artifact_ref :: string
  sp_artifact_sha256 :: string
  sp_image_ref :: string
  sp_served_model_name :: string
  sp_engine_runtime :: string
  sp_command_argv :: json
  sp_resources :: Spec
  sp_replicas :: "32 word"
  sp_spec_json :: json
  sp_created_at :: time
  sp_runtime_mode :: string
  sp_worker_replicas :: "32 word"
  sp_endpoint_container_port :: "32 word option"
  sp_endpoint_service_port :: "32 word option"
  sp_endpoint_target_port :: "string option"
  sp_endpoint_protocol :: "string option"
  sp_runtime_provider :: string
  sp_gpu_request :: "Request option"
  sp_gpu_plan :: "Snapshot option"
  sp_gpu_plan_digest :: "string option"

record InferenceRuntime =
  rt_tenant :: uuid
  rt_service :: uuid
  rt_generation :: int
  rt_phase :: string
  rt_ready_replicas :: "32 word"
  rt_model_ready :: bool
  rt_publication_phase :: string
  rt_invocation_health :: string
  rt_observed_at :: "time option"
  rt_stale_after :: "time option"
  rt_reason :: string
  rt_updated_at :: time
  rt_mode :: string
  rt_ready_groups :: "32 word"
  rt_ready_workers :: "32 word"
  rt_lws_uid :: string
  rt_model_ready_known :: bool

record InferenceQuotaReservation =
  q_tenant :: uuid
  q_service :: uuid
  q_operation :: uuid
  q_generation :: int
  q_reservation_id :: string
  q_requested :: Spec
  q_state :: string
  q_last_error :: string
  q_created_at :: time
  q_updated_at :: time

record InferencePublication =
  p_tenant :: uuid
  p_service :: uuid
  p_generation :: int
  p_desired_phase :: string
  p_observed_phase :: string
  p_invocation_url :: string
  p_last_error :: string
  p_observed_at :: "time option"
  p_updated_at :: time

record InferenceRuntimeBinding =
  b_tenant :: uuid
  b_service :: uuid
  b_generation :: int
  b_kind :: string
  b_namespace :: string
  b_name :: string
  b_uid :: string
  b_resource_version :: string
  b_role :: string
  b_observed_at :: time

record InferenceAuditEvent =
  a_tenant :: uuid
  a_event_id :: uuid
  a_service :: uuid
  a_operation :: "uuid option"
  a_generation :: int
  a_event_type :: string
  a_actor :: string
  a_request_id :: string
  a_before_state :: str_map
  a_after_state :: str_map
  a_payload :: str_map
  a_created_at :: time

record InferenceObservationEvent =
  oe_tenant :: uuid
  oe_event_id :: uuid
  oe_service :: uuid
  oe_generation :: int
  oe_source_kind :: string
  oe_source_uid :: string
  oe_source_resource_version :: string
  oe_payload :: "Observation \<times> RuntimeObject option"

record InferenceIdempotencyRequest =
  i_tenant :: uuid
  i_method :: string
  i_key :: string
  i_payload_hash :: string
  i_operation :: uuid
  i_created_at :: time
  i_expires_at :: "time option"

record InferenceManagedGpuResource =
  g_tenant :: uuid
  g_resource :: uuid
  g_create_operation :: uuid
  g_owner_service :: string
  g_original_context :: RefundContext
  g_business_payload :: "string option"
  g_business_payload_digest :: string
  g_create_request_hash :: string
  g_create_payload :: "string option"
  g_delete_operation :: "uuid option"
  g_closing :: bool
  g_resource_class :: string
  g_create_command_digest :: string

record InferenceManagedGpuCommand =
  c_tenant :: uuid
  c_operation :: uuid
  c_resource :: uuid
  c_create_operation :: uuid
  c_kind :: string
  c_payload_hash :: string
  c_request_hash :: string
  c_command_payload :: string
  c_response_snapshot :: snapshot_json
  c_durable_ack :: DurableOwnerAck
  c_execution_intent :: string
  c_created_at :: time
  c_actor :: string
  c_close_state :: string
  c_lease_token :: "uuid option"
  c_lease_until :: "time option"
  c_retry_at :: time
  c_attempt :: int
  c_close_error :: string
  c_release_evidence_id :: string
  c_release_evidence_digest :: string
  c_release_report :: "ReleaseNotification option"
  c_completed_at :: "time option"

record InferenceNamespacePlacement =
  n_tenant :: uuid
  n_service :: uuid
  n_namespace_name :: string
  n_namespace_uid :: string

record managedGPUReleaseScope =
  ScopeSealedAt :: string
  ScopePods :: "PodRef list"

text \<open>
  The \<^verbatim>\<open>pods\<close> column is JSON: the object that the store writes, or the bare array of rows written
  before the seal was introduced.
\<close>

datatype scope_payload = ScopeObject managedGPUReleaseScope | ScopeArray "PodRef list"

record InferenceManagedGpuReleaseScope =
  r_tenant :: uuid
  r_service :: uuid
  r_operation :: uuid
  r_scope :: scope_payload

record db =
  now :: time
  services :: "InferenceService list"
  works :: "InferenceResourceWork list"
  operations :: "InferenceOperation list"
  specs :: "InferenceSpec list"
  runtimes :: "InferenceRuntime list"
  quotas :: "InferenceQuotaReservation list"
  publications :: "InferencePublication list"
  bindings :: "InferenceRuntimeBinding list"
  audits :: "InferenceAuditEvent list"
  observations :: "InferenceObservationEvent list"
  idempotency :: "InferenceIdempotencyRequest list"
  managed :: "InferenceManagedGpuResource list"
  scopes :: "InferenceManagedGpuReleaseScope list"
  commands :: "InferenceManagedGpuCommand list"
  placements :: "InferenceNamespacePlacement list"

section \<open>Lookups\<close>

definition find_service :: "db \<Rightarrow> uuid \<Rightarrow> uuid \<Rightarrow> InferenceService option" where
  "find_service d t i = find (\<lambda>s. s_tenant s = t \<and> s_id s = i) (services d)"

definition find_work :: "db \<Rightarrow> uuid \<Rightarrow> uuid \<Rightarrow> InferenceResourceWork option" where
  "find_work d t i = find (\<lambda>w. w_tenant w = t \<and> w_service w = i) (works d)"

definition find_operation :: "db \<Rightarrow> uuid \<Rightarrow> uuid \<Rightarrow> InferenceOperation option" where
  "find_operation d t i = find (\<lambda>op. o_tenant op = t \<and> o_id op = i) (operations d)"

text \<open>The lease of a row is live: \<open>lease_until > clock_timestamp()\<close>.\<close>

definition lease_live :: "db \<Rightarrow> InferenceResourceWork \<Rightarrow> bool" where
  "lease_live d w = (case w_lease_until w of None \<Rightarrow> False | Some u \<Rightarrow> u > now d)"

text \<open>A worker with the token holds the live lease of a service: the condition of every fenced write.\<close>

definition holds_lease :: "db \<Rightarrow> uuid \<Rightarrow> uuid \<Rightarrow> uuid \<Rightarrow> bool" where
  "holds_lease d t i token =
     (case find_work d t i of
        None \<Rightarrow> False
      | Some w \<Rightarrow> w_lease_token w = Some token \<and> lease_live d w)"

text \<open>The operation is the current one of its service, at the service's desired generation.\<close>

definition is_current :: "db \<Rightarrow> InferenceOperation \<Rightarrow> bool" where
  "is_current d op =
     (case find_service d (o_tenant op) (o_service op) of
        None \<Rightarrow> False
      | Some s \<Rightarrow> s_current_operation s = Some (o_id op)
               \<and> s_desired_generation s = o_target_generation op)"

section \<open>Constraints\<close>

definition s_key :: "InferenceService \<Rightarrow> uuid \<times> uuid" where "s_key s = (s_tenant s, s_id s)"
definition w_key :: "InferenceResourceWork \<Rightarrow> uuid \<times> uuid" where "w_key w = (w_tenant w, w_service w)"
definition o_key :: "InferenceOperation \<Rightarrow> uuid \<times> uuid" where "o_key op = (o_tenant op, o_id op)"

lemmas key_defs = s_key_def w_key_def o_key_def

text \<open>
  Primary keys of the tables that the fences join, the foreign key of a work row and the CHECK
  constraints of the work table.
\<close>

definition wf_db :: "db \<Rightarrow> bool" where
  "wf_db d \<longleftrightarrow>
     keyed s_key (services d) \<and> keyed w_key (works d) \<and> keyed o_key (operations d)
     \<and> (\<forall>w \<in> set (works d). w_key w \<in> s_key ` set (services d)
          \<and> 0 \<le> w_dirty w \<and> w_acknowledged w \<le> w_dirty w \<and> 0 \<le> w_attempt w)"

lemma find_service_eq:
  "wf_db d \<Longrightarrow> find_service d t i = Some s \<longleftrightarrow> s \<in> set (services d) \<and> s_key s = (t, i)"
  unfolding find_service_def wf_db_def
  by (auto simp: s_key_def dest: find_Some_mem intro!: find_keyed [of s_key])

lemma find_work_eq:
  "wf_db d \<Longrightarrow> find_work d t i = Some w \<longleftrightarrow> w \<in> set (works d) \<and> w_key w = (t, i)"
  unfolding find_work_def wf_db_def
  by (auto simp: w_key_def dest: find_Some_mem intro!: find_keyed [of w_key])

lemma find_operation_eq:
  "wf_db d \<Longrightarrow> find_operation d t i = Some op \<longleftrightarrow> op \<in> set (operations d) \<and> o_key op = (t, i)"
  unfolding find_operation_def wf_db_def
  by (auto simp: o_key_def dest: find_Some_mem intro!: find_keyed [of o_key])

lemma find_service_None: "find_service d t i = None \<longleftrightarrow> (t, i) \<notin> s_key ` set (services d)"
  by (auto simp: find_service_def find_eq_None s_key_def)

lemma find_work_None: "find_work d t i = None \<longleftrightarrow> (t, i) \<notin> w_key ` set (works d)"
  by (auto simp: find_work_def find_eq_None w_key_def)

end
