(* ===== verification/Work_Store.thy ===== *)
theory Work_Store
  imports Database Work
begin

text \<open>
  The PostgreSQL work store: the statements of \<^verbatim>\<open>internal/data/postgres/work.sql.go\<close> (with the two work
  upserts of \<^verbatim>\<open>inference.sql.go\<close>) and \<^verbatim>\<open>internal/data/postgres/work_store.go\<close>. \<open>uuid_Parse\<close> is the UUID
  parser of the library; a claim takes the token that \<open>uuid.New()\<close> returned and the set of rows that
  concurrent transactions have locked, which \<open>SKIP LOCKED\<close> passes over. Durations are in microseconds.
  The store is constructed with a pool, so the nil checks of its methods are left out.
\<close>

section \<open>Statements\<close>

text \<open>The WHERE clause that a claim and the due scan share.\<close>

definition due :: "db \<Rightarrow> InferenceResourceWork \<Rightarrow> bool" where
  "due d w \<longleftrightarrow>
     (case find_service d (w_tenant w) (w_service w) of
        None \<Rightarrow> False | Some s \<Rightarrow> s_deleted_at s = None)
     \<and> (case w_lease_until w of None \<Rightarrow> True | Some u \<Rightarrow> u \<le> now d)
     \<and> (case w_next_run_at w of
          Some n \<Rightarrow> n \<le> now d
        | None \<Rightarrow> w_acknowledged w < w_dirty w)"

text \<open>\<open>ORDER BY w.next_run_at NULLS FIRST, w.updated_at, w.service_id\<close>.\<close>

definition claim_order :: "InferenceResourceWork \<Rightarrow> time option \<times> time \<times> uuid" where
  "claim_order w = (w_next_run_at w, w_updated_at w, w_service w)"

record ClaimResourceWorkRow =
  cr_tenant :: uuid
  cr_service :: uuid
  cr_dirty :: int
  cr_generation :: int
  cr_token :: uuid

definition desired_generation_of :: "db \<Rightarrow> InferenceResourceWork \<Rightarrow> int" where
  "desired_generation_of d w =
     (case find_service d (w_tenant w) (w_service w) of
        None \<Rightarrow> 0 | Some s \<Rightarrow> s_desired_generation s)"

definition ClaimResourceWork ::
  "(uuid \<times> uuid) set \<Rightarrow> string \<Rightarrow> uuid \<Rightarrow> duration \<Rightarrow> uuid \<Rightarrow> (db, ClaimResourceWorkRow) io"
where
  "ClaimResourceWork locked owner token lease tenant d =
     (case first_by claim_order
             (filter (\<lambda>w. w_tenant w = tenant \<and> due d w \<and> w_key w \<notin> locked) (works d)) of
        None \<Rightarrow> (Inl (Sentinel ErrNoRows), d)
      | Some c \<Rightarrow>
        (Inr \<lparr>cr_tenant = w_tenant c, cr_service = w_service c, cr_dirty = w_dirty c,
              cr_generation = desired_generation_of d c, cr_token = token\<rparr>,
         d\<lparr>works := update_where (\<lambda>w. w_key w = w_key c)
              (\<lambda>w. w\<lparr>w_lease_owner := Some owner, w_lease_token := Some token,
                     w_lease_until := Some (now d + lease), w_attempt := w_attempt w + 1,
                     w_updated_at := now d\<rparr>) (works d)\<rparr>))"

definition commit_matches ::
  "db \<Rightarrow> int \<Rightarrow> uuid \<Rightarrow> uuid \<Rightarrow> int \<Rightarrow> uuid \<Rightarrow> InferenceResourceWork \<Rightarrow> bool"
where
  "commit_matches d claimedDirty tenant service generation token w \<longleftrightarrow>
     w_tenant w = tenant \<and> w_service w = service
     \<and> (case find_service d (w_tenant w) (w_service w) of
          None \<Rightarrow> False | Some s \<Rightarrow> s_desired_generation s = generation)
     \<and> w_lease_token w = Some token \<and> lease_live d w
     \<and> 0 \<le> claimedDirty \<and> claimedDirty \<le> w_dirty w"

definition service_deleted :: "db \<Rightarrow> InferenceResourceWork \<Rightarrow> bool" where
  "service_deleted d w =
     (case find_service d (w_tenant w) (w_service w) of
        None \<Rightarrow> False | Some s \<Rightarrow> s_deleted_at s \<noteq> None)"

definition CommitResourceWork ::
  "int \<Rightarrow> duration \<Rightarrow> uuid \<Rightarrow> uuid \<Rightarrow> int \<Rightarrow> uuid \<Rightarrow> (db, nat) io"
where
  "CommitResourceWork claimedDirty observe tenant service generation token d =
     (let p = commit_matches d claimedDirty tenant service generation token in
      (Inr (rows_where p (works d)),
       d\<lparr>works := update_where p
            (\<lambda>w. w\<lparr>w_acknowledged := max (w_acknowledged w) claimedDirty,
                   w_next_run_at := (if service_deleted d w then None
                                     else if w_dirty w > claimedDirty then Some (now d)
                                     else Some (now d + observe)),
                   w_attempt := 0, w_lease_owner := None, w_lease_until := None,
                   w_lease_token := None, w_last_error := '''', w_updated_at := now d\<rparr>)
            (works d)\<rparr>))"

definition retry_matches :: "db \<Rightarrow> uuid \<Rightarrow> uuid \<Rightarrow> int \<Rightarrow> uuid \<Rightarrow> InferenceResourceWork \<Rightarrow> bool" where
  "retry_matches d tenant service generation token w \<longleftrightarrow>
     w_tenant w = tenant \<and> w_service w = service
     \<and> (case find_service d (w_tenant w) (w_service w) of
          None \<Rightarrow> False | Some s \<Rightarrow> s_deleted_at s = None \<and> s_desired_generation s = generation)
     \<and> w_lease_token w = Some token \<and> lease_live d w"

text \<open>
  PostgreSQL stores text as UTF-8 and refuses other byte sequences and the zero byte:
  \<open>utf8_valid\<close> are the well-formed sequences.
\<close>

definition cont_byte :: "char \<Rightarrow> bool" where
  "cont_byte c \<longleftrightarrow> 128 \<le> (of_char c :: nat) \<and> (of_char c :: nat) \<le> 191"

fun utf8_valid :: "string \<Rightarrow> bool" where
  "utf8_valid [] = True"
| "utf8_valid (a # s) =
     (let n = (of_char a :: nat) in
      if 1 \<le> n \<and> n \<le> 127 then utf8_valid s
      else if 194 \<le> n \<and> n \<le> 223 then
        (case s of b # r \<Rightarrow> cont_byte b \<and> utf8_valid r | _ \<Rightarrow> False)
      else if 224 \<le> n \<and> n \<le> 239 then
        (case s of b # c # r \<Rightarrow> cont_byte b \<and> cont_byte c
            \<and> (n = 224 \<longrightarrow> 160 \<le> (of_char b :: nat)) \<and> (n = 237 \<longrightarrow> (of_char b :: nat) \<le> 159)
            \<and> utf8_valid r
         | _ \<Rightarrow> False)
      else if 240 \<le> n \<and> n \<le> 244 then
        (case s of b # c # e # r \<Rightarrow> cont_byte b \<and> cont_byte c \<and> cont_byte e
            \<and> (n = 240 \<longrightarrow> 144 \<le> (of_char b :: nat)) \<and> (n = 244 \<longrightarrow> (of_char b :: nat) \<le> 143)
            \<and> utf8_valid r
         | _ \<Rightarrow> False)
      else False)"

definition RetryResourceWork ::
  "duration \<Rightarrow> string \<Rightarrow> uuid \<Rightarrow> uuid \<Rightarrow> int \<Rightarrow> uuid \<Rightarrow> (db, nat) io"
where
  "RetryResourceWork retryAfter errorCode tenant service generation token d =
     (if \<not> utf8_valid errorCode then
        (Inl (PgError ''22021'' ''invalid byte sequence for encoding UTF8''), d)
      else
        let p = retry_matches d tenant service generation token in
        (Inr (rows_where p (works d)),
         d\<lparr>works := update_where p
              (\<lambda>w. w\<lparr>w_next_run_at := Some (now d + retryAfter), w_lease_owner := None,
                     w_lease_until := None, w_lease_token := None, w_last_error := errorCode,
                     w_updated_at := now d\<rparr>)
              (works d)\<rparr>))"

definition ReleaseResourceWorkLease :: "uuid \<Rightarrow> uuid \<Rightarrow> (db, nat) io" where
  "ReleaseResourceWorkLease tenant service d =
     (let p = (\<lambda>w. w_key w = (tenant, service)) in
      (Inr (rows_where p (works d)),
       d\<lparr>works := update_where p
            (\<lambda>w. w\<lparr>w_next_run_at := Some (now d), w_lease_owner := None, w_lease_until := None,
                   w_lease_token := None, w_updated_at := now d\<rparr>)
            (works d)\<rparr>))"

definition new_work :: "db \<Rightarrow> uuid \<Rightarrow> uuid \<Rightarrow> int \<Rightarrow> InferenceResourceWork" where
  "new_work d tenant service dirty =
     \<lparr>w_tenant = tenant, w_service = service, w_dirty = dirty, w_acknowledged = 0,
      w_next_run_at = Some (now d), w_attempt = 0, w_lease_owner = None, w_lease_until = None,
      w_lease_token = None, w_last_error = '''', w_updated_at = now d\<rparr>"

definition work_check_error :: error where
  "work_check_error = PgError ''23514''
     ''new row for relation inference_resource_work violates check constraint''"

definition work_fk_error :: error where
  "work_fk_error = PgError ''23503''
     ''insert or update on table inference_resource_work violates foreign key constraint''"

text \<open>The CHECK constraints of the proposed row are tested before the conflict, the foreign key after.\<close>

definition UpsertResourceWork :: "uuid \<Rightarrow> uuid \<Rightarrow> int \<Rightarrow> (db, unit) io" where
  "UpsertResourceWork tenant service dirty d =
     (if dirty < 0 then (Inl work_check_error, d)
      else if find_work d tenant service \<noteq> None then
        (Inr (), d\<lparr>works := update_where (\<lambda>w. w_key w = (tenant, service))
            (\<lambda>w. w\<lparr>w_dirty := max (w_dirty w + 1) dirty, w_next_run_at := Some (now d),
                   w_updated_at := now d\<rparr>) (works d)\<rparr>)
      else if find_service d tenant service = None then (Inl work_fk_error, d)
      else (Inr (), d\<lparr>works := works d @ [new_work d tenant service dirty]\<rparr>))"

definition EnsureResourceWork :: "uuid \<Rightarrow> uuid \<Rightarrow> int \<Rightarrow> (db, unit) io" where
  "EnsureResourceWork tenant service dirty d =
     (if dirty < 0 then (Inl work_check_error, d)
      else if find_work d tenant service \<noteq> None then (Inr (), d)
      else if find_service d tenant service = None then (Inl work_fk_error, d)
      else (Inr (), d\<lparr>works := works d @ [new_work d tenant service dirty]\<rparr>))"

definition ListTenantScopes :: "db \<Rightarrow> uuid list" where
  "ListTenantScopes d = sort (remdups (map s_tenant (filter (\<lambda>s. s_deleted_at s = None) (services d))))"

definition ListUndeletedServices :: "uuid \<Rightarrow> db \<Rightarrow> InferenceService list" where
  "ListUndeletedServices tenant d =
     sort_key (\<lambda>s. (s_updated_at s, s_id s))
       (filter (\<lambda>s. s_tenant s = tenant \<and> s_deleted_at s = None) (services d))"

definition ListDueResourceWork :: "uuid \<Rightarrow> db \<Rightarrow> InferenceResourceWork list" where
  "ListDueResourceWork tenant d =
     sort_key claim_order (filter (\<lambda>w. w_tenant w = tenant \<and> due d w) (works d))"

definition GetLeasedDesired :: "uuid \<Rightarrow> uuid \<Rightarrow> uuid \<Rightarrow> (db, InferenceService) io" where
  "GetLeasedDesired tenant service token d =
     (if holds_lease d tenant service token then
        (case find_service d tenant service of
           None \<Rightarrow> (Inl (Sentinel ErrNoRows), d) | Some s \<Rightarrow> (Inr s, d))
      else (Inl (Sentinel ErrNoRows), d))"

record MetricsSnapshot =
  DueWork :: nat
  OldestWorkAge :: duration
  StaleObservations :: nat

definition scheduled_due :: "db \<Rightarrow> time list" where
  "scheduled_due d = filter (\<lambda>n. n \<le> now d) (List.map_filter w_next_run_at (works d))"

definition stale_runtime :: "db \<Rightarrow> InferenceRuntime \<Rightarrow> bool" where
  "stale_runtime d rt \<longleftrightarrow>
     (case find_service d (rt_tenant rt) (rt_service rt) of
        None \<Rightarrow> False | Some s \<Rightarrow> s_deleted_at s = None)
     \<and> (case rt_stale_after rt of None \<Rightarrow> False | Some t \<Rightarrow> t \<le> now d)"

definition GetWorkMetrics :: "db \<Rightarrow> MetricsSnapshot" where
  "GetWorkMetrics d =
     \<lparr>DueWork = length (scheduled_due d),
      OldestWorkAge = (if scheduled_due d = [] then 0 else now d - Min (set (scheduled_due d))),
      StaleObservations = length (filter (stale_runtime d) (runtimes d))\<rparr>"

section \<open>Store methods\<close>

record WorkStoreOptions =
  Owner :: string
  LeaseSeconds :: duration
  ObserveSeconds :: duration
  RetrySeconds :: duration

definition NewWorkStore :: "WorkStoreOptions \<Rightarrow> WorkStoreOptions" where
  "NewWorkStore opts =
     \<lparr>Owner = (if Owner opts = '''' then ''inference-worker'' else Owner opts),
      LeaseSeconds = (if LeaseSeconds opts \<le> 0 then 30000000 else LeaseSeconds opts),
      ObserveSeconds = (if ObserveSeconds opts \<le> 0 then 30000000 else ObserveSeconds opts),
      RetrySeconds = (if RetrySeconds opts \<le> 0 then 5000000 else RetrySeconds opts)\<rparr>"

type_synonym uuid_parser = "string \<Rightarrow> uuid result"

definition workUUID :: "uuid_parser \<Rightarrow> string \<Rightarrow> string \<Rightarrow> uuid result" where
  "workUUID uuid_Parse label v =
     (case uuid_Parse v of Inl err \<Rightarrow> Inl (Wrapf (label @ '': '') err '''') | Inr u \<Rightarrow> Inr u)"

definition tenantUUID :: "uuid_parser \<Rightarrow> string \<Rightarrow> uuid result" where
  "tenantUUID uuid_Parse v = workUUID uuid_Parse ''tenant_id'' v"

definition WorkStore_ListTenants :: "(db, string list) io" where
  "WorkStore_ListTenants d = (Inr (ListTenantScopes d), d)"

definition WorkStore_Claim ::
  "uuid_parser \<Rightarrow> WorkStoreOptions \<Rightarrow> uuid \<Rightarrow> (uuid \<times> uuid) set \<Rightarrow> string \<Rightarrow> (db, Item option) io"
where
  "WorkStore_Claim uuid_Parse opts token locked tenantID =
     bindE (liftE (tenantUUID uuid_Parse tenantID)) (\<lambda>tenant.
     bindE (tryE (ClaimResourceWork locked (Owner opts) token (LeaseSeconds opts) tenant)) (\<lambda>r.
       case r of
         Inl err \<Rightarrow> if errors_Is err ErrNoRows then returnE None else failE err
       | Inr row \<Rightarrow> returnE (Some
           \<lparr>ItemTenantID = cr_tenant row, ItemServiceID = cr_service row,
            ItemGeneration = cr_generation row, ItemDirtyVersion = cr_dirty row,
            ItemLeaseToken = cr_token row\<rparr>)))"

definition WorkStore_Notify :: "uuid_parser \<Rightarrow> string \<Rightarrow> string \<Rightarrow> int \<Rightarrow> (db, unit) io" where
  "WorkStore_Notify uuid_Parse tenantID serviceID dirtyVersion =
     bindE (liftE (tenantUUID uuid_Parse tenantID)) (\<lambda>tenant.
     bindE (liftE (workUUID uuid_Parse ''service_id'' serviceID)) (\<lambda>service.
       UpsertResourceWork tenant service dirtyVersion))"

definition WorkStore_ScanDue :: "uuid_parser \<Rightarrow> string \<Rightarrow> (db, Item list) io" where
  "WorkStore_ScanDue uuid_Parse tenantID =
     bindE (liftE (tenantUUID uuid_Parse tenantID)) (\<lambda>tenant d.
       (Inr (map (\<lambda>w. \<lparr>ItemTenantID = w_tenant w, ItemServiceID = w_service w,
                       ItemGeneration = desired_generation_of d w, ItemDirtyVersion = w_dirty w,
                       ItemLeaseToken = ''''\<rparr>) (ListDueResourceWork tenant d)), d))"

record ServiceTarget =
  TargetTenantID :: string
  TargetServiceID :: string
  TargetGeneration :: int

definition WorkStore_ScanUndeletedServices :: "uuid_parser \<Rightarrow> string \<Rightarrow> (db, ServiceTarget list) io" where
  "WorkStore_ScanUndeletedServices uuid_Parse tenantID =
     bindE (liftE (tenantUUID uuid_Parse tenantID)) (\<lambda>tenant d.
       (Inr (map (\<lambda>s. \<lparr>TargetTenantID = s_tenant s, TargetServiceID = s_id s,
                       TargetGeneration = s_desired_generation s\<rparr>)
               (ListUndeletedServices tenant d)), d))"

definition recoverTenant :: "uuid_parser \<Rightarrow> string \<Rightarrow> (db, unit) io" where
  "recoverTenant uuid_Parse tenant =
     bindE (WorkStore_ScanUndeletedServices uuid_Parse tenant) (forE (\<lambda>service.
       WorkStore_Notify uuid_Parse (TargetTenantID service) (TargetServiceID service)
         (TargetGeneration service)))"

definition WorkStore_Recover :: "uuid_parser \<Rightarrow> (db, unit) io" where
  "WorkStore_Recover uuid_Parse = bindE WorkStore_ListTenants (forE (recoverTenant uuid_Parse))"

definition repairService :: "uuid_parser \<Rightarrow> ServiceTarget \<Rightarrow> (db, unit) io" where
  "repairService uuid_Parse service =
     bindE (liftE (tenantUUID uuid_Parse (TargetTenantID service))) (\<lambda>tenantID.
     bindE (liftE (workUUID uuid_Parse ''service_id'' (TargetServiceID service))) (\<lambda>serviceUUID.
       EnsureResourceWork tenantID serviceUUID (TargetGeneration service)))"

definition WorkStore_Repair :: "uuid_parser \<Rightarrow> (db, unit) io" where
  "WorkStore_Repair uuid_Parse =
     bindE WorkStore_ListTenants (forE (\<lambda>tenant.
       bindE (WorkStore_ScanUndeletedServices uuid_Parse tenant) (forE (repairService uuid_Parse))))"

definition WorkStore_MetricsSnapshot :: "(db, MetricsSnapshot) io" where
  "WorkStore_MetricsSnapshot d = (Inr (GetWorkMetrics d), d)"

text \<open>
  Statements that end with \<^verbatim>\<open>if rows != 1 { return work.ErrLeaseLost }\<close>: the statement has run by then.
\<close>

definition one_row :: "error \<Rightarrow> (db, nat) io \<Rightarrow> (db, unit) io" where
  "one_row err stmt = bindE stmt (\<lambda>rows. if rows \<noteq> 1 then failE err else returnE ())"

definition WorkStore_Commit ::
  "uuid_parser \<Rightarrow> WorkStoreOptions \<Rightarrow> Item \<Rightarrow> Result \<Rightarrow> (db, unit) io"
where
  "WorkStore_Commit uuid_Parse opts item r =
     (if ResultGeneration r \<noteq> ItemGeneration item then failE (Sentinel work_ErrStaleGeneration)
      else
        bindE (liftE (tenantUUID uuid_Parse (ItemTenantID item))) (\<lambda>tenant.
        bindE (liftE (workUUID uuid_Parse ''service_id'' (ItemServiceID item))) (\<lambda>service.
        bindE (liftE (workUUID uuid_Parse ''lease_token'' (ItemLeaseToken item))) (\<lambda>token.
          one_row (Sentinel ErrLeaseLost)
            (CommitResourceWork (ItemDirtyVersion item) (ObserveSeconds opts) tenant service
               (ItemGeneration item) token)))))"

definition workErrorCode :: "error option \<Rightarrow> string" where
  "workErrorCode e =
     (case e of
        None \<Rightarrow> ''retry''
      | Some err \<Rightarrow>
        if errors_Is err work_ErrStaleGeneration then ''stale_generation''
        else take 120 (ToLower (error_text err)))"

definition WorkStore_Retry ::
  "uuid_parser \<Rightarrow> WorkStoreOptions \<Rightarrow> Item \<Rightarrow> error \<Rightarrow> (db, unit) io"
where
  "WorkStore_Retry uuid_Parse opts item cause =
     bindE (liftE (tenantUUID uuid_Parse (ItemTenantID item))) (\<lambda>tenant.
     bindE (liftE (workUUID uuid_Parse ''service_id'' (ItemServiceID item))) (\<lambda>service.
     bindE (liftE (workUUID uuid_Parse ''lease_token'' (ItemLeaseToken item))) (\<lambda>token.
       one_row (Sentinel ErrLeaseLost)
         (RetryResourceWork (RetrySeconds opts) (workErrorCode (Some cause)) tenant service
            (ItemGeneration item) token))))"

text \<open>The store as the worker sees it, for one claim: with the token and the locks of that claim.\<close>

definition work_store ::
  "uuid_parser \<Rightarrow> WorkStoreOptions \<Rightarrow> uuid \<Rightarrow> (uuid \<times> uuid) set \<Rightarrow> db Store"
where
  "work_store uuid_Parse opts token locked =
     \<lparr>Claim = WorkStore_Claim uuid_Parse opts token locked,
      Commit = WorkStore_Commit uuid_Parse opts,
      Retry = WorkStore_Retry uuid_Parse opts\<rparr>"

section \<open>Canonical identifiers\<close>

text \<open>
  The canonical text of a UUID and what the parser is documented to do: it returns UUIDs, written
  here as their canonical text, and reads the canonical text of a UUID as that UUID.
\<close>

definition uuid_text :: "string \<Rightarrow> bool" where
  "uuid_text s \<longleftrightarrow> length s = 36
     \<and> (\<forall>i \<in> {0..<36}. if i \<in> {8, 13, 18, 23} then s ! i = CHR ''-'' else is_lower_hex (s ! i))"

definition uuid_parser_ok :: "uuid_parser \<Rightarrow> bool" where
  "uuid_parser_ok uuid_Parse \<longleftrightarrow>
     (\<forall>s u. uuid_Parse s = Inr u \<longrightarrow> uuid_text u) \<and> (\<forall>u. uuid_text u \<longrightarrow> uuid_Parse u = Inr u)"

lemma workUUID_Inr: "workUUID uuid_Parse label v = Inr u \<longleftrightarrow> uuid_Parse v = Inr u"
  by (auto simp: workUUID_def split: sum.splits)

lemma workUUID_text: "uuid_parser_ok uuid_Parse \<Longrightarrow> uuid_text v \<Longrightarrow> workUUID uuid_Parse label v = Inr v"
  by (simp add: workUUID_Inr uuid_parser_ok_def)

lemma tenantUUID_text: "uuid_parser_ok uuid_Parse \<Longrightarrow> uuid_text v \<Longrightarrow> tenantUUID uuid_Parse v = Inr v"
  by (simp add: tenantUUID_def workUUID_text)

section \<open>What the statements do\<close>

text \<open>The statements of this theory touch the work table only.\<close>

definition works_only :: "db \<Rightarrow> db \<Rightarrow> bool" where
  "works_only d e \<longleftrightarrow> (\<exists>ws. e = d\<lparr>works := ws\<rparr>)"

lemma works_only_same:
  "works_only d e \<Longrightarrow> services e = services d \<and> now e = now d \<and> operations e = operations d"
  by (auto simp: works_only_def)

lemma works_only_refl [simp]: "works_only d d"
  unfolding works_only_def by (rule exI [of _ "works d"]) simp

lemma works_only_update [simp]: "works_only d (d\<lparr>works := ws\<rparr>)"
  by (auto simp: works_only_def)

lemma works_only_trans: "works_only d e \<Longrightarrow> works_only e f \<Longrightarrow> works_only d f"
  by (auto simp: works_only_def)

lemma wf_db_works:
  assumes "wf_db d" and "\<And>w. w_key (f w) = w_key w"
    and "\<And>w. w \<in> set (works d) \<Longrightarrow> p w \<Longrightarrow>
           0 \<le> w_dirty (f w) \<and> w_acknowledged (f w) \<le> w_dirty (f w) \<and> 0 \<le> w_attempt (f w)"
  shows "wf_db (d\<lparr>works := update_where p f (works d)\<rparr>)"
  using assms by (auto simp: wf_db_def keyed_update_where set_update_where)

lemma wf_db_insert_work:
  assumes "wf_db d" and "find_work d t s = None" and "find_service d t s \<noteq> None" and "0 \<le> dirty"
  shows "wf_db (d\<lparr>works := works d @ [new_work d t s dirty]\<rparr>)"
proof -
  have "w_key (new_work d t s dirty) = (t, s)" by (simp add: w_key_def new_work_def)
  moreover have "(t, s) \<in> s_key ` set (services d)" using assms(3) by (simp add: find_service_None)
  moreover have "(t, s) \<notin> w_key ` set (works d)" using assms(2) by (simp add: find_work_None)
  ultimately show ?thesis
    using assms(1,4) by (auto simp: wf_db_def keyed_append_one new_work_def)
qed

lemma find_service_works [simp]: "find_service (d\<lparr>works := ws\<rparr>) = find_service d"
  by (simp add: find_service_def fun_eq_iff)

lemma find_service_now [simp]: "find_service (d\<lparr>now := t\<rparr>) = find_service d"
  by (simp add: find_service_def fun_eq_iff)

lemma find_service_mem: "s \<in> set (services d) \<Longrightarrow> find_service d (s_tenant s) (s_id s) \<noteq> None"
  unfolding find_service_def find_eq_None by blast

text \<open>Updating the row of one key.\<close>

lemma find_work_update:
  assumes "\<And>w. w_key (f w) = w_key w"
  shows "find_work (d\<lparr>works := update_where (\<lambda>w. w_key w = k \<and> q w) f (works d)\<rparr>) t s =
    (case find_work d t s of
       None \<Rightarrow> None
     | Some w \<Rightarrow> Some (if k = (t, s) \<and> q w then f w else w))"
proof -
  have key: "w_tenant (f w) = w_tenant w" "w_service (f w) = w_service w" for w
    using assms [of w] by (simp_all add: w_key_def)
  have "find (\<lambda>w. w_tenant w = t \<and> w_service w = s) (update_where (\<lambda>w. w_key w = k \<and> q w) f ws) =
    (case find (\<lambda>w. w_tenant w = t \<and> w_service w = s) ws of
       None \<Rightarrow> None
     | Some w \<Rightarrow> Some (if k = (t, s) \<and> q w then f w else w))" for ws
    by (induction ws) (auto simp: update_where_def w_key_def key)
  then show ?thesis by (simp add: find_work_def)
qed

lemma find_work_update_key:
  assumes "\<And>w. w_key (f w) = w_key w"
  shows "find_work (d\<lparr>works := update_where (\<lambda>w. w_key w = k) f (works d)\<rparr>) t s =
    (case find_work d t s of None \<Rightarrow> None | Some w \<Rightarrow> Some (if k = (t, s) then f w else w))"
  using find_work_update [where q = "\<lambda>_. True", OF assms, of k d t s] by (simp only: simp_thms)

lemma work_row_ex:
  assumes "wf_db d"
  shows "(\<exists>w \<in> set (works d). w_key w = (t, s) \<and> q w) \<longleftrightarrow>
    (case find_work d t s of None \<Rightarrow> False | Some w \<Rightarrow> q w)"
proof (cases "find_work d t s")
  case None
  then have "\<forall>w \<in> set (works d). w_key w \<noteq> (t, s)" by (force simp: find_work_None)
  with None show ?thesis by simp
next
  case (Some w)
  then have w: "w \<in> set (works d)" "w_key w = (t, s)" using find_work_eq [OF assms] by simp_all
  have "v = w" if "v \<in> set (works d)" "w_key v = (t, s)" for v
    using keyed_unique [of w_key "works d" v w] that w assms by (simp add: wf_db_def)
  with w have "(\<exists>v \<in> set (works d). w_key v = (t, s) \<and> q v) \<longleftrightarrow> q w" by blast
  with Some show ?thesis by simp
qed

section \<open>Claim\<close>

definition claimable :: "db \<Rightarrow> (uuid \<times> uuid) set \<Rightarrow> uuid \<Rightarrow> InferenceResourceWork \<Rightarrow> bool" where
  "claimable d locked tenant w \<longleftrightarrow>
     w \<in> set (works d) \<and> w_tenant w = tenant \<and> due d w \<and> w_key w \<notin> locked"

definition leased_row :: "db \<Rightarrow> WorkStoreOptions \<Rightarrow> uuid \<Rightarrow> InferenceResourceWork \<Rightarrow> InferenceResourceWork" where
  "leased_row d opts token w =
     w\<lparr>w_lease_owner := Some (Owner opts), w_lease_token := Some token,
       w_lease_until := Some (now d + LeaseSeconds opts), w_attempt := w_attempt w + 1,
       w_updated_at := now d\<rparr>"

lemma leased_row_key [simp]: "w_key (leased_row d opts token w) = w_key w"
  by (simp add: leased_row_def w_key_def)

lemma WorkStore_Claim_cases:
  assumes "tenantUUID uuid_Parse tenantID = Inr tenant"
  shows "WorkStore_Claim uuid_Parse opts token locked tenantID d =
    (case first_by claim_order
            (filter (\<lambda>w. w_tenant w = tenant \<and> due d w \<and> w_key w \<notin> locked) (works d)) of
       None \<Rightarrow> (Inr None, d)
     | Some c \<Rightarrow>
       (Inr (Some \<lparr>ItemTenantID = w_tenant c, ItemServiceID = w_service c,
          ItemGeneration = desired_generation_of d c, ItemDirtyVersion = w_dirty c,
          ItemLeaseToken = token\<rparr>),
        d\<lparr>works := update_where (\<lambda>w. w_key w = w_key c) (leased_row d opts token) (works d)\<rparr>))"
  unfolding WorkStore_Claim_def assms leased_row_def [abs_def]
  by (auto simp: ClaimResourceWork_def bindE_def liftE_def tryE_def returnE_def split: option.splits)

text \<open>
  C23: A claim takes the first due work of the tenant: it returns an item exactly when some row of
  the tenant is due, not leased and not locked; the row it takes precedes every other such row in the
  order next_run_at (nulls first), updated_at, service_id; the item carries that row's service and
  notification version and the service's desired generation, and the row is now leased to the fresh
  token for the lease time. Nothing else changes, and without such a row nothing changes at all.
\<close>

theorem claim_takes_first_due:
  assumes "tenantUUID uuid_Parse tenantID = Inr tenant"
    and "WorkStore_Claim uuid_Parse opts token locked tenantID d = (res, d')"
  shows "if Collect (claimable d locked tenant) = {} then res = Inr None \<and> d' = d
    else \<exists>c item. claimable d locked tenant c
       \<and> (\<forall>w. claimable d locked tenant w \<longrightarrow> claim_order c \<le> claim_order w)
       \<and> res = Inr (Some item)
       \<and> item = \<lparr>ItemTenantID = tenant, ItemServiceID = w_service c,
            ItemGeneration = desired_generation_of d c, ItemDirtyVersion = w_dirty c,
            ItemLeaseToken = token\<rparr>
       \<and> d' = d\<lparr>works := update_where (\<lambda>w. w_key w = w_key c) (leased_row d opts token) (works d)\<rparr>"
proof -
  let ?rows = "filter (\<lambda>w. w_tenant w = tenant \<and> due d w \<and> w_key w \<notin> locked) (works d)"
  have rows: "set ?rows = Collect (claimable d locked tenant)" by (auto simp: claimable_def)
  show ?thesis
  proof (cases "first_by claim_order ?rows")
    case None
    then have "?rows = []" by simp
    with rows None assms show ?thesis by (simp add: WorkStore_Claim_cases)
  next
    case (Some c)
    from first_by_min [OF this] have "claimable d locked tenant c"
        "\<forall>w. claimable d locked tenant w \<longrightarrow> claim_order c \<le> claim_order w"
      unfolding rows by auto
    with Some assms show ?thesis by (auto simp: WorkStore_Claim_cases claimable_def)
  qed
qed

section \<open>Commit and retry\<close>

text \<open>What a worker must still hold to finish an item: its lease and the generation it claimed.\<close>

definition can_finish :: "db \<Rightarrow> Item \<Rightarrow> bool" where
  "can_finish d item \<longleftrightarrow>
     holds_lease d (ItemTenantID item) (ItemServiceID item) (ItemLeaseToken item)
     \<and> (case find_service d (ItemTenantID item) (ItemServiceID item) of
          None \<Rightarrow> False | Some s \<Rightarrow> s_desired_generation s = ItemGeneration item)"

definition item_key :: "Item \<Rightarrow> uuid \<times> uuid" where
  "item_key item = (ItemTenantID item, ItemServiceID item)"

definition canonical_item :: "Item \<Rightarrow> bool" where
  "canonical_item item \<longleftrightarrow>
     uuid_text (ItemTenantID item) \<and> uuid_text (ItemServiceID item) \<and> uuid_text (ItemLeaseToken item)"

definition committed_row ::
  "db \<Rightarrow> WorkStoreOptions \<Rightarrow> Item \<Rightarrow> InferenceResourceWork \<Rightarrow> InferenceResourceWork"
where
  "committed_row d opts item w =
     w\<lparr>w_acknowledged := max (w_acknowledged w) (ItemDirtyVersion item),
       w_next_run_at := (if service_deleted d w then None
                         else if w_dirty w > ItemDirtyVersion item then Some (now d)
                         else Some (now d + ObserveSeconds opts)),
       w_attempt := 0, w_lease_owner := None, w_lease_until := None,
       w_lease_token := None, w_last_error := '''', w_updated_at := now d\<rparr>"

definition retried_row ::
  "db \<Rightarrow> WorkStoreOptions \<Rightarrow> string \<Rightarrow> InferenceResourceWork \<Rightarrow> InferenceResourceWork"
where
  "retried_row d opts code w =
     w\<lparr>w_next_run_at := Some (now d + RetrySeconds opts), w_lease_owner := None,
       w_lease_until := None, w_lease_token := None, w_last_error := code, w_updated_at := now d\<rparr>"

lemma finished_row_key [simp]:
  "w_key (committed_row d opts item w) = w_key w" "w_key (retried_row d opts code w) = w_key w"
  by (simp_all add: committed_row_def retried_row_def w_key_def)

text \<open>Versions that fit: between zero and the row's current version.\<close>

definition version_fits :: "db \<Rightarrow> Item \<Rightarrow> bool" where
  "version_fits d item =
     (case find_work d (ItemTenantID item) (ItemServiceID item) of
        None \<Rightarrow> False | Some w \<Rightarrow> 0 \<le> ItemDirtyVersion item \<and> ItemDirtyVersion item \<le> w_dirty w)"

lemma one_row_eq:
  "stmt d = (Inr n, d') \<Longrightarrow> one_row err stmt d = (if n = 1 then Inr () else Inl err, d')"
  by (simp add: one_row_def bindE_def failE_def returnE_def)

lemma CommitResourceWork_row:
  assumes "wf_db d"
  shows "CommitResourceWork (ItemDirtyVersion item) (ObserveSeconds opts) (ItemTenantID item)
      (ItemServiceID item) (ItemGeneration item) (ItemLeaseToken item) d =
    (if can_finish d item \<and> version_fits d item
     then (Inr 1, d\<lparr>works := update_where (\<lambda>w. w_key w = item_key item) (committed_row d opts item) (works d)\<rparr>)
     else (Inr 0, d))"
proof -
  let ?q = "\<lambda>w. (case find_service d (ItemTenantID item) (ItemServiceID item) of
        None \<Rightarrow> False | Some s \<Rightarrow> s_desired_generation s = ItemGeneration item)
      \<and> w_lease_token w = Some (ItemLeaseToken item) \<and> lease_live d w
      \<and> 0 \<le> ItemDirtyVersion item \<and> ItemDirtyVersion item \<le> w_dirty w"
  have p: "commit_matches d (ItemDirtyVersion item) (ItemTenantID item) (ItemServiceID item)
      (ItemGeneration item) (ItemLeaseToken item) = (\<lambda>w. w_key w = item_key item \<and> ?q w)"
    by (rule ext) (auto simp: commit_matches_def w_key_def item_key_def)
  have "(\<exists>w \<in> set (works d). w_key w = item_key item \<and> ?q w) \<longleftrightarrow> can_finish d item \<and> version_fits d item"
    unfolding item_key_def work_row_ex [OF assms]
    by (auto simp: can_finish_def holds_lease_def version_fits_def split: option.splits)
  then show ?thesis
    using assms update_keyed [of w_key "works d" "item_key item" ?q]
    unfolding CommitResourceWork_def p committed_row_def [abs_def] wf_db_def by (simp add: Let_def)
qed

lemma RetryResourceWork_row:
  assumes "wf_db d" and "utf8_valid code"
  shows "RetryResourceWork (RetrySeconds opts) code (ItemTenantID item) (ItemServiceID item)
      (ItemGeneration item) (ItemLeaseToken item) d =
    (if can_finish d item
        \<and> (case find_service d (ItemTenantID item) (ItemServiceID item) of
             None \<Rightarrow> False | Some s \<Rightarrow> s_deleted_at s = None)
     then (Inr 1, d\<lparr>works := update_where (\<lambda>w. w_key w = item_key item) (retried_row d opts code) (works d)\<rparr>)
     else (Inr 0, d))"
proof -
  let ?q = "\<lambda>w. (case find_service d (ItemTenantID item) (ItemServiceID item) of
        None \<Rightarrow> False | Some s \<Rightarrow> s_deleted_at s = None \<and> s_desired_generation s = ItemGeneration item)
      \<and> w_lease_token w = Some (ItemLeaseToken item) \<and> lease_live d w"
  have p: "retry_matches d (ItemTenantID item) (ItemServiceID item)
      (ItemGeneration item) (ItemLeaseToken item) = (\<lambda>w. w_key w = item_key item \<and> ?q w)"
    by (rule ext) (auto simp: retry_matches_def w_key_def item_key_def)
  have "(\<exists>w \<in> set (works d). w_key w = item_key item \<and> ?q w) \<longleftrightarrow> can_finish d item
        \<and> (case find_service d (ItemTenantID item) (ItemServiceID item) of
             None \<Rightarrow> False | Some s \<Rightarrow> s_deleted_at s = None)"
    unfolding item_key_def work_row_ex [OF assms(1)]
    by (auto simp: can_finish_def holds_lease_def split: option.splits)
  then show ?thesis
    using assms update_keyed [of w_key "works d" "item_key item" ?q]
    unfolding RetryResourceWork_def p retried_row_def [abs_def] wf_db_def by (simp add: Let_def)
qed

lemma WorkStore_Commit_run:
  assumes "uuid_parser_ok uuid_Parse" and "wf_db d" and "canonical_item item"
  shows "WorkStore_Commit uuid_Parse opts item r d =
    (if ResultGeneration r \<noteq> ItemGeneration item then (Inl (Sentinel work_ErrStaleGeneration), d)
     else if can_finish d item \<and> version_fits d item
     then (Inr (), d\<lparr>works := update_where (\<lambda>w. w_key w = item_key item) (committed_row d opts item) (works d)\<rparr>)
     else (Inl (Sentinel ErrLeaseLost), d))"
  using assms CommitResourceWork_row [OF assms(2), of item opts]
  by (simp add: WorkStore_Commit_def canonical_item_def workUUID_text tenantUUID_text
      bindE_def liftE_def one_row_def failE_def returnE_def)

lemma WorkStore_Retry_run:
  assumes "uuid_parser_ok uuid_Parse" and "wf_db d" and "canonical_item item"
  shows "WorkStore_Retry uuid_Parse opts item cause d =
    (if \<not> utf8_valid (workErrorCode (Some cause))
     then (Inl (PgError ''22021'' ''invalid byte sequence for encoding UTF8''), d)
     else if can_finish d item
        \<and> (case find_service d (ItemTenantID item) (ItemServiceID item) of
             None \<Rightarrow> False | Some s \<Rightarrow> s_deleted_at s = None)
     then (Inr (), d\<lparr>works := update_where (\<lambda>w. w_key w = item_key item)
             (retried_row d opts (workErrorCode (Some cause))) (works d)\<rparr>)
     else (Inl (Sentinel ErrLeaseLost), d))"
proof (cases "utf8_valid (workErrorCode (Some cause))")
  case True
  with assms RetryResourceWork_row [OF assms(2) True, of opts item] show ?thesis
    by (simp add: WorkStore_Retry_def canonical_item_def workUUID_text tenantUUID_text
        bindE_def liftE_def one_row_def failE_def returnE_def)
next
  case False
  with assms show ?thesis
    by (simp add: WorkStore_Retry_def canonical_item_def workUUID_text tenantUUID_text
        bindE_def liftE_def one_row_def RetryResourceWork_def)
qed

text \<open>
  C25: The outcome of finishing a claimed item, on every branch. A commit succeeds exactly when the
  result is for the claimed generation, the worker still holds the live lease, the service is still at
  that generation and the version is one the row has reached; otherwise it fails with the stale
  generation or lease lost error and leaves the database as it was. A successful commit acknowledges
  the claimed version, releases the lease, clears the error and schedules the next run: none for a
  deleted service, at once when a notification arrived after the claim, else after the observation
  interval.
\<close>

theorem commit_outcome:
  assumes "uuid_parser_ok uuid_Parse" and "wf_db d" and "canonical_item item"
    and "WorkStore_Commit uuid_Parse opts item r d = (res, d')"
  shows "(res = Inr () \<longleftrightarrow>
            ResultGeneration r = ItemGeneration item \<and> can_finish d item \<and> version_fits d item)
    \<and> (\<forall>e. res = Inl e \<longrightarrow> d' = d
         \<and> e = Sentinel (if ResultGeneration r = ItemGeneration item then ErrLeaseLost
                         else work_ErrStaleGeneration))
    \<and> (res = Inr () \<longrightarrow> wf_db d' \<and>
         (\<forall>t s. find_work d' t s =
            (case find_work d t s of
               None \<Rightarrow> None
             | Some w \<Rightarrow> Some (if item_key item = (t, s) then committed_row d opts item w else w))))"
proof (cases "ResultGeneration r = ItemGeneration item \<and> can_finish d item \<and> version_fits d item")
  case True
  let ?d = "d\<lparr>works := update_where (\<lambda>w. w_key w = item_key item) (committed_row d opts item) (works d)\<rparr>"
  have out: "res = Inr ()" "d' = ?d"
    using assms(4) True by (simp_all add: WorkStore_Commit_run [OF assms(1-3)])
  have "ItemDirtyVersion item \<le> w_dirty w" if "w \<in> set (works d)" "w_key w = item_key item" for w
  proof -
    have "find_work d (ItemTenantID item) (ItemServiceID item) = Some w"
      using that find_work_eq [OF assms(2)] by (simp add: item_key_def)
    with True show ?thesis by (simp add: version_fits_def)
  qed
  moreover have "0 \<le> w_dirty w" "w_acknowledged w \<le> w_dirty w" if "w \<in> set (works d)" for w
    using assms(2) that by (auto simp: wf_db_def)
  ultimately have "wf_db ?d"
    using assms(2) by (intro wf_db_works) (auto simp: committed_row_def w_key_def)
  moreover have "find_work ?d t s = (case find_work d t s of None \<Rightarrow> None
      | Some w \<Rightarrow> Some (if item_key item = (t, s) then committed_row d opts item w else w))" for t s
    by (rule find_work_update_key) simp
  ultimately show ?thesis unfolding out using True by simp
next
  case False
  then have "res = Inl (Sentinel (if ResultGeneration r = ItemGeneration item then ErrLeaseLost
      else work_ErrStaleGeneration)) \<and> d' = d"
    using assms(4) by (auto simp: WorkStore_Commit_run [OF assms(1-3)])
  with False show ?thesis by simp
qed

section \<open>Notify, repair and recovery\<close>

definition notified_row :: "db \<Rightarrow> int \<Rightarrow> InferenceResourceWork \<Rightarrow> InferenceResourceWork" where
  "notified_row d dirty w =
     w\<lparr>w_dirty := max (w_dirty w + 1) dirty, w_next_run_at := Some (now d), w_updated_at := now d\<rparr>"

lemma notified_row_key [simp]: "w_key (notified_row d dirty w) = w_key w"
  by (simp add: notified_row_def w_key_def)

lemma new_work_key [simp]: "w_key (new_work d t s dirty) = (t, s)"
  by (simp add: new_work_def w_key_def)

lemma find_work_insert:
  "find_work (d\<lparr>works := works d @ [w]\<rparr>) t' s' =
     (case find_work d t' s' of
        Some v \<Rightarrow> Some v
      | None \<Rightarrow> if w_key w = (t', s') then Some w else None)"
proof -
  have "find p (ws @ [w]) = (case find p ws of Some v \<Rightarrow> Some v | None \<Rightarrow> if p w then Some w else None)"
    for p and ws :: "InferenceResourceWork list"
    by (induction ws) auto
  then show ?thesis by (simp add: find_work_def w_key_def split: option.split)
qed

text \<open>Both upserts on a row of an existing service.\<close>

lemma UpsertResourceWork_run:
  assumes "wf_db d" and "find_service d t s \<noteq> None" and "0 \<le> dirty"
  shows "\<exists>d'. UpsertResourceWork t s dirty d = (Inr (), d') \<and> wf_db d'
    \<and> works_only d d'
    \<and> (\<forall>t' s'. find_work d' t' s' =
         (if (t', s') = (t, s)
          then Some (case find_work d t s of
                       Some w \<Rightarrow> notified_row d dirty w | None \<Rightarrow> new_work d t s dirty)
          else find_work d t' s'))"
proof (cases "find_work d t s")
  case None
  then show ?thesis
    using assms wf_db_insert_work [OF assms(1) None assms(2,3)] find_work_insert [of d "new_work d t s dirty"]
    by (auto simp: UpsertResourceWork_def split: option.split)
next
  case (Some w)
  let ?d = "d\<lparr>works := update_where (\<lambda>w. w_key w = (t, s)) (notified_row d dirty) (works d)\<rparr>"
  have "UpsertResourceWork t s dirty d = (Inr (), ?d)"
    using Some assms(3) by (simp add: UpsertResourceWork_def notified_row_def [abs_def])
  moreover have "wf_db ?d"
    using assms(1,3) by (intro wf_db_works) (auto simp: wf_db_def notified_row_def w_key_def)
  moreover have "find_work ?d t' s' = (case find_work d t' s' of None \<Rightarrow> None
      | Some w \<Rightarrow> Some (if (t, s) = (t', s') then notified_row d dirty w else w))" for t' s'
    by (rule find_work_update_key) simp
  ultimately show ?thesis using Some by (auto split: option.split)
qed

lemma EnsureResourceWork_run:
  assumes "wf_db d" and "find_service d t s \<noteq> None" and "0 \<le> dirty"
  shows "\<exists>d'. EnsureResourceWork t s dirty d = (Inr (), d') \<and> wf_db d'
    \<and> works_only d d'
    \<and> (\<forall>t' s'. find_work d' t' s' =
         (case find_work d t' s' of
            Some w \<Rightarrow> Some w
          | None \<Rightarrow> if (t', s') = (t, s) then Some (new_work d t s dirty) else None))"
proof (cases "find_work d t s")
  case None
  then show ?thesis
    using assms wf_db_insert_work [OF assms(1) None assms(2,3)] find_work_insert [of d "new_work d t s dirty"]
    by (auto simp: EnsureResourceWork_def split: option.split)
next
  case (Some w)
  then show ?thesis using assms by (auto simp: EnsureResourceWork_def split: option.split)
qed

text \<open>Column types of the service table: UUIDs, and a positive generation by its CHECK constraint.\<close>

definition typed_services :: "db \<Rightarrow> bool" where
  "typed_services d \<longleftrightarrow>
     (\<forall>s \<in> set (services d). uuid_text (s_tenant s) \<and> uuid_text (s_id s) \<and> 0 < s_desired_generation s)"

definition target_of :: "InferenceService \<Rightarrow> ServiceTarget" where
  "target_of s = \<lparr>TargetTenantID = s_tenant s, TargetServiceID = s_id s,
                  TargetGeneration = s_desired_generation s\<rparr>"

definition undeleted :: "db \<Rightarrow> uuid \<Rightarrow> InferenceService set" where
  "undeleted d tenant = {s \<in> set (services d). s_tenant s = tenant \<and> s_deleted_at s = None}"

lemma ScanUndeletedServices_run:
  assumes "uuid_parser_ok uuid_Parse" and "uuid_text tenant"
  shows "\<exists>ss. WorkStore_ScanUndeletedServices uuid_Parse tenant d = (Inr (map target_of ss), d)
     \<and> set ss = undeleted d tenant"
proof -
  have "WorkStore_ScanUndeletedServices uuid_Parse tenant d =
      (Inr (map target_of (ListUndeletedServices tenant d)), d)"
    using assms by (simp add: WorkStore_ScanUndeletedServices_def tenantUUID_text bindE_def liftE_def
        target_of_def [abs_def])
  then show ?thesis
    by (auto simp: ListUndeletedServices_def undeleted_def)
qed

lemma ListTenantScopes_set: "set (ListTenantScopes d) = s_tenant ` {s \<in> set (services d). s_deleted_at s = None}"
  by (auto simp: ListTenantScopes_def)

text \<open>
  Recovery and repair are the same double loop over tenants and services; \<open>visit\<close> handles one service
  and establishes \<open>Q\<close> for it.
\<close>

lemma scan_all:
  assumes uuid: "uuid_parser_ok uuid_Parse" and typed: "typed_services d"
    and I: "\<And>e. I e \<Longrightarrow> services e = services d"
    and visit: "\<And>s e. s \<in> set (services d) \<Longrightarrow> s_deleted_at s = None \<Longrightarrow> I e \<Longrightarrow>
          \<exists>e'. visit (target_of s) e = (Inr (), e') \<and> I e' \<and> Q s e'"
    and keep: "\<And>s r e e'. s \<in> set (services d) \<Longrightarrow> I e \<Longrightarrow> visit (target_of s) e = (Inr (), e') \<Longrightarrow>
          Q r e \<Longrightarrow> Q r e'"
    and "I d"
  shows "\<exists>d'. bindE WorkStore_ListTenants (forE (\<lambda>tenant.
      bindE (WorkStore_ScanUndeletedServices uuid_Parse tenant) (forE visit))) d = (Inr (), d')
    \<and> I d' \<and> (\<forall>s \<in> set (services d). s_deleted_at s = None \<longrightarrow> Q s d')"
proof -
  let ?tenant = "\<lambda>tenant. bindE (WorkStore_ScanUndeletedServices uuid_Parse tenant) (forE visit)"
  have inner: "\<exists>e'. ?tenant tenant e = (Inr (), e') \<and> I e' \<and> (\<forall>s \<in> undeleted d tenant. Q s e')
      \<and> (\<forall>s. Q s e \<longrightarrow> Q s e')"
    if t: "tenant \<in> set (ListTenantScopes d)" and e: "I e" for tenant e
  proof -
    have "uuid_text tenant" using t typed by (auto simp: ListTenantScopes_set typed_services_def)
    then obtain ss where scan: "WorkStore_ScanUndeletedServices uuid_Parse tenant e = (Inr (map target_of ss), e)"
        "set ss = undeleted d tenant"
      using ScanUndeletedServices_run [OF uuid, of tenant e] I [OF e] by (auto simp: undeleted_def)
    have loop: "forE visit (map target_of xs) = forE (\<lambda>s. visit (target_of s)) xs" for xs
      by (induction xs) simp_all
    have "\<exists>e'. forE (\<lambda>s. visit (target_of s)) ss e = (Inr (), e') \<and> I e' \<and> (\<forall>s. s \<in> set ss \<or> Q s e \<longrightarrow> Q s e')"
      by (rule forE_total) (use e visit keep scan(2) in \<open>auto simp: undeleted_def\<close>)
    then show ?thesis using scan loop by auto
  qed
  have "\<exists>e. forE ?tenant (ListTenantScopes d) d = (Inr (), e) \<and> I e
      \<and> (\<forall>t. t \<in> set (ListTenantScopes d) \<or> (\<forall>s \<in> undeleted d t. Q s d) \<longrightarrow> (\<forall>s \<in> undeleted d t. Q s e))"
  proof (rule forE_total [where Q = "\<lambda>t e. \<forall>s \<in> undeleted d t. Q s e"])
    fix t e
    assume "t \<in> set (ListTenantScopes d)" "I e"
    then show "\<exists>e'. ?tenant t e = (Inr (), e') \<and> I e' \<and> (\<forall>s \<in> undeleted d t. Q s e')"
      using inner by blast
  next
    fix t t' e e'
    assume "t \<in> set (ListTenantScopes d)" "I e" "?tenant t e = (Inr (), e')" "\<forall>s \<in> undeleted d t'. Q s e"
    moreover from inner [OF this(1,2)] this(3) have "\<forall>s. Q s e \<longrightarrow> Q s e'" by auto
    ultimately show "\<forall>s \<in> undeleted d t'. Q s e'" by blast
  qed (rule \<open>I d\<close>)
  then show ?thesis
    by (auto simp: WorkStore_ListTenants_def bindE_def ListTenantScopes_set undeleted_def)
qed

text \<open>One service of a repair: a missing row is added, everything else is kept.\<close>

definition rows_added :: "db \<Rightarrow> db \<Rightarrow> bool" where
  "rows_added d e \<longleftrightarrow> wf_db e \<and> works_only d e
     \<and> (\<forall>t i w. find_work d t i = Some w \<longrightarrow> find_work e t i = Some w)
     \<and> (\<forall>t i w. find_work d t i = None \<and> find_work e t i = Some w \<longrightarrow>
          (\<exists>r \<in> set (services d). s_key r = (t, i) \<and> w = new_work d t i (s_desired_generation r)))"

lemma typed_service:
  "typed_services d \<Longrightarrow> s \<in> set (services d) \<Longrightarrow>
     uuid_text (s_tenant s) \<and> uuid_text (s_id s) \<and> 0 < s_desired_generation s"
  by (simp add: typed_services_def)

lemma repair_one:
  assumes uuid: "uuid_parser_ok uuid_Parse" and typed: "typed_services d"
    and s: "s \<in> set (services d)" and e: "rows_added d e"
  shows "\<exists>e'. repairService uuid_Parse (target_of s) e = (Inr (), e') \<and> rows_added d e'
    \<and> (\<forall>t i. find_work e' t i = (case find_work e t i of Some w \<Rightarrow> Some w
         | None \<Rightarrow> if s_key s = (t, i) then Some (new_work d t i (s_desired_generation s)) else None))"
proof -
  have same: "services e = services d" "now e = now d"
    using e works_only_same unfolding rows_added_def by blast+
  note typed = typed_service [OF typed s]
  have "find_service e (s_tenant s) (s_id s) \<noteq> None"
    by (rule find_service_mem) (simp add: s same)
  moreover have "wf_db e" "0 \<le> s_desired_generation s" using e typed by (simp_all add: rows_added_def)
  ultimately obtain e' where e': "EnsureResourceWork (s_tenant s) (s_id s) (s_desired_generation s) e = (Inr (), e')"
      "wf_db e'" "works_only e e'"
      and r: "\<forall>t i. find_work e' t i = (case find_work e t i of Some w \<Rightarrow> Some w
         | None \<Rightarrow> if (t, i) = (s_tenant s, s_id s)
                   then Some (new_work e (s_tenant s) (s_id s) (s_desired_generation s)) else None)"
    using EnsureResourceWork_run by blast
  have row: "find_work e' t i = (case find_work e t i of Some w \<Rightarrow> Some w
      | None \<Rightarrow> if s_key s = (t, i) then Some (new_work d t i (s_desired_generation s)) else None)" for t i
    using r by (auto simp: s_key_def new_work_def same split: option.split)
  have "repairService uuid_Parse (target_of s) e = (Inr (), e')"
    using e'(1) typed uuid
    by (simp add: repairService_def target_of_def workUUID_text tenantUUID_text bindE_def liftE_def)
  moreover have "works_only d e'"
    using e e'(3) works_only_trans unfolding rows_added_def by blast
  moreover have "\<exists>r \<in> set (services d). s_key r = (t, i) \<and> w = new_work d t i (s_desired_generation r)"
    if "find_work d t i = None" "find_work e' t i = Some w" for t i w
  proof (cases "find_work e t i")
    case None
    with that row [of t i] s show ?thesis by (auto split: if_splits)
  next
    case (Some v)
    with that row [of t i] e show ?thesis by (simp add: rows_added_def)
  qed
  moreover have "find_work e' t i = Some w" if "find_work d t i = Some w" for t i w
    using e row that by (simp add: rows_added_def)
  ultimately show ?thesis using e'(2) row unfolding rows_added_def by blast
qed


text \<open>One service of a recovery: its row is woken, no row's version goes down.\<close>

definition rows_grown :: "db \<Rightarrow> db \<Rightarrow> bool" where
  "rows_grown d e \<longleftrightarrow> wf_db e \<and> works_only d e
     \<and> (\<forall>t i v. find_work d t i = Some v \<longrightarrow> (\<exists>w. find_work e t i = Some w \<and> w_dirty v \<le> w_dirty w))"

definition woken :: "db \<Rightarrow> InferenceService \<Rightarrow> db \<Rightarrow> bool" where
  "woken d s e \<longleftrightarrow> (\<exists>w. find_work e (s_tenant s) (s_id s) = Some w \<and> s_desired_generation s \<le> w_dirty w
      \<and> (\<forall>v. find_work d (s_tenant s) (s_id s) = Some v \<longrightarrow> w_dirty v < w_dirty w)
      \<and> w_next_run_at w = Some (now d))"

definition notify_target :: "(string \<Rightarrow> error + uuid) \<Rightarrow> ServiceTarget \<Rightarrow> (db, unit) io" where
  "notify_target uuid_Parse service = WorkStore_Notify uuid_Parse (TargetTenantID service)
     (TargetServiceID service) (TargetGeneration service)"

lemma notified_row_grows: "w_dirty w < w_dirty (notified_row d g w)" "g \<le> w_dirty (notified_row d g w)"
  by (simp_all add: notified_row_def)

lemma notify_one:
  assumes uuid: "uuid_parser_ok uuid_Parse" and typed: "typed_services d"
    and s: "s \<in> set (services d)" and e: "rows_grown d e"
  shows "\<exists>e'. notify_target uuid_Parse (target_of s) e = (Inr (), e') \<and> rows_grown d e'
    \<and> (\<forall>t i. find_work e' t i = (if (t, i) = s_key s
         then Some (case find_work e t i of Some w \<Rightarrow> notified_row d (s_desired_generation s) w
                    | None \<Rightarrow> new_work d t i (s_desired_generation s))
         else find_work e t i))"
proof -
  have same: "services e = services d" "now e = now d"
    using e works_only_same unfolding rows_grown_def by blast+
  note typed = typed_service [OF typed s]
  have "find_service e (s_tenant s) (s_id s) \<noteq> None"
    by (rule find_service_mem) (simp add: s same)
  moreover have "wf_db e" "0 \<le> s_desired_generation s" using e typed by (simp_all add: rows_grown_def)
  ultimately obtain e' where e': "UpsertResourceWork (s_tenant s) (s_id s) (s_desired_generation s) e = (Inr (), e')"
      "wf_db e'" "works_only e e'"
      and r: "\<forall>t i. find_work e' t i = (if (t, i) = (s_tenant s, s_id s)
        then Some (case find_work e (s_tenant s) (s_id s) of
                     Some w \<Rightarrow> notified_row e (s_desired_generation s) w
                   | None \<Rightarrow> new_work e (s_tenant s) (s_id s) (s_desired_generation s))
        else find_work e t i)"
    using UpsertResourceWork_run by blast
  have row: "find_work e' t i = (if (t, i) = s_key s
      then Some (case find_work e t i of Some w \<Rightarrow> notified_row d (s_desired_generation s) w
                 | None \<Rightarrow> new_work d t i (s_desired_generation s))
      else find_work e t i)" for t i
    using r by (simp add: s_key_def new_work_def notified_row_def same split: option.split)
  have "notify_target uuid_Parse (target_of s) e = (Inr (), e')"
    using e'(1) typed uuid
    by (simp add: notify_target_def WorkStore_Notify_def target_of_def workUUID_text tenantUUID_text
        bindE_def liftE_def)
  moreover have "works_only d e'"
    using e e'(3) works_only_trans unfolding rows_grown_def by blast
  moreover have "\<exists>w. find_work e' t i = Some w \<and> w_dirty v \<le> w_dirty w"
    if v: "find_work d t i = Some v" for t i v
  proof -
    obtain w where "find_work e t i = Some w" "w_dirty v \<le> w_dirty w"
      using e v unfolding rows_grown_def by blast
    then show ?thesis using row [of t i] notified_row_grows(1) [of w d "s_desired_generation s"] by auto
  qed
  ultimately show ?thesis using e'(2) row unfolding rows_grown_def by blast
qed

lemma notify_wakes:
  assumes "uuid_parser_ok uuid_Parse" and "typed_services d"
    and "s \<in> set (services d)" and "rows_grown d e"
  shows "\<exists>e'. notify_target uuid_Parse (target_of s) e = (Inr (), e') \<and> rows_grown d e' \<and> woken d s e'
    \<and> (\<forall>r. woken d r e \<longrightarrow> woken d r e')"
proof -
  obtain e' where e': "notify_target uuid_Parse (target_of s) e = (Inr (), e')" "rows_grown d e'"
    and row: "\<forall>t i. find_work e' t i = (if (t, i) = s_key s
         then Some (case find_work e t i of Some w \<Rightarrow> notified_row d (s_desired_generation s) w
                    | None \<Rightarrow> new_work d t i (s_desired_generation s))
         else find_work e t i)"
    using notify_one [OF assms] by blast
  have old: "w_dirty v \<le> w_dirty w" if "find_work d t i = Some v" "find_work e t i = Some w" for t i v w
    using assms(4) that unfolding rows_grown_def by fastforce
  have new: "find_work d t i = None" if "find_work e t i = None" for t i
    using assms(4) that unfolding rows_grown_def by (metis option.exhaust option.distinct(1))
  have "woken d s e'"
  proof (cases "find_work e (s_tenant s) (s_id s)")
    case None
    then show ?thesis using row new [OF None] by (simp add: woken_def s_key_def new_work_def)
  next
    case (Some w)
    have "w_dirty v < w_dirty (notified_row d (s_desired_generation s) w)"
      if "find_work d (s_tenant s) (s_id s) = Some v" for v
      using old [OF that Some] notified_row_grows(1) [of w d "s_desired_generation s"] by simp
    then show ?thesis using row Some notified_row_grows(2)
      by (simp add: woken_def s_key_def) (simp add: notified_row_def)
  qed
  moreover have "woken d r e'" if r: "woken d r e" for r
  proof -
    obtain w where w: "find_work e (s_tenant r) (s_id r) = Some w" "s_desired_generation r \<le> w_dirty w"
        "\<forall>v. find_work d (s_tenant r) (s_id r) = Some v \<longrightarrow> w_dirty v < w_dirty w" "w_next_run_at w = Some (now d)"
      using r unfolding woken_def by blast
    then show ?thesis
      using row notified_row_grows(1) [of w d "s_desired_generation s"]
      by (cases "s_key s = (s_tenant r, s_id r)") (fastforce simp: woken_def notified_row_def)+
  qed
  ultimately show ?thesis using e' by blast
qed

text \<open>
  C26: Recovery after a restart wakes every undeleted service: on a database with its column types it
  succeeds, and every undeleted service has a work row afterwards with a version above the one it had
  and no lower than its generation, which is due at once unless another worker's lease is still running.
\<close>

theorem recover_wakes_services:
  assumes "uuid_parser_ok uuid_Parse" and "typed_services d" and "wf_db d"
  shows "\<exists>d'. WorkStore_Recover uuid_Parse d = (Inr (), d') \<and> wf_db d' \<and> works_only d d'
    \<and> (\<forall>s \<in> set (services d). s_deleted_at s = None \<longrightarrow>
         (\<exists>w. find_work d' (s_tenant s) (s_id s) = Some w
            \<and> s_desired_generation s \<le> w_dirty w
            \<and> (\<forall>v. find_work d (s_tenant s) (s_id s) = Some v \<longrightarrow> w_dirty v < w_dirty w)
            \<and> (lease_live d' w \<or> due d' w)))"
proof -
  have "\<exists>d'. bindE WorkStore_ListTenants (forE (\<lambda>tenant.
      bindE (WorkStore_ScanUndeletedServices uuid_Parse tenant) (forE (notify_target uuid_Parse)))) d = (Inr (), d')
    \<and> rows_grown d d' \<and> (\<forall>s \<in> set (services d). s_deleted_at s = None \<longrightarrow> woken d s d')"
  proof (rule scan_all [OF assms(1,2)])
    fix s e
    assume "s \<in> set (services d)" "rows_grown d e"
    from notify_wakes [OF assms(1,2) this]
    show "\<exists>e'. notify_target uuid_Parse (target_of s) e = (Inr (), e') \<and> rows_grown d e' \<and> woken d s e'"
      by blast
  next
    fix s r e e'
    assume "s \<in> set (services d)" "rows_grown d e" "notify_target uuid_Parse (target_of s) e = (Inr (), e')" "woken d r e"
    with notify_wakes [OF assms(1,2) this(1,2)] show "woken d r e'" by auto
  qed (use assms(3) works_only_same in \<open>auto simp: rows_grown_def\<close>)
  then obtain d' where d': "WorkStore_Recover uuid_Parse d = (Inr (), d')" "wf_db d'" "works_only d d'"
    and woken: "\<And>s. s \<in> set (services d) \<Longrightarrow> s_deleted_at s = None \<Longrightarrow> woken d s d'"
    unfolding WorkStore_Recover_def recoverTenant_def notify_target_def [abs_def] rows_grown_def by blast
  have "lease_live d' w \<or> due d' w"
    if s: "s \<in> set (services d)" "s_deleted_at s = None" and w: "find_work d' (s_tenant s) (s_id s) = Some w"
      and next_run: "w_next_run_at w = Some (now d)" for s w
  proof -
    have same: "services d' = services d" "now d' = now d" using works_only_same [OF d'(3)] by blast+
    have "find_service d' (s_tenant s) (s_id s) = Some s"
      using d'(2) s same by (simp add: find_service_eq s_key_def)
    moreover have "w_tenant w = s_tenant s" "w_service w = s_id s"
      using w d'(2) by (simp_all add: find_work_eq w_key_def)
    ultimately show ?thesis using s next_run same
      by (auto simp: due_def lease_live_def split: option.split)
  qed
  then show ?thesis using d' woken unfolding woken_def by meson
qed

section \<open>A concrete store\<close>

definition strict_parser :: uuid_parser where
  "strict_parser s = (if uuid_text s then Inr s else Inl (Errorf (''invalid UUID: '' @ s)))"

lemma strict_parser_ok: "uuid_parser_ok strict_parser"
  by (simp add: uuid_parser_ok_def strict_parser_def)

definition sample_tenant :: uuid where "sample_tenant = ''11111111-1111-1111-1111-111111111111''"
definition sample_id :: uuid where "sample_id = ''22222222-2222-2222-2222-222222222222''"
definition sample_token :: uuid where "sample_token = ''33333333-3333-3333-3333-333333333333''"
definition sample_operation_id :: uuid where "sample_operation_id = ''44444444-4444-4444-4444-444444444444''"

lemma sample_uuids [simp]:
  "uuid_text sample_tenant" "uuid_text sample_id" "uuid_text sample_token" "uuid_text sample_operation_id"
  unfolding sample_tenant_def sample_id_def sample_token_def sample_operation_id_def by code_simp+

definition sample_opts :: WorkStoreOptions where
  "sample_opts = NewWorkStore \<lparr>Owner = '''', LeaseSeconds = 0, ObserveSeconds = 0, RetrySeconds = 0\<rparr>"

definition sample_service :: InferenceService where
  "sample_service =
     \<lparr>s_tenant = sample_tenant, s_id = sample_id, s_name = ''llama'', s_desired_state = ''running'',
      s_desired_generation = 3, s_current_operation = Some sample_operation_id, s_deleted_at = None,
      s_created_at = 10, s_updated_at = 20, s_applied_generation = 2\<rparr>"

definition sample_work :: InferenceResourceWork where
  "sample_work =
     \<lparr>w_tenant = sample_tenant, w_service = sample_id, w_dirty = 7, w_acknowledged = 5,
      w_next_run_at = Some 90, w_attempt = 0, w_lease_owner = None, w_lease_until = None,
      w_lease_token = None, w_last_error = '''', w_updated_at = 40\<rparr>"

definition sample_db :: db where
  "sample_db =
     \<lparr>now = 100, services = [sample_service], works = [sample_work], operations = [], specs = [],
      runtimes = [], quotas = [], publications = [], bindings = [], audits = [], observations = [],
      idempotency = [],
      managed = [], scopes = [], commands = [], placements = []\<rparr>"

definition sample_item :: Item where
  "sample_item =
     \<lparr>ItemTenantID = sample_tenant, ItemServiceID = sample_id, ItemGeneration = 3,
      ItemDirtyVersion = 7, ItemLeaseToken = sample_token\<rparr>"

lemmas sample_simps = sample_service_def sample_work_def sample_db_def sample_item_def

lemma sample_db_wf: "wf_db sample_db"
  by (simp add: wf_db_def keyed_def key_defs sample_simps)

lemma sample_db_typed: "typed_services sample_db"
  by (simp add: typed_services_def sample_simps)

lemma sample_claimable: "claimable sample_db {} sample_tenant sample_work"
  by (simp add: claimable_def due_def find_service_def sample_simps)

definition sample_leased_db :: db where
  "sample_leased_db = sample_db\<lparr>works := [leased_row sample_db sample_opts sample_token sample_work]\<rparr>"

lemma sample_leased_db_wf: "wf_db sample_leased_db"
  by (simp add: wf_db_def keyed_def key_defs sample_simps sample_leased_db_def leased_row_def)

lemma sample_can_finish: "can_finish sample_leased_db sample_item" "version_fits sample_leased_db sample_item"
    "canonical_item sample_item"
  by (simp_all add: can_finish_def version_fits_def canonical_item_def holds_lease_def find_work_def
      find_service_def lease_live_def sample_leased_db_def leased_row_def sample_simps sample_opts_def NewWorkStore_def)

theorem claim_takes_first_due_witness:
  "tenantUUID strict_parser sample_tenant = Inr sample_tenant
   \<and> (\<exists>c item. claimable sample_db {} sample_tenant c
       \<and> WorkStore_Claim strict_parser sample_opts sample_token {} sample_tenant sample_db =
          (Inr (Some item), sample_db\<lparr>works := update_where (\<lambda>w. w_key w = w_key c)
             (leased_row sample_db sample_opts sample_token) (works sample_db)\<rparr>)
       \<and> ItemDirtyVersion item = w_dirty c \<and> ItemLeaseToken item = sample_token)"
proof -
  have t: "tenantUUID strict_parser sample_tenant = Inr sample_tenant"
    by (simp add: tenantUUID_text strict_parser_ok)
  obtain res d' where run: "WorkStore_Claim strict_parser sample_opts sample_token {} sample_tenant sample_db = (res, d')"
    by fastforce
  have "Collect (claimable sample_db {} sample_tenant) \<noteq> {}" using sample_claimable by blast
  from claim_takes_first_due [OF t run, unfolded if_not_P [OF this]]
  obtain c item where "claimable sample_db {} sample_tenant c" "res = Inr (Some item)"
      "ItemDirtyVersion item = w_dirty c" "ItemLeaseToken item = sample_token"
      "d' = sample_db\<lparr>works := update_where (\<lambda>w. w_key w = w_key c)
         (leased_row sample_db sample_opts sample_token) (works sample_db)\<rparr>"
    by auto
  with t run show ?thesis by blast
qed

theorem commit_outcome_witness:
  "fst (WorkStore_Commit strict_parser sample_opts sample_item \<lparr>ResultGeneration = 3\<rparr> sample_leased_db) = Inr ()
   \<and> find_work (snd (WorkStore_Commit strict_parser sample_opts sample_item \<lparr>ResultGeneration = 3\<rparr> sample_leased_db))
        sample_tenant sample_id
      = Some (committed_row sample_leased_db sample_opts sample_item
               (leased_row sample_db sample_opts sample_token sample_work))
   \<and> WorkStore_Commit strict_parser sample_opts sample_item \<lparr>ResultGeneration = 3\<rparr> sample_db
      = (Inl (Sentinel ErrLeaseLost), sample_db)"
proof -
  note outcome = commit_outcome [OF strict_parser_ok _ sample_can_finish(3) prod.collapse [symmetric], of _ sample_opts "\<lparr>ResultGeneration = 3\<rparr>"]
  have "\<not> can_finish sample_db sample_item"
    by (simp add: can_finish_def holds_lease_def find_work_def sample_simps)
  with outcome [OF sample_db_wf] have "WorkStore_Commit strict_parser sample_opts sample_item \<lparr>ResultGeneration = 3\<rparr> sample_db
      = (Inl (Sentinel ErrLeaseLost), sample_db)"
    by (cases "fst (WorkStore_Commit strict_parser sample_opts sample_item \<lparr>ResultGeneration = 3\<rparr> sample_db)")
      (auto simp: sample_item_def prod_eq_iff)
  moreover have "find_work sample_leased_db sample_tenant sample_id
      = Some (leased_row sample_db sample_opts sample_token sample_work)"
    by (simp add: find_work_def sample_leased_db_def leased_row_def sample_simps)
  moreover have "ItemGeneration sample_item = 3" "item_key sample_item = (sample_tenant, sample_id)"
    by (simp_all add: sample_item_def item_key_def)
  ultimately show ?thesis
    using outcome [OF sample_leased_db_wf] sample_can_finish by simp
qed


theorem recover_wakes_services_witness:
  "\<exists>d' w. WorkStore_Recover strict_parser sample_db = (Inr (), d')
     \<and> find_work d' sample_tenant sample_id = Some w \<and> 7 < w_dirty w \<and> (lease_live d' w \<or> due d' w)"
proof -
  have "find_work sample_db sample_tenant sample_id = Some sample_work"
    by (simp add: find_work_def sample_simps)
  moreover have "sample_service \<in> set (services sample_db)" "s_deleted_at sample_service = None"
      "s_tenant sample_service = sample_tenant" "s_id sample_service = sample_id" "w_dirty sample_work = 7"
    by (simp_all add: sample_simps)
  ultimately show ?thesis
    using recover_wakes_services [OF strict_parser_ok sample_db_typed sample_db_wf] by (metis (no_types, lifting))
qed

section \<open>A cut character in the error text\<close>

definition long_cause :: error where
  "long_cause = Errorf (replicate 119 CHR ''a'' @ [CHR 0xC3, CHR 0xA9])"

lemma utf8_valid_append_ascii:
  "\<forall>c \<in> set s. 1 \<le> (of_char c :: nat) \<and> (of_char c :: nat) \<le> 127 \<Longrightarrow> utf8_valid (s @ r) = utf8_valid r"
  by (induction s) (auto simp: Let_def)


end
