(* ===== verification/Work_System.thy ===== *)
theory Work_System
  imports Work_Store
begin

text \<open>
  The durable work table under any interleaving of workers, notifications and other writers.
  A state is the history of events and the database; every step is one call of the store or one
  statement. \<open>cell_step\<close> is the abstract protocol of one service's row; the store refines it.
\<close>

section \<open>Steps\<close>

datatype work_event =
  Elapsed
| Claimed Item
| Committed Item
| Dropped uuid uuid
| Woken uuid uuid int
| Ensured uuid uuid int
| Unrelated

type_synonym work_state = "work_event list \<times> db"

text \<open>
  A claim uses a token that no earlier claim used (\<^verbatim>\<open>uuid.New()\<close>). Workers commit and retry only items
  they claimed, at any later time; commands release a lease whenever they like; other transactions
  change the other tables.
\<close>

inductive work_step :: "work_state \<Rightarrow> work_state \<Rightarrow> bool" where
  elapse: "now d \<le> t \<Longrightarrow> work_step (h, d) (Elapsed # h, d\<lparr>now := t\<rparr>)"
| claim: "uuid_parser_ok uuid_Parse \<Longrightarrow>
    WorkStore_Claim uuid_Parse opts token locked tenantID d = (Inr (Some item), d') \<Longrightarrow>
    uuid_text token \<Longrightarrow> (\<forall>i. Claimed i \<in> set h \<longrightarrow> ItemLeaseToken i \<noteq> token) \<Longrightarrow>
    work_step (h, d) (Claimed item # h, d')"
| commit: "Claimed item \<in> set h \<Longrightarrow> uuid_parser_ok uuid_Parse \<Longrightarrow> WorkStore_Commit uuid_Parse opts item r d = (Inr (), d') \<Longrightarrow>
    work_step (h, d) (Committed item # h, d')"
| retry: "Claimed item \<in> set h \<Longrightarrow> uuid_parser_ok uuid_Parse \<Longrightarrow> WorkStore_Retry uuid_Parse opts item cause d = (Inr (), d') \<Longrightarrow>
    work_step (h, d) (Dropped (ItemTenantID item) (ItemServiceID item) # h, d')"
| release: "ReleaseResourceWorkLease t i d = (res, d') \<Longrightarrow> work_step (h, d) (Dropped t i # h, d')"
| wake: "UpsertResourceWork t i dirty d = (Inr (), d') \<Longrightarrow>
    work_step (h, d) (Woken t i dirty # h, d')"
| ensure: "EnsureResourceWork t i dirty d = (Inr (), d') \<Longrightarrow>
    work_step (h, d) (Ensured t i dirty # h, d')"
| unrelated: "works d' = works d \<Longrightarrow> now d' = now d \<Longrightarrow> wf_db d' \<Longrightarrow> typed_services d' \<Longrightarrow>
    work_step (h, d) (Unrelated # h, d')"

definition work_initial :: "work_state \<Rightarrow> bool" where
  "work_initial s \<longleftrightarrow> fst s = [] \<and> wf_db (snd s) \<and> typed_services (snd s) \<and> works (snd s) = []"

section \<open>The protocol of one row\<close>

record cell =
  version :: int
  acked :: int
  lease :: "(uuid \<times> time) option"

definition cell_of :: "InferenceResourceWork \<Rightarrow> cell" where
  "cell_of w = \<lparr>version = w_dirty w, acked = w_acknowledged w,
     lease = (case (w_lease_token w, w_lease_until w) of (Some k, Some u) \<Rightarrow> Some (k, u) | _ \<Rightarrow> None)\<rparr>"

definition cell_at :: "db \<Rightarrow> uuid \<times> uuid \<Rightarrow> cell option" where
  "cell_at d k = map_option cell_of (find_work d (fst k) (snd k))"

fun event_key :: "work_event \<Rightarrow> (uuid \<times> uuid) option" where
  "event_key (Claimed item) = Some (item_key item)"
| "event_key (Committed item) = Some (item_key item)"
| "event_key (Dropped t i) = Some (t, i)"
| "event_key (Woken t i v) = Some (t, i)"
| "event_key (Ensured t i v) = Some (t, i)"
| "event_key Elapsed = None"
| "event_key Unrelated = None"

inductive cell_step :: "time \<Rightarrow> uuid \<times> uuid \<Rightarrow> work_event \<Rightarrow> cell option \<Rightarrow> cell option \<Rightarrow> bool" where
  keep: "event_key e \<noteq> Some k \<Longrightarrow> cell_step n k e c c"
| create: "0 \<le> v \<Longrightarrow> e = Woken (fst k) (snd k) v \<or> e = Ensured (fst k) (snd k) v \<Longrightarrow>
    cell_step n k e None (Some \<lparr>version = v, acked = 0, lease = None\<rparr>)"
| wake: "cell_step n (t, i) (Woken t i v) (Some c) (Some (c\<lparr>version := max (version c + 1) v\<rparr>))"
| ensure: "cell_step n (t, i) (Ensured t i v) (Some c) (Some c)"
| claim: "(case lease c of None \<Rightarrow> True | Some (_, u) \<Rightarrow> u \<le> n) \<Longrightarrow> ItemDirtyVersion item = version c \<Longrightarrow>
    cell_step n (item_key item) (Claimed item) (Some c) (Some (c\<lparr>lease := Some (ItemLeaseToken item, u)\<rparr>))"
| commit: "lease c = Some (ItemLeaseToken item, u) \<Longrightarrow> n < u \<Longrightarrow>
    cell_step n (item_key item) (Committed item) (Some c)
      (Some (c\<lparr>acked := max (acked c) (ItemDirtyVersion item), lease := None\<rparr>))"
| drop: "cell_step n (t, i) (Dropped t i) c (map_option (\<lambda>c. c\<lparr>lease := None\<rparr>) c)"

inductive_cases work_stepE: "work_step (h, d) (h', d')"
inductive_cases cell_stepE: "cell_step n k e c (Some c')"
inductive_cases cell_step_NoneE: "cell_step n k e c None"

section \<open>The store refines the protocol\<close>

lemma cell_at_works:
  "works d' = works d \<Longrightarrow> cell_at d' k = cell_at d k"
  by (simp add: cell_at_def find_work_def)

lemma cell_at_update:
  assumes "\<And>w. w_key (f w) = w_key w"
  shows "cell_at (d\<lparr>works := update_where (\<lambda>w. w_key w = k) f (works d)\<rparr>) k' =
    (if k' = k then map_option (\<lambda>w. cell_of (f w)) (find_work d (fst k) (snd k)) else cell_at d k')"
  by (auto simp: cell_at_def find_work_update_key [where f = f, OF assms] split: option.split)

lemma holds_lease_cell:
  "holds_lease d t i token \<longleftrightarrow>
     (\<exists>c u. cell_at d (t, i) = Some c \<and> lease c = Some (token, u) \<and> now d < u)"
  by (auto simp: holds_lease_def cell_at_def cell_of_def lease_live_def split: option.splits)

lemma cell_of_simps:
  "cell_of (notified_row d v w) = (cell_of w)\<lparr>version := max (version (cell_of w) + 1) v\<rparr>"
  "cell_of (new_work d t i v) = \<lparr>version = v, acked = 0, lease = None\<rparr>"
  "cell_of (leased_row d opts token w) = (cell_of w)\<lparr>lease := Some (token, now d + LeaseSeconds opts)\<rparr>"
  "cell_of (committed_row d opts item w) =
     (cell_of w)\<lparr>acked := max (acked (cell_of w)) (ItemDirtyVersion item), lease := None\<rparr>"
  "cell_of (retried_row d opts code w) = (cell_of w)\<lparr>lease := None\<rparr>"
  by (simp_all add: cell_of_def notified_row_def new_work_def leased_row_def committed_row_def retried_row_def)

text \<open>The items that a claim hands out carry identifiers as the database stores them.\<close>

definition typed_history :: "work_event list \<Rightarrow> bool" where
  "typed_history h \<longleftrightarrow> (\<forall>i. Claimed i \<in> set h \<longrightarrow> canonical_item i)"

definition consistent :: "work_state \<Rightarrow> bool" where
  "consistent s \<longleftrightarrow> wf_db (snd s) \<and> typed_services (snd s) \<and> typed_history (fst s)"

lemma claim_result:
  assumes "uuid_parser_ok uuid_Parse" and "wf_db d"
    and "WorkStore_Claim uuid_Parse opts token locked tenantID d = (Inr (Some item), d')"
  shows "\<exists>c. find_work d (ItemTenantID item) (ItemServiceID item) = Some c \<and> due d c
    \<and> ItemDirtyVersion item = w_dirty c \<and> ItemLeaseToken item = token
    \<and> d' = d\<lparr>works := update_where (\<lambda>w. w_key w = item_key item) (leased_row d opts token) (works d)\<rparr>"
proof -
  obtain tenant where t: "tenantUUID uuid_Parse tenantID = Inr tenant"
    using assms(3) by (cases "tenantUUID uuid_Parse tenantID") (simp_all add: WorkStore_Claim_def bindE_def liftE_def)
  let ?rows = "filter (\<lambda>w. w_tenant w = tenant \<and> due d w \<and> w_key w \<notin> locked) (works d)"
  obtain c where c: "first_by claim_order ?rows = Some c" and
    item: "item = \<lparr>ItemTenantID = w_tenant c, ItemServiceID = w_service c,
          ItemGeneration = desired_generation_of d c, ItemDirtyVersion = w_dirty c,
          ItemLeaseToken = token\<rparr>" and
    d': "d' = d\<lparr>works := update_where (\<lambda>w. w_key w = w_key c) (leased_row d opts token) (works d)\<rparr>"
    using assms(3) unfolding WorkStore_Claim_cases [OF t] by (auto split: option.splits)
  have "c \<in> set (works d)" "due d c" using first_by_min [OF c] by simp_all
  then show ?thesis
    using find_work_eq [OF assms(2)] item d' by (intro exI [of _ c]) (simp add: w_key_def item_key_def)
qed

lemma commit_result:
  assumes "uuid_parser_ok uuid_Parse" and "wf_db d" and "canonical_item item"
    and "WorkStore_Commit uuid_Parse opts item r d = (Inr (), d')"
  shows "can_finish d item \<and> version_fits d item
    \<and> d' = d\<lparr>works := update_where (\<lambda>w. w_key w = item_key item) (committed_row d opts item) (works d)\<rparr>"
  using assms(4) unfolding WorkStore_Commit_run [OF assms(1-3)] by (auto split: if_splits)

lemma retry_result:
  assumes "uuid_parser_ok uuid_Parse" and "wf_db d" and "canonical_item item"
    and "WorkStore_Retry uuid_Parse opts item cause d = (Inr (), d')"
  shows "d' = d\<lparr>works := update_where (\<lambda>w. w_key w = item_key item)
    (retried_row d opts (workErrorCode (Some cause))) (works d)\<rparr>"
  using assms(4) unfolding WorkStore_Retry_run [OF assms(1-3)] by (auto split: if_splits)

lemma wf_works_update:
  assumes "wf_db d" and "\<And>w. w_key (f w) = w_key w"
    and "\<And>w. find_work d (fst k) (snd k) = Some w \<Longrightarrow>
           0 \<le> w_dirty (f w) \<and> w_acknowledged (f w) \<le> w_dirty (f w) \<and> 0 \<le> w_attempt (f w)"
  shows "wf_db (d\<lparr>works := update_where (\<lambda>w. w_key w = k) f (works d)\<rparr>)"
  by (rule wf_db_works [OF assms(1,2)]) (use assms(3) find_work_eq [OF assms(1)] in simp)

lemma wf_row:
  "wf_db d \<Longrightarrow> find_work d t i = Some w \<Longrightarrow>
     0 \<le> w_dirty w \<and> w_acknowledged w \<le> w_dirty w \<and> 0 \<le> w_attempt w \<and> w_key w = (t, i)
     \<and> find_service d t i \<noteq> None"
  unfolding find_service_None not_not by (simp add: find_work_eq) (force simp: wf_db_def)

lemma claim_canonical:
  assumes "consistent (h, d)" and "find_work d (ItemTenantID item) (ItemServiceID item) = Some w"
    and "uuid_text (ItemLeaseToken item)"
  shows "canonical_item item"
proof -
  obtain s where "s \<in> set (services d)" "s_key s = item_key item"
    using assms wf_row [of d "ItemTenantID item" "ItemServiceID item" w] find_service_eq
    by (fastforce simp: consistent_def item_key_def)
  then show ?thesis
    using assms by (auto simp: consistent_def typed_services_def canonical_item_def s_key_def item_key_def)
qed

lemma upsert_success:
  assumes "wf_db d" and "UpsertResourceWork t i v d = (Inr (), d')"
  shows "0 \<le> v \<and> find_service d t i \<noteq> None"
  using assms wf_row by (auto simp: UpsertResourceWork_def split: if_splits)

lemma ensure_success:
  assumes "wf_db d" and "EnsureResourceWork t i v d = (Inr (), d')"
  shows "0 \<le> v \<and> find_service d t i \<noteq> None"
  using assms wf_row by (auto simp: EnsureResourceWork_def split: if_splits)

definition released_row :: "db \<Rightarrow> InferenceResourceWork \<Rightarrow> InferenceResourceWork" where
  "released_row d w = w\<lparr>w_next_run_at := Some (now d), w_lease_owner := None, w_lease_until := None,
     w_lease_token := None, w_updated_at := now d\<rparr>"

lemma released_row_simps [simp]:
  "w_key (released_row d w) = w_key w" "cell_of (released_row d w) = (cell_of w)\<lparr>lease := None\<rparr>"
  by (simp_all add: released_row_def w_key_def cell_of_def)

lemma release_result:
  "ReleaseResourceWorkLease t i d = (res, d') \<Longrightarrow>
    d' = d\<lparr>works := update_where (\<lambda>w. w_key w = (t, i)) (released_row d) (works d)\<rparr>"
  by (simp add: ReleaseResourceWorkLease_def Let_def released_row_def [abs_def])

lemma step_consistent:
  assumes step: "work_step (h, d) (h', d')"
    and "consistent (h, d)"
  shows "consistent (h', d')"
proof -
  have c: "wf_db d" "typed_services d" "typed_history h" using assms(2) by (simp_all add: consistent_def)
  have typed: "typed_services e" if "services e = services d" for e
    using c(2) that by (simp add: typed_services_def)
  from step show ?thesis
  proof cases
    case (elapse t)
    then show ?thesis using c by (simp add: consistent_def wf_db_def typed_services_def typed_history_def)
  next
    case (claim uuid_Parse opts token locked tenantID item)
    obtain w where w: "find_work d (ItemTenantID item) (ItemServiceID item) = Some w"
      "ItemLeaseToken item = token"
      "d' = d\<lparr>works := update_where (\<lambda>w. w_key w = item_key item) (leased_row d opts token) (works d)\<rparr>"
      using claim_result [OF claim(2) c(1) claim(3)] by blast
    have "canonical_item item" using claim_canonical [OF assms(2) w(1)] w(2) claim(4) by simp
    moreover have "wf_db d'" unfolding w(3)
      by (rule wf_works_update) (use c(1) wf_row in \<open>auto simp: leased_row_def w_key_def\<close>)
    ultimately show ?thesis using claim(1) c(3) w(3) typed by (auto simp: consistent_def typed_history_def)
  next
    case (commit item uuid_Parse opts r)
    then have item: "canonical_item item" using c(3) by (simp add: typed_history_def)
    note result = commit_result [OF commit(3) c(1) item commit(4)]
    then have "wf_db d'"
      using wf_works_update [OF c(1), of "committed_row d opts item" "item_key item"] wf_row [OF c(1)]
      by (fastforce simp: version_fits_def item_key_def committed_row_def w_key_def)
    then show ?thesis using commit(1) c(3) typed result by (auto simp: consistent_def typed_history_def)
  next
    case (retry item uuid_Parse opts cause)
    then have item: "canonical_item item" using c(3) by (simp add: typed_history_def)
    note result = retry_result [OF retry(3) c(1) item retry(4)]
    have "wf_db d'" unfolding result
      by (rule wf_works_update) (use c(1) wf_row in \<open>auto simp: retried_row_def w_key_def\<close>)
    then show ?thesis using retry(1) c(3) typed result by (auto simp: consistent_def typed_history_def)
  next
    case (release t i res)
    note result = release_result [OF release(2)]
    have "wf_db d'" unfolding result
      by (rule wf_works_update) (use c(1) wf_row in \<open>auto simp: released_row_def w_key_def\<close>)
    then show ?thesis using release(1) c(3) typed result by (auto simp: consistent_def typed_history_def)
  next
    case (wake t i v)
    then have "wf_db d'" "works_only d d'"
      using UpsertResourceWork_run [OF c(1), of t i v] upsert_success [OF c(1) wake(2)] by auto
    then show ?thesis using wake(1) c(3) typed works_only_same by (auto simp: consistent_def typed_history_def)
  next
    case (ensure t i v)
    then have "wf_db d'" "works_only d d'"
      using EnsureResourceWork_run [OF c(1), of t i v] ensure_success [OF c(1) ensure(2)] by auto
    then show ?thesis using ensure(1) c(3) typed works_only_same by (auto simp: consistent_def typed_history_def)
  next
    case unrelated
    then show ?thesis using c(3) by (auto simp: consistent_def typed_history_def)
  qed
qed

definition protocol_step :: "work_state \<Rightarrow> work_event \<Rightarrow> work_state \<Rightarrow> bool" where
  "protocol_step s e s' \<longleftrightarrow> fst s' = e # fst s \<and> now (snd s) \<le> now (snd s')
     \<and> (\<forall>k. cell_step (now (snd s)) k e (cell_at (snd s) k) (cell_at (snd s') k))
     \<and> (\<forall>i. e = Claimed i \<longrightarrow> (\<forall>j. Claimed j \<in> set (fst s) \<longrightarrow> ItemLeaseToken j \<noteq> ItemLeaseToken i))
     \<and> (\<forall>i. e = Committed i \<longrightarrow> Claimed i \<in> set (fst s))"

lemma cell_at_row: "find_work d t i = Some w \<Longrightarrow> cell_at d (t, i) = Some (cell_of w)"
  by (simp add: cell_at_def)

lemma keep_other: "event_key e = Some k \<Longrightarrow> k' \<noteq> k \<Longrightarrow> cell_step n k' e c c"
  by (rule cell_step.keep) simp

lemma update_refines:
  assumes "event_key e = Some k" and "\<And>w. w_key (f w) = w_key w"
    and "cell_step (now d) k e (cell_at d k) (map_option (\<lambda>w. cell_of (f w)) (find_work d (fst k) (snd k)))"
  shows "cell_step (now d) k' e (cell_at d k')
    (cell_at (d\<lparr>works := update_where (\<lambda>w. w_key w = k) f (works d)\<rparr>) k')"
  using assms(3) keep_other [OF assms(1)] by (simp add: cell_at_update [where f = f, OF assms(2)])

lemma claim_refines:
  assumes "wf_db d" and w: "find_work d (ItemTenantID item) (ItemServiceID item) = Some w"
    and "due d w" and "ItemDirtyVersion item = w_dirty w"
  shows "cell_step (now d) k (Claimed item) (cell_at d k)
    (cell_at (d\<lparr>works := update_where (\<lambda>w. w_key w = item_key item)
       (leased_row d opts (ItemLeaseToken item)) (works d)\<rparr>) k)"
proof (rule update_refines)
  have "case lease (cell_of w) of None \<Rightarrow> True | Some (_, u) \<Rightarrow> u \<le> now d"
    using assms(3) by (auto simp: due_def cell_of_def split: option.splits)
  moreover have "ItemDirtyVersion item = version (cell_of w)" using assms(4) by (simp add: cell_of_def)
  ultimately show "cell_step (now d) (item_key item) (Claimed item) (cell_at d (item_key item))
      (map_option (\<lambda>w. cell_of (leased_row d opts (ItemLeaseToken item) w))
         (find_work d (fst (item_key item)) (snd (item_key item))))"
    using w by (simp add: item_key_def cell_at_row cell_of_simps cell_step.claim [unfolded item_key_def])
qed simp_all

lemma commit_refines:
  assumes "can_finish d item"
  shows "cell_step (now d) k (Committed item) (cell_at d k)
    (cell_at (d\<lparr>works := update_where (\<lambda>w. w_key w = item_key item) (committed_row d opts item) (works d)\<rparr>) k)"
proof (rule update_refines)
  obtain w u where w: "find_work d (ItemTenantID item) (ItemServiceID item) = Some w"
      "lease (cell_of w) = Some (ItemLeaseToken item, u)" "now d < u"
    using assms by (auto simp: can_finish_def holds_lease_cell cell_at_def)
  then show "cell_step (now d) (item_key item) (Committed item) (cell_at d (item_key item))
      (map_option (\<lambda>w. cell_of (committed_row d opts item w))
         (find_work d (fst (item_key item)) (snd (item_key item))))"
    by (simp add: item_key_def cell_at_row cell_of_simps cell_step.commit [unfolded item_key_def])
qed simp_all

lemma drop_refines:
  assumes "\<And>w. w_key (f w) = w_key w" and "\<And>w. cell_of (f w) = (cell_of w)\<lparr>lease := None\<rparr>"
  shows "cell_step (now d) k (Dropped t i) (cell_at d k)
    (cell_at (d\<lparr>works := update_where (\<lambda>w. w_key w = (t, i)) f (works d)\<rparr>) k)"
proof (rule update_refines)
  have "map_option (\<lambda>w. cell_of (f w)) (find_work d t i) =
      map_option (\<lambda>c. c\<lparr>lease := None\<rparr>) (cell_at d (t, i))"
    by (simp add: cell_at_def assms(2) option.map_comp comp_def)
  then show "cell_step (now d) (t, i) (Dropped t i) (cell_at d (t, i))
      (map_option (\<lambda>w. cell_of (f w)) (find_work d (fst (t, i)) (snd (t, i))))"
    by (simp add: cell_step.drop)
qed (simp_all add: assms(1))

lemma wake_refines:
  assumes "wf_db d" and "UpsertResourceWork t i v d = (Inr (), d')"
  shows "cell_step (now d) k (Woken t i v) (cell_at d k) (cell_at d' k)"
proof (cases "k = (t, i)")
  case True
  have v: "0 \<le> v" "find_service d t i \<noteq> None" using upsert_success [OF assms] by simp_all
  then have row: "find_work d' t i = Some (case find_work d t i of
      Some w \<Rightarrow> notified_row d v w | None \<Rightarrow> new_work d t i v)"
    using UpsertResourceWork_run [OF assms(1), of t i v] assms(2) by auto
  show ?thesis
  proof (cases "find_work d t i")
    case None
    with row v True show ?thesis by (simp add: cell_at_def cell_of_simps cell_step.create)
  next
    case (Some w)
    with row v True show ?thesis by (simp add: cell_at_def cell_of_simps cell_step.wake)
  qed
next
  case False
  then have "cell_at d' k = cell_at d k"
    using UpsertResourceWork_run [OF assms(1), of t i v] assms(2) upsert_success [OF assms]
    by (auto simp: cell_at_def)
  with False show ?thesis by (simp add: cell_step.keep)
qed

lemma ensure_refines:
  assumes "wf_db d" and "EnsureResourceWork t i v d = (Inr (), d')"
  shows "cell_step (now d) k (Ensured t i v) (cell_at d k) (cell_at d' k)"
proof (cases "k = (t, i)")
  case True
  have v: "0 \<le> v" "find_service d t i \<noteq> None" using ensure_success [OF assms] by simp_all
  then have row: "find_work d' t i = Some (case find_work d t i of
      Some w \<Rightarrow> w | None \<Rightarrow> new_work d t i v)"
    using EnsureResourceWork_run [OF assms(1), of t i v] assms(2) by (auto split: option.splits)
  show ?thesis
  proof (cases "find_work d t i")
    case None
    with row v True show ?thesis by (simp add: cell_at_def cell_of_simps cell_step.create)
  next
    case (Some w)
    with row v True show ?thesis by (simp add: cell_at_def cell_step.ensure)
  qed
next
  case False
  then have "cell_at d' k = cell_at d k"
    using EnsureResourceWork_run [OF assms(1), of t i v] assms(2) ensure_success [OF assms]
    by (cases k) (auto simp: cell_at_def split: option.splits)
  with False show ?thesis by (simp add: cell_step.keep)
qed

lemma step_refines:
  assumes step: "work_step (h, d) (h', d')"
    and "consistent (h, d)"
  shows "\<exists>e. protocol_step (h, d) e (h', d')"
proof -
  have c: "wf_db d" "typed_history h" using assms(2) by (simp_all add: consistent_def)
  from step show ?thesis
  proof cases
    case (elapse t)
    then show ?thesis by (intro exI [of _ Elapsed])
      (simp add: protocol_step_def cell_at_works [of "d\<lparr>now := t\<rparr>" d] cell_step.keep)
  next
    case (claim uuid_Parse opts token locked tenantID item)
    from claim_result [OF claim(2) c(1) claim(3)] obtain w where
      w: "find_work d (ItemTenantID item) (ItemServiceID item) = Some w" "due d w"
        "ItemDirtyVersion item = w_dirty w" "ItemLeaseToken item = token"
        "d' = d\<lparr>works := update_where (\<lambda>w. w_key w = item_key item) (leased_row d opts token) (works d)\<rparr>"
      by blast
    show ?thesis using claim_refines [OF c(1) w(1-3)] claim(1,5) w(4,5)
      by (intro exI [of _ "Claimed item"]) (simp add: protocol_step_def)
  next
    case (commit item uuid_Parse opts r)
    then have item: "canonical_item item" using c(2) by (simp add: typed_history_def)
    show ?thesis using commit_refines commit_result [OF commit(3) c(1) item commit(4)] commit(1,2)
      by (intro exI [of _ "Committed item"]) (simp add: protocol_step_def)
  next
    case (retry item uuid_Parse opts cause)
    then have item: "canonical_item item" using c(2) by (simp add: typed_history_def)
    show ?thesis using retry(1) retry_result [OF retry(3) c(1) item retry(4)]
      by (intro exI [of _ "Dropped (ItemTenantID item) (ItemServiceID item)"])
        (simp add: protocol_step_def drop_refines cell_of_simps item_key_def)
  next
    case (release t i res)
    then show ?thesis using release_result [OF release(2)]
      by (intro exI [of _ "Dropped t i"])
        (simp add: protocol_step_def drop_refines)
  next
    case (wake t i v)
    have "works_only d d'"
      using UpsertResourceWork_run [OF c(1), of t i v] upsert_success [OF c(1) wake(2)] wake(2) by auto
    with wake wake_refines [OF c(1) wake(2)] show ?thesis
      by (intro exI [of _ "Woken t i v"]) (simp add: protocol_step_def works_only_same)
  next
    case (ensure t i v)
    have "works_only d d'"
      using EnsureResourceWork_run [OF c(1), of t i v] ensure_success [OF c(1) ensure(2)] ensure(2) by auto
    with ensure ensure_refines [OF c(1) ensure(2)] show ?thesis
      by (intro exI [of _ "Ensured t i v"]) (simp add: protocol_step_def works_only_same)
  next
    case unrelated
    then show ?thesis
      by (intro exI [of _ Unrelated]) (simp add: protocol_step_def cell_at_works [of d' d] cell_step.keep)
  qed
qed

section \<open>Invariants of the protocol\<close>

lemma cell_step_grows:
  assumes "cell_step n k e (Some c) c'"
  shows "\<exists>b. c' = Some b \<and> version c \<le> version b \<and> acked c \<le> acked b
    \<and> (acked b = acked c \<or> (\<exists>i. e = Committed i \<and> item_key i = k \<and> acked b = ItemDirtyVersion i))"
  using assms by cases auto

lemma cell_step_new: "cell_step n k e None (Some c) \<Longrightarrow> acked c = 0 \<and> lease c = None"
  by (erule cell_stepE) auto

lemma cell_step_lease:
  assumes "cell_step n k e c (Some b)" and "lease b = Some (token, u)"
  shows "(\<exists>a. c = Some a \<and> lease a = Some (token, u))
    \<or> (\<exists>i. e = Claimed i \<and> item_key i = k \<and> ItemLeaseToken i = token)"
  using assms by (cases c) (auto elim: cell_stepE)

lemma cell_step_woken:
  "cell_step n (t, i) (Woken t i v) c (Some b) \<Longrightarrow> v \<le> version b \<and> (\<forall>a. c = Some a \<longrightarrow> version a < version b)"
  by (erule cell_stepE) auto

lemma cell_of_fields [simp]: "version (cell_of w) = w_dirty w" "acked (cell_of w) = w_acknowledged w"
  by (simp_all add: cell_of_def)

lemma cell_step_claimed:
  assumes "cell_step n (item_key i) (Claimed i) c c'"
  shows "\<exists>a b. c = Some a \<and> c' = Some b \<and> ItemDirtyVersion i = version a \<and> version b = version a"
  using assms by cases auto

definition claims_sound :: "work_event list \<Rightarrow> db \<Rightarrow> bool" where
  "claims_sound h d \<longleftrightarrow>
     (\<forall>i. Claimed i \<in> set h \<longrightarrow> (\<exists>c. cell_at d (item_key i) = Some c \<and> ItemDirtyVersion i \<le> version c))
     \<and> (\<forall>i j. Claimed i \<in> set h \<and> Claimed j \<in> set h \<and> ItemLeaseToken i = ItemLeaseToken j \<longrightarrow> i = j)
     \<and> (\<forall>i. Committed i \<in> set h \<longrightarrow> Claimed i \<in> set h)"

definition row_sound :: "work_event list \<Rightarrow> uuid \<times> uuid \<Rightarrow> cell \<Rightarrow> bool" where
  "row_sound h k c \<longleftrightarrow>
     (acked c = 0 \<or> (\<exists>i. Committed i \<in> set h \<and> item_key i = k \<and> ItemDirtyVersion i = acked c))
     \<and> (\<forall>token u. lease c = Some (token, u) \<longrightarrow>
          (\<exists>i. Claimed i \<in> set h \<and> item_key i = k \<and> ItemLeaseToken i = token))"

definition work_inv :: "work_state \<Rightarrow> bool" where
  "work_inv s \<longleftrightarrow> consistent s \<and> claims_sound (fst s) (snd s)
     \<and> (\<forall>k c. cell_at (snd s) k = Some c \<longrightarrow> row_sound (fst s) k c)"

lemma claims_sound_step:
  assumes "claims_sound h d" and "protocol_step (h, d) e (h', d')"
  shows "claims_sound h' d'"
proof -
  have h': "h' = e # h" and cells: "\<And>k. cell_step (now d) k e (cell_at d k) (cell_at d' k)"
    and fresh: "\<And>i. e = Claimed i \<Longrightarrow> \<forall>j. Claimed j \<in> set h \<longrightarrow> ItemLeaseToken j \<noteq> ItemLeaseToken i"
    and issued: "\<And>i. e = Committed i \<Longrightarrow> Claimed i \<in> set h"
    using assms(2) unfolding protocol_step_def by auto
  have "\<exists>c. cell_at d' (item_key i) = Some c \<and> ItemDirtyVersion i \<le> version c" if i: "Claimed i \<in> set h'" for i
  proof (cases "e = Claimed i")
    case True
    then show ?thesis using cell_step_claimed [of "now d" i] cells [of "item_key i"] by fastforce
  next
    case False
    then obtain a where "cell_at d (item_key i) = Some a" "ItemDirtyVersion i \<le> version a"
      using i h' assms(1) by (auto simp: claims_sound_def)
    then show ?thesis using cell_step_grows [of "now d" "item_key i" e a] cells [of "item_key i"] by fastforce
  qed
  moreover have "i = j" if "Claimed i \<in> set h'" "Claimed j \<in> set h'" "ItemLeaseToken i = ItemLeaseToken j" for i j
    using that assms(1) fresh unfolding h' claims_sound_def by (metis set_ConsD work_event.inject(1))
  moreover have "Claimed i \<in> set h'" if "Committed i \<in> set h'" for i
    using that assms(1) issued unfolding h' claims_sound_def by auto
  ultimately show ?thesis unfolding claims_sound_def by blast
qed

lemma row_sound_step:
  assumes "\<And>a. c = Some a \<Longrightarrow> row_sound h k a" and "cell_step n k e c (Some b)"
  shows "row_sound (e # h) k b"
proof (cases c)
  case None
  then show ?thesis using cell_step_new assms(2) by (simp add: row_sound_def)
next
  case (Some a)
  have "acked b = 0 \<or> (\<exists>i. Committed i \<in> set (e # h) \<and> item_key i = k \<and> ItemDirtyVersion i = acked b)"
    using cell_step_grows [of n k e a "Some b"] assms Some unfolding row_sound_def by fastforce
  moreover have "\<exists>i. Claimed i \<in> set (e # h) \<and> item_key i = k \<and> ItemLeaseToken i = token"
    if "lease b = Some (token, u)" for token u
    using cell_step_lease [OF assms(2) that] assms(1) unfolding row_sound_def by fastforce
  ultimately show ?thesis unfolding row_sound_def by blast
qed

lemma work_inv_step:
  assumes "work_step s s'" and "work_inv s"
  shows "work_inv s'"
proof -
  obtain h d h' d' where s: "s = (h, d)" "s' = (h', d')" by (cases s, cases s')
  have c: "consistent (h, d)" "claims_sound h d" and rows: "\<And>k c. cell_at d k = Some c \<Longrightarrow> row_sound h k c"
    using assms(2) unfolding work_inv_def s by auto
  obtain e where e: "protocol_step (h, d) e (h', d')"
    using step_refines [OF _ c(1)] assms(1) s by blast
  have "row_sound h' k b" if "cell_at d' k = Some b" for k b
    using row_sound_step [of "cell_at d k" h k "now d" e b] rows e that
    unfolding protocol_step_def by (metis fst_conv snd_conv)
  then show ?thesis
    using step_consistent [OF _ c(1)] claims_sound_step [OF c(2) e] assms(1)
    unfolding work_inv_def s by auto
qed

lemma work_inv_initial: "work_initial s \<Longrightarrow> work_inv s"
  by (auto simp: work_initial_def work_inv_def consistent_def typed_history_def claims_sound_def
      cell_at_def find_work_def)

interpretation work_table: inductive_invariant work_initial work_step work_inv
  by unfold_locales (auto intro: work_inv_initial work_inv_step)

section \<open>Guarantees of the work table\<close>

lemma steps_history: "work_step\<^sup>*\<^sup>* s s' \<Longrightarrow> work_inv s \<Longrightarrow> \<exists>g. fst s' = g @ fst s"
proof (induction rule: rtranclp_induct)
  case base
  then show ?case by simp
next
  case (step t u)
  obtain h d h' d' where t: "t = (h, d)" "u = (h', d')" by (cases t, cases u)
  have "work_inv t" using step by (blast intro: work_table.inv_steps)
  then obtain e where "protocol_step (h, d) e (h', d')"
    using step_refines [of h d h' d'] step(2) t by (auto simp: work_inv_def)
  with step t show ?case by (auto simp: protocol_step_def)
qed

text \<open>An item that lost its lease: the row has another token, or the lease has run out.\<close>

definition lost :: "work_state \<Rightarrow> Item \<Rightarrow> bool" where
  "lost s item \<longleftrightarrow> Claimed item \<in> set (fst s)
     \<and> \<not> holds_lease (snd s) (ItemTenantID item) (ItemServiceID item) (ItemLeaseToken item)"

lemma lost_step:
  assumes "work_inv s" and "work_step s s'" and "lost s item"
  shows "lost s' item"
proof -
  obtain h d h' d' where s: "s = (h, d)" "s' = (h', d')" by (cases s, cases s')
  then obtain e where e: "protocol_step (h, d) e (h', d')"
    using step_refines [of h d h' d'] assms(1,2) by (auto simp: work_inv_def)
  let ?k = "(ItemTenantID item, ItemServiceID item)"
  have h: "h' = e # h" "now d \<le> now d'" "cell_step (now d) ?k e (cell_at d ?k) (cell_at d' ?k)"
    using e unfolding protocol_step_def by auto
  have item: "Claimed item \<in> set h" "\<not> holds_lease d (ItemTenantID item) (ItemServiceID item) (ItemLeaseToken item)"
    using assms(3) by (simp_all add: lost_def s)
  have False if b: "cell_at d' ?k = Some b" "lease b = Some (ItemLeaseToken item, u)" "now d' < u" for b u
  proof -
    from cell_step_lease [OF h(3) [unfolded b(1)] b(2)] consider
        a where "cell_at d ?k = Some a" "lease a = Some (ItemLeaseToken item, u)"
      | i where "e = Claimed i" "ItemLeaseToken i = ItemLeaseToken item" by blast
    then show False
    proof cases
      case 1
      then show False using item(2) h(2) b(3) by (auto simp: holds_lease_cell)
    next
      case 2
      then show False using e item(1) unfolding protocol_step_def by fastforce
    qed
  qed
  then show ?thesis using item(1) by (auto simp: lost_def s h(1) holds_lease_cell)
qed

lemma lost_steps: "work_step\<^sup>*\<^sup>* s s' \<Longrightarrow> work_inv s \<Longrightarrow> lost s item \<Longrightarrow> lost s' item"
proof (induction rule: rtranclp_induct)
  case (step t u)
  then show ?case using lost_step [of t u item] work_table.inv_steps by blast
qed


text \<open>
  C5: A worker that lost its lease never finishes again: once a claimed item no longer holds its
  lease, every commit and every retry of it in any later state fails and leaves the database unchanged,
  whatever the other workers, notifications and commands do in between.
\<close>

theorem lost_lease_stays_lost:
  assumes "reachable work_initial work_step s" and "lost s item" and "work_step\<^sup>*\<^sup>* s (h, d)"
    and "uuid_parser_ok uuid_Parse"
  shows "(\<exists>e. WorkStore_Commit uuid_Parse opts item r d = (Inl e, d))
    \<and> (\<exists>e. WorkStore_Retry uuid_Parse opts item cause d = (Inl e, d))"
proof -
  have inv: "work_inv s" using assms(1) by (rule work_table.inv_reachable)
  then have "work_inv (h, d)" using assms(3) work_table.inv_steps by blast
  moreover have "lost (h, d) item" using lost_steps [OF assms(3) inv assms(2)] .
  ultimately have "wf_db d" "canonical_item item" "\<not> can_finish d item"
    by (auto simp: work_inv_def consistent_def typed_history_def lost_def can_finish_def)
  then show ?thesis
    by (simp add: WorkStore_Commit_run [OF assms(4)] WorkStore_Retry_run [OF assms(4)])
qed

text \<open>
  C2: No notification is lost: when a notification has raised the version of a service's row, the row
  is acknowledged up to that version only by a worker that claimed the row after the notification and
  committed it. In particular a worker that was already running cannot acknowledge it.
\<close>

theorem notification_not_lost:
  assumes "reachable work_initial work_step (h, d)"
    and "work_step (h, d) (Woken t i v # h, d1)"
    and "work_step\<^sup>*\<^sup>* (Woken t i v # h, d1) (h2, d2)"
    and "find_work d1 t i = Some w1" and "find_work d2 t i = Some w2"
    and "w_dirty w1 \<le> w_acknowledged w2" and "0 < v"
  shows "\<exists>g item. h2 = g @ Woken t i v # h \<and> Claimed item \<in> set g \<and> Committed item \<in> set g
    \<and> item_key item = (t, i) \<and> w_dirty w1 \<le> ItemDirtyVersion item"
proof -
  have inv: "work_inv (h, d)" using assms(1) by (rule work_table.inv_reachable)
  then have inv1: "work_inv (Woken t i v # h, d1)" using assms(2) by (rule work_table.inv_step)
  then have inv2: "work_inv (h2, d2)" using assms(3) work_table.inv_steps by blast
  obtain g where g: "h2 = g @ Woken t i v # h" using steps_history [OF assms(3) inv1] by auto
  obtain e where e: "protocol_step (h, d) e (Woken t i v # h, d1)"
    using step_refines [OF assms(2)] inv by (auto simp: work_inv_def)
  then have cell: "cell_step (now d) (t, i) (Woken t i v) (cell_at d (t, i)) (Some (cell_of w1))"
    using cell_at_row [OF assms(4)] unfolding protocol_step_def by (metis fst_conv snd_conv list.inject)
  have "acked (cell_of w2) \<noteq> 0" using cell_step_woken [OF cell] assms(6,7) by simp
  moreover have "row_sound h2 (t, i) (cell_of w2)" "claims_sound h2 d2" "claims_sound h d"
    using inv inv2 cell_at_row [OF assms(5)] by (auto simp: work_inv_def)
  ultimately obtain item where item: "Committed item \<in> set h2" "item_key item = (t, i)"
      "ItemDirtyVersion item = w_acknowledged w2"
    by (auto simp: row_sound_def)
  have old: "ItemDirtyVersion j < w_dirty w1" if j: "Claimed j \<in> set h" "item_key j = (t, i)" for j
  proof -
    obtain c where "cell_at d (t, i) = Some c" "ItemDirtyVersion j \<le> version c"
      using inv j by (auto simp: work_inv_def claims_sound_def)
    then show ?thesis using cell_step_woken [OF cell] by auto
  qed
  have "Claimed item \<notin> set h" using old [OF _ item(2)] item(3) assms(6) by auto
  then have "Claimed item \<in> set g" "Committed item \<in> set g"
    using item(1) \<open>claims_sound h2 d2\<close> \<open>claims_sound h d\<close> unfolding g claims_sound_def by fastforce+
  then show ?thesis using g item assms(6) by auto
qed

text \<open>
  C11: Every step of the store is a step of the row protocol for every service: a row is created with
  nothing acknowledged, a notification raises its version, a claim leases a row without a live lease and
  hands out its current version, a commit of the lease holder acknowledges the version it claimed and
  ends the lease, a retry or a release ends the lease, and nothing else changes a row. Lease tokens are
  never used again and only claimed items are committed.
\<close>

theorem work_store_refines_protocol:
  assumes "reachable work_initial work_step s" and "work_step s s'"
  shows "\<exists>e. protocol_step s e s'"
  using step_refines [of "fst s" "snd s" "fst s'" "snd s'"] work_table.inv_reachable [OF assms(1)] assms(2)
  by (simp add: work_inv_def)


section \<open>A run of the work table\<close>

definition run_db0 :: db where "run_db0 = sample_db\<lparr>works := []\<rparr>"
definition run_db1 :: db where "run_db1 = run_db0\<lparr>works := [new_work run_db0 sample_tenant sample_id 3]\<rparr>"
definition run_item :: Item where "run_item = sample_item\<lparr>ItemDirtyVersion := 3\<rparr>"
definition run_db2 :: db where
  "run_db2 = run_db1\<lparr>works := map (leased_row run_db1 sample_opts sample_token) (works run_db1)\<rparr>"
definition run_db3 :: db where
  "run_db3 = run_db2\<lparr>works := map (committed_row run_db2 sample_opts run_item) (works run_db2)\<rparr>"

lemmas run_defs = run_db0_def run_db1_def run_item_def run_db2_def run_db3_def new_work_def leased_row_def
  committed_row_def sample_simps sample_opts_def NewWorkStore_def

lemma run_start: "reachable work_initial work_step ([], run_db0)"
  by (rule reachable.start)
    (simp add: work_initial_def wf_db_def keyed_def key_defs typed_services_def run_db0_def sample_simps)

lemma run_wake: "work_step ([], run_db0) ([Woken sample_tenant sample_id 3], run_db1)"
  by (rule work_step.wake)
    (simp add: UpsertResourceWork_def run_db1_def run_db0_def find_work_def find_service_def sample_simps)

lemma run_claim: "work_step ([Woken sample_tenant sample_id 3], run_db1)
    ([Claimed run_item, Woken sample_tenant sample_id 3], run_db2)"
proof (rule work_step.claim [OF strict_parser_ok])
  have t: "tenantUUID strict_parser sample_tenant = Inr sample_tenant"
    by (simp add: tenantUUID_text strict_parser_ok)
  show "WorkStore_Claim strict_parser sample_opts sample_token {} sample_tenant run_db1 = (Inr (Some run_item), run_db2)"
    unfolding WorkStore_Claim_cases [OF t]
    by (simp add: run_db1_def run_db0_def run_db2_def run_item_def sample_simps new_work_def due_def find_service_def
        desired_generation_of_def update_where_def w_key_def)
qed simp_all

lemma run_finish: "can_finish run_db2 run_item" "canonical_item run_item" "wf_db run_db2"
  by (simp_all add: can_finish_def holds_lease_def lease_live_def canonical_item_def find_work_def find_service_def
      wf_db_def keyed_def key_defs run_defs)

lemma run_commit: "work_step ([Claimed run_item, Woken sample_tenant sample_id 3], run_db2)
    ([Committed run_item, Claimed run_item, Woken sample_tenant sample_id 3], run_db3)"
proof (rule work_step.commit [OF _ strict_parser_ok])
  have "version_fits run_db2 run_item" by (simp add: version_fits_def find_work_def run_defs)
  moreover have "update_where (\<lambda>w. w_key w = item_key run_item) f (works run_db2) = map f (works run_db2)" for f
    by (simp add: update_where_def item_key_def w_key_def run_defs)
  ultimately show "WorkStore_Commit strict_parser sample_opts run_item \<lparr>ResultGeneration = 3\<rparr> run_db2 = (Inr (), run_db3)"
    unfolding WorkStore_Commit_run [OF strict_parser_ok run_finish(3,2)] using run_finish
    by (simp add: run_db3_def) (simp add: run_item_def sample_item_def)
qed simp

lemmas run_reachable1 = reachable.next_state [OF run_start run_wake]
lemmas run_reachable2 = reachable.next_state [OF run_reachable1 run_claim]


lemma run_lost: "lost ([Committed run_item, Claimed run_item, Woken sample_tenant sample_id 3], run_db3) run_item"
  by (simp add: lost_def holds_lease_def find_work_def run_defs)

theorem lost_lease_stays_lost_witness:
  "\<exists>e. WorkStore_Commit strict_parser sample_opts run_item \<lparr>ResultGeneration = 3\<rparr> run_db3 = (Inl e, run_db3)"
  using lost_lease_stays_lost [OF reachable.next_state [OF run_reachable2 run_commit] run_lost
      rtranclp.rtrancl_refl strict_parser_ok] by blast

theorem notification_not_lost_witness:
  "\<exists>g item. [Committed run_item, Claimed run_item, Woken sample_tenant sample_id 3]
      = g @ [Woken sample_tenant sample_id 3]
    \<and> Claimed item \<in> set g \<and> Committed item \<in> set g \<and> item_key item = (sample_tenant, sample_id)
    \<and> 3 \<le> ItemDirtyVersion item"
proof -
  have "work_step\<^sup>*\<^sup>* ([Woken sample_tenant sample_id 3], run_db1)
      ([Committed run_item, Claimed run_item, Woken sample_tenant sample_id 3], run_db3)"
    using run_claim run_commit by (meson converse_rtranclp_into_rtranclp rtranclp.rtrancl_refl)
  moreover have "find_work run_db1 sample_tenant sample_id = Some (hd (works run_db1))"
      "find_work run_db3 sample_tenant sample_id = Some (hd (works run_db3))"
      "w_dirty (hd (works run_db1)) = 3" "w_acknowledged (hd (works run_db3)) = 3"
    by (simp_all add: find_work_def run_defs)
  ultimately show ?thesis
    using notification_not_lost [OF run_start run_wake] by fastforce
qed

theorem work_store_refines_protocol_witness:
  "\<exists>e. protocol_step ([Woken sample_tenant sample_id 3], run_db1)
     e ([Claimed run_item, Woken sample_tenant sample_id 3], run_db2)"
  using work_store_refines_protocol [OF run_reachable1 run_claim] .


end
