(* ===== verification/Runner.thy ===== *)
theory Runner
  imports Operation_Machine Reconcile Resources
begin

text \<open>
  The durable operation runner of \<^verbatim>\<open>internal/biz/inference/runner.go\<close> with the values and ports it uses
  (\<^verbatim>\<open>internal/biz/quota\<close>, \<^verbatim>\<open>internal/biz/publication\<close>, \<^verbatim>\<open>internal/biz/audit\<close>). A port is a record of
  functions over the state of the environment; a nil port, and an optional interface that the store or
  the publication port does not implement, is \<open>None\<close>. One definition per case of the step switch.
  Metrics recording is left out. The lemmas show which transitions a step asks for, which ports it may
  call, and what a run of one work item does to the operation.
\<close>

section \<open>Values\<close>

record Reservation =
  rv_TenantID :: string
  rv_ServiceID :: string
  rv_OperationID :: string
  rv_Generation :: string
  rv_ReservationID :: string
  rv_LeaseToken :: string
  rv_FenceOperationID :: string
  rv_RequestedResources :: Spec
  rv_Demand :: Demand
  rv_State :: string
  rv_LastErrorCode :: string

record Publication =
  pb_TenantID :: string
  pb_ServiceID :: string
  pb_OperationID :: string
  pb_Generation :: int
  pb_LeaseToken :: string
  pb_FenceOperationID :: string
  pb_URL :: string
  pb_State :: string

record Event =
  ev_TenantID :: string
  ev_EventID :: string
  ev_ServiceID :: string
  ev_OperationID :: string
  ev_Generation :: int
  ev_EventType :: string
  ev_Actor :: string
  ev_RequestID :: string
  ev_BeforeState :: str_map
  ev_AfterState :: str_map
  ev_Payload :: str_map

record OperationContext =
  oc_TenantID :: string
  oc_ServiceID :: string
  oc_ID :: string
  oc_Kind :: OperationKind
  oc_Actor :: string
  oc_RequestID :: string
  oc_LeaseToken :: string
  oc_Phase :: OperationPhase
  oc_Step :: OperationStep
  oc_Attempt :: int
  oc_TargetGeneration :: int
  oc_Reservation :: Reservation
  oc_PreviousReservation :: Reservation
  oc_Publication :: Publication
  oc_GPURequest :: "Request option"
  oc_GPUSnapshot :: "Snapshot option"
  oc_Managed :: bool
  oc_ManagedGPU :: bool
  oc_ManagedGPUCreateOperationID :: string
  oc_ManagedGPUReleasePods :: "PodRef list"
  oc_ManagedGPUReleaseSealedAt :: string
  oc_Replicas :: "32 word"
  oc_WorkerReplicas :: "32 word"
  oc_RuntimeMode :: string

record RuntimeObservation =
  ro_Ready :: bool
  ro_RuntimePhase :: string
  ro_RuntimeMode :: string
  ro_ReadyReplicas :: "32 word"
  ro_ReadyGroups :: "32 word"
  ro_ReadyWorkers :: "32 word"
  ro_LWSUID :: string
  ro_ModelReady :: bool
  ro_ModelReadyKnown :: bool
  ro_InvocationHealth :: string
  ro_Absent :: bool
  ro_Reason :: string
  ro_Objects :: "RuntimeObject list"
  ro_ReleasePods :: "PodRef list"

record ModelObservation =
  mo_Ready :: bool
  mo_Known :: bool
  mo_Reason :: string

record StepTransition =
  st_TenantID :: string
  st_OperationID :: string
  st_Kind :: OperationKind
  st_LeaseToken :: string
  st_TargetGeneration :: int
  st_ExpectedPhase :: OperationPhase
  st_ExpectedStep :: OperationStep
  st_NextPhase :: OperationPhase
  st_NextStep :: OperationStep
  st_ErrorCode :: string
  st_ErrorMessage :: string

record stepResult =
  res_phase :: OperationPhase
  res_step :: OperationStep
  res_event :: string
  res_errorMessage :: string

section \<open>Ports\<close>

record 's ManagedGPUReleaseScopeStore =
  SaveManagedGPUReleasePods :: "OperationContext \<Rightarrow> PodRef list \<Rightarrow> ('s, unit) io"
  LoadManagedGPUReleasePods :: "OperationContext \<Rightarrow> ('s, PodRef list) io"

record 's ModelObservationStore =
  MarkModelMaterializing :: "OperationContext \<Rightarrow> ('s, unit) io"
  SaveModelObservation :: "OperationContext \<Rightarrow> ModelObservation \<Rightarrow> ('s, unit) io"

record 's AtomicStepStore =
  AdvanceOperationStepCASWithAudit :: "StepTransition \<Rightarrow> Event \<Rightarrow> ('s, unit) io"
  RetryOperationStepCASWithAudit :: "StepTransition \<Rightarrow> duration \<Rightarrow> Event \<Rightarrow> ('s, unit) io"

record 's OperationStore =
  CurrentOperation :: "Item \<Rightarrow> ('s, OperationContext) io"
  AdvanceOperationStepCAS :: "StepTransition \<Rightarrow> ('s, unit) io"
  RetryOperationStepCAS :: "StepTransition \<Rightarrow> duration \<Rightarrow> ('s, unit) io"
  SaveQuotaReservation :: "Reservation \<Rightarrow> ('s, unit) io"
  SavePublication :: "Publication \<Rightarrow> ('s, unit) io"
  SaveRuntimeObservation :: "OperationContext \<Rightarrow> RuntimeObservation \<Rightarrow> ('s, unit) io"
  AsScopeStore :: "'s ManagedGPUReleaseScopeStore option"
  AsModelStore :: "'s ModelObservationStore option"
  AsGPUStore :: "(OperationContext \<Rightarrow> Snapshot option \<Rightarrow> ('s, unit) io) option"
  AsAtomic :: "'s AtomicStepStore option"

record 's ModelPort =
  EnsureModel :: "OperationContext \<Rightarrow> ('s, ModelObservation) io"
  CleanupModel :: "OperationContext \<Rightarrow> ('s, unit) io"

record 's QuotaPort =
  Reserve :: "Reservation \<Rightarrow> ('s, Reservation) io"
  Confirm :: "Reservation \<Rightarrow> ('s, unit) io"
  Release :: "Reservation \<Rightarrow> ('s, unit) io"
  GetReservation :: "string \<Rightarrow> string \<Rightarrow> ('s, Reservation) io"

record 's PublicationPort =
  Withdraw :: "Publication \<Rightarrow> ('s, unit) io"
  ConfirmWithdrawn :: "Publication \<Rightarrow> ('s, bool) io"
  Publish :: "Publication \<Rightarrow> ('s, unit) io"
  ConfirmPublished :: "Publication \<Rightarrow> ('s, bool) io"
  AsEndpointResolver :: "(Publication \<Rightarrow> ('s, string) io) option"

record 's RuntimePort =
  ApplyCR :: "OperationContext \<Rightarrow> ('s, unit) io"
  ApplyRuntime :: "OperationContext \<Rightarrow> ('s, unit) io"
  ObserveRuntime :: "OperationContext \<Rightarrow> ('s, RuntimeObservation) io"
  DeleteRuntime :: "OperationContext \<Rightarrow> ('s, unit) io"
  ObserveAbsence :: "OperationContext \<Rightarrow> ('s, RuntimeObservation) io"
  DeleteCR :: "OperationContext \<Rightarrow> ('s, unit) io"

text \<open>
  The runner. Two fields stand for what its code reads from the environment: \<open>NowText\<close> is the reading
  of \<^verbatim>\<open>time.Now().UTC().Format(time.RFC3339Nano)\<close> and \<open>NewSHA1\<close> is
  \<^verbatim>\<open>uuid.NewSHA1(uuid.NameSpaceOID, name).String()\<close>.
\<close>

record 's Runner =
  RStore :: "'s OperationStore option"
  RAdmission :: "(OperationContext \<Rightarrow> ('s, unit) io) option"
  RModel :: "'s ModelPort option"
  RGPU :: "(OperationContext \<Rightarrow> ('s, Snapshot option) io) option"
  RQuota :: "'s QuotaPort option"
  RPublication :: "'s PublicationPort option"
  RRuntime :: "'s RuntimePort option"
  RManagedGPURelease :: "(OperationContext \<Rightarrow> ('s, unit) io) option"
  RAudit :: "(Event \<Rightarrow> ('s, unit) io) option"
  RRetryAfter :: duration
  NowText :: "'s \<Rightarrow> string"
  NewSHA1 :: "string \<Rightarrow> string"

section \<open>Helpers\<close>

definition managedGPUReleaseScopeOperation :: "OperationContext \<Rightarrow> OperationContext" where
  "managedGPUReleaseScopeOperation op =
     (if oc_ManagedGPUCreateOperationID op \<noteq> ''''
      then op\<lparr>oc_ID := oc_ManagedGPUCreateOperationID op\<rparr> else op)"

definition operationState :: "OperationPhase \<Rightarrow> OperationStep \<Rightarrow> string \<Rightarrow> str_map" where
  "operationState phase step message =
     [(''message'', message), (''phase'', phase_string phase), (''step'', step_string step)]"

definition operationEventID ::
  "(string \<Rightarrow> string) \<Rightarrow> OperationContext \<Rightarrow> OperationPhase \<Rightarrow> OperationStep \<Rightarrow> string"
where
  "operationEventID newSHA1 op phase step =
     newSHA1 (oc_ID op @ ''|'' @ phase_string phase @ ''|'' @ step_string step @ ''|''
              @ FormatInt (oc_Attempt op))"

definition validateReservation :: "OperationContext \<Rightarrow> Reservation \<Rightarrow> error option" where
  "validateReservation op reservation =
     (if rv_TenantID reservation \<noteq> oc_TenantID op \<or> rv_ServiceID reservation \<noteq> oc_ServiceID op
         \<or> rv_OperationID reservation \<noteq> oc_ID op
         \<or> rv_Generation reservation \<noteq> FormatInt (oc_TargetGeneration op)
         \<or> rv_ReservationID reservation = ''''
      then Some (Errorf ''quota reservation identity does not match operation'') else None)"

definition retryAfter :: "'s Runner \<Rightarrow> duration" where
  "retryAfter r = (if RRetryAfter r \<le> 0 then 5000000 else RRetryAfter r)"

definition nextAfterQuota :: "OperationContext \<Rightarrow> OperationStep" where
  "nextAfterQuota op = StepResolveGPU"

definition provider_missing :: "string \<Rightarrow> error" where
  "provider_missing what = Wrapf '''' (Sentinel ErrOperationProviderMissing) ('': '' @ what)"

definition not_ready :: "string \<Rightarrow> error" where
  "not_ready what = Wrapf '''' (Sentinel ErrOperationNotReady) ('': '' @ what)"

definition running_at :: "OperationStep \<Rightarrow> string \<Rightarrow> ('s, stepResult) io" where
  "running_at step event = returnE
     \<lparr>res_phase = OperationRunning, res_step = step, res_event = event, res_errorMessage = ''''\<rparr>"

definition succeeded :: "string \<Rightarrow> ('s, stepResult) io" where
  "succeeded event = returnE
     \<lparr>res_phase = OperationSucceeded, res_step = StepComplete, res_event = event, res_errorMessage = ''''\<rparr>"

text \<open>\<^verbatim>\<open>if err := check; err != nil { return err }\<close>\<close>

definition checkE :: "error option \<Rightarrow> ('s, unit) io" where
  "checkE c = (case c of None \<Rightarrow> returnE () | Some e \<Rightarrow> failE e)"

text \<open>\<^verbatim>\<open>return errors.Join(err, m())\<close> for an error that is not nil.\<close>

definition join_failure :: "error \<Rightarrow> ('s, unit) io \<Rightarrow> ('s, 'a) io" where
  "join_failure err m =
     bindE (tryE m) (\<lambda>x. case x of Inl e \<Rightarrow> failE (Joined err e) | Inr _ \<Rightarrow> failE err)"

definition fenced_reservation :: "OperationContext \<Rightarrow> string \<Rightarrow> string \<Rightarrow> Reservation \<Rightarrow> Reservation" where
  "fenced_reservation op state code rv =
     rv\<lparr>rv_State := state, rv_LeaseToken := oc_LeaseToken op, rv_FenceOperationID := oc_ID op,
        rv_LastErrorCode := code\<rparr>"

definition fenced_publication :: "OperationContext \<Rightarrow> string \<Rightarrow> Publication \<Rightarrow> Publication" where
  "fenced_publication op state pb =
     pb\<lparr>pb_State := state, pb_LeaseToken := oc_LeaseToken op, pb_FenceOperationID := oc_ID op\<rparr>"

section \<open>The steps\<close>

definition step_admission :: "'s Runner \<Rightarrow> OperationContext \<Rightarrow> ('s, stepResult) io" where
  "step_admission r op =
     (case RAdmission r of
        None \<Rightarrow> failE (provider_missing ''admission'')
      | Some admit \<Rightarrow> bindE (admit op) (\<lambda>_. running_at StepReserveQuota ''admission.accepted''))"

text \<open>The lookup that precedes a reserve: the reservation to go on with, and whether it is the remote one.\<close>

definition lookup_reservation ::
  "'s QuotaPort \<Rightarrow> OperationContext \<Rightarrow> Reservation \<Rightarrow> ('s, Reservation \<times> bool) io"
where
  "lookup_reservation q op reservation =
     (if rv_State reservation = ''reserved'' then returnE (reservation, False)
      else
        bindE (tryE (GetReservation q (rv_TenantID reservation) (rv_ReservationID reservation))) (\<lambda>found.
          case found of
            Inr remote \<Rightarrow>
              if rv_ReservationID remote \<noteq> '''' then
                bindE (checkE (validateReservation op remote)) (\<lambda>_. returnE (remote, True))
              else returnE (reservation, False)
          | Inl err \<Rightarrow>
              if errors_Is err ErrReservationNotFound then returnE (reservation, False) else failE err))"

definition confirm_reservation ::
  "'s OperationStore \<Rightarrow> 's QuotaPort \<Rightarrow> OperationContext \<Rightarrow> Reservation \<Rightarrow> ('s, stepResult) io"
where
  "confirm_reservation store q op reservation =
     bindE (tryE (Confirm q reservation)) (\<lambda>x.
       case x of
         Inl err \<Rightarrow> join_failure err (SaveQuotaReservation store
           (fenced_reservation op ''reserved'' ''quota_confirm_failed'' reservation))
       | Inr _ \<Rightarrow>
         bindE (SaveQuotaReservation store (fenced_reservation op ''confirmed'' '''' reservation))
           (\<lambda>_. running_at (nextAfterQuota op) ''quota.confirmed''))"

definition step_reserve_quota ::
  "'s Runner \<Rightarrow> 's OperationStore \<Rightarrow> OperationContext \<Rightarrow> ('s, stepResult) io"
where
  "step_reserve_quota r store op =
     (if oc_Managed op \<or> oc_ManagedGPU op then running_at (nextAfterQuota op) ''quota.governance_owned''
      else case RQuota r of
        None \<Rightarrow> running_at (nextAfterQuota op) ''quota.skipped''
      | Some q \<Rightarrow>
        let reservation = oc_Reservation op in
        if rv_ReservationID reservation = '''' then failE (Errorf ''quota reservation is missing'')
        else
          bindE (checkE (validateReservation op reservation)) (\<lambda>_.
          if rv_State reservation = ''confirmed''
          then running_at (nextAfterQuota op) ''quota.already_confirmed''
          else
            bindE (lookup_reservation q op reservation) (\<lambda>(found, recovered).
            if rv_State found = ''confirmed'' then
              bindE (if recovered
                     then SaveQuotaReservation store (fenced_reservation op ''confirmed'' '''' found)
                     else returnE ())
                (\<lambda>_. running_at (nextAfterQuota op) ''quota.recovered_confirmed'')
            else if rv_State found = ''reserved'' then confirm_reservation store q op found
            else
              bindE (Reserve q found) (\<lambda>reserved.
              bindE (checkE (validateReservation op reserved)) (\<lambda>_.
                confirm_reservation store q op reserved)))))"

definition step_resolve_gpu ::
  "'s Runner \<Rightarrow> 's OperationStore \<Rightarrow> OperationContext \<Rightarrow> ('s, stepResult) io"
where
  "step_resolve_gpu r store op =
     (case oc_GPURequest op of
        None \<Rightarrow>
          if oc_ManagedGPU op then failE (Errorf ''managed GPU operation has no frozen GPU request'')
          else running_at StepApplyCR ''gpu.skipped''
      | Some request \<Rightarrow>
        let topology = (case ValidateTopology (Some request) (oc_Replicas op) (oc_RuntimeMode op)
                              (oc_WorkerReplicas op) of
                          None \<Rightarrow> None | Some e \<Rightarrow> Some (Wrapf ''validate GPU request: '' e '''')) in
        bindE (checkE topology) (\<lambda>_.
        case oc_GPUSnapshot op of
          Some plan \<Rightarrow>
            (case fst (ValidateSnapshot (Some plan) (Some request)) of
               Some e \<Rightarrow> failE (Wrapf ''validate persisted GPU plan: '' e '''')
             | None \<Rightarrow> running_at StepApplyCR ''gpu.reused'')
        | None \<Rightarrow>
          if oc_ManagedGPU op then failE (Errorf ''managed GPU operation has no frozen Governance plan'')
          else (case RGPU r of
            None \<Rightarrow> failE (provider_missing ''GPU resolver'')
          | Some resolve \<Rightarrow> (case AsGPUStore store of
              None \<Rightarrow> failE (provider_missing ''GPU plan store'')
            | Some saveGPUSnapshot \<Rightarrow>
              bindE (resolve op) (\<lambda>plan.
              bindE (checkE topology) (\<lambda>_.
                (case ValidateSnapshot plan (Some request) of
                   (Some e, _) \<Rightarrow> failE (Wrapf ''validate resolved GPU plan: '' e '''')
                 | (None, checked) \<Rightarrow>
                   bindE (saveGPUSnapshot op checked) (\<lambda>_. running_at StepApplyCR ''gpu.resolved''))))))))"

definition release_reservation ::
  "'s OperationStore \<Rightarrow> 's QuotaPort \<Rightarrow> OperationContext \<Rightarrow> Reservation \<Rightarrow> ('s, unit) io"
where
  "release_reservation store q op reservation =
     bindE (tryE (Release q reservation)) (\<lambda>x.
       case x of
         Inl err \<Rightarrow> join_failure err (SaveQuotaReservation store
           (fenced_reservation op ''release_pending'' ''quota_release_failed'' reservation))
       | Inr _ \<Rightarrow> SaveQuotaReservation store (fenced_reservation op ''released'' '''' reservation))"

definition step_release_previous_quota ::
  "'s Runner \<Rightarrow> 's OperationStore \<Rightarrow> OperationContext \<Rightarrow> ('s, stepResult) io"
where
  "step_release_previous_quota r store op =
     (if oc_Managed op \<or> oc_ManagedGPU op
      then running_at StepReserveQuota ''previous_quota.governance_owned''
      else case RQuota r of
        None \<Rightarrow> running_at StepReserveQuota ''previous_quota.skipped''
      | Some q \<Rightarrow>
        if rv_ReservationID (oc_PreviousReservation op) = ''''
        then running_at StepReserveQuota ''previous_quota.none''
        else bindE (release_reservation store q op (oc_PreviousReservation op))
               (\<lambda>_. running_at StepReserveQuota ''previous_quota.released''))"

definition step_apply_cr :: "'s Runner \<Rightarrow> OperationContext \<Rightarrow> ('s, stepResult) io" where
  "step_apply_cr r op =
     (case RRuntime r of
        None \<Rightarrow> failE (provider_missing ''runtime'')
      | Some rt \<Rightarrow> bindE (ApplyCR rt op) (\<lambda>_. running_at StepMaterializeModel ''cr.applied''))"

definition step_materialize_model ::
  "'s Runner \<Rightarrow> 's OperationStore \<Rightarrow> OperationContext \<Rightarrow> ('s, stepResult) io"
where
  "step_materialize_model r store op =
     (case RModel r of
        None \<Rightarrow> failE (provider_missing ''model'')
      | Some model \<Rightarrow> (case AsModelStore store of
          None \<Rightarrow> failE (provider_missing ''model observation store'')
        | Some ms \<Rightarrow>
          bindE (MarkModelMaterializing ms op) (\<lambda>_.
          bindE (EnsureModel model op) (\<lambda>observation.
            if \<not> mo_Known observation \<or> \<not> mo_Ready observation
            then failE (not_ready (''model materialization: '' @ mo_Reason observation))
            else
              bindE (SaveModelObservation ms op observation)
                (\<lambda>_. running_at StepApplyRuntime ''model.materialized'')))))"

definition step_apply_runtime :: "'s Runner \<Rightarrow> OperationContext \<Rightarrow> ('s, stepResult) io" where
  "step_apply_runtime r op =
     (case RRuntime r of
        None \<Rightarrow> failE (provider_missing ''runtime'')
      | Some rt \<Rightarrow> bindE (ApplyRuntime rt op) (\<lambda>_. running_at StepObserveRuntime ''runtime.apply_requested''))"

definition save_release_pods ::
  "'s OperationStore \<Rightarrow> OperationContext \<Rightarrow> PodRef list \<Rightarrow> ('s, unit) io"
where
  "save_release_pods store op pods =
     (case AsScopeStore store of
        None \<Rightarrow> returnE ()
      | Some scope \<Rightarrow> SaveManagedGPUReleasePods scope (managedGPUReleaseScopeOperation op) pods)"

definition step_observe_runtime ::
  "'s Runner \<Rightarrow> 's OperationStore \<Rightarrow> OperationContext \<Rightarrow> ('s, stepResult) io"
where
  "step_observe_runtime r store op =
     (case RRuntime r of
        None \<Rightarrow> failE (provider_missing ''runtime'')
      | Some rt \<Rightarrow>
        bindE (ObserveRuntime rt op) (\<lambda>observation.
        bindE (SaveRuntimeObservation store op observation) (\<lambda>_.
        bindE (if oc_ManagedGPU op \<and> ro_ReleasePods observation \<noteq> []
               then save_release_pods store op (ro_ReleasePods observation) else returnE ()) (\<lambda>_.
          if \<not> ro_Ready observation \<or> \<not> ro_ModelReadyKnown observation \<or> \<not> ro_ModelReady observation
          then failE (not_ready (''runtime/model: '' @ ro_Reason observation))
          else running_at StepPublish ''runtime.ready''))))"

definition step_withdraw_publication ::
  "'s Runner \<Rightarrow> 's OperationStore \<Rightarrow> OperationContext \<Rightarrow> ('s, stepResult) io"
where
  "step_withdraw_publication r store op =
     (case RPublication r of
        None \<Rightarrow> failE (provider_missing ''publication'')
      | Some pub \<Rightarrow>
        let intent = fenced_publication op ''withdrawing'' (oc_Publication op) in
        bindE (SavePublication store intent) (\<lambda>_.
        bindE (Withdraw pub intent) (\<lambda>_.
        bindE (ConfirmWithdrawn pub intent) (\<lambda>confirmed.
          if \<not> confirmed then failE (not_ready ''publication withdrawal'')
          else
            bindE (SavePublication store (fenced_publication op ''withdrawn'' intent))
              (\<lambda>_. running_at StepDeleteRuntime ''publication.withdrawn'')))))"

definition step_delete_runtime :: "'s Runner \<Rightarrow> OperationContext \<Rightarrow> ('s, stepResult) io" where
  "step_delete_runtime r op =
     (case RRuntime r of
        None \<Rightarrow> failE (provider_missing ''runtime'')
      | Some rt \<Rightarrow> bindE (DeleteRuntime rt op) (\<lambda>_. running_at StepObserveAbsence ''runtime.delete_requested''))"

definition after_absence :: "OperationKind \<Rightarrow> OperationStep" where
  "after_absence kind =
     (if kind = KindDelete then StepDeleteCR
      else if kind = KindStop then StepReleaseQuota
      else if kind = KindUpdate \<or> kind = KindRestart then StepReleasePreviousQuota
      else StepReserveQuota)"

definition load_release_pods ::
  "'s OperationStore \<Rightarrow> OperationContext \<Rightarrow> ('s, OperationContext) io"
where
  "load_release_pods store op =
     (if oc_ManagedGPUReleasePods op \<noteq> [] then returnE op
      else case AsScopeStore store of
        None \<Rightarrow> returnE op
      | Some scope \<Rightarrow>
        bindE (LoadManagedGPUReleasePods scope (managedGPUReleaseScopeOperation op))
          (\<lambda>pods. returnE (op\<lparr>oc_ManagedGPUReleasePods := pods\<rparr>)))"

definition seal_release :: "'s Runner \<Rightarrow> 's OperationStore \<Rightarrow> OperationContext \<Rightarrow> bool \<Rightarrow> ('s, OperationContext) io" where
  "seal_release r store op absent s =
     (Inr (if AsScopeStore store \<noteq> None \<and> absent \<and> oc_ManagedGPUReleaseSealedAt op = ''''
           then op\<lparr>oc_ManagedGPUReleaseSealedAt := NowText r s\<rparr> else op), s)"

definition step_observe_absence ::
  "'s Runner \<Rightarrow> 's OperationStore \<Rightarrow> OperationContext \<Rightarrow> ('s, stepResult) io"
where
  "step_observe_absence r store op =
     (case RRuntime r of
        None \<Rightarrow> failE (provider_missing ''runtime'')
      | Some rt \<Rightarrow>
        bindE (ObserveAbsence rt op) (\<lambda>observation.
        bindE (SaveRuntimeObservation store op observation) (\<lambda>_.
        bindE (if oc_ManagedGPU op \<and> (ro_ReleasePods observation \<noteq> [] \<or> ro_Absent observation)
               then bindE (seal_release r store op (ro_Absent observation)) (\<lambda>sealed.
                      bindE (save_release_pods store sealed (ro_ReleasePods observation)) (\<lambda>_. returnE sealed))
               else returnE op) (\<lambda>sealed.
        bindE (if oc_ManagedGPU sealed then load_release_pods store sealed else returnE sealed) (\<lambda>_.
          if \<not> ro_Absent observation
          then failE (not_ready (''runtime deletion: '' @ ro_Reason observation))
          else running_at (after_absence (oc_Kind op)) ''runtime.absent'')))))"

definition step_delete_cr :: "'s Runner \<Rightarrow> OperationContext \<Rightarrow> ('s, stepResult) io" where
  "step_delete_cr r op =
     (case RRuntime r of
        None \<Rightarrow> failE (provider_missing ''runtime'')
      | Some rt \<Rightarrow> (case RModel r of
          None \<Rightarrow> failE (provider_missing ''model'')
        | Some model \<Rightarrow>
          bindE (DeleteCR rt op) (\<lambda>_.
          bindE (CleanupModel model op) (\<lambda>_. running_at StepReleaseQuota ''cr.deleted''))))"

definition resolve_endpoint :: "'s PublicationPort \<Rightarrow> Publication \<Rightarrow> ('s, Publication) io" where
  "resolve_endpoint pub pb =
     (case AsEndpointResolver pub of
        None \<Rightarrow> returnE pb
      | Some endpoint \<Rightarrow>
        bindE (endpoint pb) (\<lambda>url.
          if url = '''' then failE (Errorf ''published endpoint is empty'')
          else returnE (pb\<lparr>pb_URL := url\<rparr>)))"

definition step_publish ::
  "'s Runner \<Rightarrow> 's OperationStore \<Rightarrow> OperationContext \<Rightarrow> ('s, stepResult) io"
where
  "step_publish r store op =
     (case RPublication r of
        None \<Rightarrow> failE (provider_missing ''publication'')
      | Some pub \<Rightarrow>
        let intent = fenced_publication op ''publishing'' (oc_Publication op) in
        bindE (SavePublication store intent) (\<lambda>_.
        bindE (Publish pub intent) (\<lambda>_.
        bindE (ConfirmPublished pub intent) (\<lambda>confirmed.
          if \<not> confirmed then failE (not_ready ''publication'')
          else
            bindE (resolve_endpoint pub intent) (\<lambda>resolved.
            bindE (SavePublication store (fenced_publication op ''published'' resolved))
              (\<lambda>_. succeeded ''publication.published''))))))"

definition step_release_quota ::
  "'s Runner \<Rightarrow> 's OperationStore \<Rightarrow> OperationContext \<Rightarrow> ('s, stepResult) io"
where
  "step_release_quota r store op =
     (if oc_ManagedGPU op \<and> oc_Kind op = KindDelete then
        (case RManagedGPURelease r of
           None \<Rightarrow> failE (provider_missing ''managed GPU release'')
         | Some releaseManagedGPU \<Rightarrow>
           bindE (load_release_pods store op) (\<lambda>loaded.
           bindE (releaseManagedGPU loaded) (\<lambda>_. succeeded ''quota.governance_released'')))
      else if oc_Managed op \<or> oc_ManagedGPU op then succeeded ''quota.governance_owned''
      else if rv_ReservationID (oc_Reservation op) = '''' then succeeded ''quota.none''
      else if oc_Kind op = KindDelete \<and> rv_State (oc_Reservation op) = ''pending''
              \<and> prefix ''pending-'' (rv_ReservationID (oc_Reservation op)) then
        bindE (SaveQuotaReservation store (fenced_reservation op ''released'' '''' (oc_Reservation op)))
          (\<lambda>_. succeeded ''quota.pending_cancelled'')
      else case RQuota r of
        None \<Rightarrow> succeeded ''quota.skipped''
      | Some q \<Rightarrow>
        bindE (release_reservation store q op (oc_Reservation op)) (\<lambda>_. succeeded ''quota.released''))"

definition runStep :: "'s Runner \<Rightarrow> 's OperationStore \<Rightarrow> OperationContext \<Rightarrow> ('s, stepResult) io" where
  "runStep r store op =
     (case oc_Step op of
        StepAdmission \<Rightarrow> step_admission r op
      | StepReserveQuota \<Rightarrow> step_reserve_quota r store op
      | StepResolveGPU \<Rightarrow> step_resolve_gpu r store op
      | StepReleasePreviousQuota \<Rightarrow> step_release_previous_quota r store op
      | StepApplyCR \<Rightarrow> step_apply_cr r op
      | StepMaterializeModel \<Rightarrow> step_materialize_model r store op
      | StepApplyRuntime \<Rightarrow> step_apply_runtime r op
      | StepObserveRuntime \<Rightarrow> step_observe_runtime r store op
      | StepWithdrawPublication \<Rightarrow> step_withdraw_publication r store op
      | StepDeleteRuntime \<Rightarrow> step_delete_runtime r op
      | StepObserveAbsence \<Rightarrow> step_observe_absence r store op
      | StepDeleteCR \<Rightarrow> step_delete_cr r op
      | StepPublish \<Rightarrow> step_publish r store op
      | StepReleaseQuota \<Rightarrow> step_release_quota r store op
      | other \<Rightarrow> failE (Errorf (''unsupported operation step '' @ quoted (step_string other))))"

section \<open>Recording a step\<close>

definition step_transition :: "OperationContext \<Rightarrow> OperationPhase \<Rightarrow> OperationStep \<Rightarrow> string \<Rightarrow> string \<Rightarrow> StepTransition" where
  "step_transition op phase step code message =
     \<lparr>st_TenantID = oc_TenantID op, st_OperationID = oc_ID op, st_Kind = oc_Kind op,
      st_LeaseToken = oc_LeaseToken op, st_TargetGeneration = oc_TargetGeneration op,
      st_ExpectedPhase = oc_Phase op, st_ExpectedStep = oc_Step op,
      st_NextPhase = phase, st_NextStep = step, st_ErrorCode = code, st_ErrorMessage = message\<rparr>"

definition step_event ::
  "'s Runner \<Rightarrow> OperationContext \<Rightarrow> OperationPhase \<Rightarrow> OperationStep \<Rightarrow> string \<Rightarrow> string \<Rightarrow> str_map \<Rightarrow> Event"
where
  "step_event r op phase step eventType message payload =
     \<lparr>ev_TenantID = oc_TenantID op, ev_EventID = operationEventID (NewSHA1 r) op phase step,
      ev_ServiceID = oc_ServiceID op, ev_OperationID = oc_ID op, ev_Generation = oc_TargetGeneration op,
      ev_EventType = eventType, ev_Actor = oc_Actor op, ev_RequestID = oc_RequestID op,
      ev_BeforeState = operationState (oc_Phase op) (oc_Step op) '''',
      ev_AfterState = operationState phase step message, ev_Payload = payload\<rparr>"

definition transition ::
  "'s Runner \<Rightarrow> 's OperationStore \<Rightarrow> OperationContext \<Rightarrow> OperationPhase \<Rightarrow> OperationStep \<Rightarrow> string \<Rightarrow> string
    \<Rightarrow> ('s, unit) io"
where
  "transition r store op phase step event message =
     (let auditEvent = step_event r op phase step (''inference.operation.'' @ event) message
            [(''event'', event), (''step'', step_string step)];
          next_step = step_transition op phase step '''' message in
      case AsAtomic store of
        Some atomic \<Rightarrow> AdvanceOperationStepCASWithAudit atomic next_step auditEvent
      | None \<Rightarrow> (case RAudit r of
          None \<Rightarrow> failE (provider_missing ''audit'')
        | Some append_event \<Rightarrow>
          bindE (append_event auditEvent) (\<lambda>_. AdvanceOperationStepCAS store next_step)))"

text \<open>
  \<open>retry\<close> returns the cause, joined with the error of recording the retry. The next phase and step of
  its transition are the zero values of Go.
\<close>

definition retry_step :: "'s Runner \<Rightarrow> 's OperationStore \<Rightarrow> OperationContext \<Rightarrow> error \<Rightarrow> ('s, 'a) io" where
  "retry_step r store op cause =
     (let back = step_transition op (PhaseOther '''') (StepOther '''') ''provider_retry'' (error_text cause);
          auditEvent = step_event r op OperationPending (oc_Step op) ''inference.operation.step.retry''
            (error_text cause) [(''error'', error_text cause), (''step'', step_string (oc_Step op))] in
      case AsAtomic store of
        Some atomic \<Rightarrow> join_failure cause (RetryOperationStepCASWithAudit atomic back (retryAfter r) auditEvent)
      | None \<Rightarrow> (case RAudit r of
          None \<Rightarrow> failE (Joined cause (provider_missing ''audit''))
        | Some append_event \<Rightarrow>
          join_failure cause (bindE (append_event auditEvent)
            (\<lambda>_. RetryOperationStepCAS store back (retryAfter r)))))"

text \<open>\<^verbatim>\<open>if err := m(); err != nil { return r.retry(ctx, op, err) }\<close>\<close>

definition or_retry ::
  "'s Runner \<Rightarrow> 's OperationStore \<Rightarrow> OperationContext \<Rightarrow> ('s, 'a) io \<Rightarrow> ('a \<Rightarrow> ('s, 'b) io) \<Rightarrow> ('s, 'b) io"
where
  "or_retry r store op m k =
     bindE (tryE m) (\<lambda>x. case x of Inl err \<Rightarrow> retry_step r store op err | Inr a \<Rightarrow> k a)"

definition execute_step :: "'s Runner \<Rightarrow> 's OperationStore \<Rightarrow> OperationContext \<Rightarrow> ('s, unit) io" where
  "execute_step r store op =
     or_retry r store op (runStep r store op) (\<lambda>next_step.
     or_retry r store op
       (transition r store op (res_phase next_step) (res_step next_step) (res_event next_step)
          (res_errorMessage next_step)) returnE)"

definition Runner_validate :: "'s Runner \<Rightarrow> Item \<Rightarrow> error option" where
  "Runner_validate r item =
     (if RStore r = None then Some (provider_missing ''operation store'')
      else if incomplete_item item then Some (Sentinel work_ErrStaleGeneration)
      else None)"

text \<open>The run after the operation has been loaded; \<open>op\<close> has the lease token of the item by then.\<close>

definition execute_active :: "'s Runner \<Rightarrow> 's OperationStore \<Rightarrow> OperationContext \<Rightarrow> ('s, unit) io" where
  "execute_active r store op =
     (if oc_Phase op = OperationSucceeded \<or> oc_Phase op = OperationFailed then returnE ()
      else if oc_Phase op \<noteq> OperationPending \<and> oc_Phase op \<noteq> OperationRunning
      then failE (Errorf (''unsupported operation phase '' @ quoted (phase_string (oc_Phase op))))
      else if oc_Phase op = OperationPending then
        or_retry r store op (transition r store op OperationRunning (oc_Step op) ''claimed'' '''')
          (\<lambda>_. execute_step r store (op\<lparr>oc_Phase := OperationRunning\<rparr>))
      else execute_step r store op)"

definition Runner_Execute :: "'s Runner \<Rightarrow> Item \<Rightarrow> ('s, Result) io" where
  "Runner_Execute r item =
     (case Runner_validate r item of
        Some err \<Rightarrow> failE err
      | None \<Rightarrow> (case RStore r of
          None \<Rightarrow> failE (provider_missing ''operation store'')
        | Some store \<Rightarrow>
          bindE (CurrentOperation store item) (\<lambda>op.
            if oc_TenantID op \<noteq> ItemTenantID item \<or> oc_ServiceID op \<noteq> ItemServiceID item
               \<or> oc_TargetGeneration op \<noteq> ItemGeneration item \<or> oc_ID op = ''''
            then failE (Sentinel work_ErrStaleGeneration)
            else
              bindE (execute_active r store (op\<lparr>oc_LeaseToken := ItemLeaseToken item\<rparr>))
                (\<lambda>_. returnE \<lparr>ResultGeneration = ItemGeneration item\<rparr>))))"

end
