(* ===== verification/Operation_Sql.thy ===== *)
theory Operation_Sql
  imports Work_Store Runner
begin

text \<open>
  The statements of \<^verbatim>\<open>internal/data/postgres/inference.sql.go\<close> that operations, reservations,
  publications, runtime facts, specifications and audit events go through, one definition per statement
  with its WHERE and ON CONFLICT clauses, and the constraints of the migrations that a write can
  violate. An \<^verbatim>\<open>:execrows\<close> statement returns its row count; a \<^verbatim>\<open>:one\<close> statement fails with
  \<open>ErrNoRows\<close> without a row. A statement that violates a constraint changes nothing.
\<close>

section \<open>Constraints\<close>

fun known_phase :: "OperationPhase \<Rightarrow> bool" where
  "known_phase (PhaseOther s) = False"
| "known_phase _ = True"

fun known_step :: "OperationStep \<Rightarrow> bool" where
  "known_step (StepOther s) = (s = ''verify_invocation'')"
| "known_step _ = True"

fun known_kind :: "OperationKind \<Rightarrow> bool" where
  "known_kind (KindOther s) = False"
| "known_kind _ = True"

definition op_active :: "InferenceOperation \<Rightarrow> bool" where
  "op_active op \<longleftrightarrow> o_phase op = OperationPending \<or> o_phase op = OperationRunning"

definition o_owner :: "InferenceOperation \<Rightarrow> uuid \<times> uuid" where
  "o_owner op = (o_tenant op, o_service op)"

definition operation_checks :: "InferenceOperation \<Rightarrow> bool" where
  "operation_checks op \<longleftrightarrow> known_kind (o_kind op) \<and> known_phase (o_phase op) \<and> known_step (o_step op)
     \<and> 0 < o_target_generation op \<and> 0 \<le> o_attempt op"

definition pg_check :: "string \<Rightarrow> error" where
  "pg_check relation = PgError ''23514'' (''new row for relation '' @ relation @ '' violates check constraint'')"

definition pg_unique :: "string \<Rightarrow> error" where
  "pg_unique relation = PgError ''23505'' (''duplicate key value violates unique constraint of '' @ relation)"

definition pg_foreign :: "string \<Rightarrow> error" where
  "pg_foreign relation = PgError ''23503'' (''insert or update on table '' @ relation @ '' violates foreign key constraint'')"

text \<open>The CHECK constraints, the primary key and the index \<^verbatim>\<open>inference_operations_one_active\<close>.\<close>

definition operations_error :: "InferenceOperation list \<Rightarrow> error option" where
  "operations_error ops =
     (if \<not> list_all operation_checks ops then Some (pg_check ''inference_operations'')
      else if \<not> distinct (map o_key ops) \<or> \<not> distinct (map o_owner (filter op_active ops))
      then Some (pg_unique ''inference_operations'')
      else None)"

definition write_operations :: "nat \<Rightarrow> InferenceOperation list \<Rightarrow> (db, nat) io" where
  "write_operations rows ops d =
     (case operations_error ops of
        Some e \<Rightarrow> (Inl e, d)
      | None \<Rightarrow> (Inr rows, d\<lparr>operations := ops\<rparr>))"

definition runtime_checks :: "InferenceRuntime \<Rightarrow> bool" where
  "runtime_checks rt \<longleftrightarrow> 0 < rt_generation rt
     \<and> rt_phase rt \<in> {''unknown'', ''pending'', ''loading'', ''ready'', ''degraded'', ''stopped''}
     \<and> rt_publication_phase rt \<in> {''withdrawn'', ''publishing'', ''published'', ''withdrawing'', ''unknown''}
     \<and> rt_invocation_health rt \<in> {''unknown'', ''healthy'', ''unhealthy''}
     \<and> rt_mode rt \<in> {''deployment'', ''leader_worker_set''}
     \<and> 0 \<le> sint (rt_ready_replicas rt) \<and> 0 \<le> sint (rt_ready_groups rt) \<and> 0 \<le> sint (rt_ready_workers rt)"

definition quota_checks :: "InferenceQuotaReservation \<Rightarrow> bool" where
  "quota_checks q \<longleftrightarrow> 0 < q_generation q
     \<and> q_state q \<in> {''pending'', ''reserved'', ''confirmed'', ''release_pending'', ''released'', ''failed''}"

definition publication_checks :: "InferencePublication \<Rightarrow> bool" where
  "publication_checks p \<longleftrightarrow> 0 < p_generation p
     \<and> p_desired_phase p \<in> {''withdrawn'', ''publishing'', ''published'', ''withdrawing''}
     \<and> p_observed_phase p \<in> {''withdrawn'', ''publishing'', ''published'', ''withdrawing'', ''unknown''}"

definition binding_checks :: "InferenceRuntimeBinding \<Rightarrow> bool" where
  "binding_checks b \<longleftrightarrow> 0 < b_generation b
     \<and> b_kind b \<in> {''InferenceService'', ''KServeInferenceService'', ''KServeLLMInferenceService'',
          ''Deployment'', ''Service'', ''Pod'', ''LeaderWorkerSet''}
     \<and> b_role b \<in> {''control'', ''runtime'', ''endpoint'', ''member''}"

definition q_key :: "InferenceQuotaReservation \<Rightarrow> uuid \<times> uuid" where
  "q_key q = (q_tenant q, q_operation q)"

definition p_key :: "InferencePublication \<Rightarrow> uuid \<times> uuid \<times> int" where
  "p_key p = (p_tenant p, p_service p, p_generation p)"

definition b_key :: "InferenceRuntimeBinding \<Rightarrow> uuid \<times> uuid \<times> int \<times> string \<times> string" where
  "b_key b = (b_tenant b, b_service b, b_generation b, b_kind b, b_role b)"

definition b_object :: "InferenceRuntimeBinding \<Rightarrow> uuid \<times> uuid \<times> int \<times> string \<times> string \<times> string" where
  "b_object b = (b_tenant b, b_service b, b_generation b, b_kind b, b_namespace b, b_name b)"

text \<open>A row or \<open>pgx.ErrNoRows\<close>.\<close>

definition one :: "'a option \<Rightarrow> ('s, 'a) io" where
  "one r = (case r of None \<Rightarrow> failE (Sentinel ErrNoRows) | Some a \<Rightarrow> returnE a)"

text \<open>
  A transaction: an error rolls everything back. A statement of the code that inspects \<open>ErrNoRows\<close>
  goes on in the same transaction, no server error has happened then.
\<close>

definition transaction :: "('s, 'a) io \<Rightarrow> ('s, 'a) io" where
  "transaction m d = (case m d of (Inl e, _) \<Rightarrow> (Inl e, d) | (Inr a, d') \<Rightarrow> (Inr a, d'))"

lemma transaction_Inl [simp]: "transaction m d = (Inl e, d') \<longleftrightarrow> d' = d \<and> (\<exists>x. m d = (Inl e, x))"
  by (auto simp: transaction_def split: prod.splits sum.splits)

lemma transaction_Inr [simp]: "transaction m d = (Inr a, d') \<longleftrightarrow> m d = (Inr a, d')"
  by (auto simp: transaction_def split: prod.splits sum.splits)

section \<open>Operations\<close>

text \<open>The fence of a step: the operation is current and the caller holds the live lease of its service.\<close>

definition op_fenced :: "db \<Rightarrow> InferenceOperation \<Rightarrow> uuid \<Rightarrow> bool" where
  "op_fenced d op token \<longleftrightarrow> is_current d op \<and> holds_lease d (o_tenant op) (o_service op) token"

definition step_matches ::
  "db \<Rightarrow> uuid \<Rightarrow> uuid \<Rightarrow> int \<Rightarrow> OperationPhase \<Rightarrow> OperationStep \<Rightarrow> uuid \<Rightarrow> InferenceOperation \<Rightarrow> bool"
where
  "step_matches d tenant operation generation phase step token op \<longleftrightarrow>
     o_tenant op = tenant \<and> o_id op = operation \<and> o_target_generation op = generation
     \<and> o_phase op = phase \<and> o_step op = step \<and> op_fenced d op token"

definition retry_due :: "db \<Rightarrow> InferenceOperation \<Rightarrow> bool" where
  "retry_due d op \<longleftrightarrow> (case o_retry_at op of None \<Rightarrow> True | Some t \<Rightarrow> t \<le> now d)"

definition advanced_row ::
  "db \<Rightarrow> OperationPhase \<Rightarrow> OperationStep \<Rightarrow> string \<Rightarrow> string \<Rightarrow> InferenceOperation \<Rightarrow> InferenceOperation"
where
  "advanced_row d phase step code message op =
     op\<lparr>o_phase := phase, o_step := step, o_error_code := code, o_error_message := message,
        o_retry_at := None,
        o_completed_at := (if phase = OperationSucceeded \<or> phase = OperationFailed
                           then Some (now d) else None),
        o_updated_at := now d\<rparr>"

definition sql_AdvanceOperationStepCAS ::
  "OperationPhase \<Rightarrow> OperationStep \<Rightarrow> string \<Rightarrow> string \<Rightarrow> uuid \<Rightarrow> uuid \<Rightarrow> int \<Rightarrow> OperationPhase \<Rightarrow> OperationStep
    \<Rightarrow> uuid \<Rightarrow> (db, nat) io"
where
  "sql_AdvanceOperationStepCAS next_phase next_step code message tenant operation generation phase step token d =
     (let p = (\<lambda>op. step_matches d tenant operation generation phase step token op \<and> retry_due d op) in
      write_operations (rows_where p (operations d))
        (update_where p (advanced_row d next_phase next_step code message) (operations d)) d)"

definition retry_row :: "db \<Rightarrow> duration \<Rightarrow> string \<Rightarrow> string \<Rightarrow> InferenceOperation \<Rightarrow> InferenceOperation" where
  "retry_row d after code message op =
     op\<lparr>o_phase := OperationPending, o_attempt := o_attempt op + 1, o_retry_at := Some (now d + after),
        o_lease_owner := None, o_lease_until := None, o_lease_token := None,
        o_error_code := code, o_error_message := message, o_updated_at := now d\<rparr>"

definition sql_RetryOperationStepCAS ::
  "duration \<Rightarrow> string \<Rightarrow> string \<Rightarrow> uuid \<Rightarrow> uuid \<Rightarrow> int \<Rightarrow> OperationPhase \<Rightarrow> OperationStep \<Rightarrow> uuid \<Rightarrow> (db, nat) io"
where
  "sql_RetryOperationStepCAS after code message tenant operation generation phase step token d =
     (let p = step_matches d tenant operation generation phase step token in
      write_operations (rows_where p (operations d))
        (update_where p (retry_row d after code message) (operations d)) d)"

definition CancelActiveOperation :: "uuid \<Rightarrow> uuid \<Rightarrow> (db, nat) io" where
  "CancelActiveOperation tenant service d =
     (let p = (\<lambda>op. o_tenant op = tenant \<and> o_service op = service \<and> op_active op
                 \<and> (case find_service d tenant service of
                      None \<Rightarrow> False
                    | Some s \<Rightarrow> s_current_operation s = Some (o_id op) \<and> s_deleted_at s = None)) in
      write_operations (rows_where p (operations d))
        (update_where p (\<lambda>op. op\<lparr>o_phase := OperationFailed, o_error_code := ''cancelled_by_delete'',
            o_error_message := ''cancelled by delete request'', o_retry_at := None,
            o_lease_owner := None, o_lease_until := None, o_lease_token := None,
            o_completed_at := Some (now d), o_updated_at := now d\<rparr>) (operations d)) d)"

definition GetOperation :: "uuid \<Rightarrow> uuid \<Rightarrow> (db, InferenceOperation) io" where
  "GetOperation tenant i d = one (find_operation d tenant i) d"

definition GetLeasedOperation :: "uuid \<Rightarrow> uuid \<Rightarrow> (db, InferenceOperation) io" where
  "GetLeasedOperation tenant token d =
     one (find (\<lambda>op. o_tenant op = tenant \<and> op_fenced d op token) (operations d)) d"

definition InsertOperation ::
  "uuid \<Rightarrow> uuid \<Rightarrow> uuid \<Rightarrow> OperationKind \<Rightarrow> OperationPhase \<Rightarrow> OperationStep \<Rightarrow> int \<Rightarrow> string \<Rightarrow> (db, nat) io"
where
  "InsertOperation tenant i service kind phase step generation hash d =
     (let op = \<lparr>o_tenant = tenant, o_id = i, o_service = service, o_kind = kind, o_phase = phase,
                o_step = step, o_target_generation = generation, o_request_hash = hash, o_attempt = 0,
                o_retry_at = None, o_lease_owner = None, o_lease_until = None, o_lease_token = None,
                o_error_code = '''', o_error_message = '''', o_result_snapshot = None,
                o_created_at = now d, o_updated_at = now d, o_completed_at = None\<rparr> in
      case operations_error (operations d @ [op]) of
        Some e \<Rightarrow> (Inl e, d)
      | None \<Rightarrow>
        if find_service d tenant service = None then (Inl (pg_foreign ''inference_operations''), d)
        else (Inr 1, d\<lparr>operations := operations d @ [op]\<rparr>))"

definition SaveOperationAcceptanceResponse :: "snapshot_json \<Rightarrow> uuid \<Rightarrow> uuid \<Rightarrow> (db, nat) io" where
  "SaveOperationAcceptanceResponse response tenant operation d =
     (let p = (\<lambda>op. o_tenant op = tenant \<and> o_id op = operation \<and> o_result_snapshot op = None) in
      write_operations (rows_where p (operations d))
        (update_where p (\<lambda>op. op\<lparr>o_result_snapshot := Some response\<rparr>) (operations d)) d)"

section \<open>Services\<close>

definition GetService :: "uuid \<Rightarrow> uuid \<Rightarrow> (db, InferenceService) io" where
  "GetService tenant i d = one (find_service d tenant i) d"

definition GetServiceForUpdate :: "uuid \<Rightarrow> uuid \<Rightarrow> (db, InferenceService) io" where
  "GetServiceForUpdate tenant i d = one (find_service d tenant i) d"

definition service_checks :: "InferenceService \<Rightarrow> bool" where
  "service_checks s \<longleftrightarrow> s_desired_state s \<in> {''running'', ''stopped'', ''deleted''}
     \<and> 0 < s_desired_generation s \<and> 0 \<le> s_applied_generation s
     \<and> s_applied_generation s \<le> s_desired_generation s"

definition s_name_key :: "InferenceService \<Rightarrow> uuid \<times> string" where
  "s_name_key s = (s_tenant s, s_name s)"

text \<open>The CHECK constraints, the primary key and the unique name among the services not deleted.\<close>

definition services_error :: "InferenceService list \<Rightarrow> error option" where
  "services_error ss =
     (if \<not> list_all service_checks ss then Some (pg_check ''inference_services'')
      else if \<not> distinct (map s_key ss)
           \<or> \<not> distinct (map s_name_key (filter (\<lambda>s. s_deleted_at s = None) ss))
      then Some (pg_unique ''inference_services'')
      else None)"

definition write_services :: "nat \<Rightarrow> InferenceService list \<Rightarrow> (db, nat) io" where
  "write_services rows ss d =
     (case services_error ss of
        Some e \<Rightarrow> (Inl e, d)
      | None \<Rightarrow> (Inr rows, d\<lparr>services := ss\<rparr>))"

definition InsertService :: "uuid \<Rightarrow> uuid \<Rightarrow> string \<Rightarrow> string \<Rightarrow> int \<Rightarrow> (db, nat) io" where
  "InsertService tenant i name state generation d =
     write_services 1 (services d @
       [\<lparr>s_tenant = tenant, s_id = i, s_name = name, s_desired_state = state,
         s_desired_generation = generation, s_current_operation = None, s_deleted_at = None,
         s_created_at = now d, s_updated_at = now d, s_applied_generation = 0\<rparr>]) d"

definition SetCurrentOperation :: "uuid \<Rightarrow> uuid \<Rightarrow> uuid \<Rightarrow> (db, nat) io" where
  "SetCurrentOperation tenant i operation d =
     (let p = (\<lambda>s. s_tenant s = tenant \<and> s_id s = i) in
      write_services (rows_where p (services d))
        (update_where p (\<lambda>s. s\<lparr>s_current_operation := Some operation, s_updated_at := now d\<rparr>) (services d)) d)"

definition TransitionService ::
  "string \<Rightarrow> int \<Rightarrow> uuid \<Rightarrow> uuid \<Rightarrow> uuid \<Rightarrow> int \<Rightarrow> (db, nat) io"
where
  "TransitionService state generation operation tenant i expected d =
     (let p = (\<lambda>s. s_tenant s = tenant \<and> s_id s = i \<and> s_desired_generation s = expected \<and> s_deleted_at s = None) in
      write_services (rows_where p (services d))
        (update_where p (\<lambda>s. s\<lparr>s_desired_state := state, s_desired_generation := generation,
            s_current_operation := Some operation, s_updated_at := now d\<rparr>) (services d)) d)"

definition MarkServiceAppliedGeneration :: "int \<Rightarrow> uuid \<Rightarrow> uuid \<Rightarrow> (db, nat) io" where
  "MarkServiceAppliedGeneration generation tenant i d =
     (let p = (\<lambda>s. s_tenant s = tenant \<and> s_id s = i \<and> s_desired_generation s = generation \<and> s_deleted_at s = None) in
      write_services (rows_where p (services d))
        (update_where p (\<lambda>s. s\<lparr>s_applied_generation := max (s_applied_generation s) generation,
            s_updated_at := now d\<rparr>) (services d)) d)"

definition MarkServiceDeleted :: "uuid \<Rightarrow> uuid \<Rightarrow> uuid \<Rightarrow> int \<Rightarrow> (db, nat) io" where
  "MarkServiceDeleted tenant i operation generation d =
     (let p = (\<lambda>s. s_tenant s = tenant \<and> s_id s = i \<and> s_current_operation s = Some operation
                 \<and> s_desired_state s = ''deleted'' \<and> s_desired_generation s = generation) in
      write_services (rows_where p (services d))
        (update_where p (\<lambda>s. s\<lparr>s_deleted_at := (case s_deleted_at s of None \<Rightarrow> Some (now d) | t \<Rightarrow> t),
            s_updated_at := now d\<rparr>) (services d)) d)"

section \<open>Specifications\<close>

definition GetSpec :: "uuid \<Rightarrow> uuid \<Rightarrow> int \<Rightarrow> (db, InferenceSpec) io" where
  "GetSpec tenant service generation d =
     one (find (\<lambda>sp. sp_tenant sp = tenant \<and> sp_service sp = service \<and> sp_generation sp = generation) (specs d)) d"

definition GetLatestSpec :: "uuid \<Rightarrow> uuid \<Rightarrow> int \<Rightarrow> (db, InferenceSpec) io" where
  "GetLatestSpec tenant service generation d =
     one (first_by (\<lambda>sp. - sp_generation sp)
       (filter (\<lambda>sp. sp_tenant sp = tenant \<and> sp_service sp = service \<and> sp_generation sp \<le> generation) (specs d))) d"

definition SaveGPUPlanCAS ::
  "Snapshot option \<Rightarrow> string option \<Rightarrow> uuid \<Rightarrow> uuid \<Rightarrow> int \<Rightarrow> uuid \<Rightarrow> uuid \<Rightarrow> (db, nat) io"
where
  "SaveGPUPlanCAS plan digest tenant service generation operation token d =
     (let p = (\<lambda>sp. sp_tenant sp = tenant \<and> sp_service sp = service \<and> sp_generation sp = generation
                 \<and> (case find_operation d tenant operation of
                      None \<Rightarrow> False
                    | Some op \<Rightarrow> o_target_generation op = generation \<and> o_phase op = OperationRunning
                        \<and> o_step op = StepResolveGPU \<and> op_fenced d op token)
                 \<and> (sp_gpu_plan sp = None \<or> sp_gpu_plan sp = plan)) in
      (Inr (rows_where p (specs d)),
       d\<lparr>specs := update_where p (\<lambda>sp. sp\<lparr>sp_gpu_plan := plan, sp_gpu_plan_digest := digest\<rparr>) (specs d)\<rparr>))"

section \<open>Reservations\<close>

definition active_quota_states :: "string set" where
  "active_quota_states = {''pending'', ''reserved'', ''confirmed'', ''release_pending''}"

definition GetActiveQuotaReservation :: "uuid \<Rightarrow> uuid \<Rightarrow> int \<Rightarrow> (db, InferenceQuotaReservation) io" where
  "GetActiveQuotaReservation tenant service generation d =
     one (first_by (\<lambda>q. (- q_generation q, - q_updated_at q))
       (filter (\<lambda>q. q_tenant q = tenant \<and> q_service q = service \<and> q_generation q \<le> generation
                  \<and> q_state q \<in> active_quota_states) (quotas d))) d"

definition GetPreviousQuotaReservation :: "uuid \<Rightarrow> uuid \<Rightarrow> int \<Rightarrow> (db, InferenceQuotaReservation) io" where
  "GetPreviousQuotaReservation tenant service generation d =
     one (first_by (\<lambda>q. (- q_generation q, - q_updated_at q))
       (filter (\<lambda>q. q_tenant q = tenant \<and> q_service q = service \<and> q_generation q < generation
                  \<and> q_state q \<in> {''reserved'', ''confirmed'', ''release_pending''}) (quotas d))) d"

definition quotas_error :: "InferenceQuotaReservation list \<Rightarrow> error option" where
  "quotas_error qs =
     (if \<not> list_all quota_checks qs then Some (pg_check ''inference_quota_reservations'')
      else if \<not> distinct (map q_key qs) \<or> \<not> distinct (map (\<lambda>q. (q_tenant q, q_reservation_id q)) qs)
      then Some (pg_unique ''inference_quota_reservations'')
      else None)"

definition write_quotas :: "nat \<Rightarrow> InferenceQuotaReservation list \<Rightarrow> (db, nat) io" where
  "write_quotas rows qs d =
     (case quotas_error qs of
        Some e \<Rightarrow> (Inl e, d)
      | None \<Rightarrow> (Inr rows, d\<lparr>quotas := qs\<rparr>))"

text \<open>
  The fence of a provider fact: the named operation is the current one of its own service, its target
  generation has reached the fact's, and the caller holds the live lease of that service.
\<close>

definition fact_fenced :: "db \<Rightarrow> uuid \<Rightarrow> uuid \<Rightarrow> int \<Rightarrow> uuid \<Rightarrow> bool" where
  "fact_fenced d tenant fence generation token \<longleftrightarrow>
     (case find_operation d tenant fence of
        None \<Rightarrow> False
      | Some op \<Rightarrow> generation \<le> o_target_generation op
          \<and> holds_lease d tenant (o_service op) token
          \<and> (case find_service d tenant (o_service op) of
               None \<Rightarrow> False | Some s \<Rightarrow> s_current_operation s = Some (o_id op)))"

definition UpdateQuotaReservationFenced ::
  "string \<Rightarrow> Spec \<Rightarrow> string \<Rightarrow> string \<Rightarrow> uuid \<Rightarrow> uuid \<Rightarrow> int \<Rightarrow> uuid \<Rightarrow> uuid \<Rightarrow> (db, nat) io"
where
  "UpdateQuotaReservationFenced reservationID requested state code tenant operation generation fence token d =
     (let p = (\<lambda>q. q_tenant q = tenant \<and> q_operation q = operation \<and> q_generation q = generation
                 \<and> fact_fenced d tenant fence generation token) in
      write_quotas (rows_where p (quotas d))
        (update_where p (\<lambda>q. q\<lparr>q_reservation_id := reservationID, q_requested := requested, q_state := state,
            q_last_error := code, q_updated_at := now d\<rparr>) (quotas d)) d)"

definition InsertQuotaReservation ::
  "uuid \<Rightarrow> uuid \<Rightarrow> uuid \<Rightarrow> int \<Rightarrow> string \<Rightarrow> Spec \<Rightarrow> (db, nat) io"
where
  "InsertQuotaReservation tenant service operation generation reservationID requested d =
     (if find_service d tenant service = None \<or> find_operation d tenant operation = None
      then (Inl (pg_foreign ''inference_quota_reservations''), d)
      else write_quotas 1 (quotas d @
        [\<lparr>q_tenant = tenant, q_service = service, q_operation = operation, q_generation = generation,
          q_reservation_id = reservationID, q_requested = requested, q_state = ''pending'',
          q_last_error = '''', q_created_at = now d, q_updated_at = now d\<rparr>]) d)"

section \<open>Publications\<close>

definition GetPublication :: "uuid \<Rightarrow> uuid \<Rightarrow> int \<Rightarrow> (db, InferencePublication) io" where
  "GetPublication tenant service generation d =
     one (find (\<lambda>p. p_tenant p = tenant \<and> p_service p = service \<and> p_generation p = generation) (publications d)) d"

definition GetLatestPublication :: "uuid \<Rightarrow> uuid \<Rightarrow> int \<Rightarrow> (db, InferencePublication) io" where
  "GetLatestPublication tenant service generation d =
     one (first_by (\<lambda>p. (- p_generation p, - p_updated_at p))
       (filter (\<lambda>p. p_tenant p = tenant \<and> p_service p = service \<and> p_generation p \<le> generation) (publications d))) d"

definition published_row ::
  "db \<Rightarrow> string \<Rightarrow> string \<Rightarrow> string \<Rightarrow> string \<Rightarrow> InferencePublication \<Rightarrow> InferencePublication"
where
  "published_row d desired observed url code p =
     p\<lparr>p_desired_phase := desired,
       p_observed_phase := (if desired \<in> {''publishing'', ''withdrawing''} then p_observed_phase p else observed),
       p_invocation_url := url, p_last_error := code, p_updated_at := now d\<rparr>"

definition UpsertPublicationFenced ::
  "uuid \<Rightarrow> uuid \<Rightarrow> int \<Rightarrow> string \<Rightarrow> string \<Rightarrow> string \<Rightarrow> string \<Rightarrow> uuid \<Rightarrow> uuid \<Rightarrow> (db, nat) io"
where
  "UpsertPublicationFenced tenant service generation desired observed url code fence token d =
     (let fresh = \<lparr>p_tenant = tenant, p_service = service, p_generation = generation,
                   p_desired_phase = desired, p_observed_phase = observed, p_invocation_url = url,
                   p_last_error = code, p_observed_at = None, p_updated_at = now d\<rparr> in
      if \<not> fact_fenced d tenant fence generation token then (Inr 0, d)
      else if \<not> publication_checks fresh then (Inl (pg_check ''inference_publications''), d)
      else if p_key fresh \<in> set (map p_key (publications d)) then
        (Inr 1, d\<lparr>publications := update_where (\<lambda>p. p_key p = p_key fresh)
            (published_row d desired observed url code) (publications d)\<rparr>)
      else if find_service d tenant service = None then (Inl (pg_foreign ''inference_publications''), d)
      else (Inr 1, d\<lparr>publications := publications d @ [fresh]\<rparr>))"

section \<open>Runtime facts\<close>

definition find_runtime :: "db \<Rightarrow> uuid \<Rightarrow> uuid \<Rightarrow> InferenceRuntime option" where
  "find_runtime d tenant service = find (\<lambda>rt. rt_tenant rt = tenant \<and> rt_service rt = service) (runtimes d)"

definition latest_publication_phase :: "db \<Rightarrow> InferenceService \<Rightarrow> string" where
  "latest_publication_phase d s =
     (case first_by (\<lambda>p. - p_generation p)
        (filter (\<lambda>p. p_tenant p = s_tenant s \<and> p_service p = s_id s
                   \<and> p_generation p \<le> s_desired_generation s) (publications d)) of
        None \<Rightarrow> ''withdrawn'' | Some p \<Rightarrow> p_observed_phase p)"

definition GetRuntime :: "uuid \<Rightarrow> uuid \<Rightarrow> (db, InferenceRuntime) io" where
  "GetRuntime tenant service d =
     one (case (find_runtime d tenant service, find_service d tenant service) of
            (Some rt, Some s) \<Rightarrow> Some (rt\<lparr>rt_publication_phase := latest_publication_phase d s\<rparr>)
          | _ \<Rightarrow> None) d"

definition InsertRuntime :: "uuid \<Rightarrow> uuid \<Rightarrow> int \<Rightarrow> string \<Rightarrow> (db, nat) io" where
  "InsertRuntime tenant service generation mode d =
     (let rt = \<lparr>rt_tenant = tenant, rt_service = service, rt_generation = generation, rt_phase = ''pending'',
                rt_ready_replicas = 0, rt_model_ready = False, rt_publication_phase = ''withdrawn'',
                rt_invocation_health = ''unhealthy'', rt_observed_at = None, rt_stale_after = None,
                rt_reason = ''runtime_pending'', rt_updated_at = now d, rt_mode = mode,
                rt_ready_groups = 0, rt_ready_workers = 0, rt_lws_uid = '''', rt_model_ready_known = False\<rparr> in
      if \<not> runtime_checks rt then (Inl (pg_check ''inference_runtime''), d)
      else if find_runtime d tenant service \<noteq> None then (Inl (pg_unique ''inference_runtime''), d)
      else if find_service d tenant service = None then (Inl (pg_foreign ''inference_runtime''), d)
      else (Inr 1, d\<lparr>runtimes := runtimes d @ [rt]\<rparr>))"

definition write_runtimes :: "nat \<Rightarrow> InferenceRuntime list \<Rightarrow> (db, nat) io" where
  "write_runtimes rows rts d =
     (if list_all runtime_checks rts then (Inr rows, d\<lparr>runtimes := rts\<rparr>)
      else (Inl (pg_check ''inference_runtime''), d))"

text \<open>The rows that an observation of a generation may overwrite.\<close>

definition observable :: "db \<Rightarrow> uuid \<Rightarrow> uuid \<Rightarrow> int \<Rightarrow> InferenceRuntime \<Rightarrow> bool" where
  "observable d tenant service generation rt \<longleftrightarrow>
     rt_tenant rt = tenant \<and> rt_service rt = service \<and> rt_generation rt \<le> generation
     \<and> (case find_service d tenant service of
          None \<Rightarrow> False | Some s \<Rightarrow> s_desired_generation s = generation)"

definition stale_after_two_minutes :: "db \<Rightarrow> time option" where
  "stale_after_two_minutes d = Some (now d + 120000000)"

definition observed_row ::
  "db \<Rightarrow> Observation \<Rightarrow> int \<Rightarrow> string \<Rightarrow> string \<Rightarrow> bool \<Rightarrow> string \<Rightarrow> string \<Rightarrow> InferenceRuntime \<Rightarrow> InferenceRuntime"
where
  "observed_row d observation generation mode phase modelReady pub health rt =
     rt\<lparr>rt_generation := generation, rt_mode := mode, rt_ready_groups := ObsReadyGroups observation,
        rt_ready_workers := ObsReadyWorkers observation, rt_lws_uid := ObsLWSUID observation,
        rt_phase := phase, rt_ready_replicas := ObsReadyReplicas observation,
        rt_model_ready := modelReady, rt_publication_phase := pub, rt_invocation_health := health,
        rt_observed_at := Some (now d), rt_stale_after := stale_after_two_minutes d,
        rt_updated_at := now d, rt_reason := ObsReason observation\<rparr>"

definition UpdateObservationCAS ::
  "(InferenceRuntime \<Rightarrow> InferenceRuntime) \<Rightarrow> int \<Rightarrow> uuid \<Rightarrow> uuid \<Rightarrow> (db, nat) io"
where
  "UpdateObservationCAS f generation tenant service d =
     (let p = observable d tenant service generation in
      write_runtimes (rows_where p (runtimes d)) (update_where p f (runtimes d)) d)"

definition UpdateObservationForWork ::
  "(InferenceRuntime \<Rightarrow> InferenceRuntime) \<Rightarrow> int \<Rightarrow> uuid \<Rightarrow> uuid \<Rightarrow> uuid \<Rightarrow> (db, nat) io"
where
  "UpdateObservationForWork f generation tenant service token d =
     (let p = (\<lambda>rt. observable d tenant service generation rt \<and> holds_lease d tenant service token) in
      write_runtimes (rows_where p (runtimes d)) (update_where p f (runtimes d)) d)"

definition MarkModelMaterializingForWork :: "int \<Rightarrow> uuid \<Rightarrow> uuid \<Rightarrow> uuid \<Rightarrow> (db, nat) io" where
  "MarkModelMaterializingForWork generation tenant service token d =
     UpdateObservationForWork (\<lambda>rt. rt\<lparr>rt_model_ready := False, rt_model_ready_known := False,
        rt_observed_at := Some (now d), rt_stale_after := stale_after_two_minutes d, rt_updated_at := now d,
        rt_reason := ''model materialization pending''\<rparr>) generation tenant service token d"

definition UpdateModelObservationForWork ::
  "bool \<Rightarrow> string \<Rightarrow> int \<Rightarrow> uuid \<Rightarrow> uuid \<Rightarrow> uuid \<Rightarrow> (db, nat) io"
where
  "UpdateModelObservationForWork ready reason generation tenant service token d =
     UpdateObservationForWork (\<lambda>rt. rt\<lparr>rt_model_ready := ready, rt_model_ready_known := True,
        rt_observed_at := Some (now d), rt_stale_after := stale_after_two_minutes d, rt_updated_at := now d,
        rt_reason := reason\<rparr>) generation tenant service token d"

section \<open>Runtime bindings\<close>

definition bindings_error :: "InferenceRuntimeBinding list \<Rightarrow> error option" where
  "bindings_error bs =
     (if \<not> list_all binding_checks bs then Some (pg_check ''inference_runtime_bindings'')
      else if \<not> distinct (map b_key bs) \<or> \<not> distinct (map b_object bs)
      then Some (pg_unique ''inference_runtime_bindings'')
      else None)"

definition write_bindings :: "nat \<Rightarrow> InferenceRuntimeBinding list \<Rightarrow> (db, nat) io" where
  "write_bindings rows bs d =
     (case bindings_error bs of
        Some e \<Rightarrow> (Inl e, d)
      | None \<Rightarrow> (Inr rows, d\<lparr>bindings := bs\<rparr>))"

definition GetRuntimeBinding :: "uuid \<Rightarrow> uuid \<Rightarrow> int \<Rightarrow> string \<Rightarrow> string \<Rightarrow> (db, InferenceRuntimeBinding) io" where
  "GetRuntimeBinding tenant service generation kind role d =
     one (find (\<lambda>b. b_key b = (tenant, service, generation, kind, role)) (bindings d)) d"

definition DeleteRuntimeBindingCAS ::
  "uuid \<Rightarrow> uuid \<Rightarrow> int \<Rightarrow> string \<Rightarrow> string \<Rightarrow> string \<Rightarrow> string \<Rightarrow> (db, nat) io"
where
  "DeleteRuntimeBindingCAS tenant service generation kind role uid version d =
     (let p = (\<lambda>b. b_key b = (tenant, service, generation, kind, role) \<and> b_uid b = uid
                 \<and> b_resource_version b = version) in
      (Inr (rows_where p (bindings d)), d\<lparr>bindings := delete_where p (bindings d)\<rparr>))"

text \<open>
  The conflicting row is overwritten only when it is the same object and the caller's expected UID and
  version are its own, or the caller expects nothing and repeats the stored version.
\<close>

definition binding_may_move :: "InferenceRuntimeBinding \<Rightarrow> string \<Rightarrow> string \<Rightarrow> InferenceRuntimeBinding \<Rightarrow> bool" where
  "binding_may_move fresh expectedUID expectedVersion b \<longleftrightarrow>
     b_uid b = b_uid fresh \<and> b_namespace b = b_namespace fresh \<and> b_name b = b_name fresh
     \<and> (b_uid b = expectedUID \<and> b_resource_version b = expectedVersion
        \<or> expectedUID = '''' \<and> expectedVersion = '''' \<and> b_resource_version b = b_resource_version fresh)"

definition sql_UpsertRuntimeBindingCAS :: "InferenceRuntimeBinding \<Rightarrow> string \<Rightarrow> string \<Rightarrow> (db, nat) io" where
  "sql_UpsertRuntimeBindingCAS fresh expectedUID expectedVersion d =
     (if \<not> binding_checks fresh then (Inl (pg_check ''inference_runtime_bindings''), d)
      else if b_key fresh \<in> set (map b_key (bindings d)) then
        (let p = (\<lambda>b. b_key b = b_key fresh \<and> binding_may_move fresh expectedUID expectedVersion b) in
         write_bindings (rows_where p (bindings d)) 
           (update_where p (\<lambda>b. fresh\<lparr>b_observed_at := now d\<rparr>) (bindings d)) d)
      else if find_service d (b_tenant fresh) (b_service fresh) = None
      then (Inl (pg_foreign ''inference_runtime_bindings''), d)
      else write_bindings 1 (bindings d @ [fresh\<lparr>b_observed_at := now d\<rparr>]) d)"

section \<open>Audit and observation events\<close>

definition a_key :: "InferenceAuditEvent \<Rightarrow> uuid \<times> uuid" where
  "a_key a = (a_tenant a, a_event_id a)"

definition AppendAuditEvent :: "InferenceAuditEvent \<Rightarrow> (db, unit) io" where
  "AppendAuditEvent e d =
     (if a_generation e \<le> 0 then (Inl (pg_check ''inference_audit_events''), d)
      else if a_key e \<in> set (map a_key (audits d)) then (Inr (), d)
      else if find_service d (a_tenant e) (a_service e) = None
           \<or> (case a_operation e of None \<Rightarrow> False | Some i \<Rightarrow> find_operation d (a_tenant e) i = None)
      then (Inl (pg_foreign ''inference_audit_events''), d)
      else (Inr (), d\<lparr>audits := audits d @ [e\<lparr>a_created_at := now d\<rparr>]\<rparr>))"

definition AppendObservationEvent :: "InferenceObservationEvent \<Rightarrow> (db, unit) io" where
  "AppendObservationEvent e d =
     (if oe_generation e \<le> 0 then (Inl (pg_check ''inference_observation_events''), d)
      else if (oe_tenant e, oe_event_id e) \<in> set (map (\<lambda>o'. (oe_tenant o', oe_event_id o')) (observations d))
      then (Inl (pg_unique ''inference_observation_events''), d)
      else if find_service d (oe_tenant e) (oe_service e) = None
      then (Inl (pg_foreign ''inference_observation_events''), d)
      else (Inr (), d\<lparr>observations := observations d @ [e]\<rparr>))"

text \<open>\<open>event_type LIKE 'inference.%.accepted'\<close>\<close>

definition accepted_event :: "string \<Rightarrow> bool" where
  "accepted_event t \<longleftrightarrow> prefix ''inference.'' t \<and> suffix ''.accepted'' t
     \<and> length ''inference.'' + length ''.accepted'' \<le> length t"

definition GetOperationAuditContext :: "uuid \<Rightarrow> uuid \<Rightarrow> (db, string \<times> string) io" where
  "GetOperationAuditContext tenant operation d =
     one (map_option (\<lambda>a. (a_actor a, a_request_id a))
       (first_by (\<lambda>a. (a_created_at a, a_event_id a))
         (filter (\<lambda>a. a_tenant a = tenant \<and> a_operation a = Some operation \<and> accepted_event (a_event_type a))
           (audits d)))) d"

section \<open>Idempotency\<close>

definition i_id :: "InferenceIdempotencyRequest \<Rightarrow> uuid \<times> string \<times> string" where
  "i_id r = (i_tenant r, i_method r, i_key r)"

definition GetIdempotency :: "uuid \<Rightarrow> string \<Rightarrow> string \<Rightarrow> (db, InferenceIdempotencyRequest) io" where
  "GetIdempotency tenant method key d = one (find (\<lambda>r. i_id r = (tenant, method, key)) (idempotency d)) d"

definition PutIdempotency :: "InferenceIdempotencyRequest \<Rightarrow> (db, nat) io" where
  "PutIdempotency r d =
     (if i_id r \<in> set (map i_id (idempotency d)) then (Inr 0, d)
      else if find_operation d (i_tenant r) (i_operation r) = None
      then (Inl (pg_foreign ''inference_idempotency_requests''), d)
      else (Inr 1, d\<lparr>idempotency := idempotency d @ [r]\<rparr>))"

section \<open>Managed resources\<close>

definition GetManagedGPUResource :: "uuid \<Rightarrow> uuid \<Rightarrow> (db, InferenceManagedGpuResource) io" where
  "GetManagedGPUResource tenant resource d =
     one (find (\<lambda>g. g_tenant g = tenant \<and> g_resource g = resource) (managed d)) d"

definition GetManagedGPUState :: "uuid \<Rightarrow> uuid \<Rightarrow> (db, bool \<times> bool) io" where
  "GetManagedGPUState tenant resource d =
     (let rows = filter (\<lambda>g. g_tenant g = tenant \<and> g_resource g = resource) (managed d) in
      (Inr (rows \<noteq> [], list_ex g_closing rows), d))"

definition r_key :: "InferenceManagedGpuReleaseScope \<Rightarrow> uuid \<times> uuid \<times> uuid" where
  "r_key r = (r_tenant r, r_service r, r_operation r)"

definition GetManagedGPUReleaseScope :: "uuid \<Rightarrow> uuid \<Rightarrow> uuid \<Rightarrow> (db, scope_payload) io" where
  "GetManagedGPUReleaseScope tenant service operation d =
     one (map_option r_scope (find (\<lambda>r. r_key r = (tenant, service, operation)) (scopes d))) d"

definition UpsertManagedGPUReleaseScope ::
  "uuid \<Rightarrow> uuid \<Rightarrow> uuid \<Rightarrow> scope_payload \<Rightarrow> (db, unit) io"
where
  "UpsertManagedGPUReleaseScope tenant service operation scope d =
     (if (tenant, service, operation) \<in> set (map r_key (scopes d))
      then (Inr (), d\<lparr>scopes := update_where (\<lambda>r. r_key r = (tenant, service, operation))
              (\<lambda>r. r\<lparr>r_scope := scope\<rparr>) (scopes d)\<rparr>)
      else (Inr (), d\<lparr>scopes := scopes d @ [\<lparr>r_tenant = tenant, r_service = service, r_operation = operation,
              r_scope = scope\<rparr>]\<rparr>))"

end
