(* ===== verification/Runner_Steps.thy ===== *)
theory Runner_Steps
  imports Runner
begin

text \<open>
  What the runner's steps do: the transition each step asks for, when a step succeeds, which ports it
  does not contact, and that a run records a step only through the store's compare-and-swap.
\<close>

lemmas step_defs = step_admission_def step_reserve_quota_def step_resolve_gpu_def
  step_release_previous_quota_def step_apply_cr_def step_materialize_model_def step_apply_runtime_def
  step_observe_runtime_def step_withdraw_publication_def step_delete_runtime_def step_observe_absence_def
  step_delete_cr_def step_publish_def step_release_quota_def

section \<open>The transition of a step\<close>

text \<open>The phase and step that a successful step leads to.\<close>

fun next_of :: "OperationKind \<Rightarrow> OperationStep \<Rightarrow> OperationPhase \<times> OperationStep" where
  "next_of kind StepAdmission = (OperationRunning, StepReserveQuota)"
| "next_of kind StepReserveQuota = (OperationRunning, StepResolveGPU)"
| "next_of kind StepResolveGPU = (OperationRunning, StepApplyCR)"
| "next_of kind StepReleasePreviousQuota = (OperationRunning, StepReserveQuota)"
| "next_of kind StepApplyCR = (OperationRunning, StepMaterializeModel)"
| "next_of kind StepMaterializeModel = (OperationRunning, StepApplyRuntime)"
| "next_of kind StepApplyRuntime = (OperationRunning, StepObserveRuntime)"
| "next_of kind StepObserveRuntime = (OperationRunning, StepPublish)"
| "next_of kind StepWithdrawPublication = (OperationRunning, StepDeleteRuntime)"
| "next_of kind StepDeleteRuntime = (OperationRunning, StepObserveAbsence)"
| "next_of kind StepObserveAbsence = (OperationRunning, after_absence kind)"
| "next_of kind StepDeleteCR = (OperationRunning, StepReleaseQuota)"
| "next_of kind StepPublish = (OperationSucceeded, StepComplete)"
| "next_of kind StepReleaseQuota = (OperationSucceeded, StepComplete)"
| "next_of kind StepComplete = (OperationRunning, StepComplete)"
| "next_of kind (StepOther x) = (OperationRunning, StepOther x)"

definition leads_to :: "('s, stepResult) io \<Rightarrow> OperationPhase \<times> OperationStep \<Rightarrow> bool" where
  "leads_to m next_state \<longleftrightarrow> yields (\<lambda>res. (res_phase res, res_step res) = next_state) m"

lemma leads_to_running [yields_intros]: "leads_to (running_at step event) (OperationRunning, step)"
  by (simp add: leads_to_def yields_def running_at_def)

lemma leads_to_succeeded [yields_intros]: "leads_to (succeeded event) (OperationSucceeded, StepComplete)"
  by (simp add: leads_to_def yields_def succeeded_def)

lemma yields_join [yields_intros]: "yields q (join_failure e m)"
  unfolding join_failure_def by (intro yields_intros)

lemma leads_to_confirm [yields_intros]:
  "leads_to (confirm_reservation store q op rv) (OperationRunning, StepResolveGPU)"
  unfolding confirm_reservation_def nextAfterQuota_def leads_to_def
  by (intro yields_intros yields_intros [unfolded leads_to_def])

lemma leads_to_steps:
  "leads_to (step_admission r op) (OperationRunning, StepReserveQuota)"
  "leads_to (step_reserve_quota r store op) (OperationRunning, StepResolveGPU)"
  "leads_to (step_resolve_gpu r store op) (OperationRunning, StepApplyCR)"
  "leads_to (step_release_previous_quota r store op) (OperationRunning, StepReserveQuota)"
  "leads_to (step_apply_cr r op) (OperationRunning, StepMaterializeModel)"
  "leads_to (step_materialize_model r store op) (OperationRunning, StepApplyRuntime)"
  "leads_to (step_apply_runtime r op) (OperationRunning, StepObserveRuntime)"
  "leads_to (step_observe_runtime r store op) (OperationRunning, StepPublish)"
  "leads_to (step_withdraw_publication r store op) (OperationRunning, StepDeleteRuntime)"
  "leads_to (step_delete_runtime r op) (OperationRunning, StepObserveAbsence)"
  "leads_to (step_observe_absence r store op) (OperationRunning, after_absence (oc_Kind op))"
  "leads_to (step_delete_cr r op) (OperationRunning, StepReleaseQuota)"
  "leads_to (step_publish r store op) (OperationSucceeded, StepComplete)"
  "leads_to (step_release_quota r store op) (OperationSucceeded, StepComplete)"
  unfolding step_defs nextAfterQuota_def Let_def leads_to_def
  by (intro yields_intros yields_intros [unfolded leads_to_def])+

lemma runStep_next: "leads_to (runStep r store op) (next_of (oc_Kind op) (oc_Step op))"
  by (cases "oc_Step op") (simp_all add: runStep_def leads_to_steps leads_to_def [of "failE _"] yields_failE)

lemma next_of_valid:
  assumes "operationPaths kind = Some path" and "step \<in> set (butlast path)"
  shows "ValidateOperationStepTransition kind OperationRunning step
    (fst (next_of kind step)) (snd (next_of kind step)) = None"
  using assms
  by (cases kind) (auto simp: ValidateOperationStepTransition_def operationStepIndex_def after_absence_def)

text \<open>
  C20: Every step asks for a legal transition: for an operation of a known kind at an active step of its
  path, whatever the ports answer, a step that succeeds leads to a phase and step that the operation
  state machine allows from the running phase at that step.
\<close>

theorem step_result_valid:
  assumes "operationPaths (oc_Kind op) = Some path" and "oc_Step op \<in> set (butlast path)"
    and "runStep r store op s = (Inr res, s')"
  shows "ValidateOperationStepTransition (oc_Kind op) OperationRunning (oc_Step op)
    (res_phase res) (res_step res) = None"
  using next_of_valid [OF assms(1,2)] runStep_next [of r store op] assms(3)
  by (auto simp: leads_to_def yields_def prod_eq_iff)

section \<open>Ports that a step does not contact\<close>

lemma seal_release_cong: "NowText r = NowText r' \<Longrightarrow> seal_release r = seal_release r'"
  by (intro ext) (simp only: seal_release_def)

lemma seal_release_ports [simp]:
  "seal_release (r\<lparr>RGPU := g\<rparr>) = seal_release r" "seal_release (r\<lparr>RQuota := q\<rparr>) = seal_release r"
  by (rule seal_release_cong, simp)+

lemma port_fields:
  "RStore (r\<lparr>RGPU := g\<rparr>) = RStore r" "RStore (r\<lparr>RQuota := q\<rparr>) = RStore r"
  "RAdmission (r\<lparr>RGPU := g\<rparr>) = RAdmission r" "RAdmission (r\<lparr>RQuota := q\<rparr>) = RAdmission r"
  "RModel (r\<lparr>RGPU := g\<rparr>) = RModel r" "RModel (r\<lparr>RQuota := q\<rparr>) = RModel r"
  "RPublication (r\<lparr>RGPU := g\<rparr>) = RPublication r" "RPublication (r\<lparr>RQuota := q\<rparr>) = RPublication r"
  "RRuntime (r\<lparr>RGPU := g\<rparr>) = RRuntime r" "RRuntime (r\<lparr>RQuota := q\<rparr>) = RRuntime r"
  "RManagedGPURelease (r\<lparr>RGPU := g\<rparr>) = RManagedGPURelease r" "RManagedGPURelease (r\<lparr>RQuota := q\<rparr>) = RManagedGPURelease r"
  "RAudit (r\<lparr>RGPU := g\<rparr>) = RAudit r" "RAudit (r\<lparr>RQuota := q\<rparr>) = RAudit r"
  "RRetryAfter (r\<lparr>RGPU := g\<rparr>) = RRetryAfter r" "RRetryAfter (r\<lparr>RQuota := q\<rparr>) = RRetryAfter r"
  "NowText (r\<lparr>RGPU := g\<rparr>) = NowText r" "NowText (r\<lparr>RQuota := q\<rparr>) = NowText r"
  "NewSHA1 (r\<lparr>RGPU := g\<rparr>) = NewSHA1 r" "NewSHA1 (r\<lparr>RQuota := q\<rparr>) = NewSHA1 r"
  "RQuota (r\<lparr>RGPU := g\<rparr>) = RQuota r" "RGPU (r\<lparr>RQuota := q\<rparr>) = RGPU r"
  by simp_all

lemma steps_gpu [simp]:
  "step_admission (r\<lparr>RGPU := g\<rparr>) = step_admission r"
  "step_reserve_quota (r\<lparr>RGPU := g\<rparr>) = step_reserve_quota r"
  "step_release_previous_quota (r\<lparr>RGPU := g\<rparr>) = step_release_previous_quota r"
  "step_apply_cr (r\<lparr>RGPU := g\<rparr>) = step_apply_cr r"
  "step_materialize_model (r\<lparr>RGPU := g\<rparr>) = step_materialize_model r"
  "step_apply_runtime (r\<lparr>RGPU := g\<rparr>) = step_apply_runtime r"
  "step_observe_runtime (r\<lparr>RGPU := g\<rparr>) = step_observe_runtime r"
  "step_withdraw_publication (r\<lparr>RGPU := g\<rparr>) = step_withdraw_publication r"
  "step_delete_runtime (r\<lparr>RGPU := g\<rparr>) = step_delete_runtime r"
  "step_observe_absence (r\<lparr>RGPU := g\<rparr>) = step_observe_absence r"
  "step_delete_cr (r\<lparr>RGPU := g\<rparr>) = step_delete_cr r"
  "step_publish (r\<lparr>RGPU := g\<rparr>) = step_publish r"
  "step_release_quota (r\<lparr>RGPU := g\<rparr>) = step_release_quota r"
  by (simp_all only: step_defs [abs_def] port_fields seal_release_ports)

lemma steps_quota [simp]:
  "step_admission (r\<lparr>RQuota := q\<rparr>) = step_admission r"
  "step_resolve_gpu (r\<lparr>RQuota := q\<rparr>) = step_resolve_gpu r"
  "step_apply_cr (r\<lparr>RQuota := q\<rparr>) = step_apply_cr r"
  "step_materialize_model (r\<lparr>RQuota := q\<rparr>) = step_materialize_model r"
  "step_apply_runtime (r\<lparr>RQuota := q\<rparr>) = step_apply_runtime r"
  "step_observe_runtime (r\<lparr>RQuota := q\<rparr>) = step_observe_runtime r"
  "step_withdraw_publication (r\<lparr>RQuota := q\<rparr>) = step_withdraw_publication r"
  "step_delete_runtime (r\<lparr>RQuota := q\<rparr>) = step_delete_runtime r"
  "step_observe_absence (r\<lparr>RQuota := q\<rparr>) = step_observe_absence r"
  "step_delete_cr (r\<lparr>RQuota := q\<rparr>) = step_delete_cr r"
  "step_publish (r\<lparr>RQuota := q\<rparr>) = step_publish r"
  by (simp_all only: step_defs [abs_def] port_fields seal_release_ports)

text \<open>
  C31: The accelerator is contacted only for a generation that asks for a GPU and has no plan yet: without
  a GPU request, with a persisted plan, or for a managed GPU operation, every run of a step is the same
  for every resolver.
\<close>

theorem gpu_resolver_not_contacted:
  "oc_GPURequest op = None \<or> oc_GPUSnapshot op \<noteq> None \<or> oc_ManagedGPU op \<Longrightarrow>
     runStep (r\<lparr>RGPU := resolver\<rparr>) store op s = runStep r store op s"
  by (cases "oc_Step op")
    (auto simp: runStep_def step_resolve_gpu_def Let_def checkE_def split: option.splits)

text \<open>The quota provider with another \<open>Reserve\<close>.\<close>

definition with_reserve :: "'s Runner \<Rightarrow> (Reservation \<Rightarrow> ('s, Reservation) io) \<Rightarrow> 's Runner" where
  "with_reserve r f = r\<lparr>RQuota := map_option (\<lambda>q. q\<lparr>Reserve := f\<rparr>) (RQuota r)\<rparr>"

definition reservation_found :: "'s Runner \<Rightarrow> OperationContext \<Rightarrow> 's \<Rightarrow> bool" where
  "reservation_found r op s \<longleftrightarrow> (\<exists>q. RQuota r = Some q \<and>
     (case fst (GetReservation q (rv_TenantID (oc_Reservation op)) (rv_ReservationID (oc_Reservation op)) s) of
        Inr remote \<Rightarrow> rv_ReservationID remote \<noteq> '''' \<and> rv_State remote \<in> {''reserved'', ''confirmed''}
      | Inl err \<Rightarrow> \<not> errors_Is err ErrReservationNotFound))"

lemma quota_ports:
  "lookup_reservation (q\<lparr>Reserve := f\<rparr>) = lookup_reservation q"
  "confirm_reservation store (q\<lparr>Reserve := f\<rparr>) = confirm_reservation store q"
  by (intro ext, simp add: lookup_reservation_def confirm_reservation_def)+

lemma lookup_found:
  assumes "rv_State (oc_Reservation op) = ''reserved'' \<or> reservation_found r op s" and "RQuota r = Some q"
    and "lookup_reservation q op (oc_Reservation op) s = (Inr (found, recovered), s')"
  shows "rv_State found \<in> {''reserved'', ''confirmed''}"
  using assms
  by (auto simp: lookup_reservation_def reservation_found_def bindE_eq_Inr checkE_def
      split: if_splits sum.splits option.splits)

text \<open>
  C21: A reservation is never made twice: when the stored reservation is already reserved or confirmed, or
  the provider's lookup returns a reserved or confirmed reservation or fails with anything but not found, the
  step is the same for every implementation of Reserve, so it is not called.
\<close>

theorem reserve_not_repeated:
  "rv_State (oc_Reservation op) \<in> {''reserved'', ''confirmed''} \<or> reservation_found r op s \<Longrightarrow>
     runStep (with_reserve r f) store op s = runStep r store op s"
proof (cases "oc_Step op")
  case StepReserveQuota
  assume found: "rv_State (oc_Reservation op) \<in> {''reserved'', ''confirmed''} \<or> reservation_found r op s"
  show ?thesis
  proof (cases "RQuota r")
    case None
    with StepReserveQuota show ?thesis by (simp add: runStep_def with_reserve_def step_reserve_quota_def)
  next
    case (Some q)
    obtain x s' where look: "lookup_reservation q op (oc_Reservation op) s = (x, s')" by fastforce
    have "rv_State found \<in> {''reserved'', ''confirmed''}"
      if "x = Inr (found, recovered)" "rv_State (oc_Reservation op) \<noteq> ''confirmed''" for found recovered
      using lookup_found [of op r s q found recovered s'] found Some look that by auto
    then show ?thesis using StepReserveQuota Some look
      by (cases x)
        (auto simp: runStep_def with_reserve_def step_reserve_quota_def quota_ports Let_def checkE_def
          bindE_def [of "lookup_reservation q op (oc_Reservation op)"] split: option.split)
  qed
qed (simp_all add: runStep_def with_reserve_def step_release_quota_def step_release_previous_quota_def
    release_reservation_def split: option.split)

section \<open>Recording steps through a durable store\<close>

text \<open>
  What the runner relies on of a store that records steps: \<open>position\<close> is the phase and step that the
  store has for an operation, \<open>ident\<close> and \<open>key\<close> the operation that a transition and a context name. An advance is a
  compare-and-swap on the expected position along a legal transition, a retry puts the operation back
  to pending at the expected step, and a failed call changes no position.
\<close>

type_synonym position = "OperationPhase \<times> OperationStep"

locale durable_steps =
  fixes inv :: "'s \<Rightarrow> bool"
    and position :: "'s \<Rightarrow> 'k \<Rightarrow> position option"
    and ident :: "StepTransition \<Rightarrow> 'k"
    and key :: "OperationContext \<Rightarrow> 'k"
    and atomic :: "'s AtomicStepStore"
  assumes ident_key [simp]: "ident (step_transition op phase step code message) = key op"
    and key_phase [simp]: "key (op\<lparr>oc_Phase := phase\<rparr>) = key op"
    and key_token [simp]: "key (op\<lparr>oc_LeaseToken := token\<rparr>) = key op"
    and advance_inv: "inv s \<Longrightarrow> AdvanceOperationStepCASWithAudit atomic t ev s = (res, s') \<Longrightarrow> inv s'"
    and advance_ok: "inv s \<Longrightarrow> AdvanceOperationStepCASWithAudit atomic t ev s = (Inr (), s') \<Longrightarrow>
        position s (ident t) = Some (st_ExpectedPhase t, st_ExpectedStep t)
        \<and> ValidateOperationStepTransition (st_Kind t) (st_ExpectedPhase t) (st_ExpectedStep t)
            (st_NextPhase t) (st_NextStep t) = None
        \<and> position s' = (position s)(ident t \<mapsto> (st_NextPhase t, st_NextStep t))"
    and advance_failed: "inv s \<Longrightarrow> AdvanceOperationStepCASWithAudit atomic t ev s = (Inl e, s') \<Longrightarrow>
        position s' = position s"
    and retry_inv: "inv s \<Longrightarrow> RetryOperationStepCASWithAudit atomic t after ev s = (res, s') \<Longrightarrow> inv s'"
    and retry_ok: "inv s \<Longrightarrow> RetryOperationStepCASWithAudit atomic t after ev s = (Inr (), s') \<Longrightarrow>
        position s (ident t) = Some (st_ExpectedPhase t, st_ExpectedStep t)
        \<and> position s' = (position s)(ident t \<mapsto> (OperationPending, st_ExpectedStep t))"
    and retry_failed: "inv s \<Longrightarrow> RetryOperationStepCASWithAudit atomic t after ev s = (Inl e, s') \<Longrightarrow>
        position s' = position s"
begin

text \<open>A computation of the runner that records no step: loading the operation and calling ports.\<close>

definition quiet :: "('s, 'a) io \<Rightarrow> bool" where
  "quiet m \<longleftrightarrow> (\<forall>s res s'. inv s \<longrightarrow> m s = (res, s') \<longrightarrow> inv s' \<and> position s' = position s)"

text \<open>The operation stays at its step, or nothing changes.\<close>

definition stays :: "'k \<Rightarrow> OperationStep \<Rightarrow> 's \<Rightarrow> 's \<Rightarrow> bool" where
  "stays k step s s' \<longleftrightarrow> inv s' \<and> (position s' = position s \<or>
     (\<exists>phase \<in> {OperationPending, OperationRunning}.
        position s k \<in> {Some (OperationPending, step), Some (OperationRunning, step)}
        \<and> position s' = (position s)(k \<mapsto> (phase, step))))"

lemma stays_refl: "inv s \<Longrightarrow> stays k step s s"
  by (simp add: stays_def)

lemma stays_trans: "stays k step s t \<Longrightarrow> stays k step t u \<Longrightarrow> stays k step s u"
  by (auto simp: stays_def)

lemma stays_quiet: "quiet m \<Longrightarrow> inv s \<Longrightarrow> m s = (res, s') \<Longrightarrow> stays k step s s'"
  by (auto simp: stays_def quiet_def)

lemma stays_retry:
  assumes "AsAtomic store = Some atomic" and "oc_Phase op \<in> {OperationPending, OperationRunning}"
    and "inv s" and "retry_step r store op cause s = (res, s')"
  shows "(\<exists>e. res = Inl e) \<and> stays (key op) (oc_Step op) s s'"
proof -
  let ?t = "step_transition op (PhaseOther '''') (StepOther '''') ''provider_retry'' (error_text cause)"
  let ?ev = "step_event r op OperationPending (oc_Step op) ''inference.operation.step.retry''
    (error_text cause) [(''error'', error_text cause), (''step'', step_string (oc_Step op))]"
  obtain x t where run: "RetryOperationStepCASWithAudit atomic ?t (retryAfter r) ?ev s = (x, t)" by fastforce
  have res: "(\<exists>e. res = Inl e)" "s' = t"
    using assms(1,4) run
    by (auto simp: retry_step_def Let_def join_failure_def bindE_def tryE_def failE_def split: sum.splits)
  have "inv t" using retry_inv [OF assms(3) run] .
  moreover have "position t = position s" if "x = Inl e" for e
    using retry_failed [OF assms(3)] run that by blast
  moreover have "position s (key op) = Some (oc_Phase op, oc_Step op) \<and> position t = (position s)(key op \<mapsto> (OperationPending, oc_Step op))"
    if "x = Inr ()"
    using retry_ok [OF assms(3), of ?t] run that ident_key [of op] by (auto simp: step_transition_def)
  ultimately show ?thesis using res assms(2) by (cases x) (auto simp: stays_def)
qed

lemma transition_cases:
  assumes "AsAtomic store = Some atomic" and "inv s"
    and "transition r store op phase step event message s = (res, s')"
  shows "inv s' \<and> (case res of
      Inl e \<Rightarrow> position s' = position s
    | Inr _ \<Rightarrow> position s (key op) = Some (oc_Phase op, oc_Step op)
        \<and> ValidateOperationStepTransition (oc_Kind op) (oc_Phase op) (oc_Step op) phase step = None
        \<and> position s' = (position s)(key op \<mapsto> (phase, step)))"
proof -
  let ?t = "step_transition op phase step '''' message"
  let ?ev = "step_event r op phase step (''inference.operation.'' @ event) message
    [(''event'', event), (''step'', step_string step)]"
  have run: "AdvanceOperationStepCASWithAudit atomic ?t ?ev s = (res, s')"
    using assms(1,3) by (simp add: transition_def Let_def)
  show ?thesis
  proof (cases res)
    case (Inl e)
    then show ?thesis using advance_failed [OF assms(2)] advance_inv [OF assms(2)] run by auto
  next
    case (Inr u)
    then show ?thesis
      using advance_ok [OF assms(2), of ?t ?ev s'] advance_inv [OF assms(2) run] run ident_key [of op]
      by (auto simp: step_transition_def)
  qed
qed

text \<open>One step of a running operation: it moves to the next position, or it stays at its step.\<close>

lemma execute_step_cases:
  assumes "AsAtomic store = Some atomic" and "quiet (runStep r store op)" and "inv s"
    and "oc_Phase op = OperationRunning" and "execute_step r store op s = (res, s')"
  shows "case res of
      Inl e \<Rightarrow> stays (key op) (oc_Step op) s s'
    | Inr _ \<Rightarrow> inv s' \<and> position s (key op) = Some (OperationRunning, oc_Step op)
        \<and> ValidateOperationStepTransition (oc_Kind op) OperationRunning (oc_Step op)
             (fst (next_of (oc_Kind op) (oc_Step op))) (snd (next_of (oc_Kind op) (oc_Step op))) = None
        \<and> position s' = (position s)(key op \<mapsto> next_of (oc_Kind op) (oc_Step op))"
proof -
  obtain x t where step: "runStep r store op s = (x, t)" by fastforce
  have t: "inv t" "position t = position s" using assms(2,3) step unfolding quiet_def by blast+
  then have st: "stays (key op) (oc_Step op) s t" by (simp add: stays_def)
  have active: "oc_Phase op \<in> {OperationPending, OperationRunning}" using assms(4) by simp
  show ?thesis
  proof (cases x)
    case (Inl err)
    then have "retry_step r store op err t = (res, s')"
      using assms(5) step by (simp add: execute_step_def or_retry_def bindE_def tryE_def)
    from stays_retry [OF assms(1) active t(1) this] stays_trans [OF st] show ?thesis by auto
  next
    case (Inr nx)
    obtain y u where tr: "transition r store op (res_phase nx) (res_step nx) (res_event nx) (res_errorMessage nx) t = (y, u)"
      by fastforce
    have nx: "(res_phase nx, res_step nx) = next_of (oc_Kind op) (oc_Step op)"
      using runStep_next [of r store op] step Inr unfolding leads_to_def yields_def by blast
    note moved = transition_cases [OF assms(1) t(1) tr]
    show ?thesis
    proof (cases y)
      case (Inl err)
      then have "retry_step r store op err u = (res, s')"
        using assms(5) step \<open>x = Inr nx\<close> tr by (simp add: execute_step_def or_retry_def bindE_def tryE_def)
      moreover have "inv u" "stays (key op) (oc_Step op) s u"
        using moved Inl t by (auto simp: stays_def)
      ultimately show ?thesis
        using stays_retry [OF assms(1) active ] stays_trans by fastforce
    next
      case (Inr v)
      then have "res = Inr ()" "s' = u"
        using assms(5) step \<open>x = Inr nx\<close> tr
        by (simp_all add: execute_step_def or_retry_def bindE_def tryE_def)
      then show ?thesis using moved Inr t nx assms(4) by (auto simp: prod_eq_iff)
    qed
  qed
qed

definition advanced :: "OperationContext \<Rightarrow> 's \<Rightarrow> 's \<Rightarrow> bool" where
  "advanced op s s' \<longleftrightarrow> inv s'
     \<and> position s (key op) \<in> {Some (OperationPending, oc_Step op), Some (OperationRunning, oc_Step op)}
     \<and> ValidateOperationStepTransition (oc_Kind op) OperationRunning (oc_Step op)
         (fst (next_of (oc_Kind op) (oc_Step op))) (snd (next_of (oc_Kind op) (oc_Step op))) = None
     \<and> position s' = (position s)(key op \<mapsto> next_of (oc_Kind op) (oc_Step op))"

lemma execute_active_cases:
  assumes "AsAtomic store = Some atomic" and "\<And>op. quiet (runStep r store op)" and "inv s"
    and run: "execute_active r store op s = (res, s')"
  shows "case res of
      Inl e \<Rightarrow> stays (key op) (oc_Step op) s s'
    | Inr _ \<Rightarrow> (oc_Phase op \<in> {OperationSucceeded, OperationFailed} \<and> s' = s) \<or> advanced op s s'"
proof -
  consider (terminal) "oc_Phase op \<in> {OperationSucceeded, OperationFailed}"
    | (other) "oc_Phase op \<notin> {OperationSucceeded, OperationFailed, OperationPending, OperationRunning}"
    | (pending) "oc_Phase op = OperationPending" | (running) "oc_Phase op = OperationRunning" by blast
  then show ?thesis
  proof cases
    case terminal
    then show ?thesis using run by (auto simp: execute_active_def)
  next
    case other
    then show ?thesis using run assms(3) by (auto simp: execute_active_def stays_refl)
  next
    case running
    then have "execute_step r store op s = (res, s')" using run by (simp add: execute_active_def)
    from execute_step_cases [OF assms(1,2,3) running this] show ?thesis
      by (auto simp: advanced_def split: sum.splits)
  next
    case pending
    let ?op = "op\<lparr>oc_Phase := OperationRunning\<rparr>"
    obtain y t where tr: "transition r store op OperationRunning (oc_Step op) ''claimed'' '''' s = (y, t)" by fastforce
    note claim = transition_cases [OF assms(1,3) tr]
    show ?thesis
    proof (cases y)
      case (Inl err)
      then have again: "retry_step r store op err t = (res, s')"
        using run pending tr by (simp add: execute_active_def or_retry_def bindE_def tryE_def)
      have "oc_Phase op \<in> {OperationPending, OperationRunning}" "inv t" "stays (key op) (oc_Step op) s t"
        using claim Inl pending by (auto simp: stays_def)
      with stays_retry [OF assms(1) this(1,2) again] stays_trans show ?thesis by fastforce
    next
      case (Inr v)
      then have "execute_step r store ?op t = (res, s')"
        using run pending tr by (simp add: execute_active_def or_retry_def bindE_def tryE_def)
      moreover have t: "inv t" "position s (key op) = Some (OperationPending, oc_Step op)"
          "position t = (position s)(key op \<mapsto> (OperationRunning, oc_Step op))"
        using claim Inr pending by auto
      ultimately have *: "case res of
          Inl e \<Rightarrow> stays (key op) (oc_Step op) t s'
        | Inr _ \<Rightarrow> advanced op t s'"
        using execute_step_cases [OF assms(1,2), of t ?op res s'] by (auto simp: advanced_def split: sum.splits)
      moreover have "stays (key op) (oc_Step op) s t" using t by (auto simp: stays_def)
      ultimately show ?thesis using stays_trans t by (auto simp: advanced_def split: sum.splits)
    qed
  qed
qed

text \<open>
  A whole run on one work item: it succeeds only by finding the operation terminal or by moving it one
  step along its path; when it fails the operation is still at its step.
\<close>

lemma execute_cases:
  assumes "RStore r = Some store" and "AsAtomic store = Some atomic" and "inv s"
    and "quiet (CurrentOperation store item)" and "\<And>op. quiet (runStep r store op)"
    and run: "Runner_Execute r item s = (res, s')"
  shows "inv s' \<and> (case res of
      Inl e \<Rightarrow> position s' = position s \<or>
        (\<exists>op t. CurrentOperation store item s = (Inr op, t) \<and> stays (key op) (oc_Step op) s s')
    | Inr _ \<Rightarrow> \<exists>op t. CurrentOperation store item s = (Inr op, t) \<and>
        (oc_Phase op \<in> {OperationSucceeded, OperationFailed} \<and> position s' = position s \<or> advanced op s s'))"
proof (cases "Runner_validate r item")
  case (Some err)
  then show ?thesis using run assms(3) by (auto simp: Runner_Execute_def)
next
  case None
  obtain x t where load: "CurrentOperation store item s = (x, t)" by fastforce
  have t: "inv t" "position t = position s" using assms(3,4) load unfolding quiet_def by blast+
  show ?thesis
  proof (cases x)
    case (Inl err)
    then show ?thesis using run None load t assms(1) by (auto simp: Runner_Execute_def)
  next
    case (Inr op)
    let ?op = "op\<lparr>oc_LeaseToken := ItemLeaseToken item\<rparr>"
    obtain y u where act: "execute_active r store ?op t = (y, u)" by fastforce
    have res: "(res, s') = (Inl (Sentinel work_ErrStaleGeneration), t) \<or>
        (s' = u \<and> (\<forall>e. res = Inl e \<longleftrightarrow> y = Inl e))"
      using run None load act Inr assms(1)
      by (cases y) (auto simp: Runner_Execute_def split: if_splits)
    have "inv u \<and> (case y of
        Inl e \<Rightarrow> stays (key op) (oc_Step op) s u
      | Inr _ \<Rightarrow> oc_Phase op \<in> {OperationSucceeded, OperationFailed} \<and> position u = position s \<or> advanced op s u)"
      using execute_active_cases [OF assms(2,5) t(1) act] t
      by (cases y) (auto simp: stays_def advanced_def)
    with res t load Inr show ?thesis
      by (cases y; cases res) auto
  qed
qed

end

end
