(* ===== verification/Operation_Store.thy ===== *)
theory Operation_Store
  imports Operation_Sql Runner_Steps
begin

text \<open>
  The PostgreSQL side of the runner and of the reconciler:
  \<^verbatim>\<open>internal/data/postgres/operation_store.go\<close>, \<^verbatim>\<open>operation_state.go\<close>,
  \<^verbatim>\<open>reconcile_store.go\<close> and \<^verbatim>\<open>runtime_binding.go\<close>, one definition per method. The nil checks
  of the receivers are left out. \<open>uuid_Parse\<close> and the quantity functions \<open>api\<close> are parameters; the
  fresh identifiers of \<^verbatim>\<open>uuid.New()\<close> are arguments.
\<close>

section \<open>Transition of a step\<close>

definition parseUUID :: "uuid_parser \<Rightarrow> string \<Rightarrow> string \<Rightarrow> bool \<Rightarrow> uuid option result" where
  "parseUUID uuid_Parse label v allowEmpty =
     (if v = '''' \<and> allowEmpty then Inr None
      else case uuid_Parse v of
        Inl err \<Rightarrow> Inl (Wrapf '''' (Sentinel ErrInvalidUUID) ('': '' @ label))
      | Inr u \<Rightarrow> Inr (Some u))"

definition requireUUID :: "uuid_parser \<Rightarrow> string \<Rightarrow> string \<Rightarrow> uuid result" where
  "requireUUID uuid_Parse label v =
     (case uuid_Parse v of
        Inl err \<Rightarrow> Inl (Wrapf '''' (Sentinel ErrInvalidUUID) ('': '' @ label))
      | Inr u \<Rightarrow> Inr u)"

definition Repository_AdvanceOperationStepCAS :: "uuid_parser \<Rightarrow> StepTransition \<Rightarrow> (db, unit) io" where
  "Repository_AdvanceOperationStepCAS uuid_Parse t =
     bindE (liftE (requireUUID uuid_Parse ''tenant_id'' (st_TenantID t))) (\<lambda>tenant.
     bindE (liftE (requireUUID uuid_Parse ''operation_id'' (st_OperationID t))) (\<lambda>operation.
       if st_TargetGeneration t < 1 then failE (Errorf ''target generation must be positive'')
       else
         bindE (liftE (requireUUID uuid_Parse ''lease_token'' (st_LeaseToken t))) (\<lambda>lease.
         bindE (checkE (ValidateOperationStepTransition (st_Kind t) (st_ExpectedPhase t) (st_ExpectedStep t)
                  (st_NextPhase t) (st_NextStep t))) (\<lambda>_.
           one_row (Sentinel ErrOperationCAS)
             (sql_AdvanceOperationStepCAS (st_NextPhase t) (st_NextStep t) (st_ErrorCode t) (st_ErrorMessage t)
                tenant operation (st_TargetGeneration t) (st_ExpectedPhase t) (st_ExpectedStep t) lease)))))"

definition Repository_RetryOperationStepCAS :: "uuid_parser \<Rightarrow> StepTransition \<Rightarrow> duration \<Rightarrow> (db, unit) io" where
  "Repository_RetryOperationStepCAS uuid_Parse t after =
     (if after < 0 then failE (Errorf ''retry duration cannot be negative'')
      else
        bindE (liftE (requireUUID uuid_Parse ''tenant_id'' (st_TenantID t))) (\<lambda>tenant.
        bindE (liftE (requireUUID uuid_Parse ''operation_id'' (st_OperationID t))) (\<lambda>operation.
          if kind_string (st_Kind t) = '''' \<or> st_TargetGeneration t < 1
             \<or> st_ExpectedPhase t \<noteq> OperationPending \<and> st_ExpectedPhase t \<noteq> OperationRunning
          then failE (Sentinel ErrOperationCAS)
          else
            bindE (liftE (requireUUID uuid_Parse ''lease_token'' (st_LeaseToken t))) (\<lambda>lease.
              one_row (Sentinel ErrOperationCAS)
                (sql_RetryOperationStepCAS after (st_ErrorCode t) (st_ErrorMessage t) tenant operation
                   (st_TargetGeneration t) (st_ExpectedPhase t) (st_ExpectedStep t) lease)))))"

text \<open>The row of an audit event; an empty payload is stored as an empty object.\<close>

definition append_event ::
  "uuid_parser \<Rightarrow> Event \<Rightarrow> (db, unit) io"
where
  "append_event uuid_Parse event =
     bindE (liftE (tenantUUID uuid_Parse (ev_TenantID event))) (\<lambda>eTenant.
     bindE (liftE (workUUID uuid_Parse ''service_id'' (ev_ServiceID event))) (\<lambda>eService.
     bindE (liftE (workUUID uuid_Parse ''operation_id'' (ev_OperationID event))) (\<lambda>eOperation.
     bindE (liftE (uuid_Parse (ev_EventID event))) (\<lambda>eID.
       AppendAuditEvent
         \<lparr>a_tenant = eTenant, a_event_id = eID, a_service = eService, a_operation = Some eOperation,
          a_generation = ev_Generation event, a_event_type = ev_EventType event, a_actor = ev_Actor event,
          a_request_id = ev_RequestID event, a_before_state = ev_BeforeState event,
          a_after_state = ev_AfterState event, a_payload = ev_Payload event, a_created_at = 0\<rparr>))))"

definition sql_step :: "StepTransition \<Rightarrow> bool \<Rightarrow> duration \<Rightarrow> uuid \<Rightarrow> uuid \<Rightarrow> uuid \<Rightarrow> (db, nat) io" where
  "sql_step t retry after tenant op lease =
     (if retry
      then sql_RetryOperationStepCAS after (st_ErrorCode t) (st_ErrorMessage t) tenant op
             (st_TargetGeneration t) (st_ExpectedPhase t) (st_ExpectedStep t) lease
      else sql_AdvanceOperationStepCAS (st_NextPhase t) (st_NextStep t) (st_ErrorCode t)
             (st_ErrorMessage t) tenant op (st_TargetGeneration t) (st_ExpectedPhase t)
             (st_ExpectedStep t) lease)"

text \<open>What follows the statement in its transaction: a finished delete marks the service, then the event.\<close>

definition step_audit ::
  "uuid_parser \<Rightarrow> StepTransition \<Rightarrow> Event \<Rightarrow> bool \<Rightarrow> uuid \<Rightarrow> uuid \<Rightarrow> (db, unit) io"
where
  "step_audit uuid_Parse t event retry tenant op =
     bindE (GetOperation tenant op) (\<lambda>current.
       if o_service current \<noteq> ev_ServiceID event
       then failE (Errorf ''audit service does not match operation'')
       else
         bindE (if \<not> retry \<and> st_Kind t = KindDelete \<and> st_NextPhase t = OperationSucceeded
                then one_row (Sentinel ErrOperationCAS)
                       (MarkServiceDeleted tenant (o_service current) op (st_TargetGeneration t))
                else returnE ())
           (\<lambda>_. append_event uuid_Parse event))"

definition stepWithAudit ::
  "uuid_parser \<Rightarrow> StepTransition \<Rightarrow> Event \<Rightarrow> bool \<Rightarrow> duration \<Rightarrow> (db, unit) io"
where
  "stepWithAudit uuid_Parse t event retry after =
     bindE (liftE (tenantUUID uuid_Parse (st_TenantID t))) (\<lambda>tenant.
     bindE (liftE (workUUID uuid_Parse ''operation_id'' (st_OperationID t))) (\<lambda>op.
     bindE (liftE (workUUID uuid_Parse ''lease_token'' (st_LeaseToken t))) (\<lambda>lease.
       if st_TargetGeneration t < 1 then failE (Errorf ''target generation must be positive'')
       else if ev_TenantID event \<noteq> st_TenantID t \<or> ev_OperationID event \<noteq> st_OperationID t
               \<or> ev_Generation event \<noteq> st_TargetGeneration t
       then failE (Errorf ''audit identity does not match operation transition'')
       else
         bindE (checkE (if retry then None
                        else ValidateOperationStepTransition (st_Kind t) (st_ExpectedPhase t) (st_ExpectedStep t)
                               (st_NextPhase t) (st_NextStep t))) (\<lambda>_.
         transaction (
           bindE (one_row (Sentinel ErrOperationCAS)
             (sql_step t retry after tenant op lease)) (\<lambda>_.
             step_audit uuid_Parse t event retry tenant op))))))"

definition OperationStore_atomic :: "uuid_parser \<Rightarrow> db AtomicStepStore" where
  "OperationStore_atomic uuid_Parse =
     \<lparr>AdvanceOperationStepCASWithAudit = (\<lambda>t event. stepWithAudit uuid_Parse t event False 0),
      RetryOperationStepCASWithAudit = (\<lambda>t after event. stepWithAudit uuid_Parse t event True after)\<rparr>"

section \<open>Runtime observations\<close>

definition or_default :: "string \<Rightarrow> string \<Rightarrow> string" where
  "or_default v fallback = (if v = '''' then fallback else v)"

text \<open>
  The columns that an observation of a generation writes, given the current row: what the observer did
  not supply is kept, the health only within the same generation.
\<close>

definition observation_update ::
  "Observation \<Rightarrow> int \<Rightarrow> InferenceRuntime option \<Rightarrow> db \<Rightarrow> InferenceRuntime \<Rightarrow> InferenceRuntime"
where
  "observation_update observation generation current d =
     (let modelReady = (case current of
            Some rt \<Rightarrow> if \<not> ObsModelReadyKnown observation then rt_model_ready rt else ObsModelReady observation
          | None \<Rightarrow> ObsModelReady observation);
          pub = (case current of
            Some rt \<Rightarrow> if ObsPublicationPhase observation = '''' \<or> ObsPublicationPhase observation = ''unknown''
                       then rt_publication_phase rt else ObsPublicationPhase observation
          | None \<Rightarrow> or_default (ObsPublicationPhase observation) ''withdrawn'');
          health = (case current of
            Some rt \<Rightarrow> if ObsInvocationHealth observation = '''' \<and> rt_generation rt = generation
                       then rt_invocation_health rt else or_default (ObsInvocationHealth observation) ''unknown''
          | None \<Rightarrow> or_default (ObsInvocationHealth observation) ''unknown'') in
      observed_row d observation generation (or_default (ObsRuntimeMode observation) ''deployment'')
        (or_default (ObsRuntimePhase observation) ''pending'') modelReady pub health)"

definition current_runtime :: "uuid \<Rightarrow> uuid \<Rightarrow> (db, InferenceRuntime option) io" where
  "current_runtime tenant service =
     bindE (tryE (GetRuntime tenant service)) (\<lambda>x.
       case x of
         Inr rt \<Rightarrow> returnE (Some rt)
       | Inl err \<Rightarrow> if errors_Is err ErrNoRows then returnE None else failE err)"

definition ReconcileStore_Current :: "uuid_parser \<Rightarrow> string \<Rightarrow> string \<Rightarrow> (db, Desired) io" where
  "ReconcileStore_Current uuid_Parse tenantID serviceID =
     bindE (liftE (tenantUUID uuid_Parse tenantID)) (\<lambda>tenant.
     bindE (liftE (workUUID uuid_Parse ''service_id'' serviceID)) (\<lambda>service.
     bindE (tryE (GetService tenant service)) (\<lambda>x.
       case x of
         Inl err \<Rightarrow>
           if errors_Is err ErrNoRows
           then failE (Errorf (''inference service '' @ tenantID @ ''/'' @ serviceID @ '' not found''))
           else failE err
       | Inr row \<Rightarrow> returnE \<lparr>DesiredTenantID = tenantID, DesiredServiceID = serviceID,
           DesiredGeneration = s_desired_generation row\<rparr>)))"

definition ReconcileStore_CurrentForWork :: "uuid_parser \<Rightarrow> Item \<Rightarrow> (db, Desired) io" where
  "ReconcileStore_CurrentForWork uuid_Parse item =
     bindE (liftE (tenantUUID uuid_Parse (ItemTenantID item))) (\<lambda>tenant.
     bindE (liftE (workUUID uuid_Parse ''service_id'' (ItemServiceID item))) (\<lambda>service.
     bindE (liftE (workUUID uuid_Parse ''lease_token'' (ItemLeaseToken item))) (\<lambda>lease.
     bindE (tryE (GetLeasedDesired tenant service lease)) (\<lambda>x.
       case x of
         Inl err \<Rightarrow> if errors_Is err ErrNoRows then failE (Sentinel reconcile_ErrStaleGeneration) else failE err
       | Inr row \<Rightarrow> returnE \<lparr>DesiredTenantID = s_tenant row, DesiredServiceID = s_id row,
           DesiredGeneration = s_desired_generation row\<rparr>))))"

definition stale_unless_one :: "(db, nat) io \<Rightarrow> (db, unit) io" where
  "stale_unless_one m = one_row (Sentinel reconcile_ErrStaleGeneration) m"

definition ReconcileStore_SaveObservation ::
  "uuid_parser \<Rightarrow> string \<Rightarrow> string \<Rightarrow> int \<Rightarrow> Observation \<Rightarrow> (db, unit) io"
where
  "ReconcileStore_SaveObservation uuid_Parse tenantID serviceID generation observation =
     (if generation < 1 \<or> ObsGeneration observation \<noteq> generation
      then failE (Sentinel reconcile_ErrStaleGeneration)
      else
        bindE (liftE (tenantUUID uuid_Parse tenantID)) (\<lambda>tenant.
        bindE (liftE (workUUID uuid_Parse ''service_id'' serviceID)) (\<lambda>service.
        transaction (
          bindE (current_runtime tenant service) (\<lambda>current.
          bindE (\<lambda>d. stale_unless_one (UpdateObservationCAS
                   (observation_update observation generation current d) generation tenant service) d) (\<lambda>_.
            stale_unless_one (MarkServiceAppliedGeneration generation tenant service)))))))"

definition bad_object :: "int \<Rightarrow> RuntimeObject \<Rightarrow> bool" where
  "bad_object generation object \<longleftrightarrow> BindingGeneration object \<noteq> generation \<or> ObjectKind object = ''''
     \<or> ObjectNamespace object = '''' \<or> ObjectName object = '''' \<or> ObjectUID object = ''''
     \<or> ObjectResourceVersion object = '''' \<or> ObjectRole object = ''''"

definition object_binding :: "uuid \<Rightarrow> uuid \<Rightarrow> RuntimeObject \<Rightarrow> InferenceRuntimeBinding" where
  "object_binding tenant service object =
     \<lparr>b_tenant = tenant, b_service = service, b_generation = BindingGeneration object,
      b_kind = ObjectKind object, b_namespace = ObjectNamespace object, b_name = ObjectName object,
      b_uid = ObjectUID object, b_resource_version = ObjectResourceVersion object,
      b_role = ObjectRole object, b_observed_at = 0\<rparr>"

definition save_object :: "uuid \<Rightarrow> uuid \<Rightarrow> int \<Rightarrow> RuntimeObject \<Rightarrow> (db, unit) io" where
  "save_object tenant service generation object =
     (if bad_object generation object then failE (Sentinel reconcile_ErrStaleGeneration)
      else if Missing object then
        stale_unless_one (DeleteRuntimeBindingCAS tenant service (BindingGeneration object) (ObjectKind object)
          (ObjectRole object) (ObjectUID object) (ObjectResourceVersion object))
      else
        stale_unless_one (sql_UpsertRuntimeBindingCAS (object_binding tenant service object)
          (ExpectedUID object) (ExpectedResourceVersion object)))"

definition observation_event ::
  "uuid \<Rightarrow> uuid \<Rightarrow> int \<Rightarrow> Observation \<Rightarrow> uuid \<times> RuntimeObject option \<Rightarrow> InferenceObservationEvent"
where
  "observation_event tenant service generation observation e =
     (case e of (eventID, object) \<Rightarrow>
       \<lparr>oe_tenant = tenant, oe_event_id = eventID, oe_service = service, oe_generation = generation,
        oe_source_kind = (case object of None \<Rightarrow> ''runtime'' | Some x \<Rightarrow> ObjectKind x),
        oe_source_uid = (case object of None \<Rightarrow> '''' | Some x \<Rightarrow> ObjectUID x),
        oe_source_resource_version = (case object of None \<Rightarrow> '''' | Some x \<Rightarrow> ObjectResourceVersion x),
        oe_payload = (observation, object)\<rparr>)"

text \<open>The events of one observation: one without an object, or one per object, with fresh identifiers.\<close>

definition event_sources :: "(nat \<Rightarrow> uuid) \<Rightarrow> Observation \<Rightarrow> (uuid \<times> RuntimeObject option) list" where
  "event_sources eventIDs observation =
     (if ObsObjects observation = [] then [(eventIDs 0, None)]
      else map (\<lambda>(i, object). (eventIDs i, Some object)) (enumerate 0 (ObsObjects observation)))"

definition ReconcileStore_SaveObservationForWork ::
  "uuid_parser \<Rightarrow> (nat \<Rightarrow> uuid) \<Rightarrow> Item \<Rightarrow> Observation \<Rightarrow> (db, unit) io"
where
  "ReconcileStore_SaveObservationForWork uuid_Parse eventIDs item observation =
     (if ItemGeneration item < 1 \<or> ObsGeneration observation \<noteq> ItemGeneration item
      then failE (Sentinel reconcile_ErrStaleGeneration)
      else
        bindE (liftE (tenantUUID uuid_Parse (ItemTenantID item))) (\<lambda>tenant.
        bindE (liftE (workUUID uuid_Parse ''service_id'' (ItemServiceID item))) (\<lambda>service.
        bindE (liftE (workUUID uuid_Parse ''lease_token'' (ItemLeaseToken item))) (\<lambda>lease.
        transaction (
          bindE (current_runtime tenant service) (\<lambda>current.
          bindE (\<lambda>d. stale_unless_one (UpdateObservationForWork
                   (observation_update observation (ItemGeneration item) current d)
                   (ItemGeneration item) tenant service lease) d) (\<lambda>_.
          bindE (stale_unless_one (MarkServiceAppliedGeneration (ItemGeneration item) tenant service)) (\<lambda>_.
          bindE (forE (save_object tenant service (ItemGeneration item)) (ObsObjects observation)) (\<lambda>_.
            forE (\<lambda>e. AppendObservationEvent (observation_event tenant service (ItemGeneration item) observation e))
              (event_sources eventIDs observation)))))))))) "

definition reconcile_repository :: "uuid_parser \<Rightarrow> (nat \<Rightarrow> uuid) \<Rightarrow> db Repository" where
  "reconcile_repository uuid_Parse eventIDs =
     \<lparr>Current = ReconcileStore_Current uuid_Parse,
      SaveObservation = ReconcileStore_SaveObservation uuid_Parse,
      AsLeased = Some \<lparr>CurrentForWork = ReconcileStore_CurrentForWork uuid_Parse,
        SaveObservationForWork = ReconcileStore_SaveObservationForWork uuid_Parse eventIDs\<rparr>\<rparr>"

section \<open>The release scope of a managed GPU resource\<close>

definition validateManagedGPUReleasePods :: "PodRef list \<Rightarrow> error option" where
  "validateManagedGPUReleasePods pods = validate_pods {} pods"

text \<open>The loop over the incoming Pods, with the Pods merged so far; \<open>byUID\<close> is their lookup by UID.\<close>

fun merge_pods :: "PodRef list \<Rightarrow> PodRef list \<Rightarrow> PodRef list result" where
  "merge_pods merged [] = Inr merged"
| "merge_pods merged (pod # incoming) =
     (case find (\<lambda>old. PodUID old = PodUID pod) (rev merged) of
        Some old \<Rightarrow>
          if old \<noteq> pod
          then Inl (Errorf (''managed GPU release Pod UID '' @ quoted (PodUID pod) @ '' changed identity''))
          else merge_pods merged incoming
      | None \<Rightarrow> merge_pods (merged @ [pod]) incoming)"

definition mergeManagedGPUReleasePods :: "PodRef list \<Rightarrow> PodRef list \<Rightarrow> PodRef list result" where
  "mergeManagedGPUReleasePods existing incoming = merge_pods existing incoming"

definition encodeManagedGPUReleaseScope :: "string \<Rightarrow> PodRef list \<Rightarrow> scope_payload result" where
  "encodeManagedGPUReleaseScope sealedAt pods =
     (if TrimSpace sealedAt \<noteq> '''' \<and> \<not> time_Parse_RFC3339Nano sealedAt
      then Inl (Wrapf ''invalid managed GPU release sealed_at: '' (Errorf ''parsing time'') '''')
      else Inr (ScopeObject \<lparr>ScopeSealedAt = sealedAt, ScopePods = pods\<rparr>))"

definition decodeManagedGPUReleaseScope :: "scope_payload \<Rightarrow> (string \<times> PodRef list) result" where
  "decodeManagedGPUReleaseScope payload =
     (case payload of
        ScopeObject scope \<Rightarrow>
          if ScopeSealedAt scope = '''' then Inr ('''', ScopePods scope)
          else if \<not> time_Parse_RFC3339Nano (ScopeSealedAt scope) then Inl (Errorf ''parsing time'')
          else Inr (ScopeSealedAt scope, ScopePods scope)
      | ScopeArray pods \<Rightarrow> Inr ('''', pods))"

definition scope_key :: "uuid_parser \<Rightarrow> OperationContext \<Rightarrow> (uuid \<times> uuid \<times> uuid) result" where
  "scope_key uuid_Parse op =
     (case tenantUUID uuid_Parse (oc_TenantID op) of
        Inl err \<Rightarrow> Inl err
      | Inr tenant \<Rightarrow> (case workUUID uuid_Parse ''service_id'' (oc_ServiceID op) of
          Inl err \<Rightarrow> Inl err
        | Inr service \<Rightarrow> (case workUUID uuid_Parse ''operation_id'' (oc_ID op) of
            Inl err \<Rightarrow> Inl err
          | Inr operation \<Rightarrow> Inr (tenant, service, operation))))"

definition wrapE :: "string \<Rightarrow> 'a result \<Rightarrow> ('s, 'a) io" where
  "wrapE prefix_text r = (case r of Inl err \<Rightarrow> failE (Wrapf prefix_text err '''') | Inr a \<Rightarrow> returnE a)"

definition OperationStore_SaveManagedGPUReleasePods ::
  "uuid_parser \<Rightarrow> OperationContext \<Rightarrow> PodRef list \<Rightarrow> (db, unit) io"
where
  "OperationStore_SaveManagedGPUReleasePods uuid_Parse op pods =
     bindE (checkE (validateManagedGPUReleasePods pods)) (\<lambda>_.
     bindE (liftE (scope_key uuid_Parse op)) (\<lambda>(tenant, service, operation).
     bindE (tryE (GetManagedGPUReleaseScope tenant service operation)) (\<lambda>existing.
     bindE (case existing of
              Inr scope \<Rightarrow>
                bindE (wrapE ''decode existing managed GPU release scope: '' (decodeManagedGPUReleaseScope scope))
                  (\<lambda>(oldSeal, oldPods).
                bindE (liftE (mergeManagedGPUReleasePods oldPods pods)) (\<lambda>merged.
                  returnE (if oc_ManagedGPUReleaseSealedAt op = '''' then oldSeal
                           else oc_ManagedGPUReleaseSealedAt op, merged)))
            | Inl err \<Rightarrow>
                if errors_Is err ErrNoRows then returnE (oc_ManagedGPUReleaseSealedAt op, pods)
                else failE err) (\<lambda>(sealedAt, merged).
     bindE (wrapE ''encode managed GPU release scope: '' (encodeManagedGPUReleaseScope sealedAt merged))
       (UpsertManagedGPUReleaseScope tenant service operation)))))"

definition OperationStore_LoadManagedGPUReleasePods ::
  "uuid_parser \<Rightarrow> OperationContext \<Rightarrow> (db, PodRef list) io"
where
  "OperationStore_LoadManagedGPUReleasePods uuid_Parse op =
     bindE (liftE (scope_key uuid_Parse op)) (\<lambda>(tenant, service, operation).
     bindE (GetManagedGPUReleaseScope tenant service operation) (\<lambda>scope.
     bindE (wrapE ''decode managed GPU release scope: '' (decodeManagedGPUReleaseScope scope)) (\<lambda>(_, pods).
       case validateManagedGPUReleasePods pods of
         Some err \<Rightarrow> failE (Wrapf ''invalid persisted managed GPU release scope: '' err '''')
       | None \<Rightarrow> returnE pods)))"

section \<open>Saving provider facts\<close>

definition OperationStore_SaveGPUSnapshot ::
  "uuid_parser \<Rightarrow> OperationContext \<Rightarrow> Snapshot option \<Rightarrow> (db, unit) io"
where
  "OperationStore_SaveGPUSnapshot uuid_Parse op plan =
     (case oc_GPURequest op of
        None \<Rightarrow> failE (Errorf ''GPU request is required'')
      | Some request \<Rightarrow>
        (case ValidateSnapshot plan (Some request) of
           (Some err, _) \<Rightarrow> failE err
         | (None, checked) \<Rightarrow>
           bindE (liftE (scope_key uuid_Parse op)) (\<lambda>(tenant, service, operation).
           bindE (liftE (workUUID uuid_Parse ''lease_token'' (oc_LeaseToken op))) (\<lambda>lease.
             one_row (Sentinel ErrOperationCAS)
               (SaveGPUPlanCAS checked (map_option SnapExecutionDigest checked) tenant service
                  (oc_TargetGeneration op) operation lease)))))"

definition parse_generation :: "string \<Rightarrow> int result" where
  "parse_generation v =
     (case ParseInt v of
        None \<Rightarrow> Inl (Errorf ''invalid reservation generation'')
      | Some g \<Rightarrow> if g < 1 then Inl (Errorf ''invalid reservation generation'') else Inr g)"

definition OperationStore_SaveQuotaReservation :: "uuid_parser \<Rightarrow> Reservation \<Rightarrow> (db, unit) io" where
  "OperationStore_SaveQuotaReservation uuid_Parse rv =
     bindE (liftE (tenantUUID uuid_Parse (rv_TenantID rv))) (\<lambda>tenant.
     bindE (liftE (workUUID uuid_Parse ''operation_id'' (rv_OperationID rv))) (\<lambda>op.
     bindE (liftE (parse_generation (rv_Generation rv))) (\<lambda>gen.
     bindE (liftE (workUUID uuid_Parse ''lease_token'' (rv_LeaseToken rv))) (\<lambda>lease.
     bindE (liftE (workUUID uuid_Parse ''fence_operation_id''
              (if rv_FenceOperationID rv = '''' then rv_OperationID rv else rv_FenceOperationID rv))) (\<lambda>fence.
       stale_unless_one (UpdateQuotaReservationFenced (rv_ReservationID rv) (rv_RequestedResources rv)
         (rv_State rv) (rv_LastErrorCode rv) tenant op gen fence lease))))))"

definition OperationStore_SavePublication :: "uuid_parser \<Rightarrow> Publication \<Rightarrow> (db, unit) io" where
  "OperationStore_SavePublication uuid_Parse pb =
     bindE (liftE (tenantUUID uuid_Parse (pb_TenantID pb))) (\<lambda>tenant.
     bindE (liftE (workUUID uuid_Parse ''service_id'' (pb_ServiceID pb))) (\<lambda>service.
       let state = pb_State pb in
       if state \<notin> {''withdrawn'', ''publishing'', ''published'', ''withdrawing''}
       then failE (Errorf (''invalid publication state '' @ quoted state))
       else
         let observed = (if state = ''publishing'' \<or> state = ''withdrawing'' then ''withdrawn'' else state) in
         bindE (liftE (workUUID uuid_Parse ''fence_operation_id''
                  (if pb_FenceOperationID pb = '''' then pb_OperationID pb else pb_FenceOperationID pb))) (\<lambda>op.
         bindE (liftE (workUUID uuid_Parse ''lease_token'' (pb_LeaseToken pb))) (\<lambda>lease.
           stale_unless_one (UpsertPublicationFenced tenant service (pb_Generation pb) state observed
             (pb_URL pb) '''' op lease)))))"

definition bizObservation :: "OperationContext \<Rightarrow> string \<Rightarrow> string \<Rightarrow> RuntimeObservation \<Rightarrow> Observation" where
  "bizObservation op phase health seen =
     \<lparr>ObsGeneration = oc_TargetGeneration op,
      ObsRuntimePhase = (if ro_RuntimePhase seen \<noteq> '''' then ro_RuntimePhase seen else phase),
      ObsReadyReplicas = ro_ReadyReplicas seen, ObsReadyGroups = ro_ReadyGroups seen,
      ObsReadyWorkers = ro_ReadyWorkers seen, ObsModelReady = ro_ModelReady seen,
      ObsModelReadyKnown = ro_ModelReadyKnown seen, ObsPublicationPhase = '''',
      ObsInvocationHealth = health, ObsRuntimeMode = ro_RuntimeMode seen, ObsLWSUID = ro_LWSUID seen,
      ObsReason = ro_Reason seen, ObsObjects = ro_Objects seen\<rparr>"

definition OperationStore_SaveRuntimeObservation ::
  "uuid_parser \<Rightarrow> (nat \<Rightarrow> uuid) \<Rightarrow> OperationContext \<Rightarrow> RuntimeObservation \<Rightarrow> (db, unit) io"
where
  "OperationStore_SaveRuntimeObservation uuid_Parse eventIDs op seen =
     (let phase = (if ro_Absent seen then ''stopped'' else if ro_Ready seen then ''ready'' else ''degraded'');
          health = (if ro_Absent seen then ''unhealthy''
                    else if ro_InvocationHealth seen = '''' then ''unhealthy'' else ro_InvocationHealth seen) in
      ReconcileStore_SaveObservationForWork uuid_Parse eventIDs
        \<lparr>ItemTenantID = oc_TenantID op, ItemServiceID = oc_ServiceID op,
         ItemGeneration = oc_TargetGeneration op, ItemDirtyVersion = 0, ItemLeaseToken = oc_LeaseToken op\<rparr>
        (bizObservation op phase health seen))"

definition work_key :: "uuid_parser \<Rightarrow> OperationContext \<Rightarrow> (uuid \<times> uuid \<times> uuid) result" where
  "work_key uuid_Parse op =
     (case tenantUUID uuid_Parse (oc_TenantID op) of
        Inl err \<Rightarrow> Inl err
      | Inr tenant \<Rightarrow> (case workUUID uuid_Parse ''service_id'' (oc_ServiceID op) of
          Inl err \<Rightarrow> Inl err
        | Inr service \<Rightarrow> (case workUUID uuid_Parse ''lease_token'' (oc_LeaseToken op) of
            Inl err \<Rightarrow> Inl err
          | Inr lease \<Rightarrow> Inr (tenant, service, lease))))"

definition OperationStore_SaveModelObservation ::
  "uuid_parser \<Rightarrow> OperationContext \<Rightarrow> ModelObservation \<Rightarrow> (db, unit) io"
where
  "OperationStore_SaveModelObservation uuid_Parse op seen =
     (if \<not> mo_Known seen then failE (Errorf ''model observation is not known'')
      else
        bindE (liftE (work_key uuid_Parse op)) (\<lambda>(tenant, service, lease).
          stale_unless_one (UpdateModelObservationForWork (mo_Ready seen) (mo_Reason seen)
            (oc_TargetGeneration op) tenant service lease)))"

definition OperationStore_MarkModelMaterializing :: "uuid_parser \<Rightarrow> OperationContext \<Rightarrow> (db, unit) io" where
  "OperationStore_MarkModelMaterializing uuid_Parse op =
     bindE (liftE (work_key uuid_Parse op)) (\<lambda>(tenant, service, lease).
       stale_unless_one (MarkModelMaterializingForWork (oc_TargetGeneration op) tenant service lease))"

section \<open>Loading the operation of a work item\<close>

definition decodeResourceSpec :: "'q quantity_api \<Rightarrow> Spec \<Rightarrow> Spec result" where
  "decodeResourceSpec api spec = Normalize api spec"

definition empty_reservation :: Reservation where
  "empty_reservation =
     \<lparr>rv_TenantID = '''', rv_ServiceID = '''', rv_OperationID = '''', rv_Generation = '''',
      rv_ReservationID = '''', rv_LeaseToken = '''', rv_FenceOperationID = '''',
      rv_RequestedResources = \<lparr>Requests = [], Limits = [], SpecGPU = None\<rparr>,
      rv_Demand = \<lparr>DemandResources = \<lparr>Requests = [], Limits = [], SpecGPU = None\<rparr>, Units = 0\<rparr>,
      rv_State = '''', rv_LastErrorCode = ''''\<rparr>"

definition reservationFromRow ::
  "'q quantity_api \<Rightarrow> InferenceQuotaReservation \<Rightarrow> OperationContext \<Rightarrow> Reservation result"
where
  "reservationFromRow api row op =
     (case decodeResourceSpec api (q_requested row) of
        Inl err \<Rightarrow> Inl (Wrapf ''decode quota resource snapshot: '' err '''')
      | Inr spec \<Rightarrow> Inr (empty_reservation\<lparr>rv_TenantID := q_tenant row, rv_ServiceID := q_service row,
          rv_OperationID := q_operation row, rv_Generation := FormatInt (q_generation row),
          rv_ReservationID := q_reservation_id row, rv_LeaseToken := oc_LeaseToken op,
          rv_FenceOperationID := oc_ID op, rv_State := q_state row, rv_LastErrorCode := q_last_error row,
          rv_RequestedResources := spec\<rparr>))"

definition populateQuotaDemand ::
  "uuid_parser \<Rightarrow> 'q quantity_api \<Rightarrow> Reservation \<Rightarrow> uuid \<Rightarrow> (db, Reservation) io"
where
  "populateQuotaDemand uuid_Parse api reservation tenant =
     bindE (liftE (workUUID uuid_Parse ''service_id'' (rv_ServiceID reservation))) (\<lambda>service.
     bindE (liftE (parse_generation (rv_Generation reservation))) (\<lambda>generation.
     bindE (tryE (GetSpec tenant service generation)) (\<lambda>found.
     bindE (case found of
              Inl err \<Rightarrow> if errors_Is err ErrNoRows then tryE (GetLatestSpec tenant service generation)
                         else returnE found
            | Inr spec \<Rightarrow> returnE found) (\<lambda>found.
     bindE (wrapE ''load quota demand spec: '' found) (\<lambda>spec.
     bindE (wrapE ''decode quota demand spec: '' (decodeResourceSpec api (sp_resources spec))) (\<lambda>demandSpec.
     bindE (wrapE ''aggregate quota demand: '' (Aggregate api demandSpec (sp_replicas spec)
              (sp_runtime_mode spec) (if sp_worker_replicas spec = 0 then 1 else sp_worker_replicas spec)))
       (\<lambda>demand. returnE (reservation\<lparr>rv_Demand := demand\<rparr>))))))))"

text \<open>\<^verbatim>\<open>row, err := get(); if err == nil \{ .. \} else if !errors.Is(err, pgx.ErrNoRows) \{ return err \}\<close>\<close>

definition if_row :: "(db, 'r) io \<Rightarrow> ('r \<Rightarrow> (db, 'a) io) \<Rightarrow> 'a \<Rightarrow> (db, 'a) io" where
  "if_row m f unchanged =
     bindE (tryE m) (\<lambda>x.
       case x of
         Inr row \<Rightarrow> f row
       | Inl err \<Rightarrow> if errors_Is err ErrNoRows then returnE unchanged else failE err)"

definition load_managed :: "uuid_parser \<Rightarrow> InferenceOperation \<Rightarrow> OperationContext \<Rightarrow> (db, OperationContext) io" where
  "load_managed uuid_Parse row op =
     bindE (GetManagedGPUState (o_tenant row) (o_service row)) (\<lambda>(is_managed, closing).
       let op = op\<lparr>oc_Managed := is_managed\<rparr> in
       if \<not> is_managed then returnE op
       else
         bindE (GetManagedGPUResource (o_tenant row) (o_service row)) (\<lambda>managedRow.
           let original = g_original_context managedRow;
               op = op\<lparr>oc_ManagedGPU := (ResourceClass original = ''gpu'' \<or> RefundSnapshot original \<noteq> None),
                       oc_ManagedGPUCreateOperationID := OriginalCreateOperationID original\<rparr> in
           bindE (liftE (workUUID uuid_Parse ''managed GPU create operation'' (OriginalCreateOperationID original)))
             (\<lambda>createOperation.
           if_row (GetManagedGPUReleaseScope (o_tenant row) (o_service row) createOperation) (\<lambda>raw.
             bindE (wrapE ''decode managed GPU release scope: '' (decodeManagedGPUReleaseScope raw))
               (\<lambda>(sealedAt, pods).
               case validateManagedGPUReleasePods pods of
                 Some err \<Rightarrow> failE (Wrapf ''invalid managed GPU release scope: '' err '''')
               | None \<Rightarrow> returnE (op\<lparr>oc_ManagedGPUReleaseSealedAt := sealedAt,
                                     oc_ManagedGPUReleasePods := pods\<rparr>))) op)))"

definition load_spec :: "uuid \<Rightarrow> InferenceOperation \<Rightarrow> OperationContext \<Rightarrow> (db, OperationContext) io" where
  "load_spec tenant row op =
     bindE (tryE (GetSpec tenant (o_service row) (o_target_generation row))) (\<lambda>found.
     bindE (case found of
              Inl err \<Rightarrow>
                if errors_Is err ErrNoRows \<and> oc_Kind op = KindDelete
                then tryE (GetLatestSpec tenant (o_service row) (o_target_generation row)) else returnE found
            | Inr spec \<Rightarrow> returnE found) (\<lambda>found.
     case found of
       Inl err \<Rightarrow> if errors_Is err ErrNoRows then returnE op else failE err
     | Inr spec \<Rightarrow>
       let op = op\<lparr>oc_Replicas := sp_replicas spec,
                   oc_WorkerReplicas := (if sp_worker_replicas spec = 0 then 1 else sp_worker_replicas spec),
                   oc_RuntimeMode := or_default (sp_runtime_mode spec) ''deployment'',
                   oc_GPURequest := sp_gpu_request spec, oc_GPUSnapshot := sp_gpu_plan spec\<rparr> in
       (case (sp_gpu_plan spec, sp_gpu_plan_digest spec) of
          (Some plan, Some digest) \<Rightarrow>
            if SnapExecutionDigest plan \<noteq> digest
            then failE (Errorf ''GPU plan digest does not match persisted digest'') else returnE op
        | _ \<Rightarrow> returnE op)))"

definition load_reservation ::
  "uuid_parser \<Rightarrow> 'q quantity_api \<Rightarrow> uuid \<Rightarrow> OperationContext \<Rightarrow> (Reservation \<Rightarrow> OperationContext)
    \<Rightarrow> (db, InferenceQuotaReservation) io \<Rightarrow> (db, OperationContext) io"
where
  "load_reservation uuid_Parse api tenant op put get =
     if_row get (\<lambda>row.
       bindE (liftE (reservationFromRow api row op)) (\<lambda>reservation.
       bindE (populateQuotaDemand uuid_Parse api reservation tenant) (\<lambda>reservation.
         returnE (put reservation)))) op"

definition load_publication :: "Item \<Rightarrow> uuid \<Rightarrow> InferenceOperation \<Rightarrow> OperationContext \<Rightarrow> (db, OperationContext) io" where
  "load_publication item tenant row op =
     bindE (tryE (if oc_Step op = StepPublish
                  then GetPublication tenant (o_service row) (o_target_generation row)
                  else GetLatestPublication tenant (o_service row) (o_target_generation row))) (\<lambda>found.
       case found of
         Inr pub \<Rightarrow> returnE (op\<lparr>oc_Publication :=
           \<lparr>pb_TenantID = p_tenant pub, pb_ServiceID = p_service pub, pb_OperationID = o_id row,
            pb_Generation = p_generation pub, pb_LeaseToken = ItemLeaseToken item,
            pb_FenceOperationID = o_id row, pb_URL = p_invocation_url pub, pb_State = p_observed_phase pub\<rparr>\<rparr>)
       | Inl err \<Rightarrow>
         if errors_Is err ErrNoRows then returnE (op\<lparr>oc_Publication :=
           \<lparr>pb_TenantID = ItemTenantID item, pb_ServiceID = ItemServiceID item, pb_OperationID = o_id row,
            pb_Generation = o_target_generation row, pb_LeaseToken = ItemLeaseToken item,
            pb_FenceOperationID = o_id row, pb_URL = '''', pb_State = ''withdrawn''\<rparr>\<rparr>)
         else failE err)"

definition operation_context :: "Item \<Rightarrow> InferenceOperation \<Rightarrow> OperationContext" where
  "operation_context item row =
     \<lparr>oc_TenantID = o_tenant row, oc_ServiceID = o_service row, oc_ID = o_id row, oc_Kind = o_kind row,
      oc_Actor = '''', oc_RequestID = '''', oc_LeaseToken = ItemLeaseToken item, oc_Phase = o_phase row,
      oc_Step = o_step row, oc_Attempt = o_attempt row, oc_TargetGeneration = o_target_generation row,
      oc_Reservation = empty_reservation, oc_PreviousReservation = empty_reservation,
      oc_Publication = \<lparr>pb_TenantID = '''', pb_ServiceID = '''', pb_OperationID = '''', pb_Generation = 0,
        pb_LeaseToken = '''', pb_FenceOperationID = '''', pb_URL = '''', pb_State = ''''\<rparr>,
      oc_GPURequest = None, oc_GPUSnapshot = None, oc_Managed = False, oc_ManagedGPU = False,
      oc_ManagedGPUCreateOperationID = '''', oc_ManagedGPUReleasePods = [],
      oc_ManagedGPUReleaseSealedAt = '''', oc_Replicas = 0, oc_WorkerReplicas = 0, oc_RuntimeMode = ''''\<rparr>"

definition load_operation ::
  "uuid_parser \<Rightarrow> 'q quantity_api \<Rightarrow> Item \<Rightarrow> uuid \<Rightarrow> InferenceOperation \<Rightarrow> (db, OperationContext) io"
where
  "load_operation uuid_Parse api item tenant row =
     bindE (load_managed uuid_Parse row (operation_context item row)) (\<lambda>op.
     bindE (load_spec tenant row op) (\<lambda>op.
     bindE (if_row (GetOperationAuditContext tenant (o_id row))
              (\<lambda>(actor, request). returnE (op\<lparr>oc_Actor := actor, oc_RequestID := request\<rparr>)) op) (\<lambda>op.
     bindE (load_reservation uuid_Parse api tenant op (\<lambda>rv. op\<lparr>oc_Reservation := rv\<rparr>)
              (GetActiveQuotaReservation tenant (o_service row) (o_target_generation row))) (\<lambda>op.
     bindE (if oc_Kind op = KindUpdate \<or> oc_Kind op = KindRestart
            then load_reservation uuid_Parse api tenant op (\<lambda>rv. op\<lparr>oc_PreviousReservation := rv\<rparr>)
                   (GetPreviousQuotaReservation tenant (o_service row) (o_target_generation row))
            else returnE op) (\<lambda>op.
       load_publication item tenant row op)))))"

definition OperationStore_CurrentOperation ::
  "uuid_parser \<Rightarrow> 'q quantity_api \<Rightarrow> Item \<Rightarrow> (db, OperationContext) io"
where
  "OperationStore_CurrentOperation uuid_Parse api item =
     bindE (liftE (tenantUUID uuid_Parse (ItemTenantID item))) (\<lambda>tenant.
     bindE (liftE (workUUID uuid_Parse ''lease_token'' (ItemLeaseToken item))) (\<lambda>lease.
     bindE (tryE (GetLeasedOperation tenant lease)) (\<lambda>found.
       case found of
         Inl err \<Rightarrow> if errors_Is err ErrNoRows then failE (Sentinel work_ErrStaleGeneration) else failE err
       | Inr row \<Rightarrow> load_operation uuid_Parse api item tenant row)))"

definition operation_store :: "uuid_parser \<Rightarrow> 'q quantity_api \<Rightarrow> (nat \<Rightarrow> uuid) \<Rightarrow> db OperationStore" where
  "operation_store uuid_Parse api eventIDs =
     \<lparr>CurrentOperation = OperationStore_CurrentOperation uuid_Parse api,
      AdvanceOperationStepCAS = Repository_AdvanceOperationStepCAS uuid_Parse,
      RetryOperationStepCAS = Repository_RetryOperationStepCAS uuid_Parse,
      SaveQuotaReservation = OperationStore_SaveQuotaReservation uuid_Parse,
      SavePublication = OperationStore_SavePublication uuid_Parse,
      SaveRuntimeObservation = OperationStore_SaveRuntimeObservation uuid_Parse eventIDs,
      AsScopeStore = Some \<lparr>SaveManagedGPUReleasePods = OperationStore_SaveManagedGPUReleasePods uuid_Parse,
        LoadManagedGPUReleasePods = OperationStore_LoadManagedGPUReleasePods uuid_Parse\<rparr>,
      AsModelStore = Some \<lparr>MarkModelMaterializing = OperationStore_MarkModelMaterializing uuid_Parse,
        SaveModelObservation = OperationStore_SaveModelObservation uuid_Parse\<rparr>,
      AsGPUStore = Some (OperationStore_SaveGPUSnapshot uuid_Parse),
      AsAtomic = Some (OperationStore_atomic uuid_Parse)\<rparr>"

section \<open>Runtime bindings of the executor\<close>

record RuntimeBindingInput =
  in_TenantID :: string
  in_ServiceID :: string
  in_Generation :: int
  in_ObjectKind :: string
  in_ObjectNamespace :: string
  in_ObjectName :: string
  in_ObjectUID :: string
  in_ResourceVersion :: string
  in_Role :: string
  in_ExpectedUID :: string
  in_ExpectedResourceVersion :: string

text \<open>The order of a Go map is not fixed: any missing field may be the one the error names.\<close>

definition validateRuntimeBindingInput :: "RuntimeBindingInput \<Rightarrow> error option" where
  "validateRuntimeBindingInput inp =
     (if in_Generation inp < 1 then Some (Errorf ''generation must be positive'')
      else case required [(''object_kind'', in_ObjectKind inp), (''object_namespace'', in_ObjectNamespace inp),
             (''object_name'', in_ObjectName inp), (''object_uid'', in_ObjectUID inp),
             (''resource_version'', in_ResourceVersion inp), (''role'', in_Role inp)] of
        Some err \<Rightarrow> Some err
      | None \<Rightarrow>
        if (in_ExpectedUID inp = '''') \<noteq> (in_ExpectedResourceVersion inp = '''')
        then Some (Errorf ''expected UID and expected resourceVersion must be supplied together'')
        else None)"

definition Repository_UpsertRuntimeBindingCAS :: "uuid_parser \<Rightarrow> RuntimeBindingInput \<Rightarrow> (db, unit) io" where
  "Repository_UpsertRuntimeBindingCAS uuid_Parse inp =
     bindE (checkE (validateRuntimeBindingInput inp)) (\<lambda>_.
     bindE (liftE (requireUUID uuid_Parse ''tenant_id'' (in_TenantID inp))) (\<lambda>tenant.
     bindE (liftE (requireUUID uuid_Parse ''service_id'' (in_ServiceID inp))) (\<lambda>service.
       one_row (Sentinel ErrRuntimeBindingCAS)
         (sql_UpsertRuntimeBindingCAS
            \<lparr>b_tenant = tenant, b_service = service, b_generation = in_Generation inp,
             b_kind = in_ObjectKind inp, b_namespace = in_ObjectNamespace inp, b_name = in_ObjectName inp,
             b_uid = in_ObjectUID inp, b_resource_version = in_ResourceVersion inp, b_role = in_Role inp,
             b_observed_at = 0\<rparr>
            (in_ExpectedUID inp) (in_ExpectedResourceVersion inp)))))"

definition Repository_GetRuntimeBinding ::
  "uuid_parser \<Rightarrow> string \<Rightarrow> string \<Rightarrow> int \<Rightarrow> string \<Rightarrow> string \<Rightarrow> (db, InferenceRuntimeBinding) io"
where
  "Repository_GetRuntimeBinding uuid_Parse tenantID serviceID generation objectKind role =
     (if generation < 1 \<or> TrimSpace objectKind = '''' \<or> TrimSpace role = ''''
      then failE (Errorf ''generation, object kind and role are required'')
      else
        bindE (liftE (requireUUID uuid_Parse ''tenant_id'' tenantID)) (\<lambda>tenant.
        bindE (liftE (requireUUID uuid_Parse ''service_id'' serviceID)) (\<lambda>service.
          GetRuntimeBinding tenant service generation objectKind role)))"

definition Repository_DeleteRuntimeBindingCAS ::
  "uuid_parser \<Rightarrow> string \<Rightarrow> string \<Rightarrow> int \<Rightarrow> string \<Rightarrow> string \<Rightarrow> string \<Rightarrow> string \<Rightarrow> (db, unit) io"
where
  "Repository_DeleteRuntimeBindingCAS uuid_Parse tenantID serviceID generation objectKind role uid version =
     (if generation < 1 \<or> TrimSpace objectKind = '''' \<or> TrimSpace role = '''' \<or> TrimSpace uid = ''''
         \<or> TrimSpace version = ''''
      then failE (Errorf ''generation, object kind, role, UID and resourceVersion are required'')
      else
        bindE (liftE (requireUUID uuid_Parse ''tenant_id'' tenantID)) (\<lambda>tenant.
        bindE (liftE (requireUUID uuid_Parse ''service_id'' serviceID)) (\<lambda>service.
          one_row (Sentinel ErrRuntimeBindingCAS)
            (DeleteRuntimeBindingCAS tenant service generation objectKind role uid version))))"

end
