(* ===== verification/Operation_Run.thy ===== *)
theory Operation_Run
  imports Operation_Store
begin

text \<open>
  The runner on the PostgreSQL store: what one run does to the operations table. The world of a run is
  the database and the state \<open>'w\<close> of the remote providers; \<open>shared_store\<close> is the store of
  \<^verbatim>\<open>operation_store.go\<close> on the database part of that world.
\<close>

section \<open>What the statements leave alone\<close>

lemma keeps_fun: "(\<And>d. g (snd (f d)) = g d) \<Longrightarrow> keeps g f"
  by (simp add: keeps_def) (metis snd_conv)

lemma keeps_one [keeps_intros]: "keeps g (\<lambda>d. one (f d) d)"
  by (rule keeps_fun) (simp add: one_def io_simps split: option.split)

lemma keeps_one_row [keeps_intros]: "keeps g m \<Longrightarrow> keeps g (one_row e m)"
  unfolding one_row_def by (intro keeps_intros)

lemma keeps_stale_unless_one [keeps_intros]: "keeps g m \<Longrightarrow> keeps g (stale_unless_one m)"
  unfolding stale_unless_one_def by (intro keeps_intros)

lemma keeps_transaction [keeps_intros]: "keeps g m \<Longrightarrow> keeps g (transaction m)"
  by (auto simp: keeps_def transaction_def split: prod.splits sum.splits)

lemma keeps_checkE [keeps_intros]: "keeps g (checkE e)"
  unfolding checkE_def by (intro keeps_intros)

lemma keeps_wrapE [keeps_intros]: "keeps g (wrapE p r)"
  unfolding wrapE_def by (intro keeps_intros)

lemma keeps_if_row [keeps_intros]: "keeps g m \<Longrightarrow> (\<And>r. keeps g (f r)) \<Longrightarrow> keeps g (if_row m f a)"
  unfolding if_row_def by (intro keeps_intros)

lemma keeps_at_state: "(\<And>d. keeps g (f d)) \<Longrightarrow> keeps g (\<lambda>d. f d d)"
  by (simp add: keeps_def)

lemma keeps_reads [keeps_intros]:
  "keeps g (GetOperation t i)" "keeps g (GetLeasedOperation t l)" "keeps g (GetService t i)"
  "keeps g (GetSpec t i n)" "keeps g (GetLatestSpec t i n)"
  "keeps g (GetActiveQuotaReservation t i n)" "keeps g (GetPreviousQuotaReservation t i n)"
  "keeps g (GetPublication t i n)" "keeps g (GetLatestPublication t i n)"
  "keeps g (GetRuntime t i)" "keeps g (GetOperationAuditContext t i)"
  "keeps g (GetManagedGPUResource t i)" "keeps g (GetManagedGPUReleaseScope t i c)"
  unfolding GetOperation_def [abs_def] GetLeasedOperation_def [abs_def] GetService_def [abs_def]
    GetSpec_def [abs_def] GetLatestSpec_def [abs_def] GetActiveQuotaReservation_def [abs_def]
    GetPreviousQuotaReservation_def [abs_def] GetPublication_def [abs_def] GetLatestPublication_def [abs_def]
    GetRuntime_def [abs_def] GetOperationAuditContext_def [abs_def] GetManagedGPUResource_def [abs_def]
    GetManagedGPUReleaseScope_def [abs_def]
  by (rule keeps_one)+

lemma keeps_managed_state [keeps_intros]: "keeps g (GetManagedGPUState t i)"
  by (rule keeps_fun) (simp add: GetManagedGPUState_def Let_def)

lemma operations_writes [keeps_intros]:
  "keeps operations (UpdateQuotaReservationFenced rid req st code t o' n f l)"
  "keeps operations (UpsertPublicationFenced t i n des obs url code f l)"
  "keeps operations (UpdateObservationForWork upd n t i l)"
  "keeps operations (UpdateObservationCAS upd n t i)"
  "keeps operations (MarkServiceAppliedGeneration n t i)"
  "keeps operations (MarkServiceDeleted t i o' n)"
  "keeps operations (DeleteRuntimeBindingCAS t i n k rl u v)"
  "keeps operations (sql_UpsertRuntimeBindingCAS b u v)"
  "keeps operations (AppendObservationEvent e)"
  "keeps operations (AppendAuditEvent a)"
  "keeps operations (SaveGPUPlanCAS plan dig t i n o' l)"
  "keeps operations (UpsertManagedGPUReleaseScope t i o' sc)"
  by (rule keeps_fun, simp add: UpdateQuotaReservationFenced_def UpsertPublicationFenced_def
      UpdateObservationForWork_def UpdateObservationCAS_def MarkServiceAppliedGeneration_def
      MarkServiceDeleted_def DeleteRuntimeBindingCAS_def sql_UpsertRuntimeBindingCAS_def
      AppendObservationEvent_def AppendAuditEvent_def SaveGPUPlanCAS_def UpsertManagedGPUReleaseScope_def
      write_quotas_def write_runtimes_def write_services_def write_bindings_def Let_def io_simps
      split: option.split)+

lemma operations_for_work [keeps_intros]:
  "keeps operations (MarkModelMaterializingForWork n t i l)"
  "keeps operations (UpdateModelObservationForWork b why n t i l)"
  unfolding MarkModelMaterializingForWork_def [abs_def] UpdateModelObservationForWork_def [abs_def]
  by (rule keeps_at_state, intro keeps_intros)+

lemma keeps_current_runtime [keeps_intros]: "keeps g (current_runtime t i)"
  unfolding current_runtime_def by (intro keeps_intros)

lemma operations_save_object [keeps_intros]: "keeps operations (save_object t i n obj)"
  unfolding save_object_def by (intro keeps_intros)

lemma operations_observed [keeps_intros]:
  "keeps operations (\<lambda>d. stale_unless_one (UpdateObservationForWork (upd d) n t i l) d)"
  by (rule keeps_at_state) (intro keeps_intros)

lemma operations_saves [keeps_intros]:
  "keeps operations (ReconcileStore_SaveObservationForWork P ids item obs)"
  "keeps operations (OperationStore_SaveQuotaReservation P rv)"
  "keeps operations (OperationStore_SavePublication P pb)"
  "keeps operations (OperationStore_SaveRuntimeObservation P ids op seen)"
  "keeps operations (OperationStore_SaveModelObservation P op fct)"
  "keeps operations (OperationStore_MarkModelMaterializing P op)"
  "keeps operations (OperationStore_SaveGPUSnapshot P op plan)"
  "keeps operations (OperationStore_SaveManagedGPUReleasePods P op pods)"
  "keeps operations (OperationStore_LoadManagedGPUReleasePods P op)"
  unfolding ReconcileStore_SaveObservationForWork_def OperationStore_SaveQuotaReservation_def
    OperationStore_SavePublication_def OperationStore_SaveRuntimeObservation_def
    OperationStore_SaveModelObservation_def OperationStore_MarkModelMaterializing_def
    OperationStore_SaveGPUSnapshot_def OperationStore_SaveManagedGPUReleasePods_def
    OperationStore_LoadManagedGPUReleasePods_def Let_def
  by (intro keeps_intros)+

text \<open>Loading an operation only reads.\<close>

lemma keeps_loads [keeps_intros]:
  "keeps g (load_managed P row op)" "keeps g (load_spec t row op)"
  "keeps g (populateQuotaDemand P api rv t)" "keeps g (load_publication item t row op)"
  unfolding load_managed_def load_spec_def populateQuotaDemand_def load_publication_def Let_def
  by (intro keeps_intros)+

lemma keeps_load_reservation [keeps_intros]:
  "keeps g get \<Longrightarrow> keeps g (load_reservation P api t op put get)"
  unfolding load_reservation_def by (intro keeps_intros)

lemma keeps_current_operation [keeps_intros]: "keeps g (OperationStore_CurrentOperation P api item)"
  unfolding OperationStore_CurrentOperation_def load_operation_def by (intro keeps_intros)

section \<open>The runner's world\<close>

definition on_db :: "(db, 'a) io \<Rightarrow> (db \<times> 'w, 'a) io" where
  "on_db m = (\<lambda>(d, w). case m d of (r, d') \<Rightarrow> (r, (d', w)))"

lemma on_db_eq: "on_db m (d, w) = (r, s) \<longleftrightarrow> (\<exists>d'. m d = (r, d') \<and> s = (d', w))"
  by (auto simp: on_db_def split: prod.splits)

lemma keeps_on_db [keeps_intros]: "keeps g m \<Longrightarrow> keeps (\<lambda>s. g (fst s)) (on_db m)"
  by (auto simp: keeps_def on_db_def split: prod.splits)

definition shared_atomic :: "uuid_parser \<Rightarrow> (db \<times> 'w) AtomicStepStore" where
  "shared_atomic P =
     \<lparr>AdvanceOperationStepCASWithAudit = (\<lambda>t ev. on_db (AdvanceOperationStepCASWithAudit (OperationStore_atomic P) t ev)),
      RetryOperationStepCASWithAudit = (\<lambda>t after ev. on_db (RetryOperationStepCASWithAudit (OperationStore_atomic P) t after ev))\<rparr>"

definition shared_store ::
  "uuid_parser \<Rightarrow> 'q quantity_api \<Rightarrow> (nat \<Rightarrow> uuid) \<Rightarrow> (db \<times> 'w) OperationStore"
where
  "shared_store P api ids =
     (let st = operation_store P api ids in
      \<lparr>CurrentOperation = (\<lambda>item. on_db (CurrentOperation st item)),
       AdvanceOperationStepCAS = (\<lambda>t. on_db (AdvanceOperationStepCAS st t)),
       RetryOperationStepCAS = (\<lambda>t after. on_db (RetryOperationStepCAS st t after)),
       SaveQuotaReservation = (\<lambda>rv. on_db (SaveQuotaReservation st rv)),
       SavePublication = (\<lambda>pb. on_db (SavePublication st pb)),
       SaveRuntimeObservation = (\<lambda>op seen. on_db (SaveRuntimeObservation st op seen)),
       AsScopeStore = map_option (\<lambda>sc.
         \<lparr>SaveManagedGPUReleasePods = (\<lambda>op pods. on_db (SaveManagedGPUReleasePods sc op pods)),
          LoadManagedGPUReleasePods = (\<lambda>op. on_db (LoadManagedGPUReleasePods sc op))\<rparr>) (AsScopeStore st),
       AsModelStore = map_option (\<lambda>ms.
         \<lparr>MarkModelMaterializing = (\<lambda>op. on_db (MarkModelMaterializing ms op)),
          SaveModelObservation = (\<lambda>op seen. on_db (SaveModelObservation ms op seen))\<rparr>) (AsModelStore st),
       AsGPUStore = map_option (\<lambda>save op plan. on_db (save op plan)) (AsGPUStore st),
       AsAtomic = Some (shared_atomic P)\<rparr>)"

text \<open>A store and ports that leave a part of the world alone, step recording apart.\<close>

definition store_keeps :: "('s \<Rightarrow> 'v) \<Rightarrow> 's OperationStore \<Rightarrow> bool" where
  "store_keeps g st \<longleftrightarrow> (\<forall>rv. keeps g (SaveQuotaReservation st rv)) \<and> (\<forall>pb. keeps g (SavePublication st pb))
     \<and> (\<forall>op seen. keeps g (SaveRuntimeObservation st op seen))
     \<and> (\<forall>sc op pods. AsScopeStore st = Some sc \<longrightarrow> keeps g (SaveManagedGPUReleasePods sc op pods)
          \<and> keeps g (LoadManagedGPUReleasePods sc op))
     \<and> (\<forall>ms op seen. AsModelStore st = Some ms \<longrightarrow> keeps g (MarkModelMaterializing ms op)
          \<and> keeps g (SaveModelObservation ms op seen))
     \<and> (\<forall>save op plan. AsGPUStore st = Some save \<longrightarrow> keeps g (save op plan))"

definition ports_keep :: "('s \<Rightarrow> 'v) \<Rightarrow> 's Runner \<Rightarrow> bool" where
  "ports_keep g r \<longleftrightarrow> (\<forall>f op. RAdmission r = Some f \<longrightarrow> keeps g (f op))
     \<and> (\<forall>p op. RModel r = Some p \<longrightarrow> keeps g (EnsureModel p op) \<and> keeps g (CleanupModel p op))
     \<and> (\<forall>f op. RGPU r = Some f \<longrightarrow> keeps g (f op))
     \<and> (\<forall>p rv t i. RQuota r = Some p \<longrightarrow> keeps g (Reserve p rv) \<and> keeps g (Confirm p rv)
          \<and> keeps g (Release p rv) \<and> keeps g (GetReservation p t i))
     \<and> (\<forall>p pb. RPublication r = Some p \<longrightarrow> keeps g (Withdraw p pb) \<and> keeps g (ConfirmWithdrawn p pb)
          \<and> keeps g (Publish p pb) \<and> keeps g (ConfirmPublished p pb)
          \<and> (\<forall>f. AsEndpointResolver p = Some f \<longrightarrow> keeps g (f pb)))
     \<and> (\<forall>p op. RRuntime r = Some p \<longrightarrow> keeps g (ApplyCR p op) \<and> keeps g (ApplyRuntime p op)
          \<and> keeps g (ObserveRuntime p op) \<and> keeps g (DeleteRuntime p op) \<and> keeps g (ObserveAbsence p op)
          \<and> keeps g (DeleteCR p op))
     \<and> (\<forall>f op. RManagedGPURelease r = Some f \<longrightarrow> keeps g (f op))"

lemma shared_store_keeps: "store_keeps (\<lambda>s. operations (fst s)) (shared_store P api ids)"
  unfolding store_keeps_def shared_store_def operation_store_def Let_def
  by (auto intro!: keeps_intros)


lemma keeps_answers [keeps_intros]: "keeps g (running_at st ev)" "keeps g (succeeded ev)"
  unfolding running_at_def succeeded_def by (intro keeps_intros)+

lemma keeps_join [keeps_intros]: "keeps g m \<Longrightarrow> keeps g (join_failure e m)"
  unfolding join_failure_def by (intro keeps_intros)

lemma keeps_seal [keeps_intros]: "keeps g (seal_release r store op absent)"
  by (simp add: keeps_def seal_release_def)

lemma steps_keep:
  assumes "store_keeps g store" and "ports_keep g r"
  shows "keeps g (step_admission r op)" "keeps g (step_reserve_quota r store op)"
    "keeps g (step_resolve_gpu r store op)" "keeps g (step_release_previous_quota r store op)"
    "keeps g (step_apply_cr r op)" "keeps g (step_materialize_model r store op)"
    "keeps g (step_apply_runtime r op)" "keeps g (step_observe_runtime r store op)"
    "keeps g (step_withdraw_publication r store op)" "keeps g (step_delete_runtime r op)"
    "keeps g (step_observe_absence r store op)" "keeps g (step_delete_cr r op)"
    "keeps g (step_publish r store op)" "keeps g (step_release_quota r store op)"
  unfolding step_defs release_reservation_def lookup_reservation_def confirm_reservation_def
    save_release_pods_def load_release_pods_def resolve_endpoint_def Let_def
  by (intro keeps_intros; simp add: assms(1) [unfolded store_keeps_def] assms(2) [unfolded ports_keep_def])+

lemma runStep_keeps:
  assumes "store_keeps g store" and "ports_keep g r"
  shows "keeps g (runStep r store op)"
  by (cases "oc_Step op") (simp_all add: runStep_def steps_keep [OF assms] keeps_failE)


section \<open>Recording a step in the operations table\<close>

lemma write_operations_one:
  assumes "keyed o_key (operations d)" and "write_operations (rows_where p (operations d)) (update_where p f (operations d)) d = (Inr 1, d')"
    and "\<And>op. p op \<Longrightarrow> o_key op = k"
  shows "\<exists>row \<in> set (operations d). p row \<and> o_key row = k
    \<and> d' = d\<lparr>operations := update_where (\<lambda>op. o_key op = k) f (operations d)\<rparr> \<and> keyed o_key (operations d')"
proof -
  have one: "rows_where p (operations d) = 1" and ok: "operations_error (update_where p f (operations d)) = None"
    and d': "d' = d\<lparr>operations := update_where p f (operations d)\<rparr>"
    using assms(2) by (auto simp: write_operations_def split: option.splits)
  then obtain row where row: "row \<in> set (operations d)" "p row"
    using rows_where_one [OF assms(1), of p k] assms(3) by blast
  have "p op \<longleftrightarrow> o_key op = k" if "op \<in> set (operations d)" for op
    using that row assms(3) keyed_unique [OF assms(1)] by metis
  then have "update_where p f (operations d) = update_where (\<lambda>op. o_key op = k) f (operations d)"
    by (simp add: update_where_def)
  moreover have "keyed o_key (update_where p f (operations d))"
    using ok by (auto simp: operations_error_def keyed_def split: if_splits)
  ultimately show ?thesis using row assms(3) d' by auto
qed

text \<open>The row that a successful transition finds and what it leaves.\<close>

definition recorded ::
  "uuid_parser \<Rightarrow> StepTransition \<Rightarrow> bool \<Rightarrow> (InferenceOperation \<Rightarrow> InferenceOperation) \<Rightarrow> db \<Rightarrow> InferenceOperation \<Rightarrow> db \<Rightarrow> bool"
where
  "recorded P t retry f d row d' \<longleftrightarrow> row \<in> set (operations d)
     \<and> P (st_TenantID t) = Inr (o_tenant row) \<and> P (st_OperationID t) = Inr (o_id row)
     \<and> (\<exists>lease. P (st_LeaseToken t) = Inr lease \<and> op_fenced d row lease)
     \<and> o_target_generation row = st_TargetGeneration t
     \<and> o_phase row = st_ExpectedPhase t \<and> o_step row = st_ExpectedStep t
     \<and> (retry \<or> retry_due d row \<and> ValidateOperationStepTransition (st_Kind t) (st_ExpectedPhase t)
          (st_ExpectedStep t) (st_NextPhase t) (st_NextStep t) = None)
     \<and> operations d' = update_where (\<lambda>op. o_key op = o_key row) f (operations d)
     \<and> keyed o_key (operations d')"

definition step_update :: "StepTransition \<Rightarrow> bool \<Rightarrow> duration \<Rightarrow> db \<Rightarrow> InferenceOperation \<Rightarrow> InferenceOperation" where
  "step_update t retry after d =
     (if retry then retry_row d after (st_ErrorCode t) (st_ErrorMessage t)
      else advanced_row d (st_NextPhase t) (st_NextStep t) (st_ErrorCode t) (st_ErrorMessage t))"

lemma sql_step_recorded:
  assumes "keyed o_key (operations d)" and "sql_step t retry after tenant op lease d = (Inr 1, d')"
  shows "\<exists>row \<in> set (operations d). step_matches d tenant op (st_TargetGeneration t) (st_ExpectedPhase t)
        (st_ExpectedStep t) lease row \<and> (retry \<or> retry_due d row)
      \<and> d' = d\<lparr>operations := update_where (\<lambda>x. o_key x = o_key row) (step_update t retry after d) (operations d)\<rparr>
      \<and> keyed o_key (operations d')"
proof -
  let ?p = "\<lambda>x. step_matches d tenant op (st_TargetGeneration t) (st_ExpectedPhase t) (st_ExpectedStep t) lease x
    \<and> (retry \<or> retry_due d x)"
  have "write_operations (rows_where ?p (operations d)) (update_where ?p (step_update t retry after d) (operations d)) d
      = (Inr 1, d')"
    using assms(2)
    by (cases retry) (simp_all add: sql_step_def sql_RetryOperationStepCAS_def sql_AdvanceOperationStepCAS_def
        step_update_def Let_def)
  from write_operations_one [OF assms(1) this, of "(tenant, op)"] show ?thesis
    by (auto simp: step_matches_def o_key_def)
qed

lemma stepWithAudit_Inl: "stepWithAudit P t ev retry after d = (Inl e, d') \<Longrightarrow> d' = d"
  by (auto simp: stepWithAudit_def bindE_eq_Inl checkE_def split: if_splits option.splits)

lemma operations_append_event [keeps_intros]: "keeps operations (append_event P ev)"
  unfolding append_event_def by (intro keeps_intros)

lemma one_row_Inr: "one_row e m d = (Inr u, d') \<longleftrightarrow> m d = (Inr 1, d')"
  by (auto simp: one_row_def bindE_eq_Inr split: if_splits)

lemma operations_step_audit [keeps_intros]: "keeps operations (step_audit P t ev retry tenant op)"
  unfolding step_audit_def by (intro keeps_intros)

lemma workUUID_Inr_sym: "Inr u = workUUID P label v \<longleftrightarrow> P v = Inr u"
  by (metis workUUID_Inr)

lemma stepWithAudit_Inr:
  assumes "keyed o_key (operations d)" and "stepWithAudit P t ev retry after d = (Inr (), d')"
  shows "\<exists>row. recorded P t retry (step_update t retry after d) d row d'"
proof -
  obtain tenant op lease d1 where ids: "P (st_TenantID t) = Inr tenant" "P (st_OperationID t) = Inr op"
      "P (st_LeaseToken t) = Inr lease"
    and valid: "retry \<or> ValidateOperationStepTransition (st_Kind t) (st_ExpectedPhase t) (st_ExpectedStep t)
                               (st_NextPhase t) (st_NextStep t) = None"
    and sql: "sql_step t retry after tenant op lease d = (Inr 1, d1)"
    and rest: "step_audit P t ev retry tenant op d1 = (Inr (), d')"
    using assms(2)
    by (auto simp: stepWithAudit_def bindE_eq_Inr checkE_def workUUID_Inr_sym tenantUUID_def one_row_Inr
        split: if_splits option.splits)
  from keepsD [OF operations_step_audit rest] sql_step_recorded [OF assms(1) sql] ids valid show ?thesis
    by (auto simp: recorded_def step_matches_def)
qed


section \<open>One run of the runner\<close>

definition op_position :: "db \<Rightarrow> uuid \<times> uuid \<Rightarrow> position option" where
  "op_position d k = map_option (\<lambda>op. (o_phase op, o_step op)) (find_operation d (fst k) (snd k))"

fun parsed_position :: "db \<Rightarrow> uuid result \<times> uuid result \<Rightarrow> position option" where
  "parsed_position d (Inr t, Inr i) = op_position d (t, i)"
| "parsed_position d _ = None"

lemma find_updated:
  assumes "keyed o_key rows" and "row \<in> set rows" and "o_key (f row) = o_key row"
  shows "find (\<lambda>op. o_tenant op = t \<and> o_id op = i) (update_where (\<lambda>op. o_key op = o_key row) f rows) =
    (if (t, i) = o_key row then Some (f row) else find (\<lambda>op. o_tenant op = t \<and> o_id op = i) rows)"
  using assms
proof (induction rows)
  case Nil
  then show ?case by simp
next
  case (Cons x rows)
  show ?case
  proof (cases "o_key x = o_key row")
    case True
    then have "x = row" using keyed_unique [OF Cons.prems(1)] Cons.prems(2) by simp
    moreover have "\<forall>y \<in> set rows. o_key y \<noteq> o_key row"
      using Cons.prems(1) True by (auto simp: keyed_def image_iff)
    then have "update_where (\<lambda>op. o_key op = o_key row) f rows = rows" by (intro update_where_none) auto
    ultimately show ?thesis using Cons.prems(3) by (auto simp: update_where_def o_key_def)
  next
    case False
    then have "row \<in> set rows" "keyed o_key rows" using Cons.prems(1,2) by (auto simp: keyed_def)
    from Cons.IH [OF this(2,1) Cons.prems(3)] False show ?thesis by (auto simp: update_where_def o_key_def)
  qed
qed

lemma recorded_position:
  assumes "recorded P t retry f d row d'" and "keyed o_key (operations d)" and "o_key (f row) = o_key row"
  shows "op_position d (o_key row) = Some (st_ExpectedPhase t, st_ExpectedStep t)"
    and "op_position d' = (op_position d)(o_key row \<mapsto> (o_phase (f row), o_step (f row)))"
proof -
  have row: "row \<in> set (operations d)" "operations d' = update_where (\<lambda>op. o_key op = o_key row) f (operations d)"
      "o_phase row = st_ExpectedPhase t" "o_step row = st_ExpectedStep t"
    using assms(1) by (auto simp: recorded_def)
  have "find (\<lambda>op. o_tenant op = o_tenant row \<and> o_id op = o_id row) (operations d) = Some row"
    using find_keyed [OF assms(2) row(1), of "\<lambda>op. o_tenant op = o_tenant row \<and> o_id op = o_id row"]
    by (simp add: o_key_def)
  then show "op_position d (o_key row) = Some (st_ExpectedPhase t, st_ExpectedStep t)"
    using row by (simp add: op_position_def find_operation_def o_key_def)
  show "op_position d' = (op_position d)(o_key row \<mapsto> (o_phase (f row), o_step (f row)))"
    using find_updated [OF assms(2) row(1), of f] assms(3) row(2)
    by (intro ext) (auto simp: op_position_def find_operation_def)
qed

lemma step_update_key: "o_key (step_update t retry after d row) = o_key row"
  by (simp add: step_update_def retry_row_def advanced_row_def o_key_def)

lemma step_update_position:
  "(o_phase (step_update t False after d row), o_step (step_update t False after d row)) = (st_NextPhase t, st_NextStep t)"
  "(o_phase (step_update t True after d row), o_step (step_update t True after d row)) = (OperationPending, o_step row)"
  by (simp_all add: step_update_def retry_row_def advanced_row_def)

lemma parsed_position_upd:
  assumes "op_position d' = (op_position d)((t, i) \<mapsto> x)"
  shows "parsed_position d' = (parsed_position d)((Inr t, Inr i) \<mapsto> x)"
proof (rule ext)
  fix k :: "uuid result \<times> uuid result"
  show "parsed_position d' k = ((parsed_position d)((Inr t, Inr i) \<mapsto> x)) k"
    using assms by (cases "(d, k)" rule: parsed_position.cases) auto
qed

lemma step_positions:
  assumes "keyed o_key (operations d)" and "stepWithAudit P t ev retry after d = (Inr (), d')"
  shows "keyed o_key (operations d')
    \<and> parsed_position d (P (st_TenantID t), P (st_OperationID t)) = Some (st_ExpectedPhase t, st_ExpectedStep t)
    \<and> (retry \<or> ValidateOperationStepTransition (st_Kind t) (st_ExpectedPhase t) (st_ExpectedStep t)
        (st_NextPhase t) (st_NextStep t) = None)
    \<and> parsed_position d' = (parsed_position d)((P (st_TenantID t), P (st_OperationID t)) \<mapsto>
        (if retry then (OperationPending, st_ExpectedStep t) else (st_NextPhase t, st_NextStep t)))"
proof -
  obtain row where row: "recorded P t retry (step_update t retry after d) d row d'"
    using stepWithAudit_Inr [OF assms] by blast
  note pos = recorded_position [OF row assms(1) step_update_key]
  have ids: "P (st_TenantID t) = Inr (o_tenant row)" "P (st_OperationID t) = Inr (o_id row)"
      "o_step row = st_ExpectedStep t" "keyed o_key (operations d')"
    using row by (auto simp: recorded_def)
  moreover have "parsed_position d' = (parsed_position d)((Inr (o_tenant row), Inr (o_id row)) \<mapsto>
        (if retry then (OperationPending, st_ExpectedStep t) else (st_NextPhase t, st_NextStep t)))"
    using parsed_position_upd [of d' d "o_tenant row" "o_id row"] pos(2) ids(3)
      step_update_position [of t after d row] by (cases retry) (simp_all add: o_key_def)
  moreover have "retry \<or> ValidateOperationStepTransition (st_Kind t) (st_ExpectedPhase t) (st_ExpectedStep t)
        (st_NextPhase t) (st_NextStep t) = None" using row by (auto simp: recorded_def)
  ultimately show ?thesis using pos(1) by (simp add: o_key_def)
qed

interpretation pg: durable_steps "\<lambda>s. keyed o_key (operations (fst s))" "\<lambda>s. parsed_position (fst s)"
  "\<lambda>t. (P (st_TenantID t), P (st_OperationID t))" "\<lambda>op. (P (oc_TenantID op), P (oc_ID op))"
  "shared_atomic P :: (db \<times> 'w) AtomicStepStore" for P
proof unfold_locales
  fix s :: "db \<times> 'w" and t ev res s' after e
  assume inv: "keyed o_key (operations (fst s))"
  obtain d w where s: "s = (d, w)" by fastforce
  show "keyed o_key (operations (fst s'))"
    if "AdvanceOperationStepCASWithAudit (shared_atomic P) t ev s = (res, s')"
    using that inv step_positions [of d P t ev False 0] stepWithAudit_Inl [of P t ev False 0 d] s
    by (cases res) (auto simp: shared_atomic_def OperationStore_atomic_def on_db_eq)
  show "keyed o_key (operations (fst s'))"
    if "RetryOperationStepCASWithAudit (shared_atomic P) t after ev s = (res, s')"
    using that inv step_positions [of d P t ev True after] stepWithAudit_Inl [of P t ev True after d] s
    by (cases res) (auto simp: shared_atomic_def OperationStore_atomic_def on_db_eq)
  show "parsed_position (fst s) (P (st_TenantID t), P (st_OperationID t)) = Some (st_ExpectedPhase t, st_ExpectedStep t)
      \<and> ValidateOperationStepTransition (st_Kind t) (st_ExpectedPhase t) (st_ExpectedStep t)
          (st_NextPhase t) (st_NextStep t) = None
      \<and> parsed_position (fst s') = (parsed_position (fst s))((P (st_TenantID t), P (st_OperationID t)) \<mapsto>
          (st_NextPhase t, st_NextStep t))"
    if "AdvanceOperationStepCASWithAudit (shared_atomic P) t ev s = (Inr (), s')"
    using that inv step_positions [of d P t ev False 0] s
    by (auto simp: shared_atomic_def OperationStore_atomic_def on_db_eq)
  show "parsed_position (fst s) (P (st_TenantID t), P (st_OperationID t)) = Some (st_ExpectedPhase t, st_ExpectedStep t)
      \<and> parsed_position (fst s') = (parsed_position (fst s))((P (st_TenantID t), P (st_OperationID t)) \<mapsto>
          (OperationPending, st_ExpectedStep t))"
    if "RetryOperationStepCASWithAudit (shared_atomic P) t after ev s = (Inr (), s')"
    using that inv step_positions [of d P t ev True after] s
    by (auto simp: shared_atomic_def OperationStore_atomic_def on_db_eq)
  show "parsed_position (fst s') = parsed_position (fst s)"
    if "AdvanceOperationStepCASWithAudit (shared_atomic P) t ev s = (Inl e, s')"
    using that stepWithAudit_Inl [of P t ev False 0 d] s
    by (auto simp: shared_atomic_def OperationStore_atomic_def on_db_eq)
  show "parsed_position (fst s') = parsed_position (fst s)"
    if "RetryOperationStepCASWithAudit (shared_atomic P) t after ev s = (Inl e, s')"
    using that stepWithAudit_Inl [of P t ev True after d] s
    by (auto simp: shared_atomic_def OperationStore_atomic_def on_db_eq)
qed (simp_all add: step_transition_def)


text \<open>Loading fills the context in; the identity and the position of the operation are those of the row.\<close>

definition oc_ident :: "OperationContext \<Rightarrow> uuid \<times> uuid \<times> uuid \<times> OperationKind \<times> OperationPhase \<times> OperationStep \<times> int" where
  "oc_ident op = (oc_TenantID op, oc_ServiceID op, oc_ID op, oc_Kind op, oc_Phase op, oc_Step op, oc_TargetGeneration op)"

lemma yields_if_row [yields_intros]: "q a \<Longrightarrow> (\<And>r. yields q (f r)) \<Longrightarrow> yields q (if_row m f a)"
  unfolding if_row_def by (intro yields_intros)

lemma loads_ident [yields_intros]:
  "oc_ident op = k \<Longrightarrow> yields (\<lambda>op. oc_ident op = k) (load_managed P row op)"
  "oc_ident op = k \<Longrightarrow> yields (\<lambda>op. oc_ident op = k) (load_spec t row op)"
  "oc_ident op = k \<Longrightarrow> (\<And>rv. oc_ident (put rv) = k) \<Longrightarrow> yields (\<lambda>op. oc_ident op = k) (load_reservation P api t op put get)"
  "oc_ident op = k \<Longrightarrow> yields (\<lambda>op. oc_ident op = k) (load_publication item t row op)"
  unfolding load_managed_def load_spec_def load_reservation_def load_publication_def Let_def
  by (intro yields_intros; simp add: oc_ident_def)+

lemma try_found:
  "bindE (tryE m) (case_sum f g) s = (r, t) \<longleftrightarrow>
     (\<exists>e u. m s = (Inl e, u) \<and> f e u = (r, t)) \<or> (\<exists>a u. m s = (Inr a, u) \<and> g a u = (r, t))"
  by (cases "m s", case_tac a) (auto simp: bindE_def tryE_def)

lemma current_operation_row:
  assumes "OperationStore_CurrentOperation P api item d = (Inr op, d')"
  shows "\<exists>lease row. P (ItemLeaseToken item) = Inr lease \<and> row \<in> set (operations d) \<and> op_fenced d row lease
    \<and> oc_ident op = (o_tenant row, o_service row, o_id row, o_kind row, o_phase row, o_step row, o_target_generation row)"
proof -
  obtain tenant lease row d1 where found: "P (ItemLeaseToken item) = Inr lease"
      "GetLeasedOperation tenant lease d = (Inr row, d1)"
    and load: "load_operation P api item tenant row d1 = (Inr op, d')"
    using assms
    unfolding OperationStore_CurrentOperation_def bindE_eq_Inr [of "liftE _"] try_found
    by (auto simp: workUUID_Inr_sym split: if_splits)
  let ?same = "\<lambda>op. oc_ident op = oc_ident (operation_context item row)"
  have "yields ?same (load_operation P api item tenant row)"
    unfolding load_operation_def
    by (intro yields_then [where p = ?same] loads_ident yields_if_row yields_if yields_pair yields_returnE;
        simp add: oc_ident_def)
  then have "?same op" by (rule yieldsD) (rule load)
  moreover have "row \<in> set (operations d)" "op_fenced d row lease"
    using found(2) by (auto simp: GetLeasedOperation_def one_def dest: find_Some_mem split: option.splits)
  ultimately show ?thesis using found(1) by (auto simp: oc_ident_def operation_context_def)
qed


lemma parsed_unchanged:
  assumes "parsed_position d' = parsed_position d"
  shows "op_position d' = op_position d"
proof (rule ext)
  fix k
  show "op_position d' k = op_position d k"
    using fun_cong [OF assms, of "(Inr (fst k), Inr (snd k))"] by simp
qed

lemma parsed_moved:
  assumes "parsed_position d' = (parsed_position d)((Inr t, Inr i) \<mapsto> x)"
  shows "op_position d' = (op_position d)((t, i) \<mapsto> x)"
proof (rule ext)
  fix k
  show "op_position d' k = ((op_position d)((t, i) \<mapsto> x)) k"
    using fun_cong [OF assms, of "(Inr (fst k), Inr (snd k))"] by (cases k) (simp split: if_splits)
qed

text \<open>UUID columns hold UUIDs.\<close>

definition typed_operations :: "db \<Rightarrow> bool" where
  "typed_operations d \<longleftrightarrow> (\<forall>op \<in> set (operations d). uuid_text (o_tenant op) \<and> uuid_text (o_id op))"

text \<open>The operation that the lease of a work item is for.\<close>

definition leased_operation :: "uuid_parser \<Rightarrow> Item \<Rightarrow> db \<Rightarrow> InferenceOperation \<Rightarrow> bool" where
  "leased_operation P item d row \<longleftrightarrow> row \<in> set (operations d)
     \<and> (\<exists>lease. P (ItemLeaseToken item) = Inr lease \<and> op_fenced d row lease)"

lemma row_position:
  assumes "keyed o_key (operations d)" and "row \<in> set (operations d)"
  shows "op_position d (o_key row) = Some (o_phase row, o_step row)"
  using find_keyed [OF assms, of "\<lambda>op. o_tenant op = o_tenant row \<and> o_id op = o_id row"]
  by (simp add: op_position_def find_operation_def o_key_def)

lemma loaded_row:
  assumes "uuid_parser_ok P" and "typed_operations d"
    and "CurrentOperation (shared_store P api ids) item (d, w) = (Inr op, t)"
  obtains row where "leased_operation P item d row"
    "(P (oc_TenantID op), P (oc_ID op)) = (Inr (o_tenant row), Inr (o_id row))"
    "oc_Kind op = o_kind row" "oc_Phase op = o_phase row" "oc_Step op = o_step row"
proof -
  have "\<exists>d'. OperationStore_CurrentOperation P api item d = (Inr op, d')"
    using assms(3) by (auto simp: shared_store_def operation_store_def on_db_eq)
  then obtain lease row where row: "P (ItemLeaseToken item) = Inr lease" "row \<in> set (operations d)" "op_fenced d row lease"
    "oc_ident op = (o_tenant row, o_service row, o_id row, o_kind row, o_phase row, o_step row, o_target_generation row)"
    using current_operation_row by blast
  have "P (o_tenant row) = Inr (o_tenant row)" "P (o_id row) = Inr (o_id row)"
    using assms(1,2) row(2) by (auto simp: uuid_parser_ok_def typed_operations_def)
  with row show thesis by (intro that [of row]) (auto simp: leased_operation_def oc_ident_def)
qed

lemma parsed_position_cong:
  assumes "operations d' = operations d"
  shows "parsed_position d' = parsed_position d"
proof (rule ext)
  fix k :: "uuid result \<times> uuid result"
  show "parsed_position d' k = parsed_position d k"
    using assms by (cases "(d, k)" rule: parsed_position.cases) (auto simp: op_position_def find_operation_def)
qed

lemma quiet_keeps:
  assumes "keeps (\<lambda>s. operations (fst s)) m"
  shows "pg.quiet m"
  unfolding pg.quiet_def
proof (intro allI impI)
  fix s t x
  assume "keyed o_key (operations (fst s))" "m s = (x, t)"
  then show "keyed o_key (operations (fst t)) \<and> parsed_position (fst t) = parsed_position (fst s)"
    using keepsD [OF assms, of s x t] parsed_position_cong [of "fst t" "fst s"] by simp
qed

lemma shared_quiet:
  "ports_keep (\<lambda>s. operations (fst s)) r \<Longrightarrow> pg.quiet (runStep r (shared_store P api ids) op)"
  "pg.quiet (CurrentOperation (shared_store P api ids) item)"
  by (intro quiet_keeps runStep_keeps shared_store_keeps, assumption)
    (intro quiet_keeps, simp add: shared_store_def operation_store_def, intro keeps_intros)

text \<open>
  C1: One run of the runner on the PostgreSQL store moves at most one operation, the current operation
  of the service whose live lease the work item holds. A successful run finds it finished and moves
  nothing, or moves it from its step along a legal transition to the step that follows for its kind; a
  failed run leaves every operation at its step, at most changing the phase of the leased one between
  pending and running. This holds for all answers of the providers.
\<close>

theorem run_moves_one_step:
  assumes "uuid_parser_ok P" and "typed_operations d" and "keyed o_key (operations d)"
    and "RStore r = Some (shared_store P api ids)" and "ports_keep (\<lambda>s. operations (fst s)) r"
    and "Runner_Execute r item (d, w) = (res, (d', w'))"
  shows "case res of
      Inr _ \<Rightarrow> \<exists>row. leased_operation P item d row \<and>
        (o_phase row \<in> {OperationSucceeded, OperationFailed} \<and> op_position d' = op_position d
         \<or> op_active row
           \<and> ValidateOperationStepTransition (o_kind row) OperationRunning (o_step row)
               (fst (next_of (o_kind row) (o_step row))) (snd (next_of (o_kind row) (o_step row))) = None
           \<and> op_position d' = (op_position d)(o_key row \<mapsto> next_of (o_kind row) (o_step row)))
    | Inl _ \<Rightarrow> op_position d' = op_position d \<or>
        (\<exists>row phase. leased_operation P item d row \<and> op_active row
           \<and> phase \<in> {OperationPending, OperationRunning}
           \<and> op_position d' = (op_position d)(o_key row \<mapsto> (phase, o_step row)))"
proof -
  let ?store = "shared_store P api ids :: (db \<times> 'w) OperationStore"
  have atomic: "AsAtomic ?store = Some (shared_atomic P)" by (simp add: shared_store_def Let_def)
  have inv: "keyed o_key (operations (fst (d, w)))" using assms(3) by simp
  note run = pg.execute_cases [OF assms(4) atomic inv shared_quiet(2) shared_quiet(1) [OF assms(5)] assms(6)]
  show ?thesis
  proof (cases res)
    case (Inl e)
    have "parsed_position d' = parsed_position d \<or> (\<exists>op t. CurrentOperation ?store item (d, w) = (Inr op, t)
        \<and> pg.stays (P (oc_TenantID op), P (oc_ID op)) (oc_Step op) (d, w) (d', w'))"
      using conjunct2 [OF run] unfolding Inl sum.case fst_conv .
    then consider "parsed_position d' = parsed_position d"
      | op t where "CurrentOperation ?store item (d, w) = (Inr op, t)"
          "pg.stays (P (oc_TenantID op), P (oc_ID op)) (oc_Step op) (d, w) (d', w')"
      by blast
    then show ?thesis
    proof cases
      case 1
      show ?thesis using Inl parsed_unchanged [OF 1] by simp
    next
      case 2
      from loaded_row [OF assms(1,2) 2(1)] obtain row where row: "leased_operation P item d row"
        "(P (oc_TenantID op), P (oc_ID op)) = (Inr (o_tenant row), Inr (o_id row))" "oc_Step op = o_step row"
        by metis
      have pos: "op_position d (o_key row) = Some (o_phase row, o_step row)"
        using row_position assms(3) row(1) by (simp add: leased_operation_def)
      from 2(2) consider "parsed_position d' = parsed_position d"
        | phase where "phase \<in> {OperationPending, OperationRunning}"
            "parsed_position d (Inr (o_tenant row), Inr (o_id row))
              \<in> {Some (OperationPending, o_step row), Some (OperationRunning, o_step row)}"
            "parsed_position d' = (parsed_position d)((Inr (o_tenant row), Inr (o_id row)) \<mapsto> (phase, o_step row))"
        unfolding pg.stays_def row(2,3) fst_conv by blast
      then show ?thesis
      proof cases
        case 1
        show ?thesis using Inl parsed_unchanged [OF 1] by simp
      next
        case (2 phase)
        have "op_active row" using 2(2) pos by (auto simp: op_active_def o_key_def)
        with Inl 2(1) row(1) parsed_moved [OF 2(3)] show ?thesis unfolding o_key_def by auto
      qed
    qed
  next
    case (Inr x)
    have "\<exists>op t. CurrentOperation ?store item (d, w) = (Inr op, t) \<and>
        (oc_Phase op \<in> {OperationSucceeded, OperationFailed} \<and> parsed_position d' = parsed_position d
         \<or> pg.advanced P op (d, w) (d', w'))"
      using conjunct2 [OF run] unfolding Inr sum.case fst_conv .
    then obtain op t where op: "CurrentOperation ?store item (d, w) = (Inr op, t)"
      "oc_Phase op \<in> {OperationSucceeded, OperationFailed} \<and> parsed_position d' = parsed_position d
        \<or> pg.advanced P op (d, w) (d', w')"
      by blast
    from loaded_row [OF assms(1,2) op(1)] obtain row where row: "leased_operation P item d row"
        "(P (oc_TenantID op), P (oc_ID op)) = (Inr (o_tenant row), Inr (o_id row))"
        "oc_Kind op = o_kind row" "oc_Phase op = o_phase row" "oc_Step op = o_step row" by metis
    have pos: "op_position d (o_key row) = Some (o_phase row, o_step row)"
      using row_position assms(3) row(1) by (simp add: leased_operation_def)
    from op(2) show ?thesis
    proof
      assume fin: "oc_Phase op \<in> {OperationSucceeded, OperationFailed} \<and> parsed_position d' = parsed_position d"
      show ?thesis using Inr row(1,4) fin parsed_unchanged [OF conjunct2 [OF fin]] by auto
    next
      assume "pg.advanced P op (d, w) (d', w')"
      then have adv: "parsed_position d (Inr (o_tenant row), Inr (o_id row))
            \<in> {Some (OperationPending, o_step row), Some (OperationRunning, o_step row)}"
          "ValidateOperationStepTransition (o_kind row) OperationRunning (o_step row)
               (fst (next_of (o_kind row) (o_step row))) (snd (next_of (o_kind row) (o_step row))) = None"
          "parsed_position d' = (parsed_position d)((Inr (o_tenant row), Inr (o_id row)) \<mapsto> next_of (o_kind row) (o_step row))"
        unfolding pg.advanced_def row(2,3,5) fst_conv by blast+
      have "op_active row" using adv(1) pos by (auto simp: op_active_def o_key_def)
      with Inr adv(2) row(1) parsed_moved [OF adv(3)] show ?thesis unfolding o_key_def by auto
    qed
  qed
qed


section \<open>A concrete run\<close>

definition sample_operation :: InferenceOperation where
  "sample_operation =
     \<lparr>o_tenant = sample_tenant, o_id = sample_operation_id, o_service = sample_id, o_kind = KindUpdate,
      o_phase = OperationRunning, o_step = StepReserveQuota, o_target_generation = 3, o_request_hash = '''',
      o_attempt = 0, o_retry_at = None, o_lease_owner = None, o_lease_until = None, o_lease_token = None,
      o_error_code = '''', o_error_message = '''', o_result_snapshot = None, o_created_at = 50,
      o_updated_at = 50, o_completed_at = None\<rparr>"

definition sample_run_db :: db where
  "sample_run_db = sample_leased_db\<lparr>operations := [sample_operation]\<rparr>"

text \<open>A runner with no providers: a step that needs none succeeds.\<close>

definition sample_runner :: "(db \<times> unit) Runner" where
  "sample_runner =
     \<lparr>RStore = Some (shared_store strict_parser decimal_api (\<lambda>_. sample_token)), RAdmission = None, RModel = None,
      RGPU = None, RQuota = None, RPublication = None, RRuntime = None, RManagedGPURelease = None,
      RAudit = None, RRetryAfter = 0, NowText = (\<lambda>_. ''''), NewSHA1 = (\<lambda>_. sample_token)\<rparr>"

lemma sample_run:
  "fst (Runner_Execute sample_runner sample_item (sample_run_db, ())) = Inr \<lparr>ResultGeneration = 3\<rparr>"
  by code_simp


theorem run_moves_one_step_witness:
  "\<exists>d'. Runner_Execute sample_runner sample_item (sample_run_db, ()) = (Inr \<lparr>ResultGeneration = 3\<rparr>, (d', ()))
     \<and> op_position d' (sample_tenant, sample_operation_id) = Some (OperationRunning, StepResolveGPU)"
proof -
  obtain d' where run: "Runner_Execute sample_runner sample_item (sample_run_db, ()) = (Inr \<lparr>ResultGeneration = 3\<rparr>, (d', ()))"
    using sample_run by (cases "Runner_Execute sample_runner sample_item (sample_run_db, ())") auto
  have ops: "operations sample_run_db = [sample_operation]" by (simp add: sample_run_db_def)
  have "typed_operations sample_run_db" "keyed o_key (operations sample_run_db)"
      "RStore sample_runner = Some (shared_store strict_parser decimal_api (\<lambda>_. sample_token))"
      "ports_keep (\<lambda>s. operations (fst s)) sample_runner"
    by (simp_all add: ops typed_operations_def keyed_def ports_keep_def sample_runner_def sample_operation_def)
  from run_moves_one_step [OF strict_parser_ok this run] obtain row where
    "leased_operation strict_parser sample_item sample_run_db row"
    "o_phase row \<in> {OperationSucceeded, OperationFailed}
     \<or> op_position d' = (op_position sample_run_db)(o_key row \<mapsto> next_of (o_kind row) (o_step row))" by auto
  moreover from this(1) have "row = sample_operation" by (simp add: leased_operation_def ops)
  ultimately show ?thesis using run by (simp add: sample_operation_def o_key_def)
qed


text \<open>The context of the sample operation, and a quota provider that refuses every new reservation.\<close>

definition sample_context :: OperationContext where
  "sample_context = operation_context sample_item sample_operation"

definition sample_reservation :: Reservation where
  "sample_reservation = empty_reservation\<lparr>rv_TenantID := sample_tenant, rv_ServiceID := sample_id,
     rv_OperationID := sample_operation_id, rv_Generation := ''3'', rv_ReservationID := ''r-1'', rv_State := ''reserved''\<rparr>"

definition sample_quota :: "'s QuotaPort" where
  "sample_quota =
     \<lparr>Reserve = (\<lambda>_. failE (Errorf ''reserved twice'')), Confirm = (\<lambda>_. returnE ()), Release = (\<lambda>_. returnE ()),
      GetReservation = (\<lambda>_ _. failE (Sentinel ErrReservationNotFound))\<rparr>"

definition sample_store :: "(db \<times> unit) OperationStore" where
  "sample_store = shared_store strict_parser decimal_api (\<lambda>_. sample_token)"

theorem step_result_valid_witness:
  "\<exists>res. runStep sample_runner sample_store sample_context (sample_run_db, ()) = (Inr res, (sample_run_db, ()))
     \<and> res_step res = StepResolveGPU
     \<and> ValidateOperationStepTransition KindUpdate OperationRunning StepReserveQuota (res_phase res) (res_step res) = None"
proof -
  have op: "oc_Kind sample_context = KindUpdate" "oc_Step sample_context = StepReserveQuota"
    by (simp_all add: sample_context_def operation_context_def sample_operation_def)
  have "\<exists>res. runStep sample_runner sample_store sample_context (sample_run_db, ()) = (Inr res, (sample_run_db, ()))
     \<and> res_step res = StepResolveGPU"
    by (simp add: runStep_def step_reserve_quota_def sample_runner_def running_at_def nextAfterQuota_def
        sample_context_def operation_context_def sample_operation_def)
  moreover obtain path where "operationPaths KindUpdate = Some path" "StepReserveQuota \<in> set (butlast path)"
    by simp
  ultimately show ?thesis
    using step_result_valid [of sample_context _ sample_runner sample_store] op by metis
qed

theorem gpu_resolver_not_contacted_witness:
  "runStep (sample_runner\<lparr>RGPU := Some (\<lambda>_. failE (Errorf ''contacted''))\<rparr>) sample_store
     (sample_context\<lparr>oc_Step := StepResolveGPU\<rparr>) (sample_run_db, ())
   = (Inr \<lparr>res_phase = OperationRunning, res_step = StepApplyCR, res_event = ''gpu.skipped'',
        res_errorMessage = ''''\<rparr>, (sample_run_db, ()))"
proof -
  let ?op = "sample_context\<lparr>oc_Step := StepResolveGPU\<rparr>"
  have "oc_GPURequest ?op = None" by (simp add: sample_context_def operation_context_def)
  then have "oc_GPURequest ?op = None \<or> oc_GPUSnapshot ?op \<noteq> None \<or> oc_ManagedGPU ?op" by (rule disjI1)
  from gpu_resolver_not_contacted [OF this] show ?thesis
    by (simp add: runStep_def step_resolve_gpu_def running_at_def sample_context_def operation_context_def)
qed

theorem reserve_not_repeated_witness:
  "fst (runStep (with_reserve (sample_runner\<lparr>RQuota := Some sample_quota\<rparr>) (\<lambda>_. failE (Errorf ''reserved twice'')))
     (sample_store\<lparr>SaveQuotaReservation := (\<lambda>_. returnE ())\<rparr>)
     (sample_context\<lparr>oc_Reservation := sample_reservation\<rparr>) (sample_run_db, ()))
   = Inr \<lparr>res_phase = OperationRunning, res_step = StepResolveGPU, res_event = ''quota.confirmed'',
        res_errorMessage = ''''\<rparr>"
proof -
  let ?op = "sample_context\<lparr>oc_Reservation := sample_reservation\<rparr>"
  let ?r = "sample_runner\<lparr>RQuota := Some sample_quota\<rparr>"
  have "rv_State (oc_Reservation ?op) \<in> {''reserved'', ''confirmed''}"
    by (simp add: sample_reservation_def empty_reservation_def)
  then have "rv_State (oc_Reservation ?op) \<in> {''reserved'', ''confirmed''}
    \<or> reservation_found ?r ?op (sample_run_db, ())" by (rule disjI1)
  note same = reserve_not_repeated [OF this]
  have three: "FormatInt 3 = ''3''" by code_simp
  show ?thesis unfolding same
    by (simp add: runStep_def step_reserve_quota_def running_at_def sample_context_def operation_context_def
        sample_operation_def sample_reservation_def empty_reservation_def sample_quota_def lookup_reservation_def
        confirm_reservation_def validateReservation_def checkE_def nextAfterQuota_def three io_simps)
qed

end
