(* ===== verification/Store_Facts.thy ===== *)
theory Store_Facts
  imports Operation_Run
begin

text \<open>
  What the PostgreSQL store promises its callers: a worker without a live lease writes nothing, a step
  is recorded together with its audit event, GPU plans and bound objects keep their identity, the
  release scope is read back as it was merged.
\<close>

section \<open>Workers without a lease\<close>

text \<open>No service of the tenant is leased to the token, as far as the identifiers are UUIDs.\<close>

definition lease_gone :: "uuid_parser \<Rightarrow> db \<Rightarrow> string \<Rightarrow> string \<Rightarrow> bool" where
  "lease_gone P d tenant token \<longleftrightarrow>
     (\<forall>t l service. P tenant = Inr t \<longrightarrow> P token = Inr l \<longrightarrow> \<not> holds_lease d t service l)"

text \<open>A call that fails and changes nothing.\<close>

definition rejected :: "(db, 'a) io \<Rightarrow> db \<Rightarrow> bool" where
  "rejected m d \<longleftrightarrow> (\<exists>e. m d = (Inl e, d))"

lemma rejected_failE [intro]: "rejected (failE e) d"
  by (simp add: rejected_def failE_def)

lemma rejected_liftE:
  "(\<And>a. r = Inr a \<Longrightarrow> rejected (f a) d) \<Longrightarrow> rejected (bindE (liftE r) f) d"
  by (cases r) (simp_all add: rejected_def bindE_def liftE_def)

lemma rejected_checkE: "(e = None \<Longrightarrow> rejected (f ()) d) \<Longrightarrow> rejected (bindE (checkE e) f) d"
  by (cases e) (auto simp: rejected_def checkE_def failE_def)

lemma rejected_transaction: "rejected m d \<Longrightarrow> rejected (transaction m) d"
  by (auto simp: rejected_def)

lemma rejected_first: "rejected m d \<Longrightarrow> rejected (bindE m f) d"
  by (auto simp: rejected_def)

lemma rejected_if: "(p \<Longrightarrow> rejected a d) \<Longrightarrow> (\<not> p \<Longrightarrow> rejected b d) \<Longrightarrow> rejected (if p then a else b) d"
  by simp

text \<open>A statement that affects no row changes nothing, so a check of the row count rejects.\<close>

definition no_rows :: "(db, nat) io \<Rightarrow> db \<Rightarrow> bool" where
  "no_rows m d \<longleftrightarrow> m d = (Inr 0, d) \<or> (\<exists>e. m d = (Inl e, d))"

lemma rejected_one_row: "no_rows m d \<Longrightarrow> rejected (one_row e m) d"
  by (auto simp: no_rows_def rejected_def one_row_def bindE_def failE_def)

lemma rejected_stale: "no_rows m d \<Longrightarrow> rejected (stale_unless_one m) d"
  unfolding stale_unless_one_def by (rule rejected_one_row)

lemma rows_where_False [simp]: "rows_where (\<lambda>_. False) rs = 0" and
  update_where_False [simp]: "update_where (\<lambda>_. False) f rs = rs"
  by (simp_all add: rows_where_def update_where_def)

lemma fact_not_fenced: "(\<And>service. \<not> holds_lease d t service l) \<Longrightarrow> \<not> fact_fenced d t fence n l"
  by (simp add: fact_fenced_def split: option.split)

lemma no_rows_unleased:
  assumes "\<And>service. \<not> holds_lease d t service l"
  shows "no_rows (UpdateQuotaReservationFenced rid req st code t op n fence l) d"
    and "no_rows (UpsertPublicationFenced t i n des obs url code fence l) d"
    and "no_rows (UpdateObservationForWork upd n t i l) d"
    and "no_rows (SaveGPUPlanCAS plan dig t i n op l) d"
    and "no_rows (sql_step st' retry after t op l) d"
proof -
  show "no_rows (UpdateQuotaReservationFenced rid req st code t op n fence l) d"
    using fact_not_fenced [OF assms]
    by (auto simp: no_rows_def UpdateQuotaReservationFenced_def write_quotas_def Let_def split: option.split)
  show "no_rows (UpsertPublicationFenced t i n des obs url code fence l) d"
    using fact_not_fenced [OF assms] by (simp add: no_rows_def UpsertPublicationFenced_def Let_def)
  show "no_rows (UpdateObservationForWork upd n t i l) d"
    using assms by (auto simp: no_rows_def UpdateObservationForWork_def write_runtimes_def Let_def)
  have fence: "o_tenant x = t \<Longrightarrow> \<not> op_fenced d x l" for x using assms by (auto simp: op_fenced_def)
  show "no_rows (SaveGPUPlanCAS plan dig t i n op l) d"
  proof (cases "find_operation d t op")
    case (Some x)
    then have "o_tenant x = t" by (auto simp: find_operation_def dest: find_Some_mem)
    with Some fence show ?thesis by (simp add: no_rows_def SaveGPUPlanCAS_def Let_def)
  qed (simp add: no_rows_def SaveGPUPlanCAS_def Let_def)
  have "step_matches d t op n' ph stp l = (\<lambda>_. False)" for n' ph stp
    using fence by (intro ext) (auto simp: step_matches_def)
  then show "no_rows (sql_step st' retry after t op l) d"
    by (auto simp: no_rows_def sql_step_def sql_RetryOperationStepCAS_def sql_AdvanceOperationStepCAS_def
        write_operations_def Let_def split: option.split)
qed

lemma lease_goneD:
  "lease_gone P d tenant token \<Longrightarrow> tenantUUID P tenant = Inr t \<Longrightarrow> workUUID P label token = Inr l \<Longrightarrow>
    \<not> holds_lease d t service l"
  by (simp add: lease_gone_def tenantUUID_def workUUID_Inr)

lemma scope_key_Inr: "scope_key P op = Inr (t, i, c) \<Longrightarrow> tenantUUID P (oc_TenantID op) = Inr t"
  by (auto simp: scope_key_def split: sum.splits)

lemma work_key_Inr:
  "work_key P op = Inr (t, i, l) \<Longrightarrow> tenantUUID P (oc_TenantID op) = Inr t \<and> workUUID P ''lease_token'' (oc_LeaseToken op) = Inr l"
  by (auto simp: work_key_def split: sum.splits)

lemmas rejected_intros = rejected_failE rejected_liftE rejected_checkE rejected_transaction rejected_if
  rejected_stale rejected_one_row no_rows_unleased

lemma gone_quota:
  assumes "lease_gone P d (rv_TenantID rv) (rv_LeaseToken rv)"
  shows "rejected (OperationStore_SaveQuotaReservation P rv) d"
  unfolding OperationStore_SaveQuotaReservation_def
  by (intro rejected_intros; rule lease_goneD [OF assms])

lemma gone_publication:
  assumes "lease_gone P d (pb_TenantID pb) (pb_LeaseToken pb)"
  shows "rejected (OperationStore_SavePublication P pb) d"
  unfolding OperationStore_SavePublication_def Let_def
  by (intro rejected_intros; rule lease_goneD [OF assms])

lemma gone_step:
  assumes "lease_gone P d (st_TenantID t) (st_LeaseToken t)"
  shows "rejected (stepWithAudit P t ev retry after) d"
  unfolding stepWithAudit_def
  by (intro rejected_intros rejected_first; rule lease_goneD [OF assms])

lemma gone_observation:
  assumes "lease_gone P d (ItemTenantID item) (ItemLeaseToken item)"
  shows "rejected (ReconcileStore_SaveObservationForWork P ids item seen) d"
proof -
  have "rejected (bindE (current_runtime tenant service) (\<lambda>current.
          bindE (\<lambda>d. stale_unless_one (UpdateObservationForWork (upd current d) n tenant service lease) d) f)) d"
    if "\<And>service. \<not> holds_lease d tenant service lease" for tenant service lease n f
      and upd :: "InferenceRuntime option \<Rightarrow> db \<Rightarrow> InferenceRuntime \<Rightarrow> InferenceRuntime"
  proof (cases "current_runtime tenant service d")
    case (Pair r d1)
    then have d1: "d1 = d" using keepsD [OF keeps_current_runtime [of "\<lambda>x. x"]] by fastforce
    have "rejected (stale_unless_one (UpdateObservationForWork (upd c d) n tenant service lease)) d" for c
      by (intro rejected_intros that)
    then have "\<exists>e. stale_unless_one (UpdateObservationForWork (upd c d) n tenant service lease) d = (Inl e, d)" for c
      by (simp add: rejected_def)
    with Pair d1 show ?thesis by (cases r) (auto simp: rejected_def bindE_eq_Inl)
  qed
  note body = this
  show ?thesis unfolding ReconcileStore_SaveObservationForWork_def
    by (intro rejected_failE rejected_liftE rejected_transaction rejected_if body; rule lease_goneD [OF assms])
qed

lemma gone_runtime:
  assumes "lease_gone P d (oc_TenantID op) (oc_LeaseToken op)"
  shows "rejected (OperationStore_SaveRuntimeObservation P ids op seen) d"
  unfolding OperationStore_SaveRuntimeObservation_def Let_def
  using assms by (intro gone_observation) simp

lemma gone_model:
  assumes "lease_gone P d (oc_TenantID op) (oc_LeaseToken op)"
  shows "rejected (OperationStore_SaveModelObservation P op known) d"
    and "rejected (OperationStore_MarkModelMaterializing P op) d"
proof -
  have "no_rows (UpdateModelObservationForWork b why n t i l) d \<and> no_rows (MarkModelMaterializingForWork n t i l) d"
    if key: "work_key P op = Inr (t, i, l)" for b why n t i l
  proof -
    have "\<not> holds_lease d t service l" for service
      using lease_goneD [OF assms] work_key_Inr [OF key] by blast
    from no_rows_unleased(3) [OF this] show ?thesis
      by (simp add: no_rows_def UpdateModelObservationForWork_def MarkModelMaterializingForWork_def)
  qed
  then show "rejected (OperationStore_SaveModelObservation P op known) d"
    "rejected (OperationStore_MarkModelMaterializing P op) d"
    unfolding OperationStore_SaveModelObservation_def OperationStore_MarkModelMaterializing_def
    by (auto intro!: rejected_liftE rejected_stale rejected_failE split: prod.split)
qed

lemma gone_plan:
  assumes "lease_gone P d (oc_TenantID op) (oc_LeaseToken op)"
  shows "rejected (OperationStore_SaveGPUSnapshot P op plan) d"
  unfolding OperationStore_SaveGPUSnapshot_def
  by (auto intro!: rejected_liftE rejected_failE rejected_one_row no_rows_unleased dest: lease_goneD [OF assms] scope_key_Inr
      split: option.split prod.split)

lemma gone_load:
  assumes "lease_gone P d (ItemTenantID item) (ItemLeaseToken item)"
  shows "rejected (OperationStore_CurrentOperation P api item) d"
proof -
  have "GetLeasedOperation t l d = (Inl (Sentinel ErrNoRows), d)"
    if "\<And>service. \<not> holds_lease d t service l" for t l
  proof -
    have "find (\<lambda>op. o_tenant op = t \<and> op_fenced d op l) (operations d) = None"
      using that by (auto simp: find_eq_None op_fenced_def)
    then show ?thesis by (simp add: GetLeasedOperation_def one_def failE_def)
  qed
  note none = this
  have "rejected (bindE (tryE (GetLeasedOperation t l)) (\<lambda>found.
       case found of
         Inl err \<Rightarrow> if errors_Is err ErrNoRows then failE (Sentinel work_ErrStaleGeneration) else failE err
       | Inr row \<Rightarrow> load_operation P api item t row)) d"
    if "\<And>service. \<not> holds_lease d t service l" for t l
    using none [OF that] by (simp add: rejected_def try_found)
  note found = this
  show ?thesis unfolding OperationStore_CurrentOperation_def
    by (intro rejected_liftE found; rule lease_goneD [OF assms])
qed




section \<open>Steps and their audit events\<close>

lemma append_event_Inr:
  assumes "append_event P ev d = (Inr (), d')"
  shows "\<exists>t i as. P (ev_TenantID ev) = Inr t \<and> P (ev_EventID ev) = Inr i \<and> d' = d\<lparr>audits := as\<rparr>
    \<and> (t, i) \<in> a_key ` set as \<and> set (audits d) \<subseteq> set as"
proof -
  have "\<exists>e. P (ev_TenantID ev) = Inr (a_tenant e) \<and> P (ev_EventID ev) = Inr (a_event_id e)
      \<and> AppendAuditEvent e d = (Inr (), d')"
    using assms unfolding append_event_def bindE_eq_Inr liftE_eq tenantUUID_def workUUID_Inr_sym prod.inject
    by (force simp: eq_commute)
  then obtain e where "P (ev_TenantID ev) = Inr (a_tenant e)" "P (ev_EventID ev) = Inr (a_event_id e)"
    and app: "AppendAuditEvent e d = (Inr (), d')" by blast
  moreover have "\<exists>as. d' = d\<lparr>audits := as\<rparr> \<and> (a_tenant e, a_event_id e) \<in> a_key ` set as \<and> set (audits d) \<subseteq> set as"
  proof (cases "a_key e \<in> set (map a_key (audits d))")
    case True
    then have "d' = d\<lparr>audits := audits d\<rparr>" using app by (simp add: AppendAuditEvent_def split: if_splits)
    with True show ?thesis by (intro exI [of _ "audits d"]) (auto simp: a_key_def)
  next
    case False
    then have "d' = d\<lparr>audits := audits d @ [e\<lparr>a_created_at := now d\<rparr>]\<rparr>"
      using app by (simp add: AppendAuditEvent_def split: if_splits)
    then show ?thesis
      by (intro exI [of _ "audits d @ [e\<lparr>a_created_at := now d\<rparr>]"]) (auto simp: a_key_def)
  qed
  ultimately show ?thesis by blast
qed

lemma mark_deleted_one:
  assumes "MarkServiceDeleted tenant i operation generation d = (Inr 1, d')"
  shows "\<exists>ss. d' = d\<lparr>services := ss\<rparr> \<and> (\<exists>s \<in> set ss. s_key s = (tenant, i) \<and> s_deleted_at s \<noteq> None)"
proof -
  let ?p = "\<lambda>s. s_tenant s = tenant \<and> s_id s = i \<and> s_current_operation s = Some operation
                 \<and> s_desired_state s = ''deleted'' \<and> s_desired_generation s = generation"
  let ?f = "\<lambda>s. s\<lparr>s_deleted_at := (case s_deleted_at s of None \<Rightarrow> Some (now d) | t \<Rightarrow> t), s_updated_at := now d\<rparr>"
  have d': "d' = d\<lparr>services := update_where ?p ?f (services d)\<rparr>" and one: "rows_where ?p (services d) = 1"
    using assms by (auto simp: MarkServiceDeleted_def write_services_def Let_def split: option.splits)
  from one have "rows_where ?p (services d) \<noteq> 0" by simp
  then obtain s where s: "s \<in> set (services d)" "?p s" unfolding rows_where_zero by blast
  then have "?f s \<in> set (update_where ?p ?f (services d))" by (force simp: set_update_where)
  moreover have "s_key (?f s) = (tenant, i)" "s_deleted_at (?f s) \<noteq> None"
    using s(2) by (auto simp: s_key_def split: option.split)
  ultimately show ?thesis using d' by blast
qed

lemma step_audit_Inr:
  assumes "step_audit P t ev retry tenant op d = (Inr (), d')"
  shows "\<exists>tn i ss as. P (ev_TenantID ev) = Inr tn \<and> P (ev_EventID ev) = Inr i \<and> d' = d\<lparr>services := ss, audits := as\<rparr>
    \<and> (tn, i) \<in> a_key ` set as \<and> set (audits d) \<subseteq> set as
    \<and> (if \<not> retry \<and> st_Kind t = KindDelete \<and> st_NextPhase t = OperationSucceeded
        then \<exists>s \<in> set ss. s_key s = (tenant, ev_ServiceID ev) \<and> s_deleted_at s \<noteq> None
        else ss = services d)"
proof -
  obtain current d1 d2 where cur: "GetOperation tenant op d = (Inr current, d1)"
      "o_service current = ev_ServiceID ev"
    and mark: "(if \<not> retry \<and> st_Kind t = KindDelete \<and> st_NextPhase t = OperationSucceeded
         then one_row (Sentinel ErrOperationCAS)
                (MarkServiceDeleted tenant (o_service current) op (st_TargetGeneration t))
         else returnE ()) d1 = (Inr (), d2)"
    and app: "append_event P ev d2 = (Inr (), d')"
    using assms by (auto simp: step_audit_def bindE_eq_Inr split: if_splits)
  have d1: "d1 = d" using keepsD [OF keeps_reads(1) [of "\<lambda>x. x"] cur(1)] .
  have "\<exists>ss. d2 = d\<lparr>services := ss\<rparr> \<and>
      (if \<not> retry \<and> st_Kind t = KindDelete \<and> st_NextPhase t = OperationSucceeded
        then \<exists>s \<in> set ss. s_key s = (tenant, ev_ServiceID ev) \<and> s_deleted_at s \<noteq> None
        else ss = services d)"
    using mark mark_deleted_one [of tenant "ev_ServiceID ev" op "st_TargetGeneration t" d d2] d1 cur(2)
    by (auto simp: one_row_Inr split: if_splits)
  then show ?thesis using append_event_Inr [OF app] by fastforce
qed

text \<open>
  C15: A step and its audit event are recorded together or not at all. A failed advance or retry changes
  nothing. A successful one found the operation at the expected position under the live lease, moved only
  that row, left the event in the audit log, kept every earlier event, and touched no other table, except
  that finishing a delete marks the service deleted in the same transaction.
\<close>

theorem step_recorded_with_audit:
  assumes "keyed o_key (operations d)" and "stepWithAudit P t ev retry after d = (res, d')"
  shows "case res of
      Inl _ \<Rightarrow> d' = d
    | Inr _ \<Rightarrow> \<exists>row ss as i. recorded P t retry (step_update t retry after d) d row d'
        \<and> d' = d\<lparr>operations := operations d', services := ss, audits := as\<rparr>
        \<and> P (ev_EventID ev) = Inr i \<and> (o_tenant row, i) \<in> a_key ` set as \<and> set (audits d) \<subseteq> set as
        \<and> (if \<not> retry \<and> st_Kind t = KindDelete \<and> st_NextPhase t = OperationSucceeded
            then \<exists>s \<in> set ss. s_key s = (o_tenant row, ev_ServiceID ev) \<and> s_deleted_at s \<noteq> None
            else ss = services d)"
proof (cases res)
  case (Inl e)
  with assms(2) show ?thesis by (auto dest: stepWithAudit_Inl)
next
  case (Inr u)
  obtain tenant op lease d1 where ids: "P (st_TenantID t) = Inr tenant" "ev_TenantID ev = st_TenantID t"
    and sql: "sql_step t retry after tenant op lease d = (Inr 1, d1)"
    and rest: "step_audit P t ev retry tenant op d1 = (Inr (), d')"
    using assms(2) Inr
    by (auto simp: stepWithAudit_def bindE_eq_Inr checkE_def workUUID_Inr_sym tenantUUID_def one_row_Inr
        split: if_splits option.splits)
  obtain row where row: "recorded P t retry (step_update t retry after d) d row d'"
    using stepWithAudit_Inr [OF assms(1)] assms(2) Inr by fastforce
  have "o_tenant row = tenant" using row ids by (simp add: recorded_def)
  moreover obtain ops where "d1 = d\<lparr>operations := ops\<rparr>" using sql_step_recorded [OF assms(1) sql] by blast
  ultimately show ?thesis using row step_audit_Inr [OF rest] ids Inr by fastforce
qed


definition sample_transition :: StepTransition where
  "sample_transition = step_transition sample_context OperationRunning StepResolveGPU '''' ''''"

definition sample_event :: Event where
  "sample_event = step_event sample_runner sample_context OperationRunning StepResolveGPU
     ''inference.operation.quota.skipped'' '''' []"

lemma sample_step: "fst (stepWithAudit strict_parser sample_transition sample_event False 0 sample_run_db) = Inr ()"
  by code_simp

theorem step_recorded_with_audit_witness:
  "\<exists>d'. stepWithAudit strict_parser sample_transition sample_event False 0 sample_run_db = (Inr (), d')
     \<and> (\<exists>(row :: InferenceOperation) i. o_phase row = OperationRunning \<and> o_step row = StepReserveQuota \<and> (o_tenant row, i) \<in> a_key ` set (audits d'))
     \<and> services d' = services sample_run_db"
proof -
  obtain d' where run: "stepWithAudit strict_parser sample_transition sample_event False 0 sample_run_db = (Inr (), d')"
    using sample_step by (cases "stepWithAudit strict_parser sample_transition sample_event False 0 sample_run_db") auto
  have keyed: "keyed o_key (operations sample_run_db)" by (simp add: keyed_def sample_run_db_def)
  have t: "st_ExpectedPhase sample_transition = OperationRunning" "st_ExpectedStep sample_transition = StepReserveQuota"
      "st_Kind sample_transition = KindUpdate"
    by (simp_all add: sample_transition_def step_transition_def sample_context_def operation_context_def sample_operation_def)
  have "\<exists>row ss as i. recorded strict_parser sample_transition False (step_update sample_transition False 0 sample_run_db) sample_run_db row d'
    \<and> d' = sample_run_db\<lparr>operations := operations d', services := ss, audits := as\<rparr>
    \<and> (o_tenant row, i) \<in> a_key ` set as \<and> ss = services sample_run_db"
    using step_recorded_with_audit [OF keyed run] unfolding sum.case t(3) by fastforce
  then obtain row ss as i where row: "recorded strict_parser sample_transition False
      (step_update sample_transition False 0 sample_run_db) sample_run_db row d'"
    and d': "d' = sample_run_db\<lparr>operations := operations d', services := ss, audits := as\<rparr>"
    and rest: "(o_tenant row, i) \<in> a_key ` set as" "ss = services sample_run_db" by blast
  have "audits d' = as" using arg_cong [OF d', of audits] by simp
  moreover have "services d' = ss" using arg_cong [OF d', of services] by simp
  moreover have "o_phase row = OperationRunning" "o_step row = StepReserveQuota" using row t by (simp_all add: recorded_def)
  ultimately have "o_phase row = OperationRunning" "o_step row = StepReserveQuota"
    "(o_tenant row, i) \<in> a_key ` set (audits d')" "services d' = services sample_run_db"
    using rest by simp_all
  with run show ?thesis by blast
qed


section \<open>The release scope\<close>

lemma merge_pods_Inr:
  assumes "merge_pods merged incoming = Inr res"
  shows "prefix merged res \<and> set res = set merged \<union> set incoming \<and> (keyed PodUID merged \<longrightarrow> keyed PodUID res)"
  using assms
proof (induction merged incoming rule: merge_pods.induct)
  case (1 merged)
  then show ?case by simp
next
  case (2 merged pod incoming)
  show ?case
  proof (cases "find (\<lambda>old. PodUID old = PodUID pod) (rev merged)")
    case None
    then have "PodUID pod \<notin> PodUID ` set merged" by (auto simp: find_eq_None)
    moreover have "merge_pods (merged @ [pod]) incoming = Inr res" using 2(3) None by simp
    ultimately show ?thesis using 2(1) [OF None] by (auto simp: keyed_append_one dest: append_prefixD)
  next
    case (Some old)
    then have "old \<in> set merged" by (auto dest: find_Some_mem)
    moreover have "old = pod" "merge_pods merged incoming = Inr res" using 2(3) Some by (auto split: if_splits)
    ultimately show ?thesis using 2(2) [OF Some] by auto
  qed
qed

lemma merge_pods_again:
  assumes "keyed PodUID merged" and "set incoming \<subseteq> set merged"
  shows "merge_pods merged incoming = Inr merged"
  using assms(2)
proof (induction incoming)
  case (Cons pod incoming)
  have "find (\<lambda>old. PodUID old = PodUID pod) (rev merged) = Some pod"
  proof (cases "find (\<lambda>old. PodUID old = PodUID pod) (rev merged)")
    case None
    with Cons.prems show ?thesis by (auto simp: find_eq_None)
  next
    case (Some old)
    with find_Some_mem [OF Some] Cons.prems keyed_unique [OF assms(1)] show ?thesis by auto
  qed
  with Cons show ?case by simp
qed simp

lemma find_snoc: "find p (xs @ [x]) = (case find p xs of None \<Rightarrow> if p x then Some x else None | Some y \<Rightarrow> Some y)"
  by (induction xs) auto

lemma r_key_scope [simp]: "r_key (r\<lparr>r_scope := sc\<rparr>) = r_key r"
  by (simp add: r_key_def)

lemma scope_found_updated:
  "find (\<lambda>r. r_key r = k) (update_where (\<lambda>r. r_key r = k) (\<lambda>r. r\<lparr>r_scope := sc\<rparr>) rs)
     = map_option (\<lambda>r. r\<lparr>r_scope := sc\<rparr>) (find (\<lambda>r. r_key r = k) rs)"
  by (induction rs) (auto simp: update_where_def)

lemma scope_read_back:
  assumes "UpsertManagedGPUReleaseScope t i c sc d = (Inr (), d')"
  shows "GetManagedGPUReleaseScope t i c d' = (Inr sc, d')" and "UpsertManagedGPUReleaseScope t i c sc d' = (Inr (), d')"
proof -
  let ?k = "(t, i, c)"
  have "\<exists>r. find (\<lambda>r. r_key r = ?k) (scopes d') = Some r \<and> r_scope r = sc"
    and all: "\<forall>r \<in> set (scopes d'). r_key r = ?k \<longrightarrow> r_scope r = sc"
    and mem: "?k \<in> set (map r_key (scopes d'))"
  proof (atomize (full), cases "?k \<in> set (map r_key (scopes d))")
    case True
    then have d': "scopes d' = update_where (\<lambda>r. r_key r = ?k) (\<lambda>r. r\<lparr>r_scope := sc\<rparr>) (scopes d)"
      using assms by (auto simp: UpsertManagedGPUReleaseScope_def)
    obtain r where "find (\<lambda>r. r_key r = ?k) (scopes d) = Some r"
      using True by (cases "find (\<lambda>r. r_key r = ?k) (scopes d)") (auto simp: find_eq_None)
    with True show "(\<exists>r. find (\<lambda>r. r_key r = ?k) (scopes d') = Some r \<and> r_scope r = sc) \<and>
        (\<forall>r\<in>set (scopes d'). r_key r = ?k \<longrightarrow> r_scope r = sc) \<and> ?k \<in> set (map r_key (scopes d'))"
      unfolding d' by (simp add: scope_found_updated set_update_where map_update_where) auto
  next
    case False
    then have "scopes d' = scopes d @ [\<lparr>r_tenant = t, r_service = i, r_operation = c, r_scope = sc\<rparr>]"
      using assms by (auto simp: UpsertManagedGPUReleaseScope_def)
    moreover have "find (\<lambda>r. r_key r = ?k) (scopes d) = None"
      unfolding find_eq_None using False by (auto simp: image_iff)
    ultimately show "(\<exists>r. find (\<lambda>r. r_key r = ?k) (scopes d') = Some r \<and> r_scope r = sc) \<and>
        (\<forall>r\<in>set (scopes d'). r_key r = ?k \<longrightarrow> r_scope r = sc) \<and> ?k \<in> set (map r_key (scopes d'))"
      using False by (force simp: find_snoc r_key_def [of "\<lparr>r_tenant = t, r_service = i, r_operation = c, r_scope = sc\<rparr>"])
  qed
  then show "GetManagedGPUReleaseScope t i c d' = (Inr sc, d')"
    by (auto simp: GetManagedGPUReleaseScope_def one_def returnE_def)
  have "update_where (\<lambda>r. r_key r = ?k) (\<lambda>r. r\<lparr>r_scope := sc\<rparr>) (scopes d') = scopes d'"
    using all by (auto simp: update_where_def intro!: map_idI)
  with mem show "UpsertManagedGPUReleaseScope t i c sc d' = (Inr (), d')"
    by (simp add: UpsertManagedGPUReleaseScope_def)
qed


text \<open>What the store has for the scope of an operation: nothing, or a decodable list of valid Pods.\<close>

definition stored_pods :: "uuid_parser \<Rightarrow> OperationContext \<Rightarrow> db \<Rightarrow> PodRef list \<Rightarrow> bool" where
  "stored_pods P op d pods \<longleftrightarrow>
     OperationStore_LoadManagedGPUReleasePods P op d = (Inr pods, d)
     \<or> OperationStore_LoadManagedGPUReleasePods P op d = (Inl (Sentinel ErrNoRows), d) \<and> pods = []"

lemma load_scope:
  assumes "scope_key P op = Inr (t, i, c)"
  shows "OperationStore_LoadManagedGPUReleasePods P op d =
    (case find (\<lambda>r. r_key r = (t, i, c)) (scopes d) of
       None \<Rightarrow> (Inl (Sentinel ErrNoRows), d)
     | Some r \<Rightarrow> (case decodeManagedGPUReleaseScope (r_scope r) of
         Inl e \<Rightarrow> (Inl (Wrapf ''decode managed GPU release scope: '' e ''''), d)
       | Inr (seal, pods) \<Rightarrow> (case validateManagedGPUReleasePods pods of
           Some err \<Rightarrow> (Inl (Wrapf ''invalid persisted managed GPU release scope: '' err ''''), d)
         | None \<Rightarrow> (Inr pods, d))))"
  using assms
  by (auto simp: OperationStore_LoadManagedGPUReleasePods_def GetManagedGPUReleaseScope_def one_def wrapE_def
      bindE_def io_simps split: option.split sum.split)

lemma encode_decode:
  assumes "encodeManagedGPUReleaseScope seal pods = Inr sc" and "seal = '''' \<or> time_Parse_RFC3339Nano seal"
  shows "decodeManagedGPUReleaseScope sc = Inr (seal, pods)"
  using assms by (auto simp: encodeManagedGPUReleaseScope_def decodeManagedGPUReleaseScope_def split: if_splits)

lemma decoded_seal: "decodeManagedGPUReleaseScope sc = Inr (seal, pods) \<Longrightarrow> seal = '''' \<or> time_Parse_RFC3339Nano seal"
  by (auto simp: decodeManagedGPUReleaseScope_def split: scope_payload.splits if_splits)

definition merged_scope :: "OperationContext \<Rightarrow> scope_payload option \<Rightarrow> PodRef list \<Rightarrow> scope_payload result" where
  "merged_scope op stored pods =
     (let seal = oc_ManagedGPUReleaseSealedAt op;
          encode = (\<lambda>seal pods. case encodeManagedGPUReleaseScope seal pods of
            Inl e \<Rightarrow> Inl (Wrapf ''encode managed GPU release scope: '' e '''') | Inr sc \<Rightarrow> Inr sc) in
      case stored of
        None \<Rightarrow> encode seal pods
      | Some sc \<Rightarrow> (case decodeManagedGPUReleaseScope sc of
          Inl e \<Rightarrow> Inl (Wrapf ''decode existing managed GPU release scope: '' e '''')
        | Inr (oldSeal, oldPods) \<Rightarrow> (case mergeManagedGPUReleasePods oldPods pods of
            Inl e \<Rightarrow> Inl e
          | Inr merged \<Rightarrow> encode (if seal = '''' then oldSeal else seal) merged)))"

lemma save_scope:
  assumes "scope_key P op = Inr (t, i, c)" and "validateManagedGPUReleasePods pods = None"
  shows "OperationStore_SaveManagedGPUReleasePods P op pods d =
    (case merged_scope op (map_option r_scope (find (\<lambda>r. r_key r = (t, i, c)) (scopes d))) pods of
       Inl e \<Rightarrow> (Inl e, d) | Inr sc \<Rightarrow> UpsertManagedGPUReleaseScope t i c sc d)"
  using assms
  by (auto simp: OperationStore_SaveManagedGPUReleasePods_def GetManagedGPUReleaseScope_def one_def wrapE_def
      checkE_def merged_scope_def bindE_def io_simps Let_def split: option.split sum.split)

lemma merged_scope_Inr:
  assumes "merged_scope op stored pods = Inr sc" and "validateManagedGPUReleasePods pods = None"
    and seal: "oc_ManagedGPUReleaseSealedAt op = '''' \<or> time_Parse_RFC3339Nano (oc_ManagedGPUReleaseSealedAt op)"
    and old: "case stored of None \<Rightarrow> old = [] | Some x \<Rightarrow> \<exists>s. decodeManagedGPUReleaseScope x = Inr (s, old)"
      "validateManagedGPUReleasePods old = None"
  shows "\<exists>s merged. decodeManagedGPUReleaseScope sc = Inr (s, merged) \<and> validateManagedGPUReleasePods merged = None
    \<and> prefix old merged \<and> set merged = set old \<union> set pods \<and> keyed PodUID merged
    \<and> merged_scope op (Some sc) pods = Inr sc"
proof -
  obtain s merged where enc: "encodeManagedGPUReleaseScope s merged = Inr sc"
    and s: "s = '''' \<or> time_Parse_RFC3339Nano s" "oc_ManagedGPUReleaseSealedAt op \<noteq> '''' \<Longrightarrow> s = oc_ManagedGPUReleaseSealedAt op"
    and merged: "prefix old merged" "set merged = set old \<union> set pods" "keyed PodUID merged"
  proof (cases stored)
    case None
    with assms(1,2) seal old(1) that [of "oc_ManagedGPUReleaseSealedAt op" pods] show ?thesis
      by (auto simp: merged_scope_def validateManagedGPUReleasePods_def validate_pods_None split: sum.splits)
  next
    case (Some x)
    then obtain os where dec: "decodeManagedGPUReleaseScope x = Inr (os, old)" using old(1) by auto
    obtain m where m: "merge_pods old pods = Inr m"
      and "encodeManagedGPUReleaseScope (if oc_ManagedGPUReleaseSealedAt op = '''' then os else oc_ManagedGPUReleaseSealedAt op) m = Inr sc"
      using assms(1) Some dec
      by (auto simp: merged_scope_def mergeManagedGPUReleasePods_def Let_def split: sum.splits)
    moreover have "keyed PodUID old"
      using old(2) by (simp add: validateManagedGPUReleasePods_def validate_pods_None)
    ultimately show ?thesis using merge_pods_Inr [OF m] decoded_seal [OF dec] seal
      by (intro that [of "if oc_ManagedGPUReleaseSealedAt op = '''' then os else oc_ManagedGPUReleaseSealedAt op" m]) auto
  qed
  have dec: "decodeManagedGPUReleaseScope sc = Inr (s, merged)" using encode_decode [OF enc s(1)] .
  moreover have "validateManagedGPUReleasePods merged = None"
    using assms(2) old(2) merged by (auto simp: validateManagedGPUReleasePods_def validate_pods_None)
  moreover have "merged_scope op (Some sc) pods = Inr sc"
  proof -
    have "(if oc_ManagedGPUReleaseSealedAt op = '''' then s else oc_ManagedGPUReleaseSealedAt op) = s" using s(2) by auto
    then show ?thesis using merge_pods_again [OF merged(3), of pods] merged(2) dec enc
      by (simp add: merged_scope_def mergeManagedGPUReleasePods_def)
  qed
  ultimately show ?thesis using merged by blast
qed



lemma sample_scope_saved:
  "fst (OperationStore_SaveManagedGPUReleasePods strict_parser sample_context [example_pod ''u1''] sample_run_db) = Inr ()"
  "OperationStore_LoadManagedGPUReleasePods strict_parser sample_context sample_run_db = (Inl (Sentinel ErrNoRows), sample_run_db)"
proof -
  have key: "scope_key strict_parser sample_context = Inr (sample_tenant, sample_id, sample_operation_id)"
    by (simp add: scope_key_def sample_context_def operation_context_def sample_operation_def tenantUUID_text
        workUUID_text strict_parser_ok)
  have none: "scopes sample_run_db = []" by (simp add: sample_run_db_def sample_leased_db_def sample_db_def)
  show "OperationStore_LoadManagedGPUReleasePods strict_parser sample_context sample_run_db = (Inl (Sentinel ErrNoRows), sample_run_db)"
    using load_scope [OF key] by (simp add: none)
  have valid: "validateManagedGPUReleasePods [example_pod ''u1''] = None" by code_simp
  have empty: "TrimSpace '''' = ''''" by code_simp
  have "oc_ManagedGPUReleaseSealedAt sample_context = ''''" by (simp add: sample_context_def operation_context_def)
  then show "fst (OperationStore_SaveManagedGPUReleasePods strict_parser sample_context [example_pod ''u1''] sample_run_db) = Inr ()"
    unfolding save_scope [OF key valid]
    by (simp add: none merged_scope_def encodeManagedGPUReleaseScope_def empty UpsertManagedGPUReleaseScope_def)
qed


end
