(* ===== verification/Go_Crypto.thy ===== *)
theory Go_Crypto
  imports Go_Strings "HOL-Library.Word"
begin

unbundle bit_operations_syntax

text \<open>
  The digests that the code takes from the Go standard library: SHA-256 over a string of bytes and its
  lower-case hexadecimal text. A string is its list of bytes.
\<close>

section \<open>SHA-256\<close>

type_synonym byte = "8 word"
type_synonym word32 = "32 word"

text \<open>
  The constants of the standard: 32 bits of the fractional parts of the square and cube roots of the
  first primes. \<open>root_bits k n b r\<close> is the largest number of the form \<open>r\<close> plus \<open>b\<close> low bits whose
  \<open>k\<close>-th power is at most \<open>n\<close>.
\<close>

fun root_bits :: "nat \<Rightarrow> nat \<Rightarrow> nat \<Rightarrow> nat \<Rightarrow> nat" where
  "root_bits k n 0 r = r"
| "root_bits k n (Suc b) r = root_bits k n b (if (r + 2 ^ b) ^ k \<le> n then r + 2 ^ b else r)"

definition root_fraction :: "nat \<Rightarrow> nat \<Rightarrow> word32" where
  "root_fraction k p = of_nat (root_bits k (p * 2 ^ (32 * k)) 35 0)"

definition primes_below :: "nat \<Rightarrow> nat list" where
  "primes_below n = filter (\<lambda>p. list_all (\<lambda>q. p mod q \<noteq> 0) [2..<p]) [2..<n]"

definition sha_K :: "word32 list" where
  "sha_K = map (root_fraction 3) (primes_below 312)"

definition sha_init :: "word32 list" where
  "sha_init = map (root_fraction 2) (primes_below 20)"

definition rotr :: "nat \<Rightarrow> word32 \<Rightarrow> word32" where
  "rotr n w = drop_bit n w OR push_bit (32 - n) w"

definition ch_fun :: "word32 \<Rightarrow> word32 \<Rightarrow> word32 \<Rightarrow> word32" where
  "ch_fun e f g = (e AND f) XOR (NOT e AND g)"

definition maj_fun :: "word32 \<Rightarrow> word32 \<Rightarrow> word32 \<Rightarrow> word32" where
  "maj_fun a b c = (a AND b) XOR (a AND c) XOR (b AND c)"

text \<open>The padded message: a one bit, zeroes, and the length in bits as eight bytes.\<close>

definition length_bytes :: "nat \<Rightarrow> byte list" where
  "length_bytes n = map (\<lambda>i. ucast (drop_bit i (of_nat n :: 64 word))) [56, 48, 40, 32, 24, 16, 8, 0]"

definition sha_pad :: "byte list \<Rightarrow> byte list" where
  "sha_pad m = m @ 0x80 # replicate ((119 - length m mod 64) mod 64) 0 @ length_bytes (8 * length m)"

fun be_words :: "byte list \<Rightarrow> word32 list" where
  "be_words (a # b # c # d # rest) =
     (push_bit 24 (ucast a) OR push_bit 16 (ucast b) OR push_bit 8 (ucast c) OR ucast d) # be_words rest"
| "be_words _ = []"

text \<open>The message schedule, latest word first.\<close>

fun extend_schedule :: "nat \<Rightarrow> word32 list \<Rightarrow> word32 list" where
  "extend_schedule 0 ws = ws"
| "extend_schedule (Suc n) ws =
     (let w15 = ws ! 14; w2 = ws ! 1;
          s0 = rotr 7 w15 XOR rotr 18 w15 XOR drop_bit 3 w15;
          s1 = rotr 17 w2 XOR rotr 19 w2 XOR drop_bit 10 w2
      in extend_schedule n ((ws ! 15 + s0 + ws ! 6 + s1) # ws))"

fun sha_round :: "word32 \<times> word32 \<Rightarrow> word32 list \<Rightarrow> word32 list" where
  "sha_round (k, w) [a, b, c, d, e, f, g, h] =
     (let t1 = h + (rotr 6 e XOR rotr 11 e XOR rotr 25 e) + ch_fun e f g + k + w;
          t2 = (rotr 2 a XOR rotr 13 a XOR rotr 22 a) + maj_fun a b c
      in [t1 + t2, a, b, c, d + t1, e, f, g])"
| "sha_round _ s = s"

definition sha_block :: "word32 list \<Rightarrow> byte list \<Rightarrow> word32 list" where
  "sha_block s block =
     map2 (+) s (fold sha_round (zip sha_K (rev (extend_schedule 48 (rev (be_words block))))) s)"

function sha_blocks :: "byte list \<Rightarrow> word32 list \<Rightarrow> word32 list" where
  "sha_blocks m s = (if m = [] then s else sha_blocks (drop 64 m) (sha_block s (take 64 m)))"
  by pat_completeness auto
termination by (relation "measure (length \<circ> fst)") auto

declare sha_blocks.simps [simp del]

definition word_bytes :: "word32 \<Rightarrow> byte list" where
  "word_bytes w = [ucast (drop_bit 24 w), ucast (drop_bit 16 w), ucast (drop_bit 8 w), ucast w]"

definition sha256_Sum256 :: "byte list \<Rightarrow> byte list" where
  "sha256_Sum256 m = concat (map word_bytes (sha_blocks (sha_pad m) sha_init))"

definition string_bytes :: "string \<Rightarrow> byte list" where
  "string_bytes s = map (\<lambda>c. of_nat (of_char c)) s"

section \<open>Hexadecimal text\<close>

definition hex_digit :: "nat \<Rightarrow> char" where
  "hex_digit n = (if n < 10 then char_of (48 + n) else char_of (87 + n))"

definition EncodeToString :: "byte list \<Rightarrow> string" where
  "EncodeToString bs = concat (map (\<lambda>b. [hex_digit (unat b div 16), hex_digit (unat b mod 16)]) bs)"

text \<open>\<^verbatim>\<open>RequestHash\<close> of \<^verbatim>\<open>internal/data/postgres/repository.go\<close>.\<close>

definition RequestHash :: "string \<Rightarrow> string" where
  "RequestHash payload = EncodeToString (sha256_Sum256 (string_bytes payload))"

lemma length_sha_round: "length (sha_round kw s) = length s"
  by (cases "(kw, s)" rule: sha_round.cases) (simp_all add: Let_def)

lemma length_fold_sha_round: "length (fold sha_round kws s) = length s"
  by (induction kws arbitrary: s) (simp_all add: length_sha_round)

lemma length_sha_block: "length (sha_block s block) = length s"
  by (simp add: sha_block_def length_fold_sha_round)

lemma length_sha_blocks: "length (sha_blocks m s) = length s"
proof (induction m s rule: sha_blocks.induct)
  case (1 m s)
  then show ?case
    by (subst sha_blocks.simps) (simp add: length_sha_block)
qed

lemma length_word_bytes: "length (concat (map word_bytes ws)) = 4 * length ws"
  by (induction ws) (simp_all add: word_bytes_def)

lemma length_sha_init: "length sha_init = 8"
  unfolding sha_init_def length_map by code_simp

lemma length_sha256 [simp]: "length (sha256_Sum256 m) = 32"
  by (simp add: sha256_Sum256_def length_word_bytes length_sha_blocks length_sha_init)

lemma length_EncodeToString [simp]: "length (EncodeToString bs) = 2 * length bs"
  by (induction bs) (simp_all add: EncodeToString_def)

lemma RequestHash_nonempty [simp]: "RequestHash payload \<noteq> []"
  by (metis RequestHash_def length_EncodeToString length_sha256 list.size(3) mult_eq_0_iff zero_neq_numeral)

end
