(* ===== verification/Managed.thy ===== *)
theory Managed
  imports Operation_Run Go_Crypto
begin

text \<open>
  Resources that a trusted Governance service owns: the statements of
  \<^verbatim>\<open>internal/data/postgres/managed_gpu.sql.go\<close>, the intake of their commands
  (\<^verbatim>\<open>managed_gpu.go\<close>) and the close of a resource whose DELETE came before its CREATE
  (\<^verbatim>\<open>managed_close.go\<close>). An advisory lock has no effect on the tables: it makes transactions with the
  same key run one after the other, which is how the model runs them. A NULL identifier is the empty
  string, which is no UUID. A nil map and an empty map are one value.
\<close>

section \<open>Statements\<close>

definition LockManagedGPUKey :: "string \<Rightarrow> (db, unit) io" where
  "LockManagedGPUKey key = returnE ()"

definition GetManagedGPUCommand :: "uuid \<Rightarrow> uuid \<Rightarrow> (db, InferenceManagedGpuCommand) io" where
  "GetManagedGPUCommand tenant operation d =
     one (find (\<lambda>c. c_tenant c = tenant \<and> c_operation c = operation) (commands d)) d"

definition GetManagedGPUResourceForUpdate :: "uuid \<Rightarrow> uuid \<Rightarrow> (db, InferenceManagedGpuResource) io" where
  "GetManagedGPUResourceForUpdate tenant resource = GetManagedGPUResource tenant resource"

definition ManagedGPUServiceExists :: "uuid \<Rightarrow> uuid \<Rightarrow> (db, bool) io" where
  "ManagedGPUServiceExists tenant i d = (Inr (find_service d tenant i \<noteq> None), d)"

definition g_key :: "InferenceManagedGpuResource \<Rightarrow> uuid \<times> uuid" where
  "g_key g = (g_tenant g, g_resource g)"

definition c_key :: "InferenceManagedGpuCommand \<Rightarrow> uuid \<times> uuid" where
  "c_key c = (c_tenant c, c_operation c)"

text \<open>The CHECK constraints, the primary key and the unique creating operation of a managed resource.\<close>

definition managed_checks :: "InferenceManagedGpuResource \<Rightarrow> bool" where
  "managed_checks g \<longleftrightarrow> g_owner_service g = ''ani-inference'' \<and> g_resource_class g \<in> {''cpu'', ''gpu''}
     \<and> g_closing g = (g_delete_operation g \<noteq> None)"

definition managed_error :: "InferenceManagedGpuResource list \<Rightarrow> error option" where
  "managed_error gs =
     (if \<not> list_all managed_checks gs then Some (pg_check ''inference_managed_gpu_resources'')
      else if \<not> distinct (map g_key gs) \<or> \<not> distinct (map (\<lambda>g. (g_tenant g, g_create_operation g)) gs)
      then Some (pg_unique ''inference_managed_gpu_resources'')
      else None)"

definition write_managed :: "InferenceManagedGpuResource list \<Rightarrow> (db, unit) io" where
  "write_managed gs d =
     (case managed_error gs of
        Some e \<Rightarrow> (Inl e, d)
      | None \<Rightarrow> (Inr (), d\<lparr>managed := gs\<rparr>))"

definition InsertManagedGPUResource ::
  "uuid \<Rightarrow> uuid \<Rightarrow> uuid \<Rightarrow> string \<Rightarrow> RefundContext \<Rightarrow> string \<Rightarrow> string \<Rightarrow> (db, unit) io"
where
  "InsertManagedGPUResource tenant resource createOperation owner original cls digest d =
     write_managed (managed d @
       [\<lparr>g_tenant = tenant, g_resource = resource, g_create_operation = createOperation,
         g_owner_service = owner, g_original_context = original, g_business_payload = None,
         g_business_payload_digest = '''', g_create_request_hash = '''', g_create_payload = None,
         g_delete_operation = None, g_closing = False, g_resource_class = cls,
         g_create_command_digest = digest\<rparr>]) d"

definition SetManagedGPUClosing :: "uuid \<Rightarrow> uuid \<Rightarrow> uuid \<Rightarrow> (db, unit) io" where
  "SetManagedGPUClosing tenant resource operation d =
     write_managed (update_where (\<lambda>g. g_tenant g = tenant \<and> g_resource g = resource)
       (\<lambda>g. g\<lparr>g_closing := True,
              g_delete_operation := (case g_delete_operation g of None \<Rightarrow> Some operation | i \<Rightarrow> i)\<rparr>)
       (managed d)) d"

definition SaveManagedGPUCreate :: "uuid \<Rightarrow> uuid \<Rightarrow> string \<Rightarrow> string \<Rightarrow> string \<Rightarrow> string \<Rightarrow> (db, unit) io" where
  "SaveManagedGPUCreate tenant resource business businessDigest requestHash payload d =
     write_managed (update_where
       (\<lambda>g. g_tenant g = tenant \<and> g_resource g = resource \<and> g_create_payload g = None)
       (\<lambda>g. g\<lparr>g_business_payload := Some business, g_business_payload_digest := businessDigest,
              g_create_request_hash := requestHash, g_create_payload := Some payload\<rparr>)
       (managed d)) d"

definition InsertManagedGPUCommand ::
  "uuid \<Rightarrow> uuid \<Rightarrow> uuid \<Rightarrow> uuid \<Rightarrow> string \<Rightarrow> string \<Rightarrow> string \<Rightarrow> string \<Rightarrow> snapshot_json \<Rightarrow> DurableOwnerAck
    \<Rightarrow> string \<Rightarrow> (db, unit) io"
where
  "InsertManagedGPUCommand tenant operation resource createOperation kind payloadHash requestHash payload
     response ack intent d =
     (if kind \<notin> {''create'', ''delete''}
         \<or> intent \<notin> {''create_pending'', ''blocked_by_delete'', ''closing_intent''}
      then (Inl (pg_check ''inference_managed_gpu_commands''), d)
      else if (tenant, operation) \<in> set (map c_key (commands d))
      then (Inl (pg_unique ''inference_managed_gpu_commands''), d)
      else if \<not> list_ex (\<lambda>g. g_key g = (tenant, resource) \<and> g_create_operation g = createOperation) (managed d)
      then (Inl (pg_foreign ''inference_managed_gpu_commands''), d)
      else (Inr (), d\<lparr>commands := commands d @
        [\<lparr>c_tenant = tenant, c_operation = operation, c_resource = resource,
          c_create_operation = createOperation, c_kind = kind, c_payload_hash = payloadHash,
          c_request_hash = requestHash, c_command_payload = payload, c_response_snapshot = response,
          c_durable_ack = ack, c_execution_intent = intent, c_created_at = now d, c_actor = '''',
          c_close_state = '''', c_lease_token = None, c_lease_until = None, c_retry_at = now d,
          c_attempt = 0, c_close_error = '''', c_release_evidence_id = '''',
          c_release_evidence_digest = '''', c_release_report = None, c_completed_at = None\<rparr>]\<rparr>))"

definition GetManagedGPURefundContext :: "uuid \<Rightarrow> uuid \<Rightarrow> uuid \<Rightarrow> (db, RefundContext \<times> uuid option) io" where
  "GetManagedGPURefundContext tenant resource createOperation d =
     one (map_option (\<lambda>g. (g_original_context g, g_delete_operation g))
       (find (\<lambda>g. g_key g = (tenant, resource) \<and> g_create_operation g = createOperation) (managed d))) d"

definition SetManagedCloseState :: "uuid \<Rightarrow> uuid \<Rightarrow> string \<Rightarrow> string \<Rightarrow> string \<Rightarrow> (db, unit) io" where
  "SetManagedCloseState tenant operation actor state reason d =
     (Inr (), d\<lparr>commands := update_where
        (\<lambda>c. c_tenant c = tenant \<and> c_operation c = operation \<and> c_kind c = ''delete'')
        (\<lambda>c. c\<lparr>c_actor := actor, c_close_state := state,
               c_completed_at := (if state = ''complete'' then Some (now d) else None),
               c_close_error := reason\<rparr>) (commands d)\<rparr>)"

definition ManagedExecutionFacts :: "uuid \<Rightarrow> uuid \<Rightarrow> (db, bool option) io" where
  "ManagedExecutionFacts tenant resource d =
     (Inr (Some (list_ex (\<lambda>op. o_tenant op = tenant \<and> o_service op = resource) (operations d)
        \<or> list_ex (\<lambda>w. w_tenant w = tenant \<and> w_service w = resource) (works d)
        \<or> list_ex (\<lambda>g. g_key g = (tenant, resource) \<and> g_create_payload g \<noteq> None) (managed d))), d)"

definition ListManagedCloseTenants :: "db \<Rightarrow> uuid list" where
  "ListManagedCloseTenants d =
     sort (remdups (map c_tenant (filter (\<lambda>c. c_kind c = ''delete''
        \<and> c_close_state c \<in> {''pending'', ''unknown_execution''}) (commands d))))"

definition close_due :: "db \<Rightarrow> InferenceManagedGpuCommand \<Rightarrow> bool" where
  "close_due d c \<longleftrightarrow> c_kind c = ''delete'' \<and> c_close_state c = ''pending'' \<and> c_retry_at c \<le> now d
     \<and> (case c_lease_until c of None \<Rightarrow> True | Some u \<Rightarrow> u < now d)"

definition ClaimManagedClose ::
  "(uuid \<times> uuid) set \<Rightarrow> uuid \<Rightarrow> uuid \<Rightarrow> (db, InferenceManagedGpuCommand) io"
where
  "ClaimManagedClose locked token tenant d =
     (case first_by (\<lambda>c. (c_retry_at c, c_operation c))
             (filter (\<lambda>c. c_tenant c = tenant \<and> close_due d c \<and> c_key c \<notin> locked) (commands d)) of
        None \<Rightarrow> (Inl (Sentinel ErrNoRows), d)
      | Some c \<Rightarrow>
        let take_lease = (\<lambda>c. c\<lparr>c_lease_token := Some token, c_lease_until := Some (now d + 30000000),
                               c_attempt := c_attempt c + 1\<rparr>) in
        (Inr (take_lease c),
         d\<lparr>commands := update_where (\<lambda>x. c_key x = c_key c) take_lease (commands d)\<rparr>))"

definition close_leased :: "db \<Rightarrow> uuid \<Rightarrow> InferenceManagedGpuCommand \<Rightarrow> bool" where
  "close_leased d token c \<longleftrightarrow> c_lease_token c = Some token
     \<and> (case c_lease_until c of None \<Rightarrow> False | Some u \<Rightarrow> u > now d)"

definition RetryManagedClose :: "string \<Rightarrow> uuid \<Rightarrow> uuid \<Rightarrow> uuid \<Rightarrow> (db, nat) io" where
  "RetryManagedClose reason tenant operation token d =
     (let p = (\<lambda>c. c_tenant c = tenant \<and> c_operation c = operation \<and> close_leased d token c
                 \<and> c_close_state c = ''pending'') in
      (Inr (rows_where p (commands d)),
       d\<lparr>commands := update_where p (\<lambda>c. c\<lparr>c_lease_token := None, c_lease_until := None,
            c_retry_at := now d + 5000000, c_close_error := reason\<rparr>) (commands d)\<rparr>))"

definition CompleteManagedClose :: "uuid \<Rightarrow> uuid \<Rightarrow> uuid option \<Rightarrow> (db, nat) io" where
  "CompleteManagedClose tenant operation token d =
     (let p = (\<lambda>c. c_tenant c = tenant \<and> c_operation c = operation
                 \<and> (case token of None \<Rightarrow> True | Some t \<Rightarrow> close_leased d t c) \<and> c_kind c = ''delete'') in
      (Inr (rows_where p (commands d)),
       d\<lparr>commands := update_where p (\<lambda>c. c\<lparr>c_close_state := ''complete'',
            c_completed_at := (case c_completed_at c of None \<Rightarrow> Some (now d) | t \<Rightarrow> t),
            c_lease_token := None, c_lease_until := None, c_close_error := ''''\<rparr>) (commands d)\<rparr>))"

text \<open>
  A report may be written under the lease of the close, or under the work lease of the service whose
  current operation is this delete; only for a closing resource of this delete, and only once.
\<close>

definition report_fenced :: "db \<Rightarrow> uuid \<Rightarrow> InferenceManagedGpuCommand \<Rightarrow> bool" where
  "report_fenced d token c \<longleftrightarrow>
     c_close_state c = ''pending'' \<and> close_leased d token c
     \<or> c_close_state c = '''' \<and> holds_lease d (c_tenant c) (c_resource c) token
       \<and> (case find_service d (c_tenant c) (c_resource c) of
            None \<Rightarrow> False
          | Some s \<Rightarrow> s_current_operation s = Some (c_operation c) \<and> s_desired_state s = ''deleted'')"

definition sql_SaveManagedReleaseReport ::
  "string \<Rightarrow> string \<Rightarrow> ReleaseNotification \<Rightarrow> uuid \<Rightarrow> uuid \<Rightarrow> uuid \<Rightarrow> (db, nat) io"
where
  "sql_SaveManagedReleaseReport evidenceID evidenceDigest n tenant operation token d =
     (let p = (\<lambda>c. c_tenant c = tenant \<and> c_operation c = operation \<and> c_kind c = ''delete''
                 \<and> report_fenced d token c
                 \<and> list_ex (\<lambda>g. g_key g = (c_tenant c, c_resource c) \<and> g_closing g
                       \<and> g_delete_operation g = Some (c_operation c)) (managed d)
                 \<and> (c_release_report c = None
                    \<or> c_release_report c = Some n \<and> c_release_evidence_id c = evidenceID
                      \<and> c_release_evidence_digest c = evidenceDigest)) in
      (Inr (rows_where p (commands d)),
       d\<lparr>commands := update_where p (\<lambda>c. c\<lparr>c_release_evidence_id := evidenceID,
            c_release_evidence_digest := evidenceDigest, c_release_report := Some n\<rparr>) (commands d)\<rparr>))"


section \<open>Intake\<close>

record ManagedCommand =
  mc_Context :: RefundContext
  mc_ResourceClass :: string
  mc_CreateCommandDigest :: string
  mc_Actor :: string
  mc_Payload :: string
  mc_Business :: string
  mc_BusinessDigest :: string
  mc_RequestHash :: string

record managedIntake =
  mi_closing :: bool
  mi_replay :: "snapshot_json option"

definition no_intake :: managedIntake where
  "no_intake = \<lparr>mi_closing = False, mi_replay = None\<rparr>"

text \<open>\<^verbatim>\<open>len(accepted.replay) != 0\<close>; the encoding of a message is never empty.\<close>

definition replayed :: "managedIntake \<Rightarrow> snapshot_json option" where
  "replayed accepted = (if mi_replay accepted = Some (SnapshotOther '''') then None else mi_replay accepted)"

definition managedClass :: "ManagedCommand \<Rightarrow> string" where
  "managedClass command =
     (if mc_ResourceClass command \<noteq> '''' then mc_ResourceClass command
      else if ResourceClass (mc_Context command) \<noteq> '''' then ResourceClass (mc_Context command)
      else if RefundSnapshot (mc_Context command) \<noteq> None then ''gpu''
      else ''cpu'')"

text \<open>\<^verbatim>\<open>reflect.DeepEqual\<close> of snapshots: the maps of the execution are compared as maps.\<close>

definition same_map :: "(string \<times> string) list \<Rightarrow> (string \<times> string) list \<Rightarrow> bool" where
  "same_map a b \<longleftrightarrow> list_all (\<lambda>k. map_of a k = map_of b k) (map fst a @ map fst b)"

definition same_execution :: "Execution \<Rightarrow> Execution \<Rightarrow> bool" where
  "same_execution a b \<longleftrightarrow>
     SchedulerName a = SchedulerName b \<and> QueueName a = QueueName b \<and> RuntimeClassName a = RuntimeClassName b
     \<and> same_map (NodeSelector a) (NodeSelector b) \<and> same_map (PodAnnotations a) (PodAnnotations b)
     \<and> same_map (ExecResources a) (ExecResources b) \<and> ExecutionDigest a = ExecutionDigest b"

definition same_snapshot :: "Snapshot option \<Rightarrow> Snapshot option \<Rightarrow> bool" where
  "same_snapshot x y \<longleftrightarrow>
     (case (x, y) of
        (None, None) \<Rightarrow> True
      | (Some a, Some b) \<Rightarrow>
          SnapRequest a = SnapRequest b \<and> SnapDisplay a = SnapDisplay b
          \<and> SnapExecutionDigest a = SnapExecutionDigest b
          \<and> (case (SnapExecution a, SnapExecution b) of
               (None, None) \<Rightarrow> True | (Some e, Some f) \<Rightarrow> same_execution e f | _ \<Rightarrow> False)
      | _ \<Rightarrow> False)"

definition same_context :: "RefundContext \<Rightarrow> RefundContext \<Rightarrow> bool" where
  "same_context a b \<longleftrightarrow>
     a\<lparr>RefundSnapshot := None\<rparr> = b\<lparr>RefundSnapshot := None\<rparr> \<and> same_snapshot (RefundSnapshot a) (RefundSnapshot b)"

text \<open>
  The command against the row that an earlier command of the resource left: the identity of the CREATE
  must agree; a DELETE takes the frozen context of the row.
\<close>

definition saved_intake ::
  "InferenceManagedGpuResource \<Rightarrow> uuid \<Rightarrow> uuid \<Rightarrow> string \<Rightarrow> ManagedCommand \<Rightarrow> (managedIntake \<times> ManagedCommand) result"
where
  "saved_intake row createID operation kind command =
     (let original = mc_Context command; saved = g_original_context row;
          conflict = Inl (Sentinel ErrIdempotencyConflict) in
      if g_create_operation row \<noteq> createID then conflict
      else if ResourceClass original \<noteq> '''' \<and> g_resource_class row \<noteq> ResourceClass original then conflict
      else if CreateCommandDigest original \<noteq> '''' \<and> g_create_command_digest row \<noteq> ''''
              \<and> CreateCommandDigest original \<noteq> g_create_command_digest row then conflict
      else if RefundClusterID original \<noteq> '''' \<and> RefundClusterID saved \<noteq> RefundClusterID original then conflict
      else if kind = ''create'' \<and> g_delete_operation row \<noteq> None
      then Inr (no_intake\<lparr>mi_closing := True\<rparr>, command)
      else if kind = ''delete'' \<and>
              (OwnerService original \<noteq> '''' \<and> OwnerService original \<noteq> OwnerService saved
               \<or> RefundClusterID original \<noteq> '''' \<and> RefundClusterID original \<noteq> RefundClusterID saved
               \<or> RefundSnapshot original \<noteq> None
                 \<and> \<not> same_snapshot (RefundSnapshot original) (RefundSnapshot saved)) then conflict
      else if kind \<noteq> ''delete'' \<and>
              \<not> same_context (saved\<lparr>DeleteOperationID := ''''\<rparr>) (original\<lparr>DeleteOperationID := ''''\<rparr>) then conflict
      else
        let command = (if kind = ''delete'' then command\<lparr>mc_Context := original\<lparr>
              OwnerService := OwnerService saved, RefundClusterID := RefundClusterID saved,
              RefundSnapshot := RefundSnapshot saved, ResourceClass := ResourceClass saved,
              CreateCommandDigest := CreateCommandDigest saved\<rparr>\<rparr> else command) in
        if kind = ''delete'' \<and> g_delete_operation row \<noteq> None \<and> g_delete_operation row \<noteq> Some operation
        then conflict
        else if kind = ''create'' \<and> g_business_payload_digest row \<noteq> ''''
                \<and> g_business_payload_digest row \<noteq> mc_BusinessDigest command then conflict
        else Inr (no_intake\<lparr>mi_closing := (g_delete_operation row \<noteq> None)\<rparr>, command))"

text \<open>
  The locked check before any business write. The second component is the command with the context that
  the call leaves in it.
\<close>

definition prepareManagedCommand ::
  "uuid_parser \<Rightarrow> ManagedCommand \<Rightarrow> string \<Rightarrow> string \<Rightarrow> (db, managedIntake \<times> ManagedCommand) io"
where
  "prepareManagedCommand uuid_Parse command kind operationID =
     (let original = mc_Context command in
      bindE (liftE (requireUUID uuid_Parse ''tenant_id'' (RefundTenantID original))) (\<lambda>tenant.
      bindE (liftE (requireUUID uuid_Parse ''resource_id'' (RefundResourceID original))) (\<lambda>resourceID.
      bindE (liftE (requireUUID uuid_Parse ''operation_id'' operationID)) (\<lambda>operation.
      bindE (liftE (requireUUID uuid_Parse ''create_operation_id'' (OriginalCreateOperationID original))) (\<lambda>createID.
      bindE (LockManagedGPUKey (RefundTenantID original @ '':command:'' @ operationID)) (\<lambda>_.
      bindE (LockManagedGPUKey (RefundTenantID original @ '':'' @ RefundResourceID original)) (\<lambda>_.
      bindE (tryE (GetManagedGPUCommand tenant operation)) (\<lambda>existing.
        case existing of
          Inr row \<Rightarrow>
            if c_payload_hash row \<noteq> RequestHash (mc_Payload command)
            then failE (Sentinel ErrIdempotencyConflict)
            else returnE (no_intake\<lparr>mi_replay := Some (c_response_snapshot row)\<rparr>, command)
        | Inl err \<Rightarrow>
          if \<not> errors_Is err ErrNoRows then failE err
          else
            bindE (tryE (GetManagedGPUResourceForUpdate tenant resourceID)) (\<lambda>saved.
              case saved of
                Inr row \<Rightarrow> liftE (saved_intake row createID operation kind command)
              | Inl err \<Rightarrow>
                if \<not> errors_Is err ErrNoRows then failE err
                else
                  bindE (ManagedGPUServiceExists tenant resourceID) (\<lambda>directExists.
                    if directExists
                    then failE (Wrapf '''' (Sentinel ErrInvalidState)
                           '': existing direct resource is not Governance managed'')
                    else
                      bindE (InsertManagedGPUResource tenant resourceID createID (OwnerService original)
                               (original\<lparr>DeleteOperationID := ''''\<rparr>) (managedClass command)
                               (CreateCommandDigest original)) (\<lambda>_.
                        returnE (no_intake, command))))))))))))"

definition persistManagedCommand ::
  "uuid_parser \<Rightarrow> ManagedCommand \<Rightarrow> string \<Rightarrow> string \<Rightarrow> string \<Rightarrow> snapshot_json \<Rightarrow> (db, unit) io"
where
  "persistManagedCommand uuid_Parse command kind operationID intent response =
     (let original = mc_Context command in
      bindE (liftE (requireUUID uuid_Parse ''tenant_id'' (RefundTenantID original))) (\<lambda>tenant.
      bindE (liftE (requireUUID uuid_Parse ''resource_id'' (RefundResourceID original))) (\<lambda>resourceID.
      bindE (liftE (requireUUID uuid_Parse ''operation_id'' operationID)) (\<lambda>operation.
      bindE (liftE (requireUUID uuid_Parse ''create_operation_id'' (OriginalCreateOperationID original))) (\<lambda>createID.
      bindE (if kind = ''delete'' then SetManagedGPUClosing tenant resourceID operation
             else if intent \<noteq> ''blocked_by_delete''
             then SaveManagedGPUCreate tenant resourceID (mc_Business command) (mc_BusinessDigest command)
                    (mc_RequestHash command) (mc_Payload command)
             else returnE ()) (\<lambda>_.
        InsertManagedGPUCommand tenant operation resourceID createID kind (RequestHash (mc_Payload command))
          (mc_RequestHash command) (mc_Payload command) response
          (owner_ack operationID (RefundResourceID original)) intent))))))"

definition decodeManagedResponse :: "snapshot_json \<Rightarrow> OperationResponse result" where
  "decodeManagedResponse raw =
     (case raw of
        SnapshotResponse r \<Rightarrow> Inr r
      | SnapshotOther s \<Rightarrow> Inl (Errorf ''proto: syntax error''))"

definition managedIntentResponse :: "RefundContext \<Rightarrow> string \<Rightarrow> string \<Rightarrow> string \<Rightarrow> OperationResponse" where
  "managedIntentResponse original operationID kind intent =
     \<lparr>rsp_Resource = Some (empty_service\<lparr>sm_Id := RefundResourceID original, sm_DesiredState := ''deleted''\<rparr>),
      rsp_Operation = Some (empty_operation\<lparr>om_Id := operationID, om_ServiceId := RefundResourceID original,
        om_Kind := kind, om_Phase := ''pending'', om_Step := intent\<rparr>),
      rsp_DurableOwnerAck = Some (owner_ack operationID (RefundResourceID original))\<rparr>"

definition pgUUIDMust :: "uuid_parser \<Rightarrow> string \<Rightarrow> uuid" where
  "pgUUIDMust uuid_Parse v = (case uuid_Parse v of Inl err \<Rightarrow> '''' | Inr u \<Rightarrow> u)"

definition Repository_LoadRefundContext ::
  "uuid_parser \<Rightarrow> string \<Rightarrow> string \<Rightarrow> string \<Rightarrow> (db, RefundContext) io"
where
  "Repository_LoadRefundContext uuid_Parse tenantID resourceID originalCreateID =
     bindE (liftE (requireUUID uuid_Parse ''tenant_id'' tenantID)) (\<lambda>tenant.
     bindE (liftE (requireUUID uuid_Parse ''resource_id'' resourceID)) (\<lambda>resource.
     bindE (liftE (requireUUID uuid_Parse ''create_operation_id'' originalCreateID)) (\<lambda>createID.
     bindE (GetManagedGPURefundContext tenant resource createID) (\<lambda>(original, deleteOperation).
       returnE (case deleteOperation of
                  None \<Rightarrow> original
                | Some i \<Rightarrow> original\<lparr>DeleteOperationID := i\<rparr>)))))"

section \<open>Accepting a managed command\<close>

text \<open>
  \<^verbatim>\<open>Repository.PrepareCreate\<close>: the answer to a CREATE that was accepted before or that a DELETE has
  overtaken; \<open>None\<close> when the CREATE is new, the transaction is rolled back then.
\<close>

definition prepared_create :: "uuid_parser \<Rightarrow> ManagedCommand \<Rightarrow> (db, OperationResponse option) io" where
  "prepared_create uuid_Parse command =
     (let createID = OriginalCreateOperationID (mc_Context command);
          out = managedIntentResponse (mc_Context command) createID ''create'' ''blocked_by_delete'' in
      bindE (prepareManagedCommand uuid_Parse command ''create'' createID) (\<lambda>(accepted, command).
        case replayed accepted of
          Some raw \<Rightarrow> bindE (liftE (decodeManagedResponse raw)) (\<lambda>r. returnE (Some r))
        | None \<Rightarrow>
          if \<not> mi_closing accepted then returnE None
          else
            bindE (persistManagedCommand uuid_Parse command ''create'' createID ''blocked_by_delete''
                     (SnapshotResponse out)) (\<lambda>_. returnE (Some out))))"

definition Repository_PrepareCreate ::
  "uuid_parser \<Rightarrow> ManagedCommand option \<Rightarrow> (db, OperationResponse option) io"
where
  "Repository_PrepareCreate uuid_Parse mc d =
     (case mc of
        None \<Rightarrow> (Inr None, d)
      | Some command \<Rightarrow>
        (case transaction (prepared_create uuid_Parse command) d of
           (Inr None, d') \<Rightarrow> (Inr None, d)
         | x \<Rightarrow> x))"

section \<open>Closing a resource that was never created\<close>

definition Repository_LoadManagedReleaseReport ::
  "uuid_parser \<Rightarrow> RefundContext \<Rightarrow> (db, ReleaseNotification option) io"
where
  "Repository_LoadManagedReleaseReport uuid_Parse original =
     bindE (GetManagedGPUCommand (pgUUIDMust uuid_Parse (RefundTenantID original))
              (pgUUIDMust uuid_Parse (DeleteOperationID original))) (\<lambda>row.
       case c_release_report row of
         None \<Rightarrow> returnE None
       | Some n \<Rightarrow>
         if c_release_evidence_id row = '''' \<or> c_release_evidence_digest row = ''''
         then failE (Errorf ''release report has no durable evidence'')
         else bindE (checkE (ValidateRefund n original)) (\<lambda>_. returnE (Some n)))"

definition Repository_SaveManagedReleaseReport ::
  "uuid_parser \<Rightarrow> RefundContext \<Rightarrow> string \<Rightarrow> string \<Rightarrow> ReleaseNotification \<Rightarrow> string \<Rightarrow> (db, unit) io"
where
  "Repository_SaveManagedReleaseReport uuid_Parse original evidenceID evidenceDigest n leaseToken =
     bindE (checkE (ValidateRefund n original)) (\<lambda>_.
       if evidenceID = '''' \<or> evidenceDigest = '''' then failE (Sentinel ErrInvalidRefund)
       else
         bindE (liftE (requireUUID uuid_Parse ''release lease'' leaseToken)) (\<lambda>token.
           one_row (Sentinel ErrGenerationConflict)
             (sql_SaveManagedReleaseReport evidenceID evidenceDigest n
                (pgUUIDMust uuid_Parse (RefundTenantID original))
                (pgUUIDMust uuid_Parse (DeleteOperationID original)) token)))"

text \<open>The operation context that the release port is called with.\<close>

definition close_context ::
  "InferenceManagedGpuCommand \<Rightarrow> uuid \<Rightarrow> uuid \<Rightarrow> string \<Rightarrow> PodRef list \<Rightarrow> OperationContext"
where
  "close_context row tenant token sealedAt pods =
     \<lparr>oc_TenantID = tenant, oc_ServiceID = c_resource row, oc_ID = c_operation row, oc_Kind = KindDelete,
      oc_Actor = c_actor row, oc_RequestID = c_operation row, oc_LeaseToken = token,
      oc_Phase = PhaseOther '''', oc_Step = StepOther '''', oc_Attempt = 0, oc_TargetGeneration = 0,
      oc_Reservation = empty_reservation, oc_PreviousReservation = empty_reservation,
      oc_Publication = \<lparr>pb_TenantID = '''', pb_ServiceID = '''', pb_OperationID = '''', pb_Generation = 0,
        pb_LeaseToken = '''', pb_FenceOperationID = '''', pb_URL = '''', pb_State = ''''\<rparr>,
      oc_GPURequest = None, oc_GPUSnapshot = None, oc_Managed = True, oc_ManagedGPU = True,
      oc_ManagedGPUCreateOperationID = c_create_operation row, oc_ManagedGPUReleasePods = pods,
      oc_ManagedGPUReleaseSealedAt = sealedAt, oc_Replicas = 0, oc_WorkerReplicas = 0, oc_RuntimeMode = ''''\<rparr>"

text \<open>
  The release of one claimed close. The release port is \<open>None\<close> when it is not configured; the world
  is the database with whatever else the port reaches.
\<close>

definition release_close ::
  "uuid_parser \<Rightarrow> (OperationContext \<Rightarrow> (db \<times> 'w, unit) io) option \<Rightarrow> InferenceManagedGpuCommand \<Rightarrow> uuid \<Rightarrow> uuid
    \<Rightarrow> (db \<times> 'w, unit) io"
where
  "release_close uuid_Parse release row tenant token =
     bindE (on_db (Repository_LoadRefundContext uuid_Parse tenant (c_resource row) (c_create_operation row)))
       (\<lambda>original.
       if ResourceClass original = ''cpu'' then failE (Errorf ''CPU pending close lacks proven nonexecution'')
       else case release of
         None \<Rightarrow> failE (Errorf ''managed GPU release is not configured'')
       | Some ReleaseManagedGPU \<Rightarrow>
         bindE (on_db (GetManagedGPUReleaseScope tenant (c_resource row) (c_operation row))) (\<lambda>raw.
         bindE (liftE (decodeManagedGPUReleaseScope raw)) (\<lambda>(sealedAt, pods).
           if sealedAt = '''' then failE (Errorf ''managed close seal missing'')
           else ReleaseManagedGPU (close_context row tenant token sealedAt pods))))"

text \<open>One tenant of a pass: claim a due close, release it, complete or retry it. The result is the error to join.\<close>

definition close_tenant ::
  "uuid_parser \<Rightarrow> (OperationContext \<Rightarrow> (db \<times> 'w, unit) io) option \<Rightarrow> (uuid \<times> uuid) set \<Rightarrow> uuid \<Rightarrow> uuid
    \<Rightarrow> (db \<times> 'w, error option) io"
where
  "close_tenant uuid_Parse release locked token tenant =
     bindE (tryE (on_db (ClaimManagedClose locked token tenant))) (\<lambda>claimed.
       case claimed of
         Inl err \<Rightarrow> returnE (if errors_Is err ErrNoRows then None else Some err)
       | Inr row \<Rightarrow>
         bindE (tryE (release_close uuid_Parse release row tenant token)) (\<lambda>outcome.
           case outcome of
             Inl e \<Rightarrow>
               bindE (tryE (on_db (RetryManagedClose (error_text e) tenant (c_operation row) token))) (\<lambda>retried.
                 returnE (errors_Join (Some e) (case retried of Inl err \<Rightarrow> Some err | Inr _ \<Rightarrow> None)))
           | Inr _ \<Rightarrow>
               bindE (tryE (on_db (CompleteManagedClose tenant (c_operation row) (Some token)))) (\<lambda>rows.
                 returnE (case rows of
                   Inl err \<Rightarrow> Some err
                 | Inr n \<Rightarrow> if n \<noteq> 1 then Some (Sentinel ErrGenerationConflict) else None))))"

text \<open>
  The pass over the tenants: \<open>cancelled i\<close> is \<^verbatim>\<open>ctx.Err()\<close> before the \<open>i\<close>-th tenant, \<open>tokens i\<close> its fresh
  token.
\<close>

fun close_tenants ::
  "uuid_parser \<Rightarrow> (OperationContext \<Rightarrow> (db \<times> 'w, unit) io) option \<Rightarrow> (uuid \<times> uuid) set \<Rightarrow> (nat \<Rightarrow> error option)
    \<Rightarrow> (nat \<Rightarrow> uuid) \<Rightarrow> nat \<Rightarrow> uuid list \<Rightarrow> error option \<Rightarrow> (db \<times> 'w, error option) io"
where
  "close_tenants uuid_Parse release locked cancelled tokens i [] joined = returnE joined"
| "close_tenants uuid_Parse release locked cancelled tokens i (tenant # rest) joined =
     (case cancelled i of
        Some err \<Rightarrow> returnE (errors_Join joined (Some err))
      | None \<Rightarrow>
        bindE (close_tenant uuid_Parse release locked (tokens i) tenant) (\<lambda>e.
          close_tenants uuid_Parse release locked cancelled tokens (i + 1) rest (errors_Join joined e)))"

definition Repository_RunManagedCloses ::
  "uuid_parser \<Rightarrow> (OperationContext \<Rightarrow> (db \<times> 'w, unit) io) option \<Rightarrow> (uuid \<times> uuid) set \<Rightarrow> (nat \<Rightarrow> error option)
    \<Rightarrow> (nat \<Rightarrow> uuid) \<Rightarrow> (db \<times> 'w, error option) io"
where
  "Repository_RunManagedCloses uuid_Parse release locked cancelled tokens s =
     close_tenants uuid_Parse release locked cancelled tokens 0 (ListManagedCloseTenants (fst s)) None s"

end
