(* ===== verification/Command_Sql.thy ===== *)
theory Command_Sql
  imports Managed
begin

text \<open>
  The statements that accept a command (\<^verbatim>\<open>internal/data/postgres/inference.sql.go\<close>,
  \<^verbatim>\<open>namespace_placement.sql.go\<close>) and the stored engine command of \<^verbatim>\<open>engine.go\<close>.
\<close>

section \<open>The stored engine command\<close>

text \<open>
  A \<^verbatim>\<open>jsonb\<close> column holds one document, so the branches of the decoder for trailing data are not
  reached; SQL \<^verbatim>\<open>NULL\<close> and the document \<^verbatim>\<open>null\<close> are the empty command.
\<close>

definition marshalEngineSpec :: "string \<Rightarrow> json" where
  "marshalEngineSpec command = JObject [(''command'', JString command)]"

fun json_text :: "json \<Rightarrow> string option" where
  "json_text JNull = Some ''''"
| "json_text (JString s) = Some s"
| "json_text _ = None"

fun all_some :: "'a option list \<Rightarrow> 'a list option" where
  "all_some [] = Some []"
| "all_some (None # xs) = None"
| "all_some (Some x # xs) = map_option ((#) x) (all_some xs)"

fun json_texts :: "json \<Rightarrow> string list option" where
  "json_texts JNull = Some []"
| "json_texts (JArray xs) = all_some (map json_text xs)"
| "json_texts _ = None"

definition unmarshalEngineSpec :: "json \<Rightarrow> string result" where
  "unmarshalEngineSpec raw =
     (case raw of
        JNull \<Rightarrow> Inr ''''
      | JString command \<Rightarrow> Inr command
      | JObject obj \<Rightarrow>
        (case map_of obj ''command'' of
           None \<Rightarrow> Inl (Errorf ''engine command is missing'')
         | Some commandRaw \<Rightarrow>
           (case json_text commandRaw of
              Some command \<Rightarrow>
                if length obj \<noteq> 1 then Inl (Errorf ''engine command object must contain only command'')
                else Inr command
            | None \<Rightarrow>
              if length obj \<noteq> 2 then Inl (Errorf ''invalid legacy engine wrapper fields'')
              else case map_of obj ''args'' of
                None \<Rightarrow> Inl (Errorf ''invalid legacy engine args wrapper'')
              | Some argsRaw \<Rightarrow>
                if json_texts commandRaw \<noteq> Some [''/bin/sh'', ''-c'']
                then Inl (Errorf ''invalid legacy engine command wrapper'')
                else case json_texts argsRaw of
                  Some [arg] \<Rightarrow> Inr arg
                | _ \<Rightarrow> Inl (Errorf ''invalid legacy engine args wrapper'')))
      | _ \<Rightarrow> Inl (Errorf ''invalid engine command JSON: expected object''))"

section \<open>Specifications\<close>

text \<open>
  The check on the endpoint columns, with the three-valued logic of SQL: a check fails only when it is
  false, and a comparison with NULL is not false.
\<close>

definition known_port :: "32 word option \<Rightarrow> bool" where
  "known_port v = (case v of None \<Rightarrow> True | Some p \<Rightarrow> 1 \<le> sint p \<and> sint p \<le> 65535)"

definition endpoint_shape :: "InferenceSpec \<Rightarrow> bool" where
  "endpoint_shape sp \<longleftrightarrow>
     sp_endpoint_container_port sp = None \<and> sp_endpoint_service_port sp = None
       \<and> sp_endpoint_target_port sp = None \<and> sp_endpoint_protocol sp = None
     \<or> known_port (sp_endpoint_container_port sp) \<and> known_port (sp_endpoint_service_port sp)
       \<and> sp_endpoint_target_port sp \<noteq> None \<and> sp_endpoint_target_port sp \<noteq> Some ''''
       \<and> (sp_endpoint_protocol sp = None \<or> sp_endpoint_protocol sp \<in> Some ` {''TCP'', ''UDP'', ''SCTP''})"

definition spec_checks :: "InferenceSpec \<Rightarrow> bool" where
  "spec_checks sp \<longleftrightarrow> 0 < sp_generation sp \<and> 0 < sint (sp_replicas sp) \<and> 0 < sint (sp_worker_replicas sp)
     \<and> sp_runtime_mode sp \<in> {''deployment'', ''leader_worker_set''}
     \<and> sp_runtime_provider sp \<in> {''deployment'', ''kserve''} \<and> endpoint_shape sp"

definition sp_key :: "InferenceSpec \<Rightarrow> uuid \<times> uuid \<times> int" where
  "sp_key sp = (sp_tenant sp, sp_service sp, sp_generation sp)"

definition insert_spec :: "InferenceSpec list \<Rightarrow> (db, nat) io" where
  "insert_spec rows d =
     (if \<not> list_all spec_checks rows then (Inl (pg_check ''inference_specs''), d)
      else if \<not> distinct (map (\<lambda>sp. (sp_tenant sp, sp_id sp)) (specs d @ rows))
              \<or> \<not> distinct (map sp_key (specs d @ rows))
      then (Inl (pg_unique ''inference_specs''), d)
      else if list_ex (\<lambda>sp. find_service d (sp_tenant sp) (sp_service sp) = None) rows
      then (Inl (pg_foreign ''inference_specs''), d)
      else (Inr (length rows), d\<lparr>specs := specs d @ map (sp_created_at_update (\<lambda>_. now d)) rows\<rparr>))"

definition InsertSpec :: "InferenceSpec \<Rightarrow> (db, nat) io" where
  "InsertSpec sp = insert_spec [sp]"

definition source_specs :: "db \<Rightarrow> uuid \<Rightarrow> uuid \<Rightarrow> int \<Rightarrow> InferenceSpec list" where
  "source_specs d tenant service generation =
     filter (\<lambda>sp. sp_tenant sp = tenant \<and> sp_service sp = service \<and> sp_generation sp = generation) (specs d)"

definition CloneSpecGeneration :: "uuid \<Rightarrow> int \<Rightarrow> uuid \<Rightarrow> uuid \<Rightarrow> int \<Rightarrow> (db, nat) io" where
  "CloneSpecGeneration i target tenant service source d =
     insert_spec (map (\<lambda>sp. sp\<lparr>sp_id := i, sp_generation := target\<rparr>) (source_specs d tenant service source)) d"

text \<open>The parameters of \<^verbatim>\<open>CloneSpecWithRuntimeUpdate\<close>: an empty text and a NULL keep the column.\<close>

record SpecUpdate =
  su_ID :: uuid
  su_TargetGeneration :: int
  su_ModelVersionID :: "uuid option"
  su_ArtifactProvider :: string
  su_ArtifactRef :: string
  su_ArtifactSha256 :: string
  su_ImageRef :: string
  su_ServedModelName :: string
  su_EngineRuntime :: string
  su_CommandArgv :: "json option"
  su_Resources :: Spec
  su_Replicas :: "32 word"
  su_RuntimeMode :: string
  su_WorkerReplicas :: "32 word"
  su_RuntimeProvider :: string
  su_ModelCapabilities :: "json option"
  su_Endpoint :: "EndpointSpec option"
  su_GpuRequest :: "Request option"
  su_GpuPlan :: "Snapshot option"
  su_GpuPlanDigest :: "string option"

definition text_or :: "string \<Rightarrow> string \<Rightarrow> string" where
  "text_or new old = (if new \<noteq> '''' then new else old)"

definition updated_spec :: "SpecUpdate \<Rightarrow> InferenceSpec \<Rightarrow> InferenceSpec" where
  "updated_spec su sp =
     sp\<lparr>sp_id := su_ID su, sp_generation := su_TargetGeneration su,
        sp_model_version_id := (case su_ModelVersionID su of None \<Rightarrow> sp_model_version_id sp | Some v \<Rightarrow> v),
        sp_artifact_provider := text_or (su_ArtifactProvider su) (sp_artifact_provider sp),
        sp_artifact_ref := text_or (su_ArtifactRef su) (sp_artifact_ref sp),
        sp_artifact_sha256 := text_or (su_ArtifactSha256 su) (sp_artifact_sha256 sp),
        sp_image_ref := text_or (su_ImageRef su) (sp_image_ref sp),
        sp_served_model_name := text_or (su_ServedModelName su) (sp_served_model_name sp),
        sp_engine_runtime := text_or (su_EngineRuntime su) (sp_engine_runtime sp),
        sp_command_argv := (case su_CommandArgv su of None \<Rightarrow> sp_command_argv sp | Some j \<Rightarrow> j),
        sp_resources := su_Resources su, sp_replicas := su_Replicas su, sp_runtime_mode := su_RuntimeMode su,
        sp_worker_replicas := su_WorkerReplicas su,
        sp_runtime_provider := text_or (su_RuntimeProvider su) (sp_runtime_provider sp),
        sp_spec_json := (case su_ModelCapabilities su of None \<Rightarrow> sp_spec_json sp
                         | Some j \<Rightarrow> json_overlay (sp_spec_json sp) j),
        sp_endpoint_container_port := map_option ep_ContainerPort (su_Endpoint su),
        sp_endpoint_service_port := map_option ep_ServicePort (su_Endpoint su),
        sp_endpoint_target_port := map_option ep_TargetPort (su_Endpoint su),
        sp_endpoint_protocol := map_option ep_Protocol (su_Endpoint su),
        sp_gpu_request := su_GpuRequest su, sp_gpu_plan := su_GpuPlan su, sp_gpu_plan_digest := su_GpuPlanDigest su\<rparr>"

definition CloneSpecWithRuntimeUpdate :: "SpecUpdate \<Rightarrow> uuid \<Rightarrow> uuid \<Rightarrow> int \<Rightarrow> (db, nat) io" where
  "CloneSpecWithRuntimeUpdate su tenant service source d =
     insert_spec (map (updated_spec su) (source_specs d tenant service source)) d"

section \<open>Placements and locks\<close>

definition GetNamespacePlacement :: "uuid \<Rightarrow> uuid \<Rightarrow> (db, string \<times> string) io" where
  "GetNamespacePlacement tenant service d =
     one (map_option (\<lambda>n. (n_namespace_name n, n_namespace_uid n))
       (find (\<lambda>n. n_tenant n = tenant \<and> n_service n = service) (placements d))) d"

definition InsertNamespacePlacement :: "uuid \<Rightarrow> uuid \<Rightarrow> string \<Rightarrow> string \<Rightarrow> (db, unit) io" where
  "InsertNamespacePlacement tenant service name uid d =
     (if name = '''' \<or> uid = '''' then (Inl (pg_check ''inference_namespace_placements''), d)
      else if list_ex (\<lambda>n. n_tenant n = tenant \<and> n_service n = service) (placements d)
      then (Inl (pg_unique ''inference_namespace_placements''), d)
      else if find_service d tenant service = None
      then (Inl (pg_foreign ''inference_namespace_placements''), d)
      else (Inr (), d\<lparr>placements := placements d @
        [\<lparr>n_tenant = tenant, n_service = service, n_namespace_name = name, n_namespace_uid = uid\<rparr>]\<rparr>))"

definition LockIdempotency :: "string \<Rightarrow> string \<Rightarrow> string \<Rightarrow> (db, unit) io" where
  "LockIdempotency tenant method key = returnE ()"

text \<open>\<^verbatim>\<open>errors.As(err, &pgErr)\<close> and the SQLSTATE code of the server error found.\<close>

fun pg_code :: "error \<Rightarrow> string option" where
  "pg_code (PgError code msg) = Some code"
| "pg_code (Wrapf p e q) = pg_code e"
| "pg_code (Joined a b) = (case pg_code a of None \<Rightarrow> pg_code b | Some c \<Rightarrow> Some c)"
| "pg_code _ = None"

text \<open>Inserting the operation of a command; a unique violation means another one is active.\<close>

definition insert_active ::
  "uuid \<Rightarrow> uuid \<Rightarrow> uuid \<Rightarrow> OperationKind \<Rightarrow> OperationStep \<Rightarrow> int \<Rightarrow> string \<Rightarrow> (db, unit) io"
where
  "insert_active tenant opID service kind step generation hash =
     bindE (tryE (InsertOperation tenant opID service kind OperationPending step generation hash)) (\<lambda>x.
       case x of
         Inr _ \<Rightarrow> returnE ()
       | Inl err \<Rightarrow> if pg_code err = Some ''23505'' then failE (Sentinel ErrOperationActive) else failE err)"

section \<open>Lemmas\<close>

lemma unmarshal_marshal [simp]: "unmarshalEngineSpec (marshalEngineSpec command) = Inr command"
  by (simp add: unmarshalEngineSpec_def marshalEngineSpec_def)

end
