(* ===== verification/Commands.thy ===== *)
theory Commands
  imports Command_Sql
begin

text \<open>
  Acceptance of commands: \<^verbatim>\<open>Repository.CreateService\<close> (\<^verbatim>\<open>repository.go\<close>), \<^verbatim>\<open>CreateUseCase\<close>
  (\<^verbatim>\<open>create_usecase.go\<close>), \<^verbatim>\<open>CommandUseCase\<close> (\<^verbatim>\<open>command_usecase.go\<close>, \<^verbatim>\<open>managed_gpu.go\<close>) and
  \<^verbatim>\<open>UpdateUseCase\<close> (\<^verbatim>\<open>update_usecase.go\<close>) under \<^verbatim>\<open>internal/data/postgres\<close>. Each command is one
  transaction that only records what is wanted; the workers act on it later. The identifiers of
  \<^verbatim>\<open>uuid.New()\<close> are the values of an argument \<open>fresh\<close>; the nil checks of the receivers are left out.
  The deferred foreign key of the current operation is checked at commit, where it holds: every
  transaction that sets the column inserts the operation.
\<close>

section \<open>Responses\<close>

fun kind_of :: "string \<Rightarrow> OperationKind" where
  "kind_of s =
     (if s = ''create'' then KindCreate else if s = ''update'' then KindUpdate
      else if s = ''start'' then KindStart else if s = ''stop'' then KindStop
      else if s = ''restart'' then KindRestart else if s = ''delete'' then KindDelete else KindOther s)"

definition commanded_state :: "string \<Rightarrow> string" where
  "commanded_state kind =
     (if kind = ''start'' \<or> kind = ''restart'' then ''running''
      else if kind = ''stop'' then ''stopped''
      else if kind = ''delete'' then ''deleted'' else '''')"

definition commandResponse :: "string \<Rightarrow> string \<Rightarrow> int \<Rightarrow> string \<Rightarrow> OperationStep \<Rightarrow> OperationResponse" where
  "commandResponse serviceID operationID generation kind step =
     \<lparr>rsp_Resource = Some (empty_service\<lparr>sm_Id := serviceID, sm_DesiredState := commanded_state kind,
        sm_Generation := generation\<rparr>),
      rsp_Operation = Some (empty_operation\<lparr>om_Id := operationID, om_ServiceId := serviceID, om_Kind := kind,
        om_Phase := ''pending'', om_Step := step_string step, om_TargetGeneration := generation\<rparr>),
      rsp_DurableOwnerAck = None\<rparr>"

definition commandResponseFromRow :: "InferenceOperation \<Rightarrow> OperationResponse" where
  "commandResponseFromRow op =
     \<lparr>rsp_Resource = Some (empty_service\<lparr>sm_Id := o_service op, sm_Generation := o_target_generation op\<rparr>),
      rsp_Operation = Some (empty_operation\<lparr>om_Id := o_id op, om_ServiceId := o_service op,
        om_Kind := kind_string (o_kind op), om_Phase := phase_string (o_phase op),
        om_Step := step_string (o_step op), om_TargetGeneration := o_target_generation op,
        om_ErrorCode := o_error_code op, om_ErrorMessage := o_error_message op\<rparr>),
      rsp_DurableOwnerAck = None\<rparr>"

definition accepted_audit ::
  "uuid \<Rightarrow> uuid \<Rightarrow> uuid \<Rightarrow> uuid \<Rightarrow> int \<Rightarrow> string \<Rightarrow> string \<Rightarrow> string \<Rightarrow> str_map \<Rightarrow> InferenceAuditEvent"
where
  "accepted_audit tenant eventID service operation generation kind actor request payload =
     \<lparr>a_tenant = tenant, a_event_id = eventID, a_service = service, a_operation = Some operation,
      a_generation = generation, a_event_type = ''inference.'' @ kind @ ''.accepted'', a_actor = actor,
      a_request_id = request, a_before_state = [], a_after_state = [], a_payload = payload, a_created_at = 0\<rparr>"

definition remember ::
  "uuid \<Rightarrow> string \<Rightarrow> string \<Rightarrow> string \<Rightarrow> uuid \<Rightarrow> time option \<Rightarrow> (db, nat) io"
where
  "remember tenant method key hash operation expires d =
     PutIdempotency \<lparr>i_tenant = tenant, i_method = method, i_key = key, i_payload_hash = hash,
       i_operation = operation, i_created_at = now d, i_expires_at = expires\<rparr> d"

text \<open>The operation that a key was used for, if any; a key used with another request is an error.\<close>

definition idempotent_operation ::
  "string \<Rightarrow> uuid \<Rightarrow> string \<Rightarrow> string \<Rightarrow> string \<Rightarrow> (db, InferenceOperation option) io"
where
  "idempotent_operation tenantID tenant method key hash =
     (if key = '''' then returnE None
      else
        bindE (LockIdempotency tenantID method key) (\<lambda>_.
        bindE (tryE (GetIdempotency tenant method key)) (\<lambda>existing.
          case existing of
            Inr r \<Rightarrow>
              if i_payload_hash r \<noteq> hash then failE (Sentinel ErrIdempotencyConflict)
              else bindE (GetOperation tenant (i_operation r)) (\<lambda>op. returnE (Some op))
          | Inl err \<Rightarrow> if errors_Is err ErrNoRows then returnE None else failE err)))"

section \<open>Create\<close>

text \<open>
  \<^verbatim>\<open>CreateAggregateInput\<close>. An empty byte slice is \<open>None\<close>; the endpoint is \<open>None\<close> unless
  \<^verbatim>\<open>EndpointEnabled\<close> is set.
\<close>

record CreateAggregateInput =
  ag_RuntimeNamespace :: string
  ag_RuntimeNamespaceUID :: string
  ag_TenantID :: string
  ag_ServiceID :: string
  ag_SpecID :: string
  ag_OperationID :: string
  ag_Name :: string
  ag_ModelID :: string
  ag_ModelVersionID :: string
  ag_ArtifactProvider :: string
  ag_ArtifactRef :: string
  ag_ArtifactSHA256 :: string
  ag_ImageRef :: string
  ag_ServedModelName :: string
  ag_EngineRuntime :: string
  ag_RuntimeProvider :: string
  ag_EngineJSON :: "json option"
  ag_Resources :: "Spec option"
  ag_SpecJSON :: "json option"
  ag_GPURequest :: "Request option"
  ag_GPUSnapshot :: "Snapshot option"
  ag_GPUSnapshotDigest :: string
  ag_Replicas :: "32 word"
  ag_WorkerReplicas :: "32 word"
  ag_RuntimeMode :: string
  ag_RequestHash :: string
  ag_Method :: string
  ag_IdempotencyKey :: string
  ag_QuotaReservationID :: string
  ag_Actor :: string
  ag_RequestID :: string
  ag_Generation :: int
  ag_Endpoint :: "EndpointSpec option"
  ag_Managed :: "ManagedCommand option"
  ag_ResponseSnapshot :: "snapshot_json option"

record CreateAggregateResult =
  cr_ServiceID :: string
  cr_OperationID :: string
  cr_Replayed :: bool
  cr_ResponseSnapshot :: "snapshot_json option"

definition option_or :: "'a option \<Rightarrow> 'a \<Rightarrow> 'a" where
  "option_or v other = (case v of None \<Rightarrow> other | Some x \<Rightarrow> x)"

definition jsonOrEmpty :: "'a option \<Rightarrow> 'a \<Rightarrow> 'a" where
  "jsonOrEmpty v empty_value = option_or v empty_value"

definition empty_spec :: Spec where
  "empty_spec = \<lparr>Requests = [], Limits = [], SpecGPU = None\<rparr>"

text \<open>The identifiers and defaults that \<^verbatim>\<open>CreateService\<close> settles before its transaction.\<close>

record create_ids =
  id_tenant :: uuid
  id_service :: uuid
  id_spec :: uuid
  id_operation :: uuid
  id_model :: "uuid option"
  id_model_version :: uuid

definition create_identity :: "uuid_parser \<Rightarrow> (nat \<Rightarrow> uuid) \<Rightarrow> CreateAggregateInput \<Rightarrow> ('s, create_ids) io" where
  "create_identity uuid_Parse fresh inp =
     bindE (liftE (requireUUID uuid_Parse ''tenant_id'' (ag_TenantID inp))) (\<lambda>tenant.
     bindE (liftE (parseUUID uuid_Parse ''service_id'' (ag_ServiceID inp) True)) (\<lambda>service.
     bindE (liftE (parseUUID uuid_Parse ''spec_id'' (ag_SpecID inp) True)) (\<lambda>spec.
     bindE (liftE (parseUUID uuid_Parse ''operation_id'' (ag_OperationID inp) True)) (\<lambda>operation.
     bindE (liftE (parseUUID uuid_Parse ''model_id'' (ag_ModelID inp) True)) (\<lambda>model.
     bindE (liftE (requireUUID uuid_Parse ''model_version_id'' (ag_ModelVersionID inp))) (\<lambda>version.
       returnE \<lparr>id_tenant = tenant, id_service = option_or service (fresh 0), id_spec = option_or spec (fresh 1),
         id_operation = option_or operation (fresh 2), id_model = model, id_model_version = version\<rparr>))))))"

definition create_generation :: "CreateAggregateInput \<Rightarrow> int" where
  "create_generation inp = (if ag_Generation inp = 0 then 1 else ag_Generation inp)"

definition create_method :: "CreateAggregateInput \<Rightarrow> string" where
  "create_method inp = or_default (ag_Method inp) ''CreateInferenceService''"

definition create_mode :: "CreateAggregateInput \<Rightarrow> string" where
  "create_mode inp = or_default (ag_RuntimeMode inp) ''deployment''"

definition create_spec :: "create_ids \<Rightarrow> CreateAggregateInput \<Rightarrow> InferenceSpec" where
  "create_spec ids inp =
     \<lparr>sp_tenant = id_tenant ids, sp_id = id_spec ids, sp_service = id_service ids,
      sp_generation = create_generation inp, sp_model_id = id_model ids,
      sp_model_version_id = id_model_version ids, sp_artifact_provider = ag_ArtifactProvider inp,
      sp_artifact_ref = ag_ArtifactRef inp, sp_artifact_sha256 = ag_ArtifactSHA256 inp,
      sp_image_ref = ag_ImageRef inp, sp_served_model_name = ag_ServedModelName inp,
      sp_engine_runtime = ag_EngineRuntime inp,
      sp_command_argv = jsonOrEmpty (ag_EngineJSON inp) (JObject [(''command'', JString '''')]),
      sp_resources = jsonOrEmpty (ag_Resources inp) empty_spec,
      sp_replicas = (if ag_Replicas inp = 0 then 1 else ag_Replicas inp),
      sp_spec_json = jsonOrEmpty (ag_SpecJSON inp) (JObject []), sp_created_at = 0,
      sp_runtime_mode = create_mode inp,
      sp_worker_replicas = (if ag_WorkerReplicas inp = 0 then 1 else ag_WorkerReplicas inp),
      sp_endpoint_container_port = map_option ep_ContainerPort (ag_Endpoint inp),
      sp_endpoint_service_port = map_option ep_ServicePort (ag_Endpoint inp),
      sp_endpoint_target_port = map_option ep_TargetPort (ag_Endpoint inp),
      sp_endpoint_protocol = map_option ep_Protocol (ag_Endpoint inp),
      sp_runtime_provider = or_default (ag_RuntimeProvider inp) ''deployment'',
      sp_gpu_request = ag_GPURequest inp, sp_gpu_plan = ag_GPUSnapshot inp,
      sp_gpu_plan_digest = (if ag_GPUSnapshotDigest inp = '''' then None else Some (ag_GPUSnapshotDigest inp))\<rparr>"

text \<open>The managed intake of a create; \<open>Some\<close> is an answer that ends the transaction.\<close>

definition create_managed ::
  "uuid_parser \<Rightarrow> create_ids \<Rightarrow> CreateAggregateInput \<Rightarrow> (db, CreateAggregateResult option \<times> ManagedCommand option) io"
where
  "create_managed uuid_Parse ids inp =
     (case ag_Managed inp of
        None \<Rightarrow> returnE (None, None)
      | Some command \<Rightarrow>
        let original = mc_Context command; opID = id_operation ids in
        if RefundTenantID original \<noteq> ag_TenantID inp \<or> RefundResourceID original \<noteq> id_service ids
           \<or> OriginalCreateOperationID original \<noteq> opID \<or> ag_ResponseSnapshot inp = None
           \<or> mc_ResourceClass command = ''gpu'' \<and> ag_GPUSnapshot inp = None
        then failE (Sentinel ErrInvalidState)
        else
          bindE (prepareManagedCommand uuid_Parse command ''create'' opID) (\<lambda>(accepted, command).
            case replayed accepted of
              Some raw \<Rightarrow> returnE (Some \<lparr>cr_ServiceID = id_service ids, cr_OperationID = opID,
                cr_Replayed = True, cr_ResponseSnapshot = Some raw\<rparr>, Some command)
            | None \<Rightarrow>
              if mi_closing accepted then
                let snapshot = SnapshotResponse (managedIntentResponse original opID ''create'' ''blocked_by_delete'') in
                bindE (persistManagedCommand uuid_Parse command ''create'' opID ''blocked_by_delete'' snapshot) (\<lambda>_.
                  returnE (Some \<lparr>cr_ServiceID = id_service ids, cr_OperationID = opID, cr_Replayed = False,
                    cr_ResponseSnapshot = Some snapshot\<rparr>, Some command))
              else returnE (None, Some command)))"

definition create_placement :: "create_ids \<Rightarrow> CreateAggregateInput \<Rightarrow> (db, unit) io" where
  "create_placement ids inp =
     (if ag_RuntimeNamespace inp = '''' \<and> ag_RuntimeNamespaceUID inp = '''' then returnE ()
      else if ag_RuntimeNamespace inp = '''' \<or> ag_RuntimeNamespaceUID inp = ''''
      then failE (Errorf ''namespace placement name and UID must both be set'')
      else InsertNamespacePlacement (id_tenant ids) (id_service ids) (ag_RuntimeNamespace inp)
             (ag_RuntimeNamespaceUID inp))"

text \<open>The aggregate: service, placement, operation, specification, runtime, reservation and work.\<close>

definition create_rows :: "create_ids \<Rightarrow> CreateAggregateInput \<Rightarrow> (db, unit) io" where
  "create_rows ids inp =
     (let tenant = id_tenant ids; service = id_service ids; opID = id_operation ids;
          generation = create_generation inp in
      bindE (InsertService tenant service (ag_Name inp) ''running'' generation) (\<lambda>_.
      bindE (create_placement ids inp) (\<lambda>_.
      bindE (InsertOperation tenant opID service KindCreate OperationPending StepAdmission generation
               (ag_RequestHash inp)) (\<lambda>_.
      bindE (SetCurrentOperation tenant service opID) (\<lambda>_.
      bindE (InsertSpec (create_spec ids inp)) (\<lambda>_.
      bindE (InsertRuntime tenant service generation (create_mode inp)) (\<lambda>_.
      bindE (if ag_Managed inp = None
             then InsertQuotaReservation tenant service opID generation
                    (or_default (ag_QuotaReservationID inp) (''pending-'' @ opID))
                    (jsonOrEmpty (ag_Resources inp) empty_spec)
             else returnE 0) (\<lambda>_.
        UpsertResourceWork tenant service generation))))))))"

definition replayed_create :: "InferenceOperation \<Rightarrow> CreateAggregateResult" where
  "replayed_create op = \<lparr>cr_ServiceID = o_service op, cr_OperationID = o_id op, cr_Replayed = True,
     cr_ResponseSnapshot = None\<rparr>"

text \<open>
  Recording the key: a row of a concurrent command with the same key wins, and the operation it names is
  the answer.
\<close>

definition create_remember :: "create_ids \<Rightarrow> CreateAggregateInput \<Rightarrow> time \<Rightarrow> (db, InferenceOperation option) io" where
  "create_remember ids inp clock =
     (if ag_IdempotencyKey inp = '''' then returnE None
      else
        bindE (remember (id_tenant ids) (create_method inp) (ag_IdempotencyKey inp) (ag_RequestHash inp)
                 (id_operation ids) (Some (clock + 86400000000))) (\<lambda>rows.
          if rows \<noteq> 0 then returnE None
          else
            bindE (GetIdempotency (id_tenant ids) (create_method inp) (ag_IdempotencyKey inp)) (\<lambda>r.
              if i_payload_hash r \<noteq> ag_RequestHash inp then failE (Sentinel ErrIdempotencyConflict)
              else bindE (GetOperation (id_tenant ids) (i_operation r)) (\<lambda>op. returnE (Some op)))))"

definition create_finish ::
  "uuid_parser \<Rightarrow> (nat \<Rightarrow> uuid) \<Rightarrow> create_ids \<Rightarrow> CreateAggregateInput \<Rightarrow> ManagedCommand option
    \<Rightarrow> (db, CreateAggregateResult) io"
where
  "create_finish uuid_Parse fresh ids inp command =
     bindE (AppendAuditEvent (accepted_audit (id_tenant ids) (fresh 3) (id_service ids) (id_operation ids)
              (create_generation inp) ''create'' (ag_Actor inp) (ag_RequestID inp)
              [(''operation_id'', id_operation ids)])) (\<lambda>_.
     bindE (case (command, ag_ResponseSnapshot inp) of
              (Some mc, Some snapshot) \<Rightarrow>
                persistManagedCommand uuid_Parse mc ''create'' (id_operation ids) ''create_pending'' snapshot
            | _ \<Rightarrow> returnE ()) (\<lambda>_.
       returnE \<lparr>cr_ServiceID = id_service ids, cr_OperationID = id_operation ids, cr_Replayed = False,
         cr_ResponseSnapshot = None\<rparr>))"

definition CreateService ::
  "uuid_parser \<Rightarrow> (nat \<Rightarrow> uuid) \<Rightarrow> time \<Rightarrow> CreateAggregateInput \<Rightarrow> (db, CreateAggregateResult) io"
where
  "CreateService uuid_Parse fresh clock inp =
     bindE (create_identity uuid_Parse fresh inp) (\<lambda>ids.
     transaction (
       bindE (create_managed uuid_Parse ids inp) (\<lambda>(answered, command).
         case answered of
           Some result \<Rightarrow> returnE result
         | None \<Rightarrow>
           bindE (idempotent_operation (ag_TenantID inp) (id_tenant ids) (create_method inp)
                    (ag_IdempotencyKey inp) (ag_RequestHash inp)) (\<lambda>found.
             case found of
               Some op \<Rightarrow> returnE (replayed_create op)
             | None \<Rightarrow>
               bindE (create_rows ids inp) (\<lambda>_.
               bindE (create_remember ids inp clock) (\<lambda>other.
                 case other of
                   Some op \<Rightarrow> returnE (replayed_create op)
                 | None \<Rightarrow> create_finish uuid_Parse fresh ids inp command))))))"


text \<open>\<^verbatim>\<open>inferencebiz.CreateInput\<close>; a nil list of capabilities is \<open>None\<close>.\<close>

record CreateInput =
  cin_RuntimeNamespace :: string
  cin_RuntimeNamespaceUID :: string
  cin_ImageSelection :: "ImageSelection option"
  cin_TenantID :: string
  cin_RequestID :: string
  cin_Actor :: string
  cin_Name :: string
  cin_ModelVersionID :: string
  cin_ArtifactProvider :: string
  cin_ArtifactRef :: string
  cin_ArtifactSHA256 :: string
  cin_ModelCapabilities :: "string list option"
  cin_ImageRef :: string
  cin_ServedModelName :: string
  cin_EngineRuntime :: string
  cin_RuntimeProvider :: string
  cin_EngineCommand :: string
  cin_Resources :: Spec
  cin_GPUSnapshot :: "Snapshot option"
  cin_GPUSnapshotDigest :: string
  cin_Replicas :: "32 word"
  cin_WorkerReplicas :: "32 word"
  cin_RuntimeMode :: string
  cin_Endpoint :: "EndpointSpec option"
  cin_RequestHash :: string
  cin_Managed :: "ManagedCommand option"

definition capabilities_json :: "string list option \<Rightarrow> json" where
  "capabilities_json cs = (case cs of None \<Rightarrow> JNull | Some xs \<Rightarrow> JArray (map JString xs))"

definition runtimeModeEnum :: "string \<Rightarrow> RuntimeMode" where
  "runtimeModeEnum mode =
     (if mode = ''leader_worker_set'' then RUNTIME_MODE_LEADER_WORKER_SET else RUNTIME_MODE_DEPLOYMENT)"

definition runtimeProviderEnum :: "string \<Rightarrow> string" where
  "runtimeProviderEnum provider = or_default provider ''deployment''"

definition createResponse :: "CreateInput \<Rightarrow> string \<Rightarrow> string \<Rightarrow> OperationResponse" where
  "createResponse inp serviceID operationID =
     \<lparr>rsp_Resource = Some (empty_service\<lparr>sm_Id := serviceID, sm_Name := cin_Name inp,
        sm_DesiredState := ''running'', sm_Generation := 1, sm_ModelVersionId := cin_ModelVersionID inp,
        sm_Replicas := cin_Replicas inp, sm_Resource := Some (cin_Resources inp),
        sm_Runtime := Some \<lparr>rm_Mode = runtimeModeEnum (cin_RuntimeMode inp),
          rm_WorkerReplicas = cin_WorkerReplicas inp, rm_Endpoint = cin_Endpoint inp,
          rm_Provider = runtimeProviderEnum (cin_RuntimeProvider inp)\<rparr>,
        sm_ModelArtifact := Some \<lparr>ma_Provider = cin_ArtifactProvider inp, ma_Reference = cin_ArtifactRef inp,
          ma_Sha256 = cin_ArtifactSHA256 inp\<rparr>,
        sm_Engine := Some \<lparr>en_Type = cin_EngineRuntime inp, en_Image = cin_ImageRef inp,
          en_Command = cin_EngineCommand inp,
          en_ImageId = (case cin_ImageSelection inp of None \<Rightarrow> '''' | Some im \<Rightarrow> im_ImageID im),
          en_ImageScope = (case cin_ImageSelection inp of None \<Rightarrow> '''' | Some im \<Rightarrow> im_Scope im)\<rparr>\<rparr>),
      rsp_Operation = Some (empty_operation\<lparr>om_Id := operationID, om_ServiceId := serviceID,
        om_Kind := ''create'', om_Phase := ''pending'', om_Step := ''admission'', om_TargetGeneration := 1\<rparr>),
      rsp_DurableOwnerAck = (if cin_Managed inp = None then None else Some (owner_ack operationID serviceID))\<rparr>"

definition create_snapshot_digest :: "CreateInput \<Rightarrow> string" where
  "create_snapshot_digest inp =
     (case cin_GPUSnapshot inp of
        Some snap \<Rightarrow> or_default (cin_GPUSnapshotDigest inp) (SnapExecutionDigest snap)
      | None \<Rightarrow> cin_GPUSnapshotDigest inp)"

definition aggregate_input ::
  "CreateInput \<Rightarrow> string \<Rightarrow> string \<Rightarrow> string \<Rightarrow> string \<Rightarrow> snapshot_json option \<Rightarrow> CreateAggregateInput"
where
  "aggregate_input inp serviceID specID operationID key snapshot =
     \<lparr>ag_RuntimeNamespace = cin_RuntimeNamespace inp, ag_RuntimeNamespaceUID = cin_RuntimeNamespaceUID inp,
      ag_TenantID = cin_TenantID inp, ag_ServiceID = serviceID, ag_SpecID = specID,
      ag_OperationID = operationID, ag_Name = cin_Name inp, ag_ModelID = '''',
      ag_ModelVersionID = cin_ModelVersionID inp, ag_ArtifactProvider = cin_ArtifactProvider inp,
      ag_ArtifactRef = cin_ArtifactRef inp, ag_ArtifactSHA256 = cin_ArtifactSHA256 inp,
      ag_ImageRef = cin_ImageRef inp, ag_ServedModelName = cin_ServedModelName inp,
      ag_EngineRuntime = cin_EngineRuntime inp, ag_RuntimeProvider = cin_RuntimeProvider inp,
      ag_EngineJSON = Some (marshalEngineSpec (cin_EngineCommand inp)), ag_Resources = Some (cin_Resources inp),
      ag_SpecJSON = Some (JObject ((''model_capabilities'', capabilities_json (cin_ModelCapabilities inp)) #
        (case cin_ImageSelection inp of None \<Rightarrow> [] | Some im \<Rightarrow> [(''image_selection'', image_json im)]))),
      ag_GPURequest = SpecGPU (cin_Resources inp), ag_GPUSnapshot = cin_GPUSnapshot inp,
      ag_GPUSnapshotDigest = create_snapshot_digest inp, ag_Replicas = cin_Replicas inp,
      ag_WorkerReplicas = cin_WorkerReplicas inp, ag_RuntimeMode = cin_RuntimeMode inp,
      ag_RequestHash = cin_RequestHash inp, ag_Method = ''CreateInferenceService'', ag_IdempotencyKey = key,
      ag_QuotaReservationID = '''', ag_Actor = cin_Actor inp, ag_RequestID = cin_RequestID inp,
      ag_Generation = 1, ag_Endpoint = cin_Endpoint inp, ag_Managed = cin_Managed inp,
      ag_ResponseSnapshot = snapshot\<rparr>"

text \<open>\<open>fresh 0\<close>, \<open>fresh 1\<close> and \<open>fresh 2\<close> are the new service, specification and operation identifiers.\<close>

definition CreateUseCase_Create ::
  "uuid_parser \<Rightarrow> (nat \<Rightarrow> uuid) \<Rightarrow> time \<Rightarrow> CreateInput \<Rightarrow> (db, OperationResponse) io"
where
  "CreateUseCase_Create uuid_Parse fresh clock inp =
     bindE (case cin_Managed inp of
              None \<Rightarrow> returnE (fresh 0, fresh 2, cin_RequestID inp, None)
            | Some mc \<Rightarrow>
              bindE (liftE (uuid_Parse (RefundResourceID (mc_Context mc)))) (\<lambda>serviceID.
              bindE (liftE (uuid_Parse (OriginalCreateOperationID (mc_Context mc)))) (\<lambda>operationID.
                returnE (serviceID, operationID, '''',
                  Some (SnapshotResponse (createResponse inp serviceID operationID))))))
       (\<lambda>(serviceID, operationID, key, snapshot).
       bindE (CreateService uuid_Parse fresh clock
                (aggregate_input inp serviceID (fresh 1) operationID key snapshot)) (\<lambda>result.
         case cr_ResponseSnapshot result of
           Some raw \<Rightarrow> liftE (decodeManagedResponse raw)
         | None \<Rightarrow> returnE (createResponse inp (cr_ServiceID result) (cr_OperationID result))))"

definition CreateUseCase_PrepareCreate :: "uuid_parser \<Rightarrow> CreateInput \<Rightarrow> (db, OperationResponse option) io" where
  "CreateUseCase_PrepareCreate uuid_Parse inp = Repository_PrepareCreate uuid_Parse (cin_Managed inp)"

section \<open>Start, stop, restart and delete\<close>

record CommandInput =
  cmd_TenantID :: string
  cmd_RequestID :: string
  cmd_Actor :: string
  cmd_ServiceID :: string
  cmd_Kind :: string
  cmd_RequestHash :: string
  cmd_ExpectedGeneration :: int
  cmd_Managed :: "ManagedCommand option"

definition invalid_state :: "string \<Rightarrow> error" where
  "invalid_state message = Wrapf '''' (Sentinel ErrInvalidState) ('': '' @ message)"

definition validCommandState :: "string \<Rightarrow> string \<Rightarrow> error option" where
  "validCommandState kind state =
     (if kind = ''start'' then
        if state \<noteq> ''stopped'' then Some (invalid_state ''start requires stopped state'') else None
      else if kind = ''stop'' then
        if state \<noteq> ''running'' then Some (invalid_state ''stop requires running state'') else None
      else if kind = ''restart'' then
        if state \<noteq> ''running'' \<and> state \<noteq> ''stopped''
        then Some (invalid_state ''restart requires running or stopped state'') else None
      else if kind = ''delete'' then
        if state = ''deleted'' then Some (invalid_state ''service already deleted'') else None
      else None)"

text \<open>
  The operation that an idempotency key was used for. A delete accepted before the request lost its
  expected generation is recognised by the digest that it had then; \<open>legacyMarshal\<close> is the deterministic
  protobuf encoding of a request identifier, a resource identifier and an expected generation.
\<close>

definition legacy_delete ::
  "(string \<Rightarrow> string \<Rightarrow> int \<Rightarrow> string result) \<Rightarrow> CommandInput \<Rightarrow> InferenceOperation \<Rightarrow> string \<Rightarrow> bool"
where
  "legacy_delete legacyMarshal inp op stored \<longleftrightarrow>
     cmd_Kind inp = ''delete'' \<and> o_kind op = KindDelete \<and> 2 \<le> o_target_generation op
     \<and> (case legacyMarshal (cmd_RequestID inp) (cmd_ServiceID inp) (o_target_generation op - 1) of
          Inl err \<Rightarrow> False
        | Inr encoded \<Rightarrow> stored = RequestHash (''delete'' @ [CHR 0x00] @ cmd_Actor inp @ [CHR 0x00] @ encoded))"

definition command_method :: "CommandInput \<Rightarrow> string" where
  "command_method inp = ''InferenceService/'' @ cmd_Kind inp"

definition command_replay ::
  "(string \<Rightarrow> string \<Rightarrow> int \<Rightarrow> string result) \<Rightarrow> uuid \<Rightarrow> CommandInput \<Rightarrow> (db, OperationResponse option) io"
where
  "command_replay legacyMarshal tenant inp =
     (if cmd_RequestID inp = '''' then returnE None
      else
        bindE (LockIdempotency (cmd_TenantID inp) (command_method inp) (cmd_RequestID inp)) (\<lambda>_.
        bindE (tryE (GetIdempotency tenant (command_method inp) (cmd_RequestID inp))) (\<lambda>existing.
          case existing of
            Inr r \<Rightarrow>
              bindE (GetOperation tenant (i_operation r)) (\<lambda>op.
                if i_payload_hash r \<noteq> cmd_RequestHash inp
                   \<and> \<not> legacy_delete legacyMarshal inp op (i_payload_hash r)
                then failE (Sentinel ErrIdempotencyConflict)
                else returnE (Some (commandResponseFromRow op)))
          | Inl err \<Rightarrow> if errors_Is err ErrNoRows then returnE None else failE err)))"

definition starts_runtime :: "string \<Rightarrow> bool" where
  "starts_runtime kind \<longleftrightarrow> kind = ''start'' \<or> kind = ''restart''"

definition command_step :: "string \<Rightarrow> OperationStep" where
  "command_step kind = (if kind = ''start'' then StepReserveQuota else StepWithdrawPublication)"

definition command_state :: "string \<Rightarrow> string \<Rightarrow> string" where
  "command_state kind current =
     (if starts_runtime kind then ''running'' else if kind = ''stop'' then ''stopped''
      else if kind = ''delete'' then ''deleted'' else current)"

definition missing_specification :: error where
  "missing_specification = invalid_state ''missing current specification''"

text \<open>The specification of the next generation: a clone of the current one, except for a delete.\<close>

definition command_specification ::
  "uuid \<Rightarrow> uuid \<Rightarrow> uuid \<Rightarrow> string \<Rightarrow> int \<Rightarrow> (db, Spec) io"
where
  "command_specification tenant service specID kind generation =
     bindE (if starts_runtime kind
            then bindE (GetSpec tenant service generation) (\<lambda>sp. returnE (sp_resources sp))
            else returnE empty_spec) (\<lambda>requested.
     bindE (if kind \<noteq> ''delete''
            then one_row missing_specification
                   (CloneSpecGeneration specID (generation + 1) tenant service generation)
            else returnE ()) (\<lambda>_.
       returnE requested))"

text \<open>What follows the new operation: the lease of a cancelled one, the reservation, the work, the key and the event.\<close>

definition command_followup ::
  "uuid \<Rightarrow> uuid \<Rightarrow> uuid \<Rightarrow> uuid \<Rightarrow> int \<Rightarrow> nat \<Rightarrow> bool \<Rightarrow> Spec \<Rightarrow> CommandInput \<Rightarrow> string \<Rightarrow> (db, unit) io"
where
  "command_followup tenant service opID eventID target cancelled is_managed requested inp state =
     (let kind = cmd_Kind inp in
      bindE (if 0 < cancelled then ReleaseResourceWorkLease tenant service else returnE 0) (\<lambda>_.
      bindE (if \<not> is_managed \<and> starts_runtime kind
             then InsertQuotaReservation tenant service opID target (''pending-'' @ opID) requested
             else returnE 0) (\<lambda>_.
      bindE (UpsertResourceWork tenant service target) (\<lambda>_.
      bindE (if cmd_RequestID inp \<noteq> ''''
             then remember tenant (command_method inp) (cmd_RequestID inp) (cmd_RequestHash inp) opID None
             else returnE 0) (\<lambda>_.
        AppendAuditEvent (accepted_audit tenant eventID service opID target kind (cmd_Actor inp)
          (cmd_RequestID inp) [(''desired_state'', state), (''kind'', kind)]))))))"

text \<open>The writes of an accepted command on the service \<open>current\<close>.\<close>

definition command_rows ::
  "uuid \<Rightarrow> uuid \<Rightarrow> (nat \<Rightarrow> uuid) \<Rightarrow> bool \<Rightarrow> CommandInput \<Rightarrow> InferenceService \<Rightarrow> (db, OperationResponse) io"
where
  "command_rows tenant service fresh is_managed inp current =
     (let kind = cmd_Kind inp; opID = fresh 0; generation = s_desired_generation current;
          target = generation + 1; state = command_state kind (s_desired_state current);
          step = command_step kind in
      bindE (if kind = ''delete'' then CancelActiveOperation tenant service else returnE 0) (\<lambda>cancelled.
      bindE (command_specification tenant service (fresh 1) kind generation) (\<lambda>requested.
      bindE (one_row (Sentinel ErrGenerationConflict)
               (TransitionService state target opID tenant service generation)) (\<lambda>_.
      bindE (insert_active tenant opID service (kind_of kind) step target (cmd_RequestHash inp)) (\<lambda>_.
      bindE (command_followup tenant service opID (fresh 2) target cancelled is_managed requested inp state) (\<lambda>_.
        returnE (commandResponse service opID target kind step)))))))"

definition command_accept ::
  "uuid \<Rightarrow> uuid \<Rightarrow> (nat \<Rightarrow> uuid) \<Rightarrow> CommandInput \<Rightarrow> (db, OperationResponse) io"
where
  "command_accept tenant service fresh inp =
     bindE (tryE (GetServiceForUpdate tenant service)) (\<lambda>found.
       case found of
         Inl err \<Rightarrow> if errors_Is err ErrNoRows then failE (Sentinel ErrNotFound) else failE err
       | Inr current \<Rightarrow>
         if cmd_Kind inp \<noteq> ''delete'' \<and> s_desired_generation current \<noteq> cmd_ExpectedGeneration inp
            \<or> s_deleted_at current \<noteq> None
         then failE (Sentinel ErrGenerationConflict)
         else
           bindE (GetManagedGPUState tenant service) (\<lambda>(is_managed, closing).
             if is_managed \<and> cmd_Kind inp = ''delete''
             then failE (invalid_state ''managed DELETE requires a trusted Governance attachment'')
             else if closing \<and> starts_runtime (cmd_Kind inp)
             then failE (invalid_state ''managed resource has a closing intent'')
             else
               bindE (checkE (validCommandState (cmd_Kind inp) (s_desired_state current))) (\<lambda>_.
                 command_rows tenant service fresh is_managed inp current)))"

text \<open>A managed DELETE of a resource without a service: whether execution can be excluded decides its close.\<close>

definition close_unknown ::
  "uuid_parser \<Rightarrow> string \<Rightarrow> CommandInput \<Rightarrow> RefundContext \<Rightarrow> ManagedCommand \<Rightarrow> (db, OperationResponse) io"
where
  "close_unknown uuid_Parse sealedAt inp original command =
     (let tenant = pgUUIDMust uuid_Parse (RefundTenantID original);
          resource = pgUUIDMust uuid_Parse (RefundResourceID original);
          operation = pgUUIDMust uuid_Parse (DeleteOperationID original);
          response = managedIntentResponse original (DeleteOperationID original) ''delete'' ''closing_intent'' in
      bindE (ManagedExecutionFacts tenant resource) (\<lambda>unknown.
        let (state, reason) =
              (if unknown \<noteq> Some False
               then (''unknown_execution'', ''prior accepted execution cannot be excluded'')
               else if managedClass command = ''cpu'' then (''complete'', '''') else (''pending'', '''')) in
        bindE (persistManagedCommand uuid_Parse command ''delete'' (DeleteOperationID original) ''closing_intent''
                 (SnapshotResponse response)) (\<lambda>_.
        bindE (SetManagedCloseState tenant operation (cmd_Actor inp) state reason) (\<lambda>_.
        bindE (if unknown = Some False \<and> managedClass command = ''gpu''
               then bindE (liftE (encodeManagedGPUReleaseScope sealedAt [])) (\<lambda>scope.
                      UpsertManagedGPUReleaseScope tenant resource operation scope)
               else returnE ()) (\<lambda>_.
          returnE response)))))"

definition delete_followup ::
  "uuid_parser \<Rightarrow> uuid \<Rightarrow> uuid \<Rightarrow> uuid \<Rightarrow> uuid \<Rightarrow> int \<Rightarrow> nat \<Rightarrow> CommandInput \<Rightarrow> RefundContext \<Rightarrow> ManagedCommand
    \<Rightarrow> OperationResponse \<Rightarrow> (db, unit) io"
where
  "delete_followup uuid_Parse tenant service operation eventID target cancelled inp original command response =
     bindE (if 0 < cancelled then ReleaseResourceWorkLease tenant service else returnE 0) (\<lambda>_.
     bindE (UpsertResourceWork tenant service target) (\<lambda>_.
     bindE (AppendAuditEvent (accepted_audit tenant eventID service operation target ''delete''
              (cmd_Actor inp) (cmd_RequestID inp) [(''desired_state'', ''deleted''), (''kind'', ''delete'')])) (\<lambda>_.
       persistManagedCommand uuid_Parse command ''delete'' (DeleteOperationID original)
         ''closing_intent'' (SnapshotResponse response))))"

definition delete_managed ::
  "uuid_parser \<Rightarrow> (nat \<Rightarrow> uuid) \<Rightarrow> CommandInput \<Rightarrow> RefundContext \<Rightarrow> ManagedCommand \<Rightarrow> InferenceService
    \<Rightarrow> (db, OperationResponse) io"
where
  "delete_managed uuid_Parse fresh inp original command current =
     (let tenant = s_tenant current; service = s_id current; generation = s_desired_generation current;
          target = generation + 1; operation = pgUUIDMust uuid_Parse (DeleteOperationID original);
          response = (commandResponse service (DeleteOperationID original) target ''delete''
              StepWithdrawPublication)\<lparr>rsp_DurableOwnerAck :=
                Some (owner_ack (DeleteOperationID original) (RefundResourceID original))\<rparr> in
      if s_deleted_at current \<noteq> None \<or> s_desired_state current = ''deleted''
      then failE (invalid_state ''managed resource is already deleted'')
      else
        bindE (CancelActiveOperation tenant service) (\<lambda>cancelled.
        bindE (one_row (Sentinel ErrGenerationConflict)
                 (TransitionService ''deleted'' target operation tenant service generation)) (\<lambda>_.
        bindE (insert_active tenant operation service KindDelete StepWithdrawPublication target
                 (cmd_RequestHash inp)) (\<lambda>_.
        bindE (delete_followup uuid_Parse tenant service operation (fresh 2) target cancelled inp original
                 command response) (\<lambda>_.
          returnE response)))))"

text \<open>\<open>sealedAt\<close> is the text of the clock reading that seals the scope of a resource without a service.\<close>

definition acceptManagedDelete ::
  "uuid_parser \<Rightarrow> (nat \<Rightarrow> uuid) \<Rightarrow> string \<Rightarrow> CommandInput \<Rightarrow> ManagedCommand \<Rightarrow> (db, OperationResponse) io"
where
  "acceptManagedDelete uuid_Parse fresh sealedAt inp mc =
     (let original = mc_Context mc in
      if cmd_Kind inp \<noteq> ''delete'' \<or> RefundTenantID original \<noteq> cmd_TenantID inp
         \<or> RefundResourceID original \<noteq> cmd_ServiceID inp \<or> DeleteOperationID original = ''''
      then failE (Sentinel ErrInvalidState)
      else transaction (
        bindE (prepareManagedCommand uuid_Parse mc ''delete'' (DeleteOperationID original)) (\<lambda>(accepted, command).
          case replayed accepted of
            Some raw \<Rightarrow> liftE (decodeManagedResponse raw)
          | None \<Rightarrow>
            bindE (tryE (GetServiceForUpdate (pgUUIDMust uuid_Parse (RefundTenantID original))
                     (pgUUIDMust uuid_Parse (RefundResourceID original)))) (\<lambda>service.
              case service of
                Inl err \<Rightarrow>
                  if errors_Is err ErrNoRows then close_unknown uuid_Parse sealedAt inp original command
                  else failE err
              | Inr current \<Rightarrow> delete_managed uuid_Parse fresh inp original command current))))"

definition CommandUseCase_Command ::
  "uuid_parser \<Rightarrow> (string \<Rightarrow> string \<Rightarrow> int \<Rightarrow> string result) \<Rightarrow> (nat \<Rightarrow> uuid) \<Rightarrow> string \<Rightarrow> CommandInput
    \<Rightarrow> (db, OperationResponse) io"
where
  "CommandUseCase_Command uuid_Parse legacyMarshal fresh sealedAt inp =
     (case cmd_Managed inp of
        Some mc \<Rightarrow> acceptManagedDelete uuid_Parse fresh sealedAt inp mc
      | None \<Rightarrow>
        bindE (liftE (requireUUID uuid_Parse ''tenant_id'' (cmd_TenantID inp))) (\<lambda>tenant.
        bindE (liftE (requireUUID uuid_Parse ''service_id'' (cmd_ServiceID inp))) (\<lambda>service.
          if cmd_Kind inp \<noteq> ''delete'' \<and> cmd_ExpectedGeneration inp < 1
          then failE (Sentinel ErrGenerationConflict)
          else if cmd_Kind inp \<notin> {''start'', ''stop'', ''restart'', ''delete''}
          then failE (invalid_state (cmd_Kind inp))
          else transaction (
            bindE (command_replay legacyMarshal tenant inp) (\<lambda>found.
              case found of
                Some response \<Rightarrow> returnE response
              | None \<Rightarrow> command_accept tenant service fresh inp)))))"


section \<open>Update\<close>

record UpdateInput =
  ui_ImageSelection :: "ImageSelection option"
  ui_TenantID :: string
  ui_RequestID :: string
  ui_Actor :: string
  ui_ServiceID :: string
  ui_RequestHash :: string
  ui_ExpectedGeneration :: int
  ui_UpdateMask :: "string list"
  ui_ModelVersionID :: string
  ui_ArtifactProvider :: string
  ui_ArtifactRef :: string
  ui_ArtifactSHA256 :: string
  ui_ModelCapabilities :: "string list option"
  ui_ImageRef :: string
  ui_ServedModelName :: string
  ui_EngineRuntime :: string
  ui_RuntimeProvider :: string
  ui_EngineCommand :: string
  ui_ManagedOperationID :: string
  ui_Resources :: Spec
  ui_GPUSnapshot :: "Snapshot option"
  ui_GPUSnapshotDigest :: string
  ui_Replicas :: "32 word"
  ui_WorkerReplicas :: "32 word"
  ui_RuntimeMode :: string
  ui_Endpoint :: "EndpointSpec option"

definition update_method :: string where
  "update_method = ''InferenceService/update''"

definition updateResponseFromOperation :: "InferenceOperation \<Rightarrow> OperationResponse" where
  "updateResponseFromOperation op =
     (case o_result_snapshot op of
        Some (SnapshotResponse response) \<Rightarrow>
          if response_operation_id response = o_id op \<and> response_resource_id response = o_service op
          then response else commandResponseFromRow op
      | _ \<Rightarrow> commandResponseFromRow op)"

definition managedUpdateResponseFromOperation :: "InferenceOperation \<Rightarrow> OperationResponse" where
  "managedUpdateResponseFromOperation op =
     (updateResponseFromOperation op)\<lparr>rsp_DurableOwnerAck := Some (owner_ack (o_id op) (o_service op))\<rparr>"

definition managedUpdateResponse :: "string \<Rightarrow> string \<Rightarrow> int \<Rightarrow> bool \<Rightarrow> OperationResponse" where
  "managedUpdateResponse serviceID operationID generation is_managed =
     (let response = commandResponse serviceID operationID generation ''update'' StepWithdrawPublication in
      if is_managed then response\<lparr>rsp_DurableOwnerAck := Some (owner_ack operationID serviceID)\<rparr> else response)"

definition endpointInputFromSpec :: "InferenceSpec \<Rightarrow> EndpointSpec option" where
  "endpointInputFromSpec sp =
     (if sp_endpoint_container_port sp = None \<and> sp_endpoint_service_port sp = None
         \<and> sp_endpoint_target_port sp = None \<and> sp_endpoint_protocol sp = None then None
      else Some \<lparr>ep_ContainerPort = option_or (sp_endpoint_container_port sp) 0,
                 ep_ServicePort = option_or (sp_endpoint_service_port sp) 0,
                 ep_TargetPort = option_or (sp_endpoint_target_port sp) '''',
                 ep_Protocol = option_or (sp_endpoint_protocol sp) ''''\<rparr>)"

text \<open>The answer to an update whose managed operation or idempotency key was accepted before.\<close>

definition update_replay ::
  "uuid \<Rightarrow> uuid \<Rightarrow> UpdateInput \<Rightarrow> (db, OperationResponse option) io"
where
  "update_replay tenant opID inp =
     bindE (if ui_ManagedOperationID inp = '''' then returnE None
            else
              bindE (LockManagedGPUKey (ui_TenantID inp @ '':command:'' @ ui_ManagedOperationID inp)) (\<lambda>_.
              bindE (tryE (GetOperation tenant opID)) (\<lambda>existing.
                case existing of
                  Inr op \<Rightarrow>
                    if o_request_hash op \<noteq> ui_RequestHash inp then failE (Sentinel ErrIdempotencyConflict)
                    else returnE (Some (managedUpdateResponseFromOperation op))
                | Inl err \<Rightarrow> if errors_Is err ErrNoRows then returnE None else failE err))) (\<lambda>found.
       case found of
         Some response \<Rightarrow> returnE (Some response)
       | None \<Rightarrow>
         bindE (idempotent_operation (ui_TenantID inp) tenant update_method (ui_RequestID inp) (ui_RequestHash inp))
           (\<lambda>existing.
             returnE (map_option (\<lambda>op.
               if ui_ManagedOperationID inp = '''' then updateResponseFromOperation op
               else managedUpdateResponseFromOperation op) existing)))"

definition known_mask :: "string list \<Rightarrow> bool" where
  "known_mask paths \<longleftrightarrow> distinct paths \<and> set paths \<subseteq> {''model_version_id'', ''served_model_name'', ''engine''}"

definition mask_complete :: "UpdateInput \<Rightarrow> bool" where
  "mask_complete inp \<longleftrightarrow>
     (let selected = set (ui_UpdateMask inp) in
      \<not> (''model_version_id'' \<in> selected \<and> ui_ModelVersionID inp = ''''
         \<or> ''served_model_name'' \<in> selected \<and> ui_ServedModelName inp = ''''
         \<or> ''engine'' \<in> selected
           \<and> (ui_EngineCommand inp = '''' \<or> ui_ImageRef inp = '''' \<or> ui_EngineRuntime inp = '''')))"

text \<open>Fields outside the mask are dropped from the request.\<close>

definition masked :: "UpdateInput \<Rightarrow> UpdateInput" where
  "masked inp =
     (let selected = set (ui_UpdateMask inp);
          inp = (if ''model_version_id'' \<in> selected then inp
                 else inp\<lparr>ui_ModelVersionID := '''', ui_ArtifactProvider := '''', ui_ArtifactRef := '''',
                          ui_ArtifactSHA256 := '''', ui_ModelCapabilities := None\<rparr>);
          inp = (if ''served_model_name'' \<in> selected then inp else inp\<lparr>ui_ServedModelName := ''''\<rparr>) in
      if ''engine'' \<in> selected then inp
      else inp\<lparr>ui_ImageRef := '''', ui_EngineRuntime := '''', ui_EngineCommand := ''''\<rparr>)"

text \<open>
  What the new generation takes: a masked update inherits resources, replicas, mode, provider, endpoint
  and GPU plan from the frozen specification, a full one from the request.
\<close>

definition snapshot_digest :: "UpdateInput \<Rightarrow> string" where
  "snapshot_digest inp =
     (case ui_GPUSnapshot inp of
        Some snap \<Rightarrow> or_default (ui_GPUSnapshotDigest inp) (SnapExecutionDigest snap)
      | None \<Rightarrow> ui_GPUSnapshotDigest inp)"

definition spec_overlay :: "UpdateInput \<Rightarrow> (string \<times> json) list" where
  "spec_overlay inp =
     (if ui_ModelVersionID inp \<noteq> ''''
      then [(''model_capabilities'', capabilities_json (ui_ModelCapabilities inp))] else [])
     @ (case ui_ImageSelection inp of
          Some im \<Rightarrow> [(''image_selection'', image_json im)]
        | None \<Rightarrow> if ui_ImageRef inp \<noteq> '''' then [(''image_selection'', JNull)] else [])"

definition update_spec ::
  "uuid \<Rightarrow> int \<Rightarrow> uuid option \<Rightarrow> UpdateInput \<Rightarrow> InferenceSpec option \<Rightarrow> SpecUpdate"
where
  "update_spec specID target version inp frozen =
     (let base = \<lparr>su_ID = specID, su_TargetGeneration = target, su_ModelVersionID = version,
         su_ArtifactProvider = ui_ArtifactProvider inp, su_ArtifactRef = ui_ArtifactRef inp,
         su_ArtifactSha256 = ui_ArtifactSHA256 inp, su_ImageRef = ui_ImageRef inp,
         su_ServedModelName = ui_ServedModelName inp, su_EngineRuntime = ui_EngineRuntime inp,
         su_CommandArgv = (if ui_EngineCommand inp = '''' then None
                           else Some (marshalEngineSpec (ui_EngineCommand inp))),
         su_Resources = ui_Resources inp, su_Replicas = ui_Replicas inp,
         su_RuntimeMode = or_default (ui_RuntimeMode inp) ''deployment'',
         su_WorkerReplicas = (if sint (ui_WorkerReplicas inp) < 1 then 1 else ui_WorkerReplicas inp),
         su_RuntimeProvider = ui_RuntimeProvider inp,
         su_ModelCapabilities = (if spec_overlay inp = [] then None else Some (JObject (spec_overlay inp))),
         su_Endpoint = ui_Endpoint inp, su_GpuRequest = SpecGPU (ui_Resources inp),
         su_GpuPlan = ui_GPUSnapshot inp,
         su_GpuPlanDigest = (if snapshot_digest inp = '''' then None else Some (snapshot_digest inp))\<rparr> in
      case frozen of
        None \<Rightarrow> base
      | Some sp \<Rightarrow> base\<lparr>su_Resources := sp_resources sp, su_Replicas := sp_replicas sp,
          su_RuntimeMode := or_default (sp_runtime_mode sp) ''deployment'',
          su_WorkerReplicas := (if sint (sp_worker_replicas sp) < 1 then 1 else sp_worker_replicas sp),
          su_RuntimeProvider := sp_runtime_provider sp, su_Endpoint := endpointInputFromSpec sp,
          su_GpuRequest := sp_gpu_request sp, su_GpuPlan := sp_gpu_plan sp,
          su_GpuPlanDigest := (if option_or (sp_gpu_plan_digest sp) '''' = '''' then None else sp_gpu_plan_digest sp)\<rparr>)"

definition update_followup ::
  "uuid \<Rightarrow> uuid \<Rightarrow> uuid \<Rightarrow> uuid \<Rightarrow> int \<Rightarrow> bool \<Rightarrow> Spec \<Rightarrow> UpdateInput \<Rightarrow> string \<Rightarrow> (db, unit) io"
where
  "update_followup tenant service opID eventID target is_managed requested inp state =
     bindE (if \<not> is_managed
            then InsertQuotaReservation tenant service opID target (''pending-'' @ opID) requested
            else returnE 0) (\<lambda>_.
     bindE (UpsertResourceWork tenant service target) (\<lambda>_.
     bindE (if ui_RequestID inp \<noteq> ''''
            then remember tenant update_method (ui_RequestID inp) (ui_RequestHash inp) opID None
            else returnE 0) (\<lambda>_.
       AppendAuditEvent (accepted_audit tenant eventID service opID target ''update'' (ui_Actor inp)
         (ui_RequestID inp) [(''desired_state'', state), (''kind'', ''update'')]))))"

text \<open>The writes of an accepted update; \<open>fresh 1\<close> and \<open>fresh 2\<close> identify the specification and the event.\<close>

definition update_rows ::
  "uuid \<Rightarrow> uuid \<Rightarrow> uuid \<Rightarrow> (nat \<Rightarrow> uuid) \<Rightarrow> bool \<Rightarrow> UpdateInput \<Rightarrow> InferenceService \<Rightarrow> SpecUpdate
    \<Rightarrow> (db, OperationResponse) io"
where
  "update_rows tenant service opID fresh is_managed inp current su =
     (let generation = s_desired_generation current; target = generation + 1;
          response = managedUpdateResponse service opID target (ui_ManagedOperationID inp \<noteq> '''') in
      bindE (one_row missing_specification (CloneSpecWithRuntimeUpdate su tenant service generation)) (\<lambda>_.
      bindE (one_row (Sentinel ErrGenerationConflict)
               (TransitionService (s_desired_state current) target opID tenant service generation)) (\<lambda>_.
      bindE (insert_active tenant opID service KindUpdate StepWithdrawPublication target (ui_RequestHash inp)) (\<lambda>_.
      bindE (update_followup tenant service opID (fresh 2) target is_managed (su_Resources su) inp
               (s_desired_state current)) (\<lambda>_.
      bindE (one_row (Sentinel ErrGenerationConflict)
               (SaveOperationAcceptanceResponse (SnapshotResponse response) tenant opID)) (\<lambda>_.
        returnE response))))))"

definition update_accept ::
  "uuid \<Rightarrow> uuid \<Rightarrow> uuid \<Rightarrow> uuid option \<Rightarrow> (nat \<Rightarrow> uuid) \<Rightarrow> UpdateInput \<Rightarrow> InferenceService
    \<Rightarrow> InferenceManagedGpuResource option \<Rightarrow> (db, OperationResponse) io"
where
  "update_accept tenant service opID version fresh inp current managedRow =
     (let is_managed = (managedRow \<noteq> None); target = s_desired_generation current + 1;
          closing = (case managedRow of None \<Rightarrow> False | Some g \<Rightarrow> g_closing g) in
      if ui_ManagedOperationID inp \<noteq> '''' \<and> \<not> is_managed
      then failE (invalid_state ''managed GPU resource is missing'')
      else if closing then failE (invalid_state ''managed resource has a closing intent'')
      else if ui_UpdateMask inp \<noteq> [] then
        if \<not> known_mask (ui_UpdateMask inp) \<or> \<not> mask_complete inp then failE (Sentinel ErrInvalidState)
        else
          bindE (GetSpec tenant service (s_desired_generation current)) (\<lambda>sp.
            update_rows tenant service opID fresh is_managed inp current
              (update_spec (fresh 1) target
                 (if ''model_version_id'' \<in> set (ui_UpdateMask inp) then version else None)
                 (masked inp) (Some sp)))
      else if is_managed then failE (invalid_state ''managed update_mask is required'')
      else update_rows tenant service opID fresh is_managed inp current
             (update_spec (fresh 1) target version inp None))"

definition update_current ::
  "uuid \<Rightarrow> uuid \<Rightarrow> uuid \<Rightarrow> uuid option \<Rightarrow> (nat \<Rightarrow> uuid) \<Rightarrow> UpdateInput \<Rightarrow> (db, OperationResponse) io"
where
  "update_current tenant service opID version fresh inp =
     bindE (LockManagedGPUKey (ui_TenantID inp @ '':'' @ ui_ServiceID inp)) (\<lambda>_.
     bindE (tryE (GetServiceForUpdate tenant service)) (\<lambda>found.
       case found of
         Inl err \<Rightarrow> if errors_Is err ErrNoRows then failE (Sentinel ErrNotFound) else failE err
       | Inr current \<Rightarrow>
         if s_desired_generation current \<noteq> ui_ExpectedGeneration inp \<or> s_deleted_at current \<noteq> None
         then failE (Sentinel ErrGenerationConflict)
         else if s_desired_state current \<noteq> ''running'' then failE (Sentinel ErrInvalidState)
         else
           bindE (tryE (GetManagedGPUResource tenant service)) (\<lambda>resource.
             case resource of
               Inl err \<Rightarrow>
                 if errors_Is err ErrNoRows
                 then update_accept tenant service opID version fresh inp current None
                 else failE err
             | Inr g \<Rightarrow> update_accept tenant service opID version fresh inp current (Some g))))"

definition UpdateUseCase_Update ::
  "uuid_parser \<Rightarrow> (nat \<Rightarrow> uuid) \<Rightarrow> UpdateInput \<Rightarrow> (db, OperationResponse) io"
where
  "UpdateUseCase_Update uuid_Parse fresh inp =
     bindE (liftE (requireUUID uuid_Parse ''tenant_id'' (ui_TenantID inp))) (\<lambda>tenant.
     bindE (liftE (requireUUID uuid_Parse ''service_id'' (ui_ServiceID inp))) (\<lambda>service.
     bindE (liftE (parseUUID uuid_Parse ''model_version_id'' (ui_ModelVersionID inp) True)) (\<lambda>version.
       if ui_ExpectedGeneration inp < 1 then failE (Sentinel ErrGenerationConflict)
       else
         bindE (if ui_ManagedOperationID inp = '''' then returnE (fresh 0)
                else liftE (requireUUID uuid_Parse ''managed_gpu_operation_id'' (ui_ManagedOperationID inp))) (\<lambda>opID.
         transaction (
           bindE (update_replay tenant opID inp) (\<lambda>replay.
             case replay of
               Some response \<Rightarrow> returnE response
             | None \<Rightarrow> update_current tenant service opID version fresh inp))))))"

definition UpdateUseCase_PrepareUpdate ::
  "uuid_parser \<Rightarrow> UpdateInput \<Rightarrow> (db, OperationResponse option) io"
where
  "UpdateUseCase_PrepareUpdate uuid_Parse inp =
     bindE (liftE (requireUUID uuid_Parse ''tenant_id'' (ui_TenantID inp))) (\<lambda>tenant.
       if ui_ManagedOperationID inp \<noteq> '''' then
         bindE (liftE (requireUUID uuid_Parse ''operation_id'' (ui_ManagedOperationID inp))) (\<lambda>i.
         bindE (tryE (GetOperation tenant i)) (\<lambda>existing.
           case existing of
             Inr op \<Rightarrow>
               if o_request_hash op \<noteq> ui_RequestHash inp then failE (Sentinel ErrIdempotencyConflict)
               else returnE (Some (managedUpdateResponseFromOperation op))
           | Inl err \<Rightarrow> if errors_Is err ErrNoRows then returnE None else failE err))
       else if ui_RequestID inp \<noteq> '''' then
         bindE (tryE (GetIdempotency tenant update_method (ui_RequestID inp))) (\<lambda>existing.
           case existing of
             Inr r \<Rightarrow>
               if i_payload_hash r \<noteq> ui_RequestHash inp then failE (Sentinel ErrIdempotencyConflict)
               else bindE (GetOperation tenant (i_operation r)) (\<lambda>op. returnE (Some (updateResponseFromOperation op)))
           | Inl err \<Rightarrow> if errors_Is err ErrNoRows then returnE None else failE err)
       else returnE None)"

end
