(* ===== verification/Aggregate.thy ===== *)
theory Aggregate
  imports Commands
begin

text \<open>
  Services and their operations under every write of the control plane: the commands, the steps of the
  runner, the saves of providers and reconcilers, and the work store.
\<close>

section \<open>The part of the database that the aggregate is\<close>

definition service_facts :: "InferenceService \<Rightarrow> (uuid \<times> uuid) \<times> uuid option \<times> int" where
  "service_facts s = (s_key s, s_current_operation s, s_desired_generation s)"

definition core :: "db \<Rightarrow> ((uuid \<times> uuid) \<times> uuid option \<times> int) list \<times> InferenceOperation list" where
  "core d = (map service_facts (services d), operations d)"

lemma core_updates [simp]:
  "core (d\<lparr>works := ws\<rparr>) = core d" "core (d\<lparr>specs := sp\<rparr>) = core d" "core (d\<lparr>runtimes := rt\<rparr>) = core d"
  "core (d\<lparr>quotas := q\<rparr>) = core d" "core (d\<lparr>publications := p\<rparr>) = core d" "core (d\<lparr>bindings := b\<rparr>) = core d"
  "core (d\<lparr>audits := a\<rparr>) = core d" "core (d\<lparr>observations := oe\<rparr>) = core d"
  "core (d\<lparr>idempotency := i\<rparr>) = core d" "core (d\<lparr>managed := g\<rparr>) = core d" "core (d\<lparr>scopes := r\<rparr>) = core d"
  "core (d\<lparr>commands := c\<rparr>) = core d" "core (d\<lparr>placements := n\<rparr>) = core d" "core (d\<lparr>now := t\<rparr>) = core d"
  by (simp_all add: core_def)

lemma map_facts_update:
  "(\<And>s. service_facts (f s) = service_facts s) \<Longrightarrow> map service_facts (update_where p f ss) = map service_facts ss"
  by (simp add: update_where_def)

lemma core_provider_writes [keeps_intros]:
  "keeps core (UpdateQuotaReservationFenced rid req st code t o' n f l)"
  "keeps core (UpsertPublicationFenced t i n des obs url code f l)"
  "keeps core (UpdateObservationForWork upd n t i l)"
  "keeps core (UpdateObservationCAS upd n t i)"
  "keeps core (DeleteRuntimeBindingCAS t i n k rl u v)"
  "keeps core (sql_UpsertRuntimeBindingCAS b u v)"
  "keeps core (AppendObservationEvent e)"
  "keeps core (AppendAuditEvent a)"
  "keeps core (SaveGPUPlanCAS plan dig t i n o' l)"
  "keeps core (UpsertManagedGPUReleaseScope t i o' sc)"
  by (rule keeps_fun, simp add: UpdateQuotaReservationFenced_def UpsertPublicationFenced_def
      UpdateObservationForWork_def UpdateObservationCAS_def DeleteRuntimeBindingCAS_def
      sql_UpsertRuntimeBindingCAS_def AppendObservationEvent_def AppendAuditEvent_def SaveGPUPlanCAS_def
      UpsertManagedGPUReleaseScope_def write_quotas_def write_runtimes_def write_bindings_def Let_def io_simps
      split: option.split)+

lemma core_service_marks [keeps_intros]:
  "keeps core (MarkServiceAppliedGeneration n t i)" "keeps core (MarkServiceDeleted t i o' n)"
  by (rule keeps_fun, simp add: MarkServiceAppliedGeneration_def MarkServiceDeleted_def write_services_def core_def
      map_facts_update service_facts_def s_key_def Let_def split: option.split)+

lemma core_work [keeps_intros]:
  "keeps core (ClaimResourceWork locked owner token lease t)"
  "keeps core (CommitResourceWork cv nx a b c e)"
  "keeps core (RetryResourceWork r1 r2 r3 r4 r5 r6)"
  "keeps core (ReleaseResourceWorkLease t i)"
  "keeps core (UpsertResourceWork t i n)"
  "keeps core (EnsureResourceWork t i n)"
  by (rule keeps_fun, simp add: ClaimResourceWork_def CommitResourceWork_def RetryResourceWork_def
      ReleaseResourceWorkLease_def UpsertResourceWork_def EnsureResourceWork_def Let_def split: option.split)+

lemma core_command_writes [keeps_intros]:
  "keeps core (InsertQuotaReservation t i o' n rid req)"
  "keeps core (InsertRuntime t i n m)"
  "keeps core (insert_spec rows)"
  "keeps core (InsertNamespacePlacement t i nm u)"
  "keeps core (PutIdempotency r)"
  "keeps core (write_managed gs)"
  "keeps core (InsertManagedGPUCommand t o' i c k ph rh pl rsp ack intent)"
  "keeps core (SetManagedCloseState t o' act st why)"
  "keeps core (ClaimManagedClose locked tok t)"
  "keeps core (RetryManagedClose why t o' tok)"
  "keeps core (CompleteManagedClose t o' tk)"
  "keeps core (sql_SaveManagedReleaseReport ev dig nt t o' tok)"
  by (rule keeps_fun, simp add: InsertQuotaReservation_def InsertRuntime_def insert_spec_def
      InsertNamespacePlacement_def PutIdempotency_def write_managed_def InsertManagedGPUCommand_def
      SetManagedCloseState_def ClaimManagedClose_def RetryManagedClose_def CompleteManagedClose_def
      sql_SaveManagedReleaseReport_def write_quotas_def Let_def io_simps split: option.split)+


lemma keeps_managed_reads [keeps_intros]:
  "keeps g (GetManagedGPUCommand t i)" "keeps g (GetManagedGPURefundContext t i c)"
  "keeps g (GetIdempotency t m k)" "keeps g (GetServiceForUpdate t i)" "keeps g (GetNamespacePlacement t i)"
  unfolding GetManagedGPUCommand_def [abs_def] GetManagedGPURefundContext_def [abs_def]
    GetIdempotency_def [abs_def] GetServiceForUpdate_def [abs_def] GetNamespacePlacement_def [abs_def]
  by (rule keeps_one)+

lemma keeps_managed_questions [keeps_intros]:
  "keeps g (ManagedGPUServiceExists t i)" "keeps g (ManagedExecutionFacts t i)" "keeps g (LockManagedGPUKey k)"
  "keeps g (LockIdempotency t m k)" "keeps g (GetManagedGPUResourceForUpdate t i)"
  unfolding GetManagedGPUResourceForUpdate_def LockManagedGPUKey_def LockIdempotency_def
  by (intro keeps_intros | rule keeps_fun, simp add: ManagedGPUServiceExists_def ManagedExecutionFacts_def)+

lemma core_managed_writes [keeps_intros]:
  "keeps core (InsertManagedGPUResource t i c ow orig cls dig)"
  "keeps core (SetManagedGPUClosing t i o')"
  "keeps core (SaveManagedGPUCreate t i b bd rh p)"
  "keeps core (remember t m k h o' x)"
  "keeps core (InsertSpec sp)"
  "keeps core (CloneSpecGeneration j n t i src)"
  "keeps core (CloneSpecWithRuntimeUpdate su t i src)"
  unfolding InsertManagedGPUResource_def [abs_def] SetManagedGPUClosing_def [abs_def]
    SaveManagedGPUCreate_def [abs_def] remember_def [abs_def] InsertSpec_def
    CloneSpecGeneration_def [abs_def] CloneSpecWithRuntimeUpdate_def [abs_def]
  by (rule keeps_at_state, intro keeps_intros | intro keeps_intros)+

lemma core_managed_commands [keeps_intros]:
  "keeps core (prepareManagedCommand P mc kind i)" "keeps core (persistManagedCommand P mc kind i intent rsp)"
  unfolding prepareManagedCommand_def persistManagedCommand_def Let_def by (intro keeps_intros)+

lemma core_prepare_create [keeps_intros]: "keeps core (Repository_PrepareCreate P mc)"
proof (cases mc)
  case None
  then show ?thesis by (simp add: keeps_def Repository_PrepareCreate_def)
next
  case (Some command)
  have kept: "keeps core (prepared_create P command)"
    unfolding prepared_create_def Let_def by (intro keeps_intros)
  show ?thesis
    by (auto simp: keeps_def Repository_PrepareCreate_def Some dest: keepsD [OF kept]
        split: prod.splits sum.splits option.splits)
qed

lemma core_observed [keeps_intros]:
  "keeps core (\<lambda>d. stale_unless_one (UpdateObservationForWork (upd d) n t i l) d)"
  "keeps core (\<lambda>d. stale_unless_one (UpdateObservationCAS (upd d) n t i) d)"
  by (rule keeps_at_state, intro keeps_intros)+

lemma core_for_work [keeps_intros]:
  "keeps core (MarkModelMaterializingForWork n t i l)"
  "keeps core (UpdateModelObservationForWork b why n t i l)"
  unfolding MarkModelMaterializingForWork_def [abs_def] UpdateModelObservationForWork_def [abs_def]
  by (rule keeps_at_state, intro keeps_intros)+

lemma core_save_object [keeps_intros]: "keeps core (save_object t i n obj)"
  unfolding save_object_def by (intro keeps_intros)

lemma core_saves [keeps_intros]:
  "keeps core (ReconcileStore_SaveObservation P t i n obs)"
  "keeps core (ReconcileStore_SaveObservationForWork P ids item obs)"
  "keeps core (OperationStore_SaveQuotaReservation P rv)"
  "keeps core (OperationStore_SavePublication P pb)"
  "keeps core (OperationStore_SaveRuntimeObservation P ids op seen)"
  "keeps core (OperationStore_SaveModelObservation P op fct)"
  "keeps core (OperationStore_MarkModelMaterializing P op)"
  "keeps core (OperationStore_SaveGPUSnapshot P op plan)"
  "keeps core (OperationStore_SaveManagedGPUReleasePods P op pods)"
  "keeps core (Repository_UpsertRuntimeBindingCAS P b)"
  "keeps core (Repository_DeleteRuntimeBindingCAS P t' i' n' k' r' u' v')"
  "keeps core (Repository_SaveManagedReleaseReport P orig ev dig nt tok)"
  unfolding ReconcileStore_SaveObservation_def ReconcileStore_SaveObservationForWork_def
    OperationStore_SaveQuotaReservation_def OperationStore_SavePublication_def
    OperationStore_SaveRuntimeObservation_def OperationStore_SaveModelObservation_def
    OperationStore_MarkModelMaterializing_def OperationStore_SaveGPUSnapshot_def
    OperationStore_SaveManagedGPUReleasePods_def Repository_UpsertRuntimeBindingCAS_def
    Repository_DeleteRuntimeBindingCAS_def Repository_SaveManagedReleaseReport_def Let_def
  by (intro keeps_intros)+

lemma core_notify [keeps_intros]: "keeps core (WorkStore_Notify P t i n)"
  unfolding WorkStore_Notify_def by (intro keeps_intros)

lemma core_work_store [keeps_intros]:
  "keeps core (WorkStore_Claim P opts tok locked t)" "keeps core (WorkStore_Commit P opts item result)"
  "keeps core (WorkStore_Retry P opts item cause)"
  unfolding WorkStore_Claim_def WorkStore_Commit_def WorkStore_Retry_def Let_def by (intro keeps_intros)+

lemma keeps_scans [keeps_intros]: "keeps g WorkStore_ListTenants" "keeps g (WorkStore_ScanUndeletedServices P t)"
  unfolding WorkStore_ScanUndeletedServices_def
  by (intro keeps_intros | rule keeps_fun, simp add: WorkStore_ListTenants_def)+

lemma core_recovery [keeps_intros]: "keeps core (WorkStore_Recover P)" "keeps core (WorkStore_Repair P)"
  unfolding WorkStore_Recover_def recoverTenant_def WorkStore_Repair_def repairService_def by (intro keeps_intros)+


section \<open>The protocol of the aggregate\<close>

type_synonym service_fact = "(uuid \<times> uuid) \<times> uuid option \<times> int"
type_synonym core_state = "service_fact list \<times> InferenceOperation list"

text \<open>An operation is the current one of its service.\<close>

definition current_in :: "service_fact list \<Rightarrow> InferenceOperation \<Rightarrow> bool" where
  "current_in fs op \<longleftrightarrow> (\<exists>g. (o_owner op, Some (o_id op), g) \<in> set fs)"

definition same_operation :: "(InferenceOperation \<Rightarrow> InferenceOperation) \<Rightarrow> bool" where
  "same_operation f \<longleftrightarrow> (\<forall>op. o_key (f op) = o_key op \<and> o_owner (f op) = o_owner op
     \<and> o_target_generation (f op) = o_target_generation op)"

definition set_current :: "uuid \<times> uuid \<Rightarrow> uuid \<Rightarrow> service_fact list \<Rightarrow> service_fact list" where
  "set_current k i fs = update_where (\<lambda>x. fst x = k) (\<lambda>(k, _, g). (k, Some i, g + 1)) fs"

text \<open>
  What a write may do: leave the aggregate alone, change current operations, accept a command on a
  service (its next generation gets a new, active, current operation, and the index allows no other
  active one), or create a service with its first operation.
\<close>

inductive core_step :: "core_state \<Rightarrow> core_state \<Rightarrow> bool" where
  quiet: "core_step c c"
| moved: "(\<And>op. op \<in> set ops \<Longrightarrow> p op \<Longrightarrow> current_in fs op) \<Longrightarrow> same_operation f \<Longrightarrow>
    core_step (fs, ops) (fs, update_where p f ops)"
| accepted: "(o_owner new, c, o_target_generation new - 1) \<in> set fs \<Longrightarrow>
    (\<And>op. op \<in> set ops \<Longrightarrow> p op \<Longrightarrow> current_in fs op \<and> o_owner op = o_owner new) \<Longrightarrow> same_operation f \<Longrightarrow>
    op_active new \<Longrightarrow> operations_error (update_where p f ops @ [new]) = None \<Longrightarrow>
    core_step (fs, ops) (set_current (o_owner new) (o_id new) fs, update_where p f ops @ [new])"
| created: "o_owner new \<notin> fst ` set fs \<Longrightarrow> keyed o_key (ops @ [new]) \<Longrightarrow>
    core_step (fs, ops) (fs @ [(o_owner new, Some (o_id new), o_target_generation new)], ops @ [new])"

text \<open>
  Every service has its current operation, which targets its generation; every other operation of the
  service is finished and older.
\<close>

fun core_ok :: "core_state \<Rightarrow> bool" where
  "core_ok (fs, ops) \<longleftrightarrow> keyed fst fs \<and> keyed o_key ops
     \<and> (\<forall>k c g. (k, c, g) \<in> set fs \<longrightarrow>
          (\<exists>op \<in> set ops. o_owner op = k \<and> c = Some (o_id op) \<and> o_target_generation op = g))
     \<and> (\<forall>op \<in> set ops. \<exists>c g. (o_owner op, c, g) \<in> set fs
          \<and> (c = Some (o_id op) \<or> \<not> op_active op \<and> o_target_generation op < g))"

definition aggregate_ok :: "db \<Rightarrow> bool" where
  "aggregate_ok d \<longleftrightarrow> core_ok (core d)"

lemma same_operation_id: "same_operation f \<Longrightarrow> o_id (f op) = o_id op"
  by (simp add: same_operation_def o_key_def)

lemma current_unique:
  assumes "keyed fst fs" and "(k, c, g) \<in> set fs" and "(k, c', g') \<in> set fs"
  shows "c' = c \<and> g' = g"
  using keyed_unique [OF assms] by simp

lemma core_current:
  assumes "core_ok (fs, ops)" and "(k, c, g) \<in> set fs"
  obtains op where "op \<in> set ops" "o_owner op = k" "c = Some (o_id op)" "o_target_generation op = g"
  using assms unfolding core_ok.simps by blast

lemma core_owner:
  assumes "core_ok (fs, ops)" and "op \<in> set ops"
  obtains c g where "(o_owner op, c, g) \<in> set fs"
    "c = Some (o_id op) \<or> \<not> op_active op \<and> o_target_generation op < g"
  using assms unfolding core_ok.simps by blast

lemma core_okI:
  assumes "keyed fst fs" and "keyed o_key ops"
    and "\<And>k c g. (k, c, g) \<in> set fs \<Longrightarrow>
      \<exists>op \<in> set ops. o_owner op = k \<and> c = Some (o_id op) \<and> o_target_generation op = g"
    and "\<And>op. op \<in> set ops \<Longrightarrow> \<exists>c g. (o_owner op, c, g) \<in> set fs
      \<and> (c = Some (o_id op) \<or> \<not> op_active op \<and> o_target_generation op < g)"
  shows "core_ok (fs, ops)"
  unfolding core_ok.simps using assms by blast

lemma core_ok_moved:
  assumes ok: "core_ok (fs, ops)" and cur: "\<And>op. op \<in> set ops \<Longrightarrow> p op \<Longrightarrow> current_in fs op"
    and same: "same_operation f"
  shows "core_ok (fs, update_where p f ops)"
proof -
  have key: "o_key (f op) = o_key op" "o_owner (f op) = o_owner op"
      "o_target_generation (f op) = o_target_generation op" "o_id (f op) = o_id op" for op
    using same same_operation_id [OF same] by (simp_all add: same_operation_def)
  show ?thesis
  proof (rule core_okI)
    show "keyed fst fs" "keyed o_key (update_where p f ops)"
      using ok by (simp_all add: keyed_update_where key)
  next
    fix k c g assume "(k, c, g) \<in> set fs"
    from core_current [OF ok this] obtain op where "op \<in> set ops" "o_owner op = k" "c = Some (o_id op)"
        "o_target_generation op = g" .
    then show "\<exists>op \<in> set (update_where p f ops). o_owner op = k \<and> c = Some (o_id op) \<and> o_target_generation op = g"
      by (intro bexI [of _ "if p op then f op else op"]) (simp_all add: key set_update_where)
  next
    fix op assume "op \<in> set (update_where p f ops)"
    then obtain old where old: "old \<in> set ops" "op = (if p old then f old else old)"
      by (auto simp: set_update_where)
    show "\<exists>c g. (o_owner op, c, g) \<in> set fs \<and> (c = Some (o_id op) \<or> \<not> op_active op \<and> o_target_generation op < g)"
    proof (cases "p old")
      case True
      with cur [OF old(1)] old(2) show ?thesis by (auto simp: current_in_def key)
    next
      case False
      with core_owner [OF ok old(1)] old(2) show ?thesis by metis
    qed
  qed
qed


lemma set_current_mem:
  "(k, c, g) \<in> set (set_current k0 i fs) \<longleftrightarrow>
     (if k = k0 then c = Some i \<and> (\<exists>c'. (k0, c', g - 1) \<in> set fs) else (k, c, g) \<in> set fs)"
  unfolding set_current_def set_update_where by (auto simp: image_iff split: if_splits) force+

lemma keyed_set_current [simp]: "keyed fst (set_current k i fs) = keyed fst fs"
  unfolding set_current_def by (rule keyed_update_where) (simp split: prod.splits)

text \<open>The index of active operations: a new active operation is the only one of its service.\<close>

lemma only_active:
  assumes "operations_error (ops @ [new]) = None" and "op_active new" and "op \<in> set ops"
    and "o_owner op = o_owner new"
  shows "\<not> op_active op"
  using assms by (auto simp: operations_error_def split: if_splits) (metis (no_types) rev_image_eqI mem_Collect_eq)

lemma operations_error_keyed: "operations_error ops = None \<Longrightarrow> keyed o_key ops"
  by (simp add: operations_error_def keyed_def split: if_splits)

lemma core_ok_accepted:
  assumes ok: "core_ok (fs, ops)" and fact: "(o_owner new, c, o_target_generation new - 1) \<in> set fs"
    and cur: "\<And>op. op \<in> set ops \<Longrightarrow> p op \<Longrightarrow> current_in fs op \<and> o_owner op = o_owner new"
    and same: "same_operation f" and active: "op_active new"
    and index: "operations_error (update_where p f ops @ [new]) = None"
  shows "core_ok (set_current (o_owner new) (o_id new) fs, update_where p f ops @ [new])"
proof -
  let ?ops = "update_where p f ops"
  have moved: "core_ok (fs, ?ops)" using ok cur same by (intro core_ok_moved) auto
  have keyed: "keyed fst fs" using ok by simp
  show ?thesis
  proof (rule core_okI)
    show "keyed fst (set_current (o_owner new) (o_id new) fs)" using keyed by simp
    show "keyed o_key (?ops @ [new])" using operations_error_keyed [OF index] .
  next
    fix k c' g assume k: "(k, c', g) \<in> set (set_current (o_owner new) (o_id new) fs)"
    show "\<exists>op \<in> set (?ops @ [new]). o_owner op = k \<and> c' = Some (o_id op) \<and> o_target_generation op = g"
    proof (cases "k = o_owner new")
      case True
      with k obtain c'' where "(o_owner new, c'', g - 1) \<in> set fs" and "c' = Some (o_id new)"
        by (auto simp: set_current_mem)
      with current_unique [OF keyed fact this(1)] True show ?thesis by simp
    next
      case False
      with k have "(k, c', g) \<in> set fs" by (simp add: set_current_mem)
      from core_current [OF moved this] show ?thesis by auto
    qed
  next
    fix op assume "op \<in> set (?ops @ [new])"
    then consider "op = new" | "op \<in> set ?ops" by auto
    then show "\<exists>c g. (o_owner op, c, g) \<in> set (set_current (o_owner new) (o_id new) fs)
        \<and> (c = Some (o_id op) \<or> \<not> op_active op \<and> o_target_generation op < g)"
    proof cases
      case 1
      with fact show ?thesis
        by (intro exI [of _ "Some (o_id new)"] exI [of _ "o_target_generation new"]) (auto simp: set_current_mem)
    next
      case 2
      from core_owner [OF moved 2] obtain c' g where cg: "(o_owner op, c', g) \<in> set fs"
        "c' = Some (o_id op) \<or> \<not> op_active op \<and> o_target_generation op < g" .
      show ?thesis
      proof (cases "o_owner op = o_owner new")
        case False
        with cg show ?thesis by (auto simp: set_current_mem)
      next
        case True
        from core_current [OF moved cg(1)] obtain old where old: "old \<in> set ?ops" "o_owner old = o_owner op"
          "c' = Some (o_id old)" "o_target_generation old = g" .
        have "old = op" if "c' = Some (o_id op)"
          using keyed_unique [of o_key ?ops old op] moved old 2 that by (simp add: o_key_def o_owner_def)
        then have "o_target_generation op \<le> g" using cg(2) old(4) by auto
        moreover have "\<not> op_active op" using only_active [OF index active 2 True] .
        moreover have "g = o_target_generation new - 1" using current_unique [OF keyed fact] cg(1) True by simp
        ultimately show ?thesis using fact True
          by (intro exI [of _ "Some (o_id new)"] exI [of _ "o_target_generation new"]) (auto simp: set_current_mem)
      qed
    qed
  qed
qed

lemma core_ok_created:
  assumes ok: "core_ok (fs, ops)" and new: "o_owner new \<notin> fst ` set fs" and keyed: "keyed o_key (ops @ [new])"
  shows "core_ok (fs @ [(o_owner new, Some (o_id new), o_target_generation new)], ops @ [new])"
proof (rule core_okI)
  show "keyed fst (fs @ [(o_owner new, Some (o_id new), o_target_generation new)])"
    using ok new by (simp add: keyed_append_one)
  show "keyed o_key (ops @ [new])" by (fact keyed)
next
  fix k c g assume "(k, c, g) \<in> set (fs @ [(o_owner new, Some (o_id new), o_target_generation new)])"
  then show "\<exists>op \<in> set (ops @ [new]). o_owner op = k \<and> c = Some (o_id op) \<and> o_target_generation op = g"
    using core_current [OF ok, of k c g] by auto
next
  fix op assume "op \<in> set (ops @ [new])"
  then show "\<exists>c g. (o_owner op, c, g) \<in> set (fs @ [(o_owner new, Some (o_id new), o_target_generation new)])
      \<and> (c = Some (o_id op) \<or> \<not> op_active op \<and> o_target_generation op < g)"
    using core_owner [OF ok, of op] by (cases "op = new") (auto, metis)
qed

lemma core_step_ok: "core_step c c' \<Longrightarrow> core_ok c \<Longrightarrow> core_ok c'"
  by (induction rule: core_step.induct) (simp_all add: core_ok_moved core_ok_accepted core_ok_created del: core_ok.simps)


section \<open>The writes follow the protocol\<close>

lemma core_keeps: "keeps core m \<Longrightarrow> m d = (r, d') \<Longrightarrow> core_step (core d) (core d')"
  by (metis keepsD core_step.quiet)

lemma current_facts: "is_current d op \<Longrightarrow> current_in (map service_facts (services d)) op"
  by (auto simp: is_current_def current_in_def find_service_def service_facts_def s_key_def o_owner_def image_iff
      split: option.splits dest!: find_Some_mem) metis

lemma core_write_operations:
  assumes "write_operations n (update_where p f (operations d)) d = (r, d')"
    and "\<And>op. p op \<Longrightarrow> is_current d op" and "same_operation f"
  shows "core_step (core d) (core d')"
proof (cases "operations_error (update_where p f (operations d))")
  case None
  with assms(1) have "core d' = (map service_facts (services d), update_where p f (operations d))"
    by (auto simp: write_operations_def core_def)
  moreover have "core_step (map service_facts (services d), operations d) \<dots>"
    using assms(2,3) current_facts by (intro core_step.moved) auto
  ultimately show ?thesis by (simp add: core_def)
next
  case (Some e)
  with assms(1) show ?thesis by (auto simp: write_operations_def core_step.quiet)
qed

lemma same_step [simp]: "same_operation (step_update t retry after d)"
  by (simp add: same_operation_def step_update_def retry_row_def advanced_row_def o_key_def o_owner_def)

lemma core_sql_step: "sql_step t retry after tenant op lease d = (r, d') \<Longrightarrow> core_step (core d) (core d')"
  by (cases retry)
    (auto simp: sql_step_def sql_RetryOperationStepCAS_def sql_AdvanceOperationStepCAS_def Let_def
      step_matches_def op_fenced_def
      intro: core_write_operations same_step [of t True after d, unfolded step_update_def if_True]
        same_step [of t False after d, unfolded step_update_def if_False])

lemma core_step_audit [keeps_intros]:
  "keeps core (append_event P ev)" "keeps core (step_audit P t ev retry tenant op)"
  unfolding step_audit_def append_event_def by (intro keeps_intros)+

lemma core_stepWithAudit: "stepWithAudit P t ev retry after d = (r, d') \<Longrightarrow> core_step (core d) (core d')"
proof (cases r)
  case (Inl e)
  moreover assume "stepWithAudit P t ev retry after d = (r, d')"
  ultimately show ?thesis using stepWithAudit_Inl by (metis core_step.quiet)
next
  case (Inr u)
  moreover assume "stepWithAudit P t ev retry after d = (r, d')"
  ultimately obtain tenant op lease d1 where sql: "sql_step t retry after tenant op lease d = (Inr 1, d1)"
    and rest: "step_audit P t ev retry tenant op d1 = (Inr u, d')"
    by (auto simp: stepWithAudit_def bindE_eq_Inr one_row_Inr checkE_def split: if_splits option.splits)
  from core_sql_step [OF sql] keepsD [OF core_step_audit(2) rest] show ?thesis by simp
qed

lemma core_one_row: "one_row e m d = (r, d') \<Longrightarrow> \<exists>x. m d = (x, d')"
  by (auto simp: one_row_def bindE_def failE_def returnE_def split: prod.splits sum.splits if_splits)

lemma core_raw_steps:
  "Repository_AdvanceOperationStepCAS P t d = (r, d') \<Longrightarrow> core_step (core d) (core d')"
  "Repository_RetryOperationStepCAS P t after d = (r, d') \<Longrightarrow> core_step (core d) (core d')"
proof -
  assume "Repository_AdvanceOperationStepCAS P t d = (r, d')"
  then have "d' = d \<or> (\<exists>x tenant op lease after. sql_step t False after tenant op lease d = (x, d'))"
    unfolding Repository_AdvanceOperationStepCAS_def sql_step_def
    by (auto simp: bindE_def liftE_def failE_def returnE_def checkE_def dest!: core_one_row
        split: sum.splits if_splits option.splits)
  then show "core_step (core d) (core d')" using core_sql_step core_step.quiet by metis
next
  assume "Repository_RetryOperationStepCAS P t after d = (r, d')"
  then have "d' = d \<or> (\<exists>x tenant op lease. sql_step t True after tenant op lease d = (x, d'))"
    unfolding Repository_RetryOperationStepCAS_def sql_step_def
    by (auto simp: bindE_def liftE_def failE_def returnE_def dest!: core_one_row split: sum.splits if_splits)
  then show "core_step (core d) (core d')" using core_sql_step core_step.quiet by metis
qed


section \<open>Accepted commands follow the protocol\<close>

lemma write_operations_Inr:
  "write_operations n ops d = (Inr m, d') \<Longrightarrow> d' = d\<lparr>operations := ops\<rparr> \<and> operations_error ops = None \<and> m = n"
  by (simp add: write_operations_def split: option.splits)

lemma cancel_active:
  assumes "CancelActiveOperation t i d = (Inr n, d')"
  shows "\<exists>p f. core d' = (map service_facts (services d), update_where p f (operations d)) \<and> same_operation f
    \<and> (\<forall>op. p op \<longrightarrow> current_in (map service_facts (services d)) op \<and> o_owner op = (t, i))"
proof -
  let ?p = "\<lambda>op. o_tenant op = t \<and> o_service op = i \<and> op_active op
    \<and> (case find_service d t i of
         None \<Rightarrow> False | Some s \<Rightarrow> s_current_operation s = Some (o_id op) \<and> s_deleted_at s = None)"
  let ?f = "\<lambda>op. op\<lparr>o_phase := OperationFailed, o_error_code := ''cancelled_by_delete'',
    o_error_message := ''cancelled by delete request'', o_retry_at := None, o_lease_owner := None,
    o_lease_until := None, o_lease_token := None, o_completed_at := Some (now d), o_updated_at := now d\<rparr>"
  have "current_in (map service_facts (services d)) op \<and> o_owner op = (t, i)" if "?p op" for op
    using that current_facts [of d op]
    by (auto simp: current_in_def find_service_def service_facts_def s_key_def o_owner_def image_iff
        split: option.splits dest!: find_Some_mem) metis
  moreover have "core d' = (map service_facts (services d), update_where ?p ?f (operations d))"
    using write_operations_Inr [OF assms [unfolded CancelActiveOperation_def Let_def]] by (simp add: core_def)
  moreover have "same_operation ?f" by (simp add: same_operation_def o_key_def o_owner_def)
  ultimately show ?thesis by blast
qed

lemma transition_facts:
  assumes "TransitionService st (gen + 1) opID t i gen d = (Inr 1, d')"
  shows "core d' = (set_current (t, i) opID (fst (core d)), operations d)
    \<and> (\<exists>c. ((t, i), c, gen) \<in> set (fst (core d)))"
proof -
  let ?p = "\<lambda>s. s_tenant s = t \<and> s_id s = i \<and> s_desired_generation s = gen \<and> s_deleted_at s = None"
  let ?f = "\<lambda>s. s\<lparr>s_desired_state := st, s_desired_generation := gen + 1, s_current_operation := Some opID,
    s_updated_at := now d\<rparr>"
  have one: "rows_where ?p (services d) = 1" and ok: "services_error (update_where ?p ?f (services d)) = None"
    and d': "d' = d\<lparr>services := update_where ?p ?f (services d)\<rparr>"
    using assms by (auto simp: TransitionService_def write_services_def Let_def split: option.splits)
  have keyed: "keyed s_key (services d)"
    using ok keyed_update_where [of s_key ?f ?p "services d"]
    by (auto simp: services_error_def keyed_def s_key_def split: if_splits)
  from one obtain s where s: "s \<in> set (services d)" "?p s"
    using rows_where_zero [of ?p "services d"] by auto
  have "?p x \<longleftrightarrow> s_key x = (t, i)" if "x \<in> set (services d)" for x
    using that s keyed_unique [OF keyed that s(1)] by (auto simp: s_key_def)
  then have "map service_facts (update_where ?p ?f (services d)) = set_current (t, i) opID (map service_facts (services d))"
    using keyed s by (auto simp: update_where_def set_current_def service_facts_def s_key_def)
  moreover have "((t, i), s_current_operation s, gen) \<in> set (map service_facts (services d))"
    using s by (auto simp: service_facts_def s_key_def image_iff)
  ultimately show ?thesis using d' by (auto simp: core_def)
qed

lemma insert_operation_core:
  assumes "InsertOperation t opID i kind OperationPending step gen hash d = (Inr n, d')"
  shows "\<exists>new. core d' = (fst (core d), operations d @ [new]) \<and> operations_error (operations d @ [new]) = None
    \<and> o_owner new = (t, i) \<and> o_id new = opID \<and> o_target_generation new = gen \<and> op_active new"
  using assms
  by (auto simp: InsertOperation_def Let_def core_def o_owner_def op_active_def split: option.splits if_splits)

lemma insert_active_Inr:
  "insert_active t opID i kind step gen hash d = (Inr u, d') \<Longrightarrow>
    \<exists>n. InsertOperation t opID i kind OperationPending step gen hash d = (Inr n, d')"
  by (cases "InsertOperation t opID i kind OperationPending step gen hash d")
    (auto simp: insert_active_def bindE_def tryE_def failE_def returnE_def split: sum.splits if_splits)

lemma accept_core:
  assumes cancel: "core d1 = (map service_facts (services d), update_where p f (operations d))" "same_operation f"
      "\<And>op. p op \<Longrightarrow> current_in (map service_facts (services d)) op \<and> o_owner op = (t, i)"
    and "core d2 = core d1" and move: "TransitionService st (gen + 1) opID t i gen d2 = (Inr 1, d3)"
    and new: "insert_active t opID i kind step (gen + 1) hash d3 = (Inr u, d4)" and "core d5 = core d4"
  shows "core_step (core d) (core d5)"
    and "op \<in> set (operations d5) \<Longrightarrow> o_key op = (t, opID) \<Longrightarrow> current_in (fst (core d5)) op"
proof -
  let ?fs = "map service_facts (services d)" and ?ops = "update_where p f (operations d)"
  have d2: "core d2 = (?fs, ?ops)" using assms by simp
  note t = transition_facts [OF move, unfolded d2 fst_conv]
  from d2 t have ops: "operations d3 = ?ops" "operations d2 = ?ops" by (simp_all add: core_def)
  obtain m where "InsertOperation t opID i kind OperationPending step (gen + 1) hash d3 = (Inr m, d4)"
    using insert_active_Inr [OF new] by blast
  from insert_operation_core [OF this, unfolded ops] obtain new where n: "core d4 = (fst (core d3), ?ops @ [new])"
    "operations_error (?ops @ [new]) = None" "o_owner new = (t, i)" "o_id new = opID"
    "o_target_generation new = gen + 1" "op_active new"
    by blast
  obtain c where c: "((t, i), c, gen) \<in> set ?fs" using t by blast
  have d5: "core d5 = (set_current (o_owner new) (o_id new) ?fs, ?ops @ [new])"
    using n t assms(7) by (simp add: ops)
  have "core_step (?fs, operations d) (set_current (o_owner new) (o_id new) ?fs, ?ops @ [new])"
    using n cancel(2,3) c by (intro core_step.accepted [of new c]) auto
  then show "core_step (core d) (core d5)" unfolding d5 by (simp add: core_def [of d])
  assume op: "op \<in> set (operations d5)" "o_key op = (t, opID)"
  have "op = new"
    using keyed_unique [OF operations_error_keyed [OF n(2)], of op new] op d5 n(3,4)
    by (auto simp: core_def o_key_def o_owner_def)
  moreover have "(o_owner new, Some (o_id new), gen + 1) \<in> set (set_current (o_owner new) (o_id new) ?fs)"
    using c n(3) by (auto simp: set_current_mem)
  ultimately show "current_in (fst (core d5)) op" using d5 by (auto simp: current_in_def)
qed

lemma no_cancel:
  "core d = (map service_facts (services d), update_where (\<lambda>_. False) id (operations d))" "same_operation id"
  by (simp_all add: core_def update_where_def same_operation_def)

lemma core_followups [keeps_intros]:
  "keeps core (command_specification t i j kind n)" "keeps core (command_followup t i o' e n c m req inp st)"
  "keeps core (delete_followup P t i o' e n c inp orig mc rsp)" "keeps core (update_followup t i o' e n m req inp' st)"
  unfolding command_specification_def command_followup_def delete_followup_def update_followup_def Let_def
  by (intro keeps_intros)+

lemma core_command_rows:
  assumes "command_rows t i fresh m inp cur d = (Inr r, d')"
  shows "core_step (core d) (core d')"
proof -
  let ?g = "s_desired_generation cur"
  obtain n d1 req d2 d3 d4 where
    cancel: "(if cmd_Kind inp = ''delete'' then CancelActiveOperation t i else returnE 0) d = (Inr n, d1)"
    and spec: "command_specification t i (fresh 1) (cmd_Kind inp) ?g d1 = (Inr req, d2)"
    and move: "TransitionService (command_state (cmd_Kind inp) (s_desired_state cur)) (?g + 1) (fresh 0) t i ?g d2
               = (Inr 1, d3)"
    and new: "insert_active t (fresh 0) i (kind_of (cmd_Kind inp)) (command_step (cmd_Kind inp)) (?g + 1)
               (cmd_RequestHash inp) d3 = (Inr (), d4)"
    and rest: "command_followup t i (fresh 0) (fresh 2) (?g + 1) n m req inp
               (command_state (cmd_Kind inp) (s_desired_state cur)) d4 = (Inr (), d')"
    using assms unfolding command_rows_def Let_def by (auto simp: bindE_eq_Inr one_row_Inr)
  note quiet = keepsD [OF core_followups(1) spec] and kept = keepsD [OF core_followups(2) rest]
  show ?thesis
  proof (cases "cmd_Kind inp = ''delete''")
    case True
    with cancel have "CancelActiveOperation t i d = (Inr n, d1)" by simp
    from cancel_active [OF this] accept_core(1) [OF _ _ _ quiet move new kept] show ?thesis by blast
  next
    case False
    with cancel have "d1 = d" by simp
    with no_cancel accept_core(1) [OF _ _ _ quiet move new kept, of d "\<lambda>_. False" id] show ?thesis by simp
  qed
qed

lemma core_delete_managed:
  assumes "delete_managed P fresh inp orig mc cur d = (Inr r, d')"
  shows "core_step (core d) (core d')"
proof -
  let ?g = "s_desired_generation cur" and ?t = "s_tenant cur" and ?i = "s_id cur"
  let ?o = "pgUUIDMust P (DeleteOperationID orig)"
  obtain n d1 d3 d4 rsp where
    cancel: "CancelActiveOperation ?t ?i d = (Inr n, d1)"
    and move: "TransitionService ''deleted'' (?g + 1) ?o ?t ?i ?g d1 = (Inr 1, d3)"
    and new: "insert_active ?t ?o ?i KindDelete StepWithdrawPublication (?g + 1) (cmd_RequestHash inp) d3 = (Inr (), d4)"
    and rest: "delete_followup P ?t ?i ?o (fresh 2) (?g + 1) n inp orig mc rsp d4 = (Inr (), d')"
    using assms unfolding delete_managed_def Let_def by (auto simp: bindE_eq_Inr one_row_Inr split: if_splits)
  note kept = keepsD [OF core_followups(3) rest]
  from cancel_active [OF cancel] accept_core(1) [OF _ _ _ refl move new kept] show ?thesis by blast
qed

text \<open>The acceptance response is saved in the row that was just inserted.\<close>

lemma core_save_response:
  assumes "SaveOperationAcceptanceResponse rsp t opID d = (r, d')"
    and "\<And>op. op \<in> set (operations d) \<Longrightarrow> o_key op = (t, opID) \<Longrightarrow> current_in (fst (core d)) op"
  shows "core_step (core d) (core d')"
proof -
  let ?p = "\<lambda>op. o_tenant op = t \<and> o_id op = opID \<and> o_result_snapshot op = None"
  let ?f = "\<lambda>op. op\<lparr>o_result_snapshot := Some rsp\<rparr>"
  have "core_step (fst (core d), operations d) (fst (core d), update_where ?p ?f (operations d))"
    using assms(2) by (intro core_step.moved) (simp_all add: o_key_def same_operation_def o_owner_def)
  then show ?thesis
    using assms(1) by (auto simp: SaveOperationAcceptanceResponse_def write_operations_def core_def Let_def
        core_step.quiet split: option.splits)
qed

lemma core_update_rows:
  assumes "update_rows t i opID fresh m inp cur su d = (Inr r, d')"
  shows "core_step\<^sup>*\<^sup>* (core d) (core d')"
proof -
  let ?g = "s_desired_generation cur"
  obtain n d2 d3 d4 d5 rsp where
    clone: "CloneSpecWithRuntimeUpdate su t i ?g d = (Inr 1, d2)"
    and move: "TransitionService (s_desired_state cur) (?g + 1) opID t i ?g d2 = (Inr 1, d3)"
    and new: "insert_active t opID i KindUpdate StepWithdrawPublication (?g + 1) (ui_RequestHash inp) d3 = (Inr (), d4)"
    and follow: "update_followup t i opID (fresh 2) (?g + 1) m (su_Resources su) inp (s_desired_state cur) d4 = (Inr (), d5)"
    and save: "SaveOperationAcceptanceResponse rsp t opID d5 = (Inr 1, d')"
    using assms unfolding update_rows_def Let_def by (auto simp: bindE_eq_Inr one_row_Inr)
  have quiet: "core d2 = core d" using keepsD [OF core_managed_writes(7) clone] .
  note kept = keepsD [OF core_followups(4) follow]
  have accept: "core_step (core d) (core d5)"
    "\<And>op. op \<in> set (operations d5) \<Longrightarrow> o_key op = (t, opID) \<Longrightarrow> current_in (fst (core d5)) op"
    using accept_core [where p = "\<lambda>_. False" and f = id, OF no_cancel _ quiet move new kept] by simp_all
  have "core_step (core d5) (core d')"
    using core_save_response [OF save] accept(2) by simp
  with accept(1) show ?thesis by auto
qed


lemma core_create_parts [keeps_intros]:
  "keeps core (create_placement ids inp)" "keeps core (create_managed P ids inp)"
  "keeps core (create_remember ids inp clock)" "keeps core (create_finish P fresh ids inp mc)"
  unfolding create_placement_def create_managed_def create_remember_def create_finish_def Let_def
  by (intro keeps_intros)+

lemma create_service_facts:
  assumes "InsertService t i name st gen d = (Inr n, d1)" and "core d2 = (fst (core d1), ops)"
    and "SetCurrentOperation t i opID d2 = (Inr m, d3)"
  shows "core d3 = (fst (core d) @ [((t, i), Some opID, gen)], ops) \<and> (t, i) \<notin> fst ` set (fst (core d))"
proof -
  have d1: "fst (core d1) = fst (core d) @ [((t, i), None, gen)]" and "keyed s_key (services d1)"
    using assms(1) by (auto simp: InsertService_def write_services_def services_error_def keyed_def core_def
        service_facts_def s_key_def split: if_splits)
  then have new: "(t, i) \<notin> fst ` set (fst (core d))"
    using assms(1) by (auto simp: InsertService_def write_services_def services_error_def core_def
        service_facts_def s_key_def split: if_splits)
  let ?f = "\<lambda>s. s\<lparr>s_current_operation := Some opID, s_updated_at := now d2\<rparr>"
  have "map service_facts (update_where (\<lambda>s. s_tenant s = t \<and> s_id s = i) ?f ss) =
      map (\<lambda>(k, c, g). (k, if k = (t, i) then Some opID else c, g)) (map service_facts ss)" for ss
    by (simp add: update_where_def service_facts_def s_key_def)
  then have "core d3 = (map (\<lambda>(k, c, g). (k, if k = (t, i) then Some opID else c, g)) (fst (core d2)), snd (core d2))"
    using assms(3) by (auto simp: SetCurrentOperation_def write_services_def core_def Let_def split: option.splits)
  moreover have "map (\<lambda>(k, c, g). (k, if k = (t, i) then Some opID else c, g)) fs = fs" if "(t, i) \<notin> fst ` set fs"
    for fs :: "service_fact list"
    using that by (induction fs) auto
  ultimately show ?thesis using assms(2) d1 new by simp
qed

lemma core_create_rows:
  assumes "create_rows ids inp d = (Inr u, d')"
  shows "core_step (core d) (core d')"
proof -
  let ?t = "id_tenant ids" and ?i = "id_service ids" and ?g = "create_generation inp" and ?o = "id_operation ids"
  obtain n m n1 d1 d2 d3 d4 d5 d6 d7 n2 n3 n4 where
    srv: "InsertService ?t ?i (ag_Name inp) ''running'' ?g d = (Inr n, d1)"
    and place: "create_placement ids inp d1 = (Inr (), d2)"
    and op: "InsertOperation ?t ?o ?i KindCreate OperationPending StepAdmission ?g (ag_RequestHash inp) d2 = (Inr n1, d3)"
    and cur: "SetCurrentOperation ?t ?i ?o d3 = (Inr m, d4)"
    and rest: "InsertSpec (create_spec ids inp) d4 = (Inr n2, d5)" "InsertRuntime ?t ?i ?g (create_mode inp) d5 = (Inr n3, d6)"
      "(if ag_Managed inp = None then InsertQuotaReservation ?t ?i ?o ?g
          (or_default (ag_QuotaReservationID inp) (''pending-'' @ ?o)) (jsonOrEmpty (ag_Resources inp) empty_spec)
        else returnE 0) d6 = (Inr n4, d7)" "UpsertResourceWork ?t ?i ?g d7 = (Inr u, d')"
    using assms unfolding create_rows_def Let_def by (auto simp: bindE_eq_Inr)
  have d2: "core d2 = core d1" using keepsD [OF core_create_parts(1) place] .
  have d7: "core d7 = core d6"
    using rest(3) keepsD [OF core_command_writes(1)] by (auto split: if_splits)
  have kept: "core d' = core d4"
    using keepsD [OF core_managed_writes(5) rest(1)] keepsD [OF core_command_writes(2) rest(2)] d7
      keepsD [OF core_work(5) rest(4)] by simp
  from insert_operation_core [OF op] obtain new where new: "core d3 = (fst (core d1), operations d2 @ [new])"
    "operations_error (operations d2 @ [new]) = None" "o_owner new = (?t, ?i)" "o_id new = ?o"
    "o_target_generation new = ?g" using d2 by auto
  have ops: "operations d2 = operations d"
    using d2 srv by (auto simp: core_def InsertService_def write_services_def split: option.splits)
  note facts = create_service_facts [OF srv new(1) cur]
  have "core_step (fst (core d), operations d)
      (fst (core d) @ [(o_owner new, Some (o_id new), o_target_generation new)], operations d @ [new])"
    using facts new operations_error_keyed ops by (intro core_step.created) auto
  then show ?thesis using facts kept new ops by (simp add: core_def [of d])
qed

lemma keeps_idempotent_operation [keeps_intros]: "keeps g (idempotent_operation tid t m k h)"
  unfolding idempotent_operation_def by (intro keeps_intros)

text \<open>Code that follows the protocol whenever it succeeds, and code that follows it always.\<close>

definition commits :: "(db, 'a) io \<Rightarrow> bool" where
  "commits m \<longleftrightarrow> (\<forall>d a d'. m d = (Inr a, d') \<longrightarrow> core_step\<^sup>*\<^sup>* (core d) (core d'))"

definition follows :: "(db, 'a) io \<Rightarrow> bool" where
  "follows m \<longleftrightarrow> (\<forall>d r d'. m d = (r, d') \<longrightarrow> core_step\<^sup>*\<^sup>* (core d) (core d'))"

lemma commits_keeps: "keeps core m \<Longrightarrow> commits m"
  unfolding commits_def by (metis keepsD rtranclp.rtrancl_refl)

lemma follows_keeps: "keeps core m \<Longrightarrow> follows m"
  unfolding follows_def by (metis keepsD rtranclp.rtrancl_refl)

lemma commits_bindE: "commits m \<Longrightarrow> (\<And>a. commits (f a)) \<Longrightarrow> commits (bindE m f)"
  unfolding commits_def bindE_eq_Inr by (metis rtranclp_trans)

lemma commits_cases:
  "(p \<Longrightarrow> commits a) \<Longrightarrow> (\<not> p \<Longrightarrow> commits b) \<Longrightarrow> commits (if p then a else b)"
  "commits n \<Longrightarrow> (\<And>x. commits (s x)) \<Longrightarrow> commits (case o' of None \<Rightarrow> n | Some x \<Rightarrow> s x)"
  "(\<And>e. commits (l e)) \<Longrightarrow> (\<And>x. commits (r x)) \<Longrightarrow> commits (case z of Inl e \<Rightarrow> l e | Inr x \<Rightarrow> r x)"
  "(\<And>x y. commits (h x y)) \<Longrightarrow> commits (case q of (x, y) \<Rightarrow> h x y)"
  by (simp_all split: option.split sum.split prod.split)

lemma follows_transaction: "commits m \<Longrightarrow> follows (transaction m)"
  unfolding follows_def
proof (intro allI impI)
  fix d r d' assume "commits m" and "transaction m d = (r, d')"
  then show "core_step\<^sup>*\<^sup>* (core d) (core d')" by (cases r) (auto simp: commits_def)
qed

lemma follows_bindE:
  assumes "follows m" and "\<And>a. follows (f a)"
  shows "follows (bindE m f)"
  unfolding follows_def
proof (intro allI impI)
  fix d r d' assume run: "bindE m f d = (r, d')"
  obtain x d1 where m: "m d = (x, d1)" by (cases "m d")
  with assms(1) have first: "core_step\<^sup>*\<^sup>* (core d) (core d1)" by (auto simp: follows_def)
  show "core_step\<^sup>*\<^sup>* (core d) (core d')"
  proof (cases x)
    case (Inl e)
    with m run first show ?thesis by simp
  next
    case (Inr a)
    with m run have "f a d1 = (r, d')" by simp
    with assms(2) have "core_step\<^sup>*\<^sup>* (core d1) (core d')" by (auto simp: follows_def)
    with first show ?thesis by simp
  qed
qed

lemma follows_cases:
  "(p \<Longrightarrow> follows a) \<Longrightarrow> (\<not> p \<Longrightarrow> follows b) \<Longrightarrow> follows (if p then a else b)"
  "follows n \<Longrightarrow> (\<And>x. follows (s x)) \<Longrightarrow> follows (case o' of None \<Rightarrow> n | Some x \<Rightarrow> s x)"
  "(\<And>e. follows (l e)) \<Longrightarrow> (\<And>x. follows (r x)) \<Longrightarrow> follows (case z of Inl e \<Rightarrow> l e | Inr x \<Rightarrow> r x)"
  "(\<And>x y. follows (h x y)) \<Longrightarrow> follows (case q of (x, y) \<Rightarrow> h x y)"
  by (simp_all split: option.split sum.split prod.split)

lemma commits_rows:
  "commits (command_rows t i fresh m inp cur)" "commits (delete_managed P fresh inp orig mc cur)"
  "commits (update_rows t i opID fresh m uin cur su)" "commits (create_rows ids cin)"
  by (auto simp: commits_def dest: core_command_rows core_delete_managed core_update_rows core_create_rows)

lemmas follows_intros = commits_rows follows_transaction commits_bindE commits_cases follows_bindE follows_cases

lemma keeps_replays [keeps_intros]:
  "keeps g (command_replay lm t inp)" "keeps g (update_replay t opID uin)"
  unfolding command_replay_def update_replay_def by (intro keeps_intros)+

lemma core_close_unknown [keeps_intros]: "keeps core (close_unknown P sealedAt inp orig mc)"
  unfolding close_unknown_def Let_def by (intro keeps_intros)

lemma commits_accept:
  "commits (command_accept t i fresh inp)" "commits (update_accept t i opID version fresh uin cur row)"
  unfolding command_accept_def update_accept_def Let_def
  by (intro follows_intros; rule commits_keeps, intro keeps_intros)+

lemma commits_update_current: "commits (update_current t i opID version fresh uin)"
  unfolding update_current_def
  by (intro commits_accept follows_intros; rule commits_keeps, intro keeps_intros)

lemma follows_CreateService: "follows (CreateService P fresh clock ag)"
  unfolding CreateService_def create_identity_def
  by (intro follows_intros; (rule commits_keeps | rule follows_keeps), intro keeps_intros)

lemma follows_commands:
  "follows (CreateUseCase_Create P fresh clock cin)"
  "follows (CommandUseCase_Command P lm fresh sealedAt inp)"
  "follows (UpdateUseCase_Update P fresh uin)"
  unfolding CreateUseCase_Create_def CommandUseCase_Command_def acceptManagedDelete_def UpdateUseCase_Update_def
    Let_def
  by (intro follows_CreateService commits_accept commits_update_current follows_intros;
      (rule commits_keeps | rule follows_keeps), intro keeps_intros)+


section \<open>Every write of the control plane\<close>

text \<open>
  The calls that write the database: the commands, the store of the runner, the stores of the
  reconciler and of the executor, the work store, the managed close, and the clock.
\<close>

inductive control_step :: "uuid_parser \<Rightarrow> db \<Rightarrow> db \<Rightarrow> bool" for P where
  create_call: "CreateUseCase_Create P fresh clock cin d = (r1, d') \<Longrightarrow> control_step P d d'"
| prepare_create_call: "CreateUseCase_PrepareCreate P cin d = (r2, d') \<Longrightarrow> control_step P d d'"
| command_call: "CommandUseCase_Command P lm fresh sealedAt inp d = (r3, d') \<Longrightarrow> control_step P d d'"
| update_call: "UpdateUseCase_Update P fresh uin d = (r4, d') \<Longrightarrow> control_step P d d'"
| step_call: "stepWithAudit P t ev retry after d = (r5, d') \<Longrightarrow> control_step P d d'"
| advance_call: "Repository_AdvanceOperationStepCAS P t d = (r6, d') \<Longrightarrow> control_step P d d'"
| retry_call: "Repository_RetryOperationStepCAS P t after d = (r7, d') \<Longrightarrow> control_step P d d'"
| reservation_call: "OperationStore_SaveQuotaReservation P rv d = (r8, d') \<Longrightarrow> control_step P d d'"
| publication_call: "OperationStore_SavePublication P pb d = (r9, d') \<Longrightarrow> control_step P d d'"
| runtime_call: "OperationStore_SaveRuntimeObservation P ids op seen d = (r10, d') \<Longrightarrow> control_step P d d'"
| model_call: "OperationStore_SaveModelObservation P op fct d = (r11, d') \<Longrightarrow> control_step P d d'"
| materializing_call: "OperationStore_MarkModelMaterializing P op d = (r12, d') \<Longrightarrow> control_step P d d'"
| plan_call: "OperationStore_SaveGPUSnapshot P op plan d = (r13, d') \<Longrightarrow> control_step P d d'"
| scope_call: "OperationStore_SaveManagedGPUReleasePods P op pods d = (r14, d') \<Longrightarrow> control_step P d d'"
| observation_call: "ReconcileStore_SaveObservation P ti si n obs d = (r15, d') \<Longrightarrow> control_step P d d'"
| leased_observation_call: "ReconcileStore_SaveObservationForWork P ids item obs d = (r16, d') \<Longrightarrow> control_step P d d'"
| binding_call: "Repository_UpsertRuntimeBindingCAS P b d = (r17, d') \<Longrightarrow> control_step P d d'"
| unbind_call: "Repository_DeleteRuntimeBindingCAS P ti si n k rl u v d = (r18, d') \<Longrightarrow> control_step P d d'"
| claim_call: "WorkStore_Claim P opts tok locked ti d = (r19, d') \<Longrightarrow> control_step P d d'"
| commit_call: "WorkStore_Commit P opts item res d = (r20, d') \<Longrightarrow> control_step P d d'"
| work_retry_call: "WorkStore_Retry P opts item cause d = (r21, d') \<Longrightarrow> control_step P d d'"
| notify_call: "WorkStore_Notify P ti si n d = (r22, d') \<Longrightarrow> control_step P d d'"
| recover_call: "WorkStore_Recover P d = (r23, d') \<Longrightarrow> control_step P d d'"
| repair_call: "WorkStore_Repair P d = (r24, d') \<Longrightarrow> control_step P d d'"
| close_claim: "ClaimManagedClose locked tok tt d = (r25, d') \<Longrightarrow> control_step P d d'"
| close_retry: "RetryManagedClose why tt o' tok d = (r26, d') \<Longrightarrow> control_step P d d'"
| close_complete: "CompleteManagedClose tt o' tk d = (r27, d') \<Longrightarrow> control_step P d d'"
| report_call: "Repository_SaveManagedReleaseReport P orig evd dig nt lt d = (r28, d') \<Longrightarrow> control_step P d d'"
| tick: "now d \<le> tm \<Longrightarrow> control_step P d (d\<lparr>now := tm\<rparr>)"

lemma follows_prepare: "follows (CreateUseCase_PrepareCreate P cin)"
  unfolding CreateUseCase_PrepareCreate_def by (rule follows_keeps) (rule core_prepare_create)

lemma follows_steps:
  "follows (stepWithAudit P t ev retry after)" "follows (Repository_AdvanceOperationStepCAS P t)"
  "follows (Repository_RetryOperationStepCAS P t after)"
  by (auto simp: follows_def dest: core_stepWithAudit core_raw_steps)

lemmas follows_calls = follows_commands follows_prepare follows_steps core_saves [THEN follows_keeps]
  core_work_store [THEN follows_keeps] core_notify [THEN follows_keeps] core_recovery [THEN follows_keeps]
  core_command_writes(9-11) [THEN follows_keeps]

lemma followsD: "follows m \<Longrightarrow> m d = (r, d') \<Longrightarrow> core_step\<^sup>*\<^sup>* (core d) (core d')"
  by (simp add: follows_def)

lemma control_core: "control_step P d d' \<Longrightarrow> core_step\<^sup>*\<^sup>* (core d) (core d')"
  by (induction rule: control_step.induct) ((erule follows_calls [THEN followsD])+, simp)


section \<open>The aggregate invariant\<close>

definition no_services :: "db \<Rightarrow> bool" where
  "no_services d \<longleftrightarrow> services d = [] \<and> operations d = []"

text \<open>
  A superseded operation, its row and the generations of the services along the protocol.
\<close>

definition history_grows :: "core_state \<Rightarrow> core_state \<Rightarrow> bool" where
  "history_grows c c' \<longleftrightarrow>
     (\<forall>op \<in> set (snd c). \<not> current_in (fst c) op \<longrightarrow> op \<in> set (snd c') \<and> \<not> current_in (fst c') op)
     \<and> (\<forall>k x g. (k, x, g) \<in> set (fst c) \<longrightarrow> (\<exists>x' g'. (k, x', g') \<in> set (fst c') \<and> g \<le> g' \<and> (g' = g \<longrightarrow> x' = x)))"

lemma kept_row: "\<not> p op \<Longrightarrow> op \<in> set ops \<Longrightarrow> op \<in> set (update_where p f ops)"
  by (force simp: set_update_where)

lemma core_step_history: "core_step c c' \<Longrightarrow> core_ok c \<Longrightarrow> history_grows c c'"
proof (induction rule: core_step.induct)
  case (quiet c)
  then show ?case by (auto simp: history_grows_def)
next
  case (moved ops p fs f)
  then show ?case unfolding history_grows_def by (auto intro!: kept_row)
next
  case (accepted new c fs ops p f)
  have other: "o_id op \<noteq> o_id new" if "op \<in> set ops" "o_owner op = o_owner new" "\<not> p op" for op
    using operations_error_keyed [OF accepted(5)] kept_row [of p op ops f] that
    by (auto simp: keyed_append_one o_key_def o_owner_def image_iff)
  have "\<not> current_in (set_current (o_owner new) (o_id new) fs) op"
    if "op \<in> set ops" "\<not> current_in fs op" "\<not> p op" for op
    using that other [OF that(1) _ that(3)] by (auto simp: current_in_def set_current_mem split: if_splits)
  moreover have "\<exists>x' g'. (k, x', g') \<in> set (set_current (o_owner new) (o_id new) fs) \<and> g \<le> g' \<and> (g' = g \<longrightarrow> x' = x)"
    if "(k, x, g) \<in> set fs" for k x g
  proof (cases "k = o_owner new")
    case True
    with that show ?thesis
      by (intro exI [of _ "Some (o_id new)"] exI [of _ "g + 1"]) (auto simp: set_current_mem)
  next
    case False
    with that show ?thesis by (auto simp: set_current_mem)
  qed
  ultimately show ?case
    unfolding history_grows_def fst_conv snd_conv using accepted(2) by (metis UnCI kept_row set_append)
next
  case (created new fs ops)
  have "o_owner op \<noteq> o_owner new" if "op \<in> set ops" for op
    using core_owner [OF created(3) that] created(1) by (metis fst_conv image_eqI)
  then show ?case unfolding history_grows_def by (auto simp: current_in_def)
qed

lemma history_trans:
  assumes "history_grows a b" and "history_grows b c"
  shows "history_grows a c"
  unfolding history_grows_def
proof (intro conjI allI impI ballI)
  fix op assume "op \<in> set (snd a)" and "\<not> current_in (fst a) op"
  with assms show "op \<in> set (snd c)" "\<not> current_in (fst c) op" by (auto simp: history_grows_def)
next
  fix k x g assume "(k, x, g) \<in> set (fst a)"
  with assms(1) obtain x1 g1 where b: "(k, x1, g1) \<in> set (fst b)" "g \<le> g1" "g1 = g \<longrightarrow> x1 = x"
    unfolding history_grows_def by blast
  with assms(2) obtain x2 g2 where c: "(k, x2, g2) \<in> set (fst c)" "g1 \<le> g2" "g2 = g1 \<longrightarrow> x2 = x1"
    unfolding history_grows_def by blast
  with b show "\<exists>x' g'. (k, x', g') \<in> set (fst c) \<and> g \<le> g' \<and> (g' = g \<longrightarrow> x' = x)"
    by (intro exI [of _ x2] exI [of _ g2]) auto
qed

lemma core_steps_history: "core_step\<^sup>*\<^sup>* c c' \<Longrightarrow> core_ok c \<Longrightarrow> core_ok c' \<and> history_grows c c'"
proof (induction rule: rtranclp_induct)
  case base
  then show ?case by (auto simp: history_grows_def)
next
  case (step b c')
  then show ?case using core_step_ok core_step_history history_trans by blast
qed

interpretation aggregate: inductive_invariant no_services "control_step P" aggregate_ok
proof
  show "no_services s \<Longrightarrow> aggregate_ok s" for s by (simp add: no_services_def aggregate_ok_def core_def)
  show "aggregate_ok s \<Longrightarrow> control_step P s t \<Longrightarrow> aggregate_ok t" for s t
    using control_core core_steps_history unfolding aggregate_ok_def by blast
qed

end
