(* ===== verification/Aggregate_Facts.thy ===== *)
theory Aggregate_Facts
  imports Aggregate
begin

text \<open>
  What the commands and the workers together keep of services and operations, with a service that is
  created and then deleted as the example.
\<close>

section \<open>A service that is created and deleted\<close>

definition fresh_ids :: "char \<Rightarrow> nat \<Rightarrow> uuid" where
  "fresh_ids c n = replicate 8 c @ ''-0000-0000-0000-00000000000'' @ [digit n]"

definition empty_db :: db where
  "empty_db = sample_db\<lparr>services := [], works := []\<rparr>"

definition sample_create :: CreateInput where
  "sample_create =
     \<lparr>cin_RuntimeNamespace = '''', cin_RuntimeNamespaceUID = '''', cin_ImageSelection = None,
      cin_TenantID = sample_tenant, cin_RequestID = ''r1'', cin_Actor = ''alice'', cin_Name = ''llama'',
      cin_ModelVersionID = sample_id, cin_ArtifactProvider = ''s3'', cin_ArtifactRef = ''bucket/model'',
      cin_ArtifactSHA256 = '''', cin_ModelCapabilities = Some [''chat''], cin_ImageRef = ''vllm:1'',
      cin_ServedModelName = ''llama'', cin_EngineRuntime = ''vllm'', cin_RuntimeProvider = ''kserve'',
      cin_EngineCommand = ''serve'', cin_Resources = empty_spec, cin_GPUSnapshot = None,
      cin_GPUSnapshotDigest = '''', cin_Replicas = 1, cin_WorkerReplicas = 1,
      cin_RuntimeMode = ''deployment'', cin_Endpoint = None, cin_RequestHash = ''h1'', cin_Managed = None\<rparr>"

definition sample_delete :: CommandInput where
  "sample_delete =
     \<lparr>cmd_TenantID = sample_tenant, cmd_RequestID = ''r2'', cmd_Actor = ''alice'',
      cmd_ServiceID = fresh_ids CHR ''a'' 0, cmd_Kind = ''delete'', cmd_RequestHash = ''h2'',
      cmd_ExpectedGeneration = 0, cmd_Managed = None\<rparr>"

definition no_legacy :: "string \<Rightarrow> string \<Rightarrow> int \<Rightarrow> string result" where
  "no_legacy request resource generation = Inl (Errorf ''unused'')"

definition sample_created :: "OperationResponse result \<times> db" where
  "sample_created = CreateUseCase_Create strict_parser (fresh_ids CHR ''a'') 0 sample_create empty_db"

definition sample_deleted :: "OperationResponse result \<times> db" where
  "sample_deleted = CommandUseCase_Command strict_parser no_legacy (fresh_ids CHR ''b'') '''' sample_delete
     (snd sample_created)"

definition sample_deleted_again :: "OperationResponse result \<times> db" where
  "sample_deleted_again = CommandUseCase_Command strict_parser no_legacy (fresh_ids CHR ''c'') '''' sample_delete
     (snd sample_deleted)"

lemma sample_created_step: "control_step strict_parser empty_db (snd sample_created)"
  unfolding sample_created_def by (rule control_step.create_call [OF prod.collapse [symmetric]])

lemma sample_deleted_step: "control_step strict_parser (snd sample_created) (snd sample_deleted)"
  unfolding sample_deleted_def by (rule control_step.command_call [OF prod.collapse [symmetric]])

lemma sample_deleted_reachable: "reachable no_services (control_step strict_parser) (snd sample_deleted)"
proof -
  have "reachable no_services (control_step strict_parser) empty_db"
    by (rule reachable.start) (simp add: no_services_def empty_db_def sample_db_def)
  from reachable.next_state [OF reachable.next_state [OF this sample_created_step] sample_deleted_step]
  show ?thesis .
qed

lemma sample_deleted_rows:
  "map (\<lambda>op. (o_kind op, o_phase op, is_current (snd sample_deleted) op)) (operations (snd sample_deleted)) =
     [(KindCreate, OperationFailed, False), (KindDelete, OperationPending, True)]"
  "length (services (snd sample_deleted)) = 1"
  by code_simp+

section \<open>The aggregate\<close>

text \<open>
  C3: Every write of the control plane follows the protocol of the aggregate: it leaves services and
  operations alone, changes the row of a current operation, accepts a command on a service as the next
  generation with a new current operation that is the only active one, or creates a service with its
  first operation.
\<close>

theorem control_refines_aggregate:
  assumes "control_step P d d'"
  shows "core_step\<^sup>*\<^sup>* (core d) (core d')"
  using assms by (rule control_core)

theorem control_refines_aggregate_witness:
  "core_step\<^sup>*\<^sup>* (core empty_db) (core (snd sample_created)) \<and>
   core_step\<^sup>*\<^sup>* (core (snd sample_created)) (core (snd sample_deleted))"
  using control_refines_aggregate [OF sample_created_step] control_refines_aggregate [OF sample_deleted_step] by simp

lemma find_service_keyed:
  "keyed s_key (services d) \<Longrightarrow> s \<in> set (services d) \<Longrightarrow> find_service d (s_tenant s) (s_id s) = Some s"
  unfolding find_service_def by (rule find_keyed [of s_key]) (simp_all add: s_key_def)

lemma keyed_facts: "keyed fst (map service_facts ss) = keyed s_key ss"
  by (simp add: keyed_def service_facts_def comp_def)

lemma service_current:
  assumes "aggregate_ok d" and "s \<in> set (services d)"
  shows "\<exists>op \<in> set (operations d). o_owner op = s_key s \<and> s_current_operation s = Some (o_id op)
    \<and> o_target_generation op = s_desired_generation s"
proof -
  have "core_ok (map service_facts (services d), operations d)"
    using assms(1) by (simp add: aggregate_ok_def core_def)
  moreover have "(s_key s, s_current_operation s, s_desired_generation s) \<in> set (map service_facts (services d))"
    using assms(2) by (auto simp: service_facts_def image_iff)
  ultimately show ?thesis by (rule core_current) blast
qed

lemma current_is_current:
  assumes "aggregate_ok d" and "op \<in> set (operations d)"
  shows "is_current d op \<longleftrightarrow> current_in (map service_facts (services d)) op"
proof
  assume "current_in (map service_facts (services d)) op"
  then obtain s where s: "s \<in> set (services d)" "s_key s = o_owner op" "s_current_operation s = Some (o_id op)"
    by (auto simp: current_in_def service_facts_def)
  have ok: "core_ok (map service_facts (services d), operations d)"
    using assms(1) by (simp add: aggregate_ok_def core_def)
  then have "find_service d (s_tenant s) (s_id s) = Some s"
    using find_service_keyed s(1) by (simp add: keyed_facts)
  moreover obtain x where "x \<in> set (operations d)" "o_owner x = s_key s" "o_id x = o_id op"
      "o_target_generation x = s_desired_generation s"
    using service_current [OF assms(1) s(1)] s(3) by auto
  moreover from this have "x = op"
    using keyed_unique [of o_key "operations d" x op] ok assms(2) s(2) by (simp add: o_key_def o_owner_def)
  ultimately show "is_current d op"
    using s by (simp add: is_current_def s_key_def o_owner_def)
qed (rule current_facts)

lemma one_active:
  assumes agg: "aggregate_ok d" and op: "op \<in> set (operations d)"
  shows "is_current d op \<or> \<not> op_active op
    \<and> (\<exists>s \<in> set (services d). s_key s = o_owner op \<and> o_target_generation op < s_desired_generation s)"
proof -
  have ok: "core_ok (map service_facts (services d), operations d)"
    using agg by (simp add: aggregate_ok_def core_def)
  show ?thesis
    using core_owner [OF ok op] unfolding current_is_current [OF agg op] current_in_def
    by (auto simp: service_facts_def image_iff) metis
qed

text \<open>
  C6: From an empty database on, whatever commands, workers, providers and recovery do and in whatever
  order, every service has its current operation, which belongs to it and targets its desired generation;
  every other operation is finished and targets an older generation. So a service has at most one
  operation at work, and only the current one.
\<close>

theorem one_current_operation:
  assumes "reachable no_services (control_step P) d"
  shows "(\<forall>s \<in> set (services d). \<exists>op \<in> set (operations d). o_owner op = s_key s
        \<and> s_current_operation s = Some (o_id op) \<and> o_target_generation op = s_desired_generation s)
     \<and> (\<forall>op \<in> set (operations d). is_current d op \<or> \<not> op_active op
        \<and> (\<exists>s \<in> set (services d). s_key s = o_owner op \<and> o_target_generation op < s_desired_generation s))"
proof -
  have agg: "aggregate_ok d" using aggregate.inv_reachable [OF assms] .
  then show ?thesis using service_current one_active by blast
qed

theorem one_current_operation_witness:
  "list_all (\<lambda>s. list_ex (\<lambda>op. o_owner op = s_key s \<and> s_current_operation s = Some (o_id op)
      \<and> o_target_generation op = s_desired_generation s) (operations (snd sample_deleted)))
      (services (snd sample_deleted))
   \<and> length (services (snd sample_deleted)) = 1
   \<and> list_all (\<lambda>op. is_current (snd sample_deleted) op \<or> \<not> op_active op) (operations (snd sample_deleted))"
  using one_current_operation [OF sample_deleted_reachable] sample_deleted_rows(2)
  by (auto simp: list_all_iff list_ex_iff)

text \<open>
  C8: Once an operation has been superseded, no later write of the control plane changes its row or makes
  it current again, and no worker can pass the fence of its steps; the desired generation of a service
  never decreases.
\<close>

theorem superseded_operation_frozen:
  assumes "reachable no_services (control_step P) d" and "(control_step P)\<^sup>*\<^sup>* d d'"
  shows "(\<forall>op \<in> set (operations d). \<not> is_current d op \<longrightarrow>
        op \<in> set (operations d') \<and> \<not> is_current d' op \<and> \<not> op_active op \<and> \<not> op_fenced d' op token)
     \<and> (\<forall>s \<in> set (services d). \<exists>s' \<in> set (services d'). s_key s' = s_key s
        \<and> s_desired_generation s \<le> s_desired_generation s')"
proof -
  have agg: "aggregate_ok d" using aggregate.inv_reachable [OF assms(1)] .
  have agg': "aggregate_ok d'" using aggregate.inv_steps [OF assms(2) agg] .
  have "core_step\<^sup>*\<^sup>* (core d) (core d')"
    using assms(2) by (induction rule: rtranclp_induct) (auto dest: control_core)
  with agg have grows: "history_grows (core d) (core d')"
    using core_steps_history by (auto simp: aggregate_ok_def)
  have "op \<in> set (operations d') \<and> \<not> is_current d' op \<and> \<not> op_active op \<and> \<not> op_fenced d' op token"
    if op: "op \<in> set (operations d)" "\<not> is_current d op" for op
  proof -
    have "op \<in> set (operations d') \<and> \<not> current_in (map service_facts (services d')) op"
      using grows op current_is_current [OF agg op(1)] by (auto simp: history_grows_def core_def)
    then have "op \<in> set (operations d')" "\<not> is_current d' op"
      using current_is_current [OF agg'] by blast+
    moreover have "\<not> op_active op" using one_active [OF agg op(1)] op(2) by blast
    ultimately show ?thesis by (simp add: op_fenced_def)
  qed
  moreover have "\<exists>s' \<in> set (services d'). s_key s' = s_key s \<and> s_desired_generation s \<le> s_desired_generation s'"
    if "s \<in> set (services d)" for s
  proof -
    have "(s_key s, s_current_operation s, s_desired_generation s) \<in> set (fst (core d))"
      using that by (auto simp: core_def service_facts_def image_iff)
    with grows obtain x g where "(s_key s, x, g) \<in> set (fst (core d'))" "s_desired_generation s \<le> g"
      unfolding history_grows_def by blast
    then show ?thesis by (auto simp: core_def service_facts_def)
  qed
  ultimately show ?thesis by blast
qed


theorem superseded_operation_frozen_witness:
  "\<not> isl (fst sample_deleted_again) \<and>
   list_ex (\<lambda>op. o_kind op = KindCreate \<and> \<not> is_current (snd sample_deleted) op
     \<and> op \<in> set (operations (snd sample_deleted_again)) \<and> \<not> is_current (snd sample_deleted_again) op
     \<and> \<not> op_fenced (snd sample_deleted_again) op ''token'') (operations (snd sample_deleted))"
proof -
  have "control_step strict_parser (snd sample_deleted) (snd sample_deleted_again)"
    unfolding sample_deleted_again_def by (rule control_step.command_call [OF prod.collapse [symmetric]])
  then have steps: "(control_step strict_parser)\<^sup>*\<^sup>* (snd sample_deleted) (snd sample_deleted_again)" ..
  have "list_ex (\<lambda>op. o_kind op = KindCreate \<and> \<not> is_current (snd sample_deleted) op) (operations (snd sample_deleted))"
    using sample_deleted_rows(1) by (auto simp: map_eq_Cons_conv)
  moreover have "\<not> isl (fst sample_deleted_again)" by code_simp
  ultimately show ?thesis
    using superseded_operation_frozen [OF sample_deleted_reachable steps, of "''token''"]
    unfolding list_ex_iff by blast
qed

end
