(* ===== verification/Go_Base64.thy ===== *)
theory Go_Base64
  imports Go_Crypto
begin

text \<open>
  Unpadded base64 of the Go standard library (\<^verbatim>\<open>base64.RawStdEncoding\<close>, \<^verbatim>\<open>base64.RawURLEncoding\<close>) with its
  round trip, \<^verbatim>\<open>strings.Split\<close> on one character, \<^verbatim>\<open>strings.Join\<close> and the other functions of the package
  \<^verbatim>\<open>strings\<close> that the credentials use.
\<close>

section \<open>Base64\<close>

definition alnum_chars :: string where
  "alnum_chars = map char_of ([65::nat..<91] @ [97..<123] @ [48..<58])"

definition std_chars :: string where
  "std_chars = alnum_chars @ ''+/''"

definition url_chars :: string where
  "url_chars = alnum_chars @ ''-_''"

text \<open>The groups of six bits of a list of bytes, the last one filled up with zeroes.\<close>

fun sextets :: "byte list \<Rightarrow> nat list" where
  "sextets [] = []"
| "sextets [a] = [unat a div 4, (unat a mod 4) * 16]"
| "sextets [a, b] = [unat a div 4, (unat a mod 4) * 16 + unat b div 16, (unat b mod 16) * 4]"
| "sextets (a # b # c # rest) =
     [unat a div 4, (unat a mod 4) * 16 + unat b div 16, (unat b mod 16) * 4 + unat c div 64, unat c mod 64]
     @ sextets rest"

fun from_sextets :: "nat list \<Rightarrow> byte list option" where
  "from_sextets [] = Some []"
| "from_sextets [a] = None"
| "from_sextets [a, b] = Some [of_nat (a * 4 + b div 16)]"
| "from_sextets [a, b, c] = Some [of_nat (a * 4 + b div 16), of_nat ((b mod 16) * 16 + c div 4)]"
| "from_sextets (a # b # c # d # rest) =
     map_option (\<lambda>bs. of_nat (a * 4 + b div 16) # of_nat ((b mod 16) * 16 + c div 4) # of_nat ((c mod 4) * 64 + d) # bs)
       (from_sextets rest)"

definition base64_Encode :: "string \<Rightarrow> byte list \<Rightarrow> string" where
  "base64_Encode alphabet bs = map (\<lambda>n. alphabet ! n) (sextets bs)"

fun char_index :: "string \<Rightarrow> char \<Rightarrow> nat option" where
  "char_index [] c = None"
| "char_index (a # as) c = (if a = c then Some 0 else map_option Suc (char_index as c))"

fun char_indices :: "string \<Rightarrow> string \<Rightarrow> nat list option" where
  "char_indices alphabet [] = Some []"
| "char_indices alphabet (c # cs) =
     (case char_index alphabet c of
        None \<Rightarrow> None
      | Some n \<Rightarrow> map_option ((#) n) (char_indices alphabet cs))"

text \<open>The decoder skips line ends and, not being strict, ignores the bits that fill up the last group.\<close>

definition base64_Decode :: "string \<Rightarrow> string \<Rightarrow> byte list option" where
  "base64_Decode alphabet s =
     (case char_indices alphabet (filter (\<lambda>c. c \<noteq> CHR 0x0A \<and> c \<noteq> CHR 0x0D) s) of
        None \<Rightarrow> None
      | Some ns \<Rightarrow> from_sextets ns)"

section \<open>Strings\<close>

fun strings_Split :: "char \<Rightarrow> string \<Rightarrow> string list" where
  "strings_Split c [] = [[]]"
| "strings_Split c (x # xs) =
     (if x = c then [] # strings_Split c xs
      else case strings_Split c xs of [] \<Rightarrow> [[x]] | p # ps \<Rightarrow> (x # p) # ps)"

fun strings_Join :: "string list \<Rightarrow> string \<Rightarrow> string" where
  "strings_Join [] sep = []"
| "strings_Join [p] sep = p"
| "strings_Join (p # ps) sep = p @ sep @ strings_Join ps sep"

definition HasPrefix :: "string \<Rightarrow> string \<Rightarrow> bool" where
  "HasPrefix s p \<longleftrightarrow> take (length p) s = p"

definition TrimPrefix :: "string \<Rightarrow> string \<Rightarrow> string" where
  "TrimPrefix s p = (if HasPrefix s p then drop (length p) s else s)"

definition HasSuffix :: "string \<Rightarrow> string \<Rightarrow> bool" where
  "HasSuffix s p \<longleftrightarrow> length p \<le> length s \<and> drop (length s - length p) s = p"

definition TrimSuffix :: "string \<Rightarrow> string \<Rightarrow> string" where
  "TrimSuffix s p = (if HasSuffix s p then take (length s - length p) s else s)"

definition bytes_string :: "byte list \<Rightarrow> string" where
  "bytes_string bs = map (\<lambda>b. char_of (unat b)) bs"

section \<open>Round trips\<close>

lemma unat_byte: "unat (b :: byte) < 256"
  using unsigned_less [of b] by simp

lemma byte_of_nat: "n = unat b \<Longrightarrow> of_nat n = (b :: byte)"
  by simp

lemma sextets_range: "n \<in> set (sextets bs) \<Longrightarrow> n < 64"
proof (induction bs rule: sextets.induct)
  case (2 a)
  then show ?case using unat_byte [of a] by auto
next
  case (3 a b)
  then show ?case using unat_byte [of a] unat_byte [of b] by auto
next
  case (4 a b c rest)
  then show ?case using unat_byte [of a] unat_byte [of b] unat_byte [of c] by auto
qed simp

lemma join_bits: "(n :: nat) div k * k + n mod k = n"
  by simp

lemma from_sextets_sextets [simp]: "from_sextets (sextets bs) = Some bs"
proof (induction bs rule: sextets.induct)
  case (2 a)
  have "unat a div 4 * 4 + (unat a mod 4) * 16 div 16 = unat a" by simp
  then show ?case by (simp add: byte_of_nat)
next
  case (3 a b)
  have "unat b div 16 < 16" using unat_byte [of b] by simp
  then have "unat a div 4 * 4 + ((unat a mod 4) * 16 + unat b div 16) div 16 = unat a"
      "((unat a mod 4) * 16 + unat b div 16) mod 16 * 16 + (unat b mod 16) * 4 div 4 = unat b"
    by simp_all
  then show ?case by (simp add: byte_of_nat)
next
  case (4 a b c rest)
  have "unat b div 16 < 16" "unat c div 64 < 4" using unat_byte [of b] unat_byte [of c] by simp_all
  then have "unat a div 4 * 4 + ((unat a mod 4) * 16 + unat b div 16) div 16 = unat a"
      "((unat a mod 4) * 16 + unat b div 16) mod 16 * 16 + ((unat b mod 16) * 4 + unat c div 64) div 4 = unat b"
      "((unat b mod 16) * 4 + unat c div 64) mod 4 * 64 + unat c mod 64 = unat c"
    by simp_all
  with 4 show ?case by (simp add: byte_of_nat)
qed simp

lemma char_index_nth: "distinct as \<Longrightarrow> n < length as \<Longrightarrow> char_index as (as ! n) = Some n"
  by (induction as arbitrary: n) (auto simp: nth_Cons split: nat.split)

lemma char_indices_map:
  "distinct as \<Longrightarrow> (\<And>n. n \<in> set ns \<Longrightarrow> n < length as) \<Longrightarrow> char_indices as (map (\<lambda>n. as ! n) ns) = Some ns"
  by (induction ns) (simp_all add: char_index_nth)

definition alphabet_ok :: "string \<Rightarrow> bool" where
  "alphabet_ok as \<longleftrightarrow> distinct as \<and> length as = 64 \<and> CHR 0x0A \<notin> set as \<and> CHR 0x0D \<notin> set as"

lemma alphabets_ok [simp]: "alphabet_ok std_chars" "alphabet_ok url_chars"
  by code_simp+

lemma base64_Encode_chars: "alphabet_ok as \<Longrightarrow> c \<in> set (base64_Encode as bs) \<Longrightarrow> c \<in> set as"
  using sextets_range by (fastforce simp: base64_Encode_def alphabet_ok_def)

lemma base64_round_trip: 
  assumes "alphabet_ok as"
  shows "base64_Decode as (base64_Encode as bs) = Some bs"
proof -
  have "filter (\<lambda>c. c \<noteq> CHR 0x0A \<and> c \<noteq> CHR 0x0D) (base64_Encode as bs) = base64_Encode as bs"
    using base64_Encode_chars [OF assms] assms by (auto simp: filter_id_conv alphabet_ok_def)
  moreover have "char_indices as (base64_Encode as bs) = Some (sextets bs)"
    unfolding base64_Encode_def
    using char_indices_map [of as "sextets bs"] sextets_range assms by (simp add: alphabet_ok_def)
  ultimately show ?thesis by (simp add: base64_Decode_def)
qed

lemma length_sextets: "length (sextets bs) = (4 * length bs + 2) div 3"
  by (induction bs rule: sextets.induct) simp_all

lemma length_base64: "length (base64_Encode as bs) = (4 * length bs + 2) div 3"
  by (simp add: base64_Encode_def length_sextets)

lemma bytes_string_bytes [simp]: "bytes_string (string_bytes s) = s"
proof -
  have "unat (of_nat (of_char c) :: byte) = of_char c" for c :: char
    by (simp add: unat_of_nat of_char_of [where 'a = nat])
  then show ?thesis by (simp add: bytes_string_def string_bytes_def comp_def)
qed

lemma string_bytes_string [simp]: "string_bytes (bytes_string bs) = bs"
proof -
  have "of_nat (of_char (char_of (unat b) :: char)) = b" for b :: byte
    using unat_byte [of b] by (simp add: of_char_of)
  then show ?thesis by (simp add: bytes_string_def string_bytes_def comp_def)
qed

lemma Split_free: "c \<notin> set a \<Longrightarrow> strings_Split c a = [a]"
  by (induction a) auto

lemma Split_append: "c \<notin> set a \<Longrightarrow> strings_Split c (a @ c # b) = a # strings_Split c b"
  by (induction a) auto

lemma HasPrefix_append [simp]: "HasPrefix (p @ s) p"
  by (simp add: HasPrefix_def)

lemma TrimPrefix_append [simp]: "TrimPrefix (p @ s) p = s"
  by (simp add: TrimPrefix_def)

end
