(* ===== verification/Access_Keys.thy ===== *)
theory Access_Keys
  imports Operation_Store Go_Base64
begin

text \<open>
  Access keys and access policies in PostgreSQL: the rows of the migrations \<^verbatim>\<open>000022\<close>, \<^verbatim>\<open>000025\<close> and
  \<^verbatim>\<open>000026\<close>, the statements of \<^verbatim>\<open>access_key.sql.go\<close>, \<^verbatim>\<open>service_policy.sql.go\<close> and \<^verbatim>\<open>access_policy.go\<close>, and
  the methods of \<^verbatim>\<open>Repository\<close> in \<^verbatim>\<open>access_key.go\<close>, \<^verbatim>\<open>access_policy.go\<close> and \<^verbatim>\<open>service_policy.go\<close> under
  \<^verbatim>\<open>internal/data/postgres\<close>. A Go time is a number of nanoseconds, a \<^verbatim>\<open>timestamptz\<close> a number of
  microseconds. The tables of the control plane are the part \<open>control\<close> of the state; \<open>pg_uuid\<close> is the
  driver's reading of a text that is sent for a UUID column.
\<close>

section \<open>Rows\<close>

type_synonym gotime = int

record InferenceAccessKey =
  k_tenant :: uuid
  k_id :: uuid
  k_name :: string
  k_key_prefix :: string
  k_secret_hash :: string
  k_hash_version :: string
  k_allowed_service_ids :: "string list"
  k_allowed_model_names :: "string list"
  k_requests_per_second :: "32 word"
  k_requests_per_minute :: "32 word"
  k_requests_per_hour :: "32 word"
  k_expires_at :: "time option"
  k_revoked_at :: "time option"
  k_created_by :: string
  k_created_at :: time
  k_last_used_at :: "time option"
  k_version :: int
  k_create_idempotency_key :: "string option"
  k_rotation_idempotency_key :: "string option"
  k_secret_ciphertext :: "string option"
  k_policy_id :: "uuid option"

record InferenceAccessKeyAuditEvent =
  ka_tenant :: uuid
  ka_event_id :: uuid
  ka_key :: uuid
  ka_event_type :: string
  ka_actor :: string
  ka_request_id :: string
  ka_payload :: str_map

record InferenceAccessKeyRateBucket =
  rb_tenant :: uuid
  rb_key :: uuid
  rb_window :: string
  rb_start :: time
  rb_count :: int

record InferenceAccessPolicy =
  ap_tenant :: uuid
  ap_id :: uuid
  ap_name :: string
  ap_allowed_model_names :: "string list"
  ap_requests_per_second :: "32 word"
  ap_requests_per_minute :: "32 word"
  ap_requests_per_hour :: "32 word"
  ap_version :: int
  ap_created_at :: time

text \<open>\<^verbatim>\<open>accesspolicy.Policy\<close>.\<close>

record Policy =
  pol_ID :: string
  pol_TenantID :: string
  pol_Name :: string
  pol_AllowedModelNames :: "string list"
  pol_RequestsPerSecond :: "32 word"
  pol_RequestsPerMinute :: "32 word"
  pol_RequestsPerHour :: "32 word"
  pol_Version :: int

record InferenceAccessPolicyAuditEvent =
  pa_tenant :: uuid
  pa_event_id :: uuid
  pa_policy :: uuid
  pa_event_type :: string
  pa_actor :: string
  pa_request_id :: string
  pa_payload :: Policy

record access_db =
  control :: db
  ak_keys :: "InferenceAccessKey list"
  ak_audit :: "InferenceAccessKeyAuditEvent list"
  ak_buckets :: "InferenceAccessKeyRateBucket list"
  ak_policies :: "InferenceAccessPolicy list"
  ak_policy_audit :: "InferenceAccessPolicyAuditEvent list"

text \<open>\<^verbatim>\<open>accesskey.Record\<close>.\<close>

record Record =
  rec_TenantID :: string
  rec_ID :: string
  rec_Name :: string
  rec_KeyPrefix :: string
  rec_SecretHash :: string
  rec_HashVersion :: string
  rec_PolicyID :: string
  rec_SecretCiphertext :: string
  rec_Secret :: string
  rec_AllowedServiceIDs :: "string list"
  rec_AllowedModelNames :: "string list"
  rec_RequestsPerSecond :: "32 word"
  rec_RequestsPerMinute :: "32 word"
  rec_RequestsPerHour :: "32 word"
  rec_ExpiresAt :: "gotime option"
  rec_RevokedAt :: "gotime option"
  rec_CreatedBy :: string
  rec_CreatedAt :: gotime
  rec_LastUsedAt :: "gotime option"
  rec_Version :: int
  rec_CreateIdempotencyKey :: string
  rec_RotationIdempotency :: string

text \<open>A zero \<^verbatim>\<open>Record{}\<close>; the zero time is midnight of the first of January of the year 1.\<close>

definition zero_time :: gotime where
  "zero_time = - 62135596800000000000"

definition empty_record :: Record where
  "empty_record = \<lparr>rec_TenantID = '''', rec_ID = '''', rec_Name = '''', rec_KeyPrefix = '''', rec_SecretHash = '''',
     rec_HashVersion = '''', rec_PolicyID = '''', rec_SecretCiphertext = '''', rec_Secret = '''',
     rec_AllowedServiceIDs = [], rec_AllowedModelNames = [], rec_RequestsPerSecond = 0,
     rec_RequestsPerMinute = 0, rec_RequestsPerHour = 0, rec_ExpiresAt = None, rec_RevokedAt = None,
     rec_CreatedBy = '''', rec_CreatedAt = zero_time, rec_LastUsedAt = None, rec_Version = 0,
     rec_CreateIdempotencyKey = '''', rec_RotationIdempotency = ''''\<rparr>"

section \<open>Conversions\<close>

definition timeParam :: "gotime option \<Rightarrow> time option" where
  "timeParam v = map_option (\<lambda>t. t div 1000) v"

definition timePtr :: "time option \<Rightarrow> gotime option" where
  "timePtr v = map_option (\<lambda>t. t * 1000) v"

definition textParam :: "string \<Rightarrow> string option" where
  "textParam v = (if v = '''' then None else Some v)"

definition textValue :: "string option \<Rightarrow> string" where
  "textValue v = (case v of None \<Rightarrow> '''' | Some s \<Rightarrow> s)"

definition accessKeyRecord :: "InferenceAccessKey \<Rightarrow> Record" where
  "accessKeyRecord row =
     \<lparr>rec_TenantID = k_tenant row, rec_ID = k_id row, rec_Name = k_name row, rec_KeyPrefix = k_key_prefix row,
      rec_SecretHash = k_secret_hash row, rec_HashVersion = k_hash_version row,
      rec_PolicyID = textValue (k_policy_id row), rec_SecretCiphertext = textValue (k_secret_ciphertext row),
      rec_Secret = '''', rec_AllowedServiceIDs = k_allowed_service_ids row,
      rec_AllowedModelNames = k_allowed_model_names row, rec_RequestsPerSecond = k_requests_per_second row,
      rec_RequestsPerMinute = k_requests_per_minute row, rec_RequestsPerHour = k_requests_per_hour row,
      rec_ExpiresAt = timePtr (k_expires_at row), rec_RevokedAt = timePtr (k_revoked_at row),
      rec_CreatedBy = k_created_by row, rec_CreatedAt = k_created_at row * 1000,
      rec_LastUsedAt = timePtr (k_last_used_at row), rec_Version = k_version row,
      rec_CreateIdempotencyKey = textValue (k_create_idempotency_key row),
      rec_RotationIdempotency = textValue (k_rotation_idempotency_key row)\<rparr>"

section \<open>Statements on keys\<close>

definition key_at :: "access_db \<Rightarrow> uuid \<Rightarrow> uuid \<Rightarrow> InferenceAccessKey option" where
  "key_at d tenant i = find (\<lambda>k. k_tenant k = tenant \<and> k_id k = i) (ak_keys d)"

definition GetInferenceAccessKey :: "uuid \<Rightarrow> uuid \<Rightarrow> (access_db, InferenceAccessKey) io" where
  "GetInferenceAccessKey tenant i d = one (key_at d tenant i) d"

definition LockInferenceAccessKey :: "uuid \<Rightarrow> uuid \<Rightarrow> (access_db, InferenceAccessKey) io" where
  "LockInferenceAccessKey tenant i d = one (key_at d tenant i) d"

definition GetInferenceAccessKeyByPrefix :: "string \<Rightarrow> (access_db, InferenceAccessKey) io" where
  "GetInferenceAccessKeyByPrefix keyPrefix d = one (find (\<lambda>k. k_key_prefix k = keyPrefix) (ak_keys d)) d"

definition GetInferenceAccessKeyByCreateIdempotency :: "uuid \<Rightarrow> string option \<Rightarrow> (access_db, InferenceAccessKey) io" where
  "GetInferenceAccessKeyByCreateIdempotency tenant key d =
     one (find (\<lambda>k. k_tenant k = tenant \<and> key \<noteq> None \<and> k_create_idempotency_key k = key) (ak_keys d)) d"

definition GetInferenceAccessKeyByRotationIdempotency ::
  "uuid \<Rightarrow> uuid \<Rightarrow> string option \<Rightarrow> (access_db, InferenceAccessKey) io"
where
  "GetInferenceAccessKeyByRotationIdempotency tenant i key d =
     one (find (\<lambda>k. k_tenant k = tenant \<and> k_id k = i \<and> key \<noteq> None \<and> k_rotation_idempotency_key k = key) (ak_keys d)) d"

definition k_key :: "InferenceAccessKey \<Rightarrow> uuid \<times> uuid" where
  "k_key k = (k_tenant k, k_id k)"

definition key_checks :: "InferenceAccessKey \<Rightarrow> bool" where
  "key_checks k \<longleftrightarrow> 0 \<le> sint (k_requests_per_second k) \<and> 0 \<le> sint (k_requests_per_minute k)
     \<and> 0 \<le> sint (k_requests_per_hour k) \<and> 0 < k_version k"

definition policy_at :: "access_db \<Rightarrow> uuid \<Rightarrow> uuid \<Rightarrow> InferenceAccessPolicy option" where
  "policy_at d tenant i = find (\<lambda>p. ap_tenant p = tenant \<and> ap_id p = i) (ak_policies d)"

text \<open>
  The statement's parameters are the row without the columns that take their defaults.
\<close>

definition InsertInferenceAccessKey :: "InferenceAccessKey \<Rightarrow> (access_db, InferenceAccessKey) io" where
  "InsertInferenceAccessKey arg d =
     (let row = arg\<lparr>k_revoked_at := None, k_created_at := now (control d), k_last_used_at := None,
          k_version := 1, k_rotation_idempotency_key := None\<rparr> in
      if \<not> key_checks row then (Inl (pg_check ''inference_access_keys''), d)
      else if k_create_idempotency_key row \<noteq> None
              \<and> list_ex (\<lambda>k. k_tenant k = k_tenant row
                   \<and> k_create_idempotency_key k = k_create_idempotency_key row) (ak_keys d)
      then (Inl (Sentinel ErrNoRows), d)
      else if k_key row \<in> k_key ` set (ak_keys d) \<or> k_key_prefix row \<in> k_key_prefix ` set (ak_keys d)
      then (Inl (pg_unique ''inference_access_keys''), d)
      else if (case k_policy_id row of None \<Rightarrow> False | Some p \<Rightarrow> policy_at d (k_tenant row) p = None)
      then (Inl (pg_foreign ''inference_access_keys''), d)
      else (Inr row, d\<lparr>ak_keys := ak_keys d @ [row]\<rparr>))"

text \<open>The first row that \<open>UPDATE .. WHERE .. RETURNING\<close> changes.\<close>

definition update_key ::
  "(InferenceAccessKey \<Rightarrow> bool) \<Rightarrow> (InferenceAccessKey \<Rightarrow> InferenceAccessKey) \<Rightarrow> (access_db, InferenceAccessKey) io"
where
  "update_key p f d =
     (case find p (ak_keys d) of
        None \<Rightarrow> (Inl (Sentinel ErrNoRows), d)
      | Some k \<Rightarrow> (Inr (f k), d\<lparr>ak_keys := update_where p f (ak_keys d)\<rparr>))"

definition RevokeInferenceAccessKey :: "uuid \<Rightarrow> uuid \<Rightarrow> (access_db, InferenceAccessKey) io" where
  "RevokeInferenceAccessKey tenant i d =
     update_key (\<lambda>k. k_tenant k = tenant \<and> k_id k = i)
       (\<lambda>k. k\<lparr>k_revoked_at := (case k_revoked_at k of None \<Rightarrow> Some (now (control d)) | Some t \<Rightarrow> Some t),
              k_version := k_version k + 1\<rparr>) d"

definition rotated_row ::
  "string \<Rightarrow> string \<Rightarrow> string \<Rightarrow> string option \<Rightarrow> string option \<Rightarrow> InferenceAccessKey \<Rightarrow> InferenceAccessKey"
where
  "rotated_row keyPrefix hash version key ciphertext k =
     k\<lparr>k_key_prefix := keyPrefix, k_secret_hash := hash, k_hash_version := version, k_revoked_at := None,
       k_rotation_idempotency_key := key, k_secret_ciphertext := ciphertext, k_version := k_version k + 1\<rparr>"

definition RotateInferenceAccessKey ::
  "uuid \<Rightarrow> uuid \<Rightarrow> string \<Rightarrow> string \<Rightarrow> string \<Rightarrow> string option \<Rightarrow> string option \<Rightarrow> (access_db, InferenceAccessKey) io"
where
  "RotateInferenceAccessKey tenant i keyPrefix hash version key ciphertext d =
     (let p = (\<lambda>k. k_tenant k = tenant \<and> k_id k = i \<and> k_revoked_at k = None) in
      if find p (ak_keys d) \<noteq> None
         \<and> list_ex (\<lambda>k. k_key_prefix k = keyPrefix \<and> k_key k \<noteq> (tenant, i)) (ak_keys d)
      then (Inl (pg_unique ''inference_access_keys''), d)
      else update_key p (rotated_row keyPrefix hash version key ciphertext) d)"

definition ArchiveInferenceAccessKeySecret ::
  "uuid \<Rightarrow> uuid \<Rightarrow> int \<Rightarrow> string \<Rightarrow> string option \<Rightarrow> (access_db, nat) io"
where
  "ArchiveInferenceAccessKeySecret tenant i version hash ciphertext d =
     (let p = (\<lambda>k. k_tenant k = tenant \<and> k_id k = i \<and> k_version k = version \<and> k_secret_hash k = hash
          \<and> k_secret_ciphertext k = None \<and> k_revoked_at k = None) in
      (Inr (rows_where p (ak_keys d)),
       d\<lparr>ak_keys := update_where p (k_secret_ciphertext_update (\<lambda>_. ciphertext)) (ak_keys d)\<rparr>))"

definition MarkInferenceAccessKeyUsed :: "uuid \<Rightarrow> uuid \<Rightarrow> (access_db, unit) io" where
  "MarkInferenceAccessKeyUsed tenant i d =
     (Inr (), d\<lparr>ak_keys := update_where (\<lambda>k. k_tenant k = tenant \<and> k_id k = i)
        (k_last_used_at_update (\<lambda>_. Some (now (control d)))) (ak_keys d)\<rparr>)"

definition AppendInferenceAccessKeyAudit :: "InferenceAccessKeyAuditEvent \<Rightarrow> (access_db, unit) io" where
  "AppendInferenceAccessKeyAudit ev d =
     (if list_ex (\<lambda>e. ka_tenant e = ka_tenant ev \<and> ka_event_id e = ka_event_id ev) (ak_audit d)
      then (Inl (pg_unique ''inference_access_key_audit_events''), d)
      else if key_at d (ka_tenant ev) (ka_key ev) = None
      then (Inl (pg_foreign ''inference_access_key_audit_events''), d)
      else (Inr (), d\<lparr>ak_audit := ak_audit d @ [ev]\<rparr>))"

definition rb_id :: "InferenceAccessKeyRateBucket \<Rightarrow> uuid \<times> uuid \<times> string \<times> time" where
  "rb_id b = (rb_tenant b, rb_key b, rb_window b, rb_start b)"

text \<open>
  A request of \<open>cost\<close> against a bucket: a new bucket starts with the cost, an old one grows by it, and
  neither above \<open>max_count\<close>.
\<close>

definition ConsumeInferenceAccessKeyRateBucket ::
  "uuid \<Rightarrow> uuid \<Rightarrow> string \<Rightarrow> time \<Rightarrow> int \<Rightarrow> int \<Rightarrow> (access_db, int) io"
where
  "ConsumeInferenceAccessKeyRateBucket tenant key window start cost max_count d =
     (let same = (\<lambda>b. rb_id b = (tenant, key, window, start)) in
      if \<not> cost \<le> max_count then (Inl (Sentinel ErrNoRows), d)
      else if cost < 0 \<or> window \<notin> {''second'', ''minute'', ''hour''}
      then (Inl (pg_check ''inference_access_key_rate_buckets''), d)
      else
        case find same (ak_buckets d) of
          None \<Rightarrow>
            if key_at d tenant key = None then (Inl (pg_foreign ''inference_access_key_rate_buckets''), d)
            else (Inr cost, d\<lparr>ak_buckets := ak_buckets d @
              [\<lparr>rb_tenant = tenant, rb_key = key, rb_window = window, rb_start = start, rb_count = cost\<rparr>]\<rparr>)
        | Some b \<Rightarrow>
            if rb_count b \<le> max_count - cost
            then (Inr (rb_count b + cost),
              d\<lparr>ak_buckets := update_where same (rb_count_update (\<lambda>n. n + cost)) (ak_buckets d)\<rparr>)
            else (Inl (Sentinel ErrNoRows), d))"

definition grants_model :: "access_db \<Rightarrow> string \<Rightarrow> InferenceAccessKey \<Rightarrow> bool" where
  "grants_model d model k \<longleftrightarrow> model = '''' \<or> list_ex (\<lambda>p. ap_tenant p = k_tenant k \<and> k_policy_id k = Some (ap_id p)
     \<and> model \<in> set (ap_allowed_model_names p)) (ak_policies d)"

definition CountInferenceAccessKeys :: "uuid \<Rightarrow> string \<Rightarrow> (access_db, int) io" where
  "CountInferenceAccessKeys tenant model d =
     (Inr (int (length (filter (\<lambda>k. k_tenant k = tenant \<and> grants_model d model k) (ak_keys d)))), d)"

definition ListInferenceAccessKeys :: "uuid \<Rightarrow> string \<Rightarrow> int \<Rightarrow> int \<Rightarrow> (access_db, InferenceAccessKey list) io" where
  "ListInferenceAccessKeys tenant model page_limit page_offset d =
     (Inr (take (nat page_limit) (drop (nat page_offset)
        (rev (sort_key (\<lambda>k. (k_created_at k, k_id k))
          (filter (\<lambda>k. k_tenant k = tenant \<and> grants_model d model k) (ak_keys d)))))), d)"

end
