(* ===== verification/Access_Repository.thy ===== *)
theory Access_Repository
  imports Access_Keys
begin

text \<open>
  The methods of \<^verbatim>\<open>Repository\<close> on access keys (\<^verbatim>\<open>access_key.go\<close>), access policies (\<^verbatim>\<open>access_policy.go\<close>) and the
  decision on a request (\<^verbatim>\<open>service_policy.go\<close>) under \<^verbatim>\<open>internal/data/postgres\<close>, with the policy of
  \<^verbatim>\<open>internal/biz/accesspolicy/policy.go\<close>. The nil checks of the receivers are left out; the identifiers of
  \<^verbatim>\<open>uuid.New()\<close> are arguments.
\<close>

section \<open>Access keys\<close>

record PersistResult =
  pr_Record :: Record
  pr_Replayed :: bool

record RotatePersistInput =
  ri_KeyPrefix :: string
  ri_SecretHash :: string
  ri_HashVersion :: string
  ri_SecretCiphertext :: string
  ri_Idempotency :: string
  ri_Actor :: string
  ri_RequestID :: string

definition key_event ::
  "uuid \<Rightarrow> uuid \<Rightarrow> uuid \<Rightarrow> string \<Rightarrow> string \<Rightarrow> string \<Rightarrow> str_map \<Rightarrow> InferenceAccessKeyAuditEvent"
where
  "key_event tenant eventID key event actor request payload =
     \<lparr>ka_tenant = tenant, ka_event_id = eventID, ka_key = key,
      ka_event_type = ''inference.access_key.'' @ event, ka_actor = actor, ka_request_id = request,
      ka_payload = payload\<rparr>"

text \<open>The parameters of the insert.\<close>

definition new_key_row :: "uuid \<Rightarrow> uuid \<Rightarrow> uuid \<Rightarrow> Record \<Rightarrow> InferenceAccessKey" where
  "new_key_row tenant i policy inp =
     \<lparr>k_tenant = tenant, k_id = i, k_name = rec_Name inp, k_key_prefix = rec_KeyPrefix inp,
      k_secret_hash = rec_SecretHash inp, k_hash_version = rec_HashVersion inp, k_allowed_service_ids = [],
      k_allowed_model_names = [], k_requests_per_second = rec_RequestsPerSecond inp,
      k_requests_per_minute = rec_RequestsPerMinute inp, k_requests_per_hour = rec_RequestsPerHour inp,
      k_expires_at = timeParam (rec_ExpiresAt inp), k_revoked_at = None, k_created_by = rec_CreatedBy inp,
      k_created_at = 0, k_last_used_at = None, k_version = 1,
      k_create_idempotency_key = textParam (rec_CreateIdempotencyKey inp), k_rotation_idempotency_key = None,
      k_secret_ciphertext = textParam (rec_SecretCiphertext inp), k_policy_id = Some policy\<rparr>"

definition replayed_key :: "InferenceAccessKey \<Rightarrow> PersistResult" where
  "replayed_key row = \<lparr>pr_Record = accessKeyRecord row, pr_Replayed = True\<rparr>"

definition create_key_replay :: "uuid \<Rightarrow> Record \<Rightarrow> (access_db, PersistResult option) io" where
  "create_key_replay tenant inp =
     (if rec_CreateIdempotencyKey inp = '''' then returnE None
      else
        bindE (tryE (GetInferenceAccessKeyByCreateIdempotency tenant (textParam (rec_CreateIdempotencyKey inp))))
          (\<lambda>found.
            case found of
              Inr row \<Rightarrow> returnE (Some (replayed_key row))
            | Inl err \<Rightarrow> if errors_Is err ErrNoRows then returnE None else failE err))"

text \<open>The policy row that a new key is bound to, locked against a delete.\<close>

definition share_policy :: "error \<Rightarrow> uuid \<Rightarrow> uuid \<Rightarrow> (access_db, InferenceAccessPolicy) io" where
  "share_policy missing tenant i d =
     (case policy_at d tenant i of None \<Rightarrow> (Inl missing, d) | Some p \<Rightarrow> (Inr p, d))"

definition create_key_row ::
  "uuid \<Rightarrow> uuid \<Rightarrow> uuid \<Rightarrow> uuid \<Rightarrow> Record \<Rightarrow> string \<Rightarrow> (access_db, PersistResult) io"
where
  "create_key_row eventID tenant i policy inp requestID =
     bindE (share_policy (Sentinel accesskey_ErrNotFound) tenant policy) (\<lambda>_.
     bindE (tryE (InsertInferenceAccessKey (new_key_row tenant i policy inp))) (\<lambda>inserted.
       case inserted of
         Inr row \<Rightarrow>
           bindE (AppendInferenceAccessKeyAudit (key_event tenant eventID i ''created'' (rec_CreatedBy inp) requestID
                    [(''key_id'', rec_ID inp), (''key_prefix'', rec_KeyPrefix inp)])) (\<lambda>_.
             returnE \<lparr>pr_Record = accessKeyRecord row, pr_Replayed = False\<rparr>)
       | Inl err \<Rightarrow>
           if errors_Is err ErrNoRows \<and> rec_CreateIdempotencyKey inp \<noteq> '''' then
             bindE (GetInferenceAccessKeyByCreateIdempotency tenant (textParam (rec_CreateIdempotencyKey inp)))
               (\<lambda>row. returnE (replayed_key row))
           else failE err))"

definition Repository_Create ::
  "uuid_parser \<Rightarrow> uuid \<Rightarrow> Record \<Rightarrow> string \<Rightarrow> (access_db, PersistResult) io"
where
  "Repository_Create uuid_Parse eventID inp requestID =
     bindE (liftE (requireUUID uuid_Parse ''tenant_id'' (rec_TenantID inp))) (\<lambda>tenant.
     bindE (liftE (requireUUID uuid_Parse ''id'' (rec_ID inp))) (\<lambda>i.
     bindE (liftE (requireUUID uuid_Parse ''policy_id'' (rec_PolicyID inp))) (\<lambda>policy.
     transaction (
       bindE (create_key_replay tenant inp) (\<lambda>found.
         case found of
           Some result \<Rightarrow> returnE result
         | None \<Rightarrow> create_key_row eventID tenant i policy inp requestID)))))"

record ListOptions =
  lo_Limit :: int
  lo_Offset :: int
  lo_ServedModelName :: string

definition Repository_List :: "uuid_parser \<Rightarrow> string \<Rightarrow> ListOptions \<Rightarrow> (access_db, Record list \<times> int) io" where
  "Repository_List uuid_Parse tenantID options =
     bindE (liftE (requireUUID uuid_Parse ''tenant_id'' tenantID)) (\<lambda>tenant.
     bindE (ListInferenceAccessKeys tenant (lo_ServedModelName options) (lo_Limit options) (lo_Offset options)) (\<lambda>items.
     bindE (CountInferenceAccessKeys tenant (lo_ServedModelName options)) (\<lambda>total.
       returnE (map accessKeyRecord items, total))))"

text \<open>A row, with \<^verbatim>\<open>pgx.ErrNoRows\<close> reported as an error of the domain.\<close>

definition found_or :: "error \<Rightarrow> ('s, 'a) io \<Rightarrow> ('s, 'a) io" where
  "found_or missing m =
     bindE (tryE m) (\<lambda>x. case x of
       Inr a \<Rightarrow> returnE a
     | Inl err \<Rightarrow> if errors_Is err ErrNoRows then failE missing else failE err)"

definition Repository_Get :: "uuid_parser \<Rightarrow> string \<Rightarrow> string \<Rightarrow> (access_db, Record) io" where
  "Repository_Get uuid_Parse tenantID i =
     bindE (liftE (requireUUID uuid_Parse ''tenant_id'' tenantID)) (\<lambda>tenant.
     bindE (liftE (requireUUID uuid_Parse ''id'' i)) (\<lambda>keyID.
     bindE (found_or (Sentinel accesskey_ErrNotFound) (GetInferenceAccessKey tenant keyID)) (\<lambda>row.
       returnE (accessKeyRecord row))))"

definition Repository_GetByPrefix :: "string \<Rightarrow> (access_db, Record) io" where
  "Repository_GetByPrefix keyPrefix =
     bindE (found_or (Sentinel accesskey_ErrNotFound) (GetInferenceAccessKeyByPrefix keyPrefix)) (\<lambda>row.
       returnE (accessKeyRecord row))"

definition Repository_Revoke ::
  "uuid_parser \<Rightarrow> uuid \<Rightarrow> string \<Rightarrow> string \<Rightarrow> string \<Rightarrow> string \<Rightarrow> (access_db, Record) io"
where
  "Repository_Revoke uuid_Parse eventID tenantID i actor requestID =
     bindE (liftE (requireUUID uuid_Parse ''tenant_id'' tenantID)) (\<lambda>tenant.
     bindE (liftE (requireUUID uuid_Parse ''id'' i)) (\<lambda>keyID.
     transaction (
       bindE (found_or (Sentinel accesskey_ErrNotFound) (LockInferenceAccessKey tenant keyID)) (\<lambda>current.
         if k_revoked_at current \<noteq> None then returnE (accessKeyRecord current)
         else
           bindE (found_or (Sentinel accesskey_ErrNotFound) (RevokeInferenceAccessKey tenant keyID)) (\<lambda>row.
           bindE (AppendInferenceAccessKeyAudit (key_event tenant eventID keyID ''revoked'' actor requestID
                    [(''key_id'', i)])) (\<lambda>_.
             returnE (accessKeyRecord row)))))))"

definition rotate_replay :: "uuid \<Rightarrow> uuid \<Rightarrow> RotatePersistInput \<Rightarrow> (access_db, PersistResult option) io" where
  "rotate_replay tenant keyID inp =
     (if ri_Idempotency inp = '''' then returnE None
      else
        bindE (tryE (GetInferenceAccessKeyByRotationIdempotency tenant keyID (textParam (ri_Idempotency inp)))) (\<lambda>found.
          case found of
            Inr row \<Rightarrow> returnE (Some (replayed_key row))
          | Inl err \<Rightarrow> if errors_Is err ErrNoRows then returnE None else failE err))"

text \<open>
  The rotation. After an error of the server the transaction is aborted, so the code's second look for
  the idempotency key fails and the error is returned.
\<close>

definition rotate_row ::
  "uuid \<Rightarrow> uuid \<Rightarrow> uuid \<Rightarrow> string \<Rightarrow> RotatePersistInput \<Rightarrow> (access_db, PersistResult) io"
where
  "rotate_row eventID tenant keyID i inp =
     bindE (tryE (RotateInferenceAccessKey tenant keyID (ri_KeyPrefix inp) (ri_SecretHash inp) (ri_HashVersion inp)
              (textParam (ri_Idempotency inp)) (textParam (ri_SecretCiphertext inp)))) (\<lambda>rotated.
       case rotated of
         Inr row \<Rightarrow>
           bindE (AppendInferenceAccessKeyAudit (key_event tenant eventID keyID ''rotated'' (ri_Actor inp)
                    (ri_RequestID inp) [(''key_id'', i), (''key_prefix'', ri_KeyPrefix inp)])) (\<lambda>_.
             returnE \<lparr>pr_Record = accessKeyRecord row, pr_Replayed = False\<rparr>)
       | Inl err \<Rightarrow>
           if errors_Is err ErrNoRows then
             bindE (tryE (GetInferenceAccessKey tenant keyID)) (\<lambda>found.
               case found of
                 Inl e \<Rightarrow> if errors_Is e ErrNoRows then failE (Sentinel accesskey_ErrNotFound)
                          else failE (Sentinel ErrAlreadyRevoked)
               | Inr _ \<Rightarrow> failE (Sentinel ErrAlreadyRevoked))
           else failE err)"

definition Repository_Rotate ::
  "uuid_parser \<Rightarrow> uuid \<Rightarrow> string \<Rightarrow> string \<Rightarrow> RotatePersistInput \<Rightarrow> (access_db, PersistResult) io"
where
  "Repository_Rotate uuid_Parse eventID tenantID i inp =
     bindE (liftE (requireUUID uuid_Parse ''tenant_id'' tenantID)) (\<lambda>tenant.
     bindE (liftE (requireUUID uuid_Parse ''id'' i)) (\<lambda>keyID.
     transaction (
       bindE (found_or (Sentinel accesskey_ErrNotFound) (LockInferenceAccessKey tenant keyID)) (\<lambda>current.
       bindE (rotate_replay tenant keyID inp) (\<lambda>found.
         case found of
           Some result \<Rightarrow> returnE result
         | None \<Rightarrow>
           if k_revoked_at current \<noteq> None then failE (Sentinel ErrAlreadyRevoked)
           else rotate_row eventID tenant keyID i inp)))))"

section \<open>Rate limits\<close>

text \<open>The windows of a record: name, limit and length in nanoseconds.\<close>

definition rate_windows :: "Record \<Rightarrow> (string \<times> 32 word \<times> duration) list" where
  "rate_windows record =
     [(''second'', rec_RequestsPerSecond record, 1000000000),
      (''minute'', rec_RequestsPerMinute record, 60000000000),
      (''hour'', rec_RequestsPerHour record, 3600000000000)]"

text \<open>\<^verbatim>\<open>t.Truncate(d)\<close> for a length that divides a day.\<close>

definition truncate_time :: "gotime \<Rightarrow> duration \<Rightarrow> gotime" where
  "truncate_time t len = t - t mod len"

text \<open>The time until the first window that is full, \<open>None\<close> when all of them have room.\<close>

fun consume_windows ::
  "uuid \<Rightarrow> uuid \<Rightarrow> gotime \<Rightarrow> int \<Rightarrow> (string \<times> 32 word \<times> duration) list \<Rightarrow> (access_db, duration option) io"
where
  "consume_windows tenant key clock cost [] = returnE None"
| "consume_windows tenant key clock cost ((name, limit, len) # ws) =
     (if sint limit \<le> 0 then consume_windows tenant key clock cost ws
      else
        bindE (tryE (ConsumeInferenceAccessKeyRateBucket tenant key name (truncate_time clock len div 1000) cost
                 (sint limit))) (\<lambda>r.
          case r of
            Inr _ \<Rightarrow> consume_windows tenant key clock cost ws
          | Inl err \<Rightarrow>
            if errors_Is err ErrNoRows then returnE (Some (truncate_time clock len + len - clock)) else failE err))"

definition consumeKeyBuckets ::
  "uuid \<Rightarrow> uuid \<Rightarrow> Record \<Rightarrow> gotime \<Rightarrow> int \<Rightarrow> (access_db, bool \<times> duration) io"
where
  "consumeKeyBuckets tenant key record clock cost =
     bindE (consume_windows tenant key clock cost (rate_windows record)) (\<lambda>full.
       case full of
         Some retry \<Rightarrow> returnE (False, retry)
       | None \<Rightarrow> bindE (MarkInferenceAccessKeyUsed tenant key) (\<lambda>_. returnE (True, 0)))"

text \<open>A transaction that is committed only for some results and rolled back otherwise.\<close>

definition commit_if :: "('a \<Rightarrow> bool) \<Rightarrow> ('s, 'a) io \<Rightarrow> ('s, 'a) io" where
  "commit_if p m d =
     (case m d of
        (Inl e, _) \<Rightarrow> (Inl e, d)
      | (Inr a, d') \<Rightarrow> (Inr a, if p a then d' else d))"

definition Repository_Consume ::
  "uuid_parser \<Rightarrow> Record \<Rightarrow> gotime \<Rightarrow> int \<Rightarrow> (access_db, bool \<times> duration) io"
where
  "Repository_Consume uuid_Parse record clock cost =
     bindE (liftE (requireUUID uuid_Parse ''tenant_id'' (rec_TenantID record))) (\<lambda>tenant.
     bindE (liftE (requireUUID uuid_Parse ''id'' (rec_ID record))) (\<lambda>key.
       commit_if fst (consumeKeyBuckets tenant key record clock cost)))"

definition Repository_ArchiveSecret :: "uuid_parser \<Rightarrow> Record \<Rightarrow> string \<Rightarrow> (access_db, unit) io" where
  "Repository_ArchiveSecret uuid_Parse record ciphertext =
     (if ciphertext = '''' then failE (Errorf ''access-key archive is not configured'')
      else
        bindE (liftE (requireUUID uuid_Parse ''tenant_id'' (rec_TenantID record))) (\<lambda>tenant.
        bindE (liftE (requireUUID uuid_Parse ''id'' (rec_ID record))) (\<lambda>i.
        bindE (ArchiveInferenceAccessKeySecret tenant i (rec_Version record) (rec_SecretHash record)
                 (textParam ciphertext)) (\<lambda>_. returnE ()))))"

section \<open>Published models\<close>

record ResolvePublishedModelRow =
  rp_TenantID :: uuid
  rp_ServiceID :: uuid
  rp_Generation :: int
  rp_Effective :: bool

definition published_model_row :: "InferenceService \<Rightarrow> InferencePublication \<Rightarrow> ResolvePublishedModelRow" where
  "published_model_row s p =
     \<lparr>rp_TenantID = s_tenant s, rp_ServiceID = s_id s, rp_Generation = p_generation p,
      rp_Effective = (s_deleted_at s = None \<and> s_desired_state s = ''running''
        \<and> p_generation p = s_desired_generation s \<and> p_desired_phase p = ''published''
        \<and> p_observed_phase p = ''published'')\<rparr>"

definition ResolvePublishedModel :: "db \<Rightarrow> string \<Rightarrow> ResolvePublishedModelRow list" where
  "ResolvePublishedModel d model =
     concat (map (\<lambda>p.
       concat (map (\<lambda>s.
         map (\<lambda>sp. published_model_row s p)
           (filter (\<lambda>sp. sp_tenant sp = p_tenant p \<and> sp_service sp = p_service p
              \<and> sp_generation sp = p_generation p \<and> sp_served_model_name sp = model) (specs d)))
         (filter (\<lambda>s. s_tenant s = p_tenant p \<and> s_id s = p_service p) (services d))))
       (filter (\<lambda>p. p_observed_phase p \<noteq> ''withdrawn'' \<or> p_desired_phase p \<noteq> ''withdrawn'') (publications d)))"

text \<open>The loop over the rows: the last row, and whether some row is effective, unless two services are found.\<close>

fun lookup_rows :: "ResolvePublishedModelRow option \<Rightarrow> bool \<Rightarrow> ResolvePublishedModelRow list \<Rightarrow> ResolvePublishedModelRow option" where
  "lookup_rows resolved effective [] = (if effective then resolved else None)"
| "lookup_rows None effective (row # rows) = lookup_rows (Some row) (effective \<or> rp_Effective row) rows"
| "lookup_rows (Some resolved) effective (row # rows) =
     (if rp_TenantID row \<noteq> rp_TenantID resolved \<or> rp_ServiceID row \<noteq> rp_ServiceID resolved then None
      else lookup_rows (Some row) (effective \<or> rp_Effective row) rows)"

definition lookupPublishedModel :: "string \<Rightarrow> (access_db, ResolvePublishedModelRow option) io" where
  "lookupPublishedModel model d = (Inr (lookup_rows None False (ResolvePublishedModel (control d) model)), d)"

definition Repository_Resolve :: "string \<Rightarrow> (access_db, string) io" where
  "Repository_Resolve model =
     bindE (lookupPublishedModel model) (\<lambda>found.
       returnE (case found of None \<Rightarrow> '''' | Some row \<Rightarrow> rp_ServiceID row))"

definition LockPolicyServiceShared :: "uuid \<Rightarrow> uuid \<Rightarrow> (access_db, uuid) io" where
  "LockPolicyServiceShared tenant service d =
     one (map_option s_id (find (\<lambda>s. s_tenant s = tenant \<and> s_id s = service \<and> s_deleted_at s = None
       \<and> s_desired_state s \<noteq> ''deleted'') (services (control d)))) d"

section \<open>The decision on a request\<close>

record CheckResult =
  chk_Record :: Record
  chk_Allowed :: bool
  chk_DenialCode :: string
  chk_RetryAfter :: duration
  chk_PolicyVersion :: int

definition denied :: "Record \<Rightarrow> string \<Rightarrow> CheckResult" where
  "denied record code = \<lparr>chk_Record = record, chk_Allowed = False, chk_DenialCode = code, chk_RetryAfter = 0,
     chk_PolicyVersion = rec_Version record\<rparr>"

definition limits_of :: "InferenceAccessPolicy \<Rightarrow> Record \<Rightarrow> Record" where
  "limits_of p record = record\<lparr>rec_RequestsPerSecond := ap_requests_per_second p,
     rec_RequestsPerMinute := ap_requests_per_minute p, rec_RequestsPerHour := ap_requests_per_hour p\<rparr>"

text \<open>The part after the policy has been read.\<close>

definition consume_policy ::
  "uuid \<Rightarrow> uuid \<Rightarrow> Record \<Rightarrow> InferenceAccessPolicy \<Rightarrow> string \<Rightarrow> gotime \<Rightarrow> int \<Rightarrow> (access_db, CheckResult) io"
where
  "consume_policy tenant key record p model clock cost =
     (if model \<notin> set (ap_allowed_model_names p)
      then returnE ((denied record ''scope_denied'')\<lparr>chk_PolicyVersion := ap_version p\<rparr>)
      else
        bindE (consumeKeyBuckets tenant key (limits_of p record) clock cost) (\<lambda>(allowed, retry).
          if \<not> allowed
          then returnE ((denied record ''rate_limited'')\<lparr>chk_PolicyVersion := ap_version p, chk_RetryAfter := retry\<rparr>)
          else returnE \<lparr>chk_Record = limits_of p record, chk_Allowed = True, chk_DenialCode = '''',
                 chk_RetryAfter = 0, chk_PolicyVersion = ap_version p\<rparr>))"

text \<open>The part after the key has been locked.\<close>

definition consume_key ::
  "uuid \<Rightarrow> uuid \<Rightarrow> Record \<Rightarrow> InferenceAccessKey \<Rightarrow> string \<Rightarrow> gotime \<Rightarrow> int \<Rightarrow> (access_db, CheckResult) io"
where
  "consume_key tenant key record latest model clock cost =
     (if k_version latest \<noteq> rec_Version record then returnE (denied record ''invalid_key'')
      else if k_revoked_at latest \<noteq> None then returnE (denied record ''revoked'')
      else if (case k_expires_at latest of None \<Rightarrow> False | Some t \<Rightarrow> \<not> t * 1000 > clock)
      then returnE (denied record ''expired'')
      else case k_policy_id latest of
        None \<Rightarrow> returnE (denied record ''scope_denied'')
      | Some policyID \<Rightarrow>
        bindE (tryE (share_policy (Sentinel ErrNoRows) tenant policyID)) (\<lambda>found.
          case found of
            Inl err \<Rightarrow> if errors_Is err ErrNoRows then returnE (denied record ''scope_denied'') else failE err
          | Inr p \<Rightarrow> consume_policy tenant key record p model clock cost))"

text \<open>The rows that the decision locks before the key, \<open>False\<close> when the model is not served by \<open>service\<close>.\<close>

definition consume_publication :: "Record \<Rightarrow> string \<Rightarrow> string \<Rightarrow> (access_db, bool) io" where
  "consume_publication record service model =
     bindE (lookupPublishedModel model) (\<lambda>found.
       case found of
         None \<Rightarrow> returnE False
       | Some publication \<Rightarrow>
         if rp_ServiceID publication \<noteq> service \<or> rp_TenantID publication \<noteq> rec_TenantID record then returnE False
         else
           bindE (tryE (LockPolicyServiceShared (rp_TenantID publication) (rp_ServiceID publication))) (\<lambda>locked.
             case locked of
               Inl err \<Rightarrow> if errors_Is err ErrNoRows then returnE False else failE err
             | Inr _ \<Rightarrow>
               bindE (lookupPublishedModel model) (\<lambda>current.
                 case current of
                   None \<Rightarrow> returnE False
                 | Some row \<Rightarrow> returnE (rp_TenantID row = rp_TenantID publication
                     \<and> rp_ServiceID row = rp_ServiceID publication))))"

definition Repository_ConsumeAccess ::
  "uuid_parser \<Rightarrow> Record \<Rightarrow> string \<Rightarrow> string \<Rightarrow> gotime \<Rightarrow> int \<Rightarrow> (access_db, CheckResult) io"
where
  "Repository_ConsumeAccess uuid_Parse record service model clock cost =
     commit_if chk_Allowed (
       bindE (consume_publication record service model) (\<lambda>served.
         if \<not> served then returnE (denied record ''scope_denied'')
         else
           bindE (liftE (requireUUID uuid_Parse ''tenant_id'' (rec_TenantID record))) (\<lambda>tenant.
           bindE (liftE (requireUUID uuid_Parse ''key_id'' (rec_ID record))) (\<lambda>key.
           bindE (tryE (LockInferenceAccessKey tenant key)) (\<lambda>locked.
             case locked of
               Inl err \<Rightarrow> if errors_Is err ErrNoRows then returnE (denied record ''scope_denied'') else failE err
             | Inr latest \<Rightarrow> consume_key tenant key record latest model clock cost)))))"

section \<open>Access policies\<close>

definition Normalize_Policy :: "Policy \<Rightarrow> Policy result" where
  "Normalize_Policy p =
     (let name = TrimSpace (pol_Name p); models = map TrimSpace (pol_AllowedModelNames p) in
      if name = '''' then Inl (Wrapf '''' (Sentinel accesspolicy_ErrInvalidInput) '': name is required'')
      else if sint (pol_RequestsPerSecond p) < 0 \<or> sint (pol_RequestsPerMinute p) < 0 \<or> sint (pol_RequestsPerHour p) < 0
      then Inl (Wrapf '''' (Sentinel accesspolicy_ErrInvalidInput) '': rate limits cannot be negative'')
      else if '''' \<in> set models
      then Inl (Wrapf '''' (Sentinel accesspolicy_ErrInvalidInput) '': model names cannot be empty'')
      else Inr (p\<lparr>pol_Name := name, pol_AllowedModelNames := sort (remdups models)\<rparr>))"

definition AllowsModel :: "Policy \<Rightarrow> string \<Rightarrow> bool" where
  "AllowsModel p model \<longleftrightarrow> list_ex (\<lambda>allowed. allowed = model) (pol_AllowedModelNames p)"

definition scanPolicy :: "string \<Rightarrow> InferenceAccessPolicy \<Rightarrow> Policy" where
  "scanPolicy tenant row =
     \<lparr>pol_ID = ap_id row, pol_TenantID = tenant, pol_Name = ap_name row,
      pol_AllowedModelNames = ap_allowed_model_names row, pol_RequestsPerSecond = ap_requests_per_second row,
      pol_RequestsPerMinute = ap_requests_per_minute row, pol_RequestsPerHour = ap_requests_per_hour row,
      pol_Version = ap_version row\<rparr>"

definition policyAudit :: "uuid_parser \<Rightarrow> uuid \<Rightarrow> Policy \<Rightarrow> string \<Rightarrow> string \<Rightarrow> string \<Rightarrow> (access_db, unit) io" where
  "policyAudit pg_uuid eventID p event actor request =
     bindE (liftE (pg_uuid (pol_TenantID p))) (\<lambda>tenant.
     bindE (liftE (pg_uuid (pol_ID p))) (\<lambda>i d.
       if list_ex (\<lambda>e. pa_tenant e = tenant \<and> pa_event_id e = eventID) (ak_policy_audit d)
       then (Inl (pg_unique ''inference_access_policy_audit_events''), d)
       else (Inr (), d\<lparr>ak_policy_audit := ak_policy_audit d @
         [\<lparr>pa_tenant = tenant, pa_event_id = eventID, pa_policy = i, pa_event_type = event, pa_actor = actor,
           pa_request_id = request, pa_payload = p\<rparr>]\<rparr>)))"

definition policy_checks :: "InferenceAccessPolicy \<Rightarrow> bool" where
  "policy_checks p \<longleftrightarrow> ap_name p \<noteq> '''' \<and> 0 \<le> sint (ap_requests_per_second p)
     \<and> 0 \<le> sint (ap_requests_per_minute p) \<and> 0 \<le> sint (ap_requests_per_hour p) \<and> 0 < ap_version p"

definition ap_key :: "InferenceAccessPolicy \<Rightarrow> uuid \<times> uuid" where
  "ap_key p = (ap_tenant p, ap_id p)"

definition insert_policy :: "InferenceAccessPolicy \<Rightarrow> (access_db, InferenceAccessPolicy) io" where
  "insert_policy row d =
     (if \<not> policy_checks row then (Inl (pg_check ''inference_access_policies''), d)
      else if ap_key row \<in> ap_key ` set (ak_policies d) then (Inl (pg_unique ''inference_access_policies''), d)
      else (Inr row, d\<lparr>ak_policies := ak_policies d @ [row]\<rparr>))"

definition edited_policy :: "Policy \<Rightarrow> InferenceAccessPolicy \<Rightarrow> InferenceAccessPolicy" where
  "edited_policy p row =
     row\<lparr>ap_name := pol_Name p, ap_allowed_model_names := pol_AllowedModelNames p,
         ap_requests_per_second := pol_RequestsPerSecond p, ap_requests_per_minute := pol_RequestsPerMinute p,
         ap_requests_per_hour := pol_RequestsPerHour p\<rparr>"

definition Repository_CreateAccessPolicy ::
  "uuid_parser \<Rightarrow> uuid \<Rightarrow> uuid \<Rightarrow> Policy \<Rightarrow> string \<Rightarrow> string \<Rightarrow> (access_db, Policy) io"
where
  "Repository_CreateAccessPolicy pg_uuid newID eventID p actor request =
     transaction (
       bindE (liftE (pg_uuid (pol_TenantID p))) (\<lambda>tenant.
       bindE (\<lambda>d. insert_policy (edited_policy p \<lparr>ap_tenant = tenant, ap_id = newID, ap_name = '''',
                ap_allowed_model_names = [], ap_requests_per_second = 0, ap_requests_per_minute = 0,
                ap_requests_per_hour = 0, ap_version = 1, ap_created_at = now (control d)\<rparr>) d) (\<lambda>row.
       bindE (policyAudit pg_uuid eventID (scanPolicy (pol_TenantID p) row) ''created'' actor request) (\<lambda>_.
         returnE (scanPolicy (pol_TenantID p) row)))))"

definition Repository_GetAccessPolicy :: "uuid_parser \<Rightarrow> string \<Rightarrow> string \<Rightarrow> (access_db, Policy) io" where
  "Repository_GetAccessPolicy pg_uuid tenantID i =
     bindE (liftE (pg_uuid tenantID)) (\<lambda>tenant.
     bindE (liftE (pg_uuid i)) (\<lambda>policy.
     bindE (share_policy (Sentinel accesspolicy_ErrNotFound) tenant policy) (\<lambda>row.
       returnE (scanPolicy tenantID row))))"

definition Repository_ListAccessPolicies ::
  "uuid_parser \<Rightarrow> string \<Rightarrow> int \<Rightarrow> int \<Rightarrow> (access_db, Policy list \<times> int) io"
where
  "Repository_ListAccessPolicies pg_uuid tenantID page_limit page_offset =
     bindE (liftE (pg_uuid tenantID)) (\<lambda>tenant d.
       let rows = filter (\<lambda>p. ap_tenant p = tenant) (ak_policies d) in
       (Inr (map (scanPolicy tenantID) (take (nat page_limit) (drop (nat page_offset)
               (rev (sort_key (\<lambda>p. (ap_created_at p, ap_id p)) rows)))), int (length rows)), d))"

definition update_policy :: "Policy \<Rightarrow> uuid \<Rightarrow> uuid \<Rightarrow> (access_db, InferenceAccessPolicy) io" where
  "update_policy p tenant i d =
     (case policy_at d tenant i of
        None \<Rightarrow> (Inl (Sentinel accesspolicy_ErrNotFound), d)
      | Some old \<Rightarrow>
        let row = (edited_policy p old)\<lparr>ap_version := ap_version old + 1\<rparr> in
        if \<not> policy_checks row then (Inl (pg_check ''inference_access_policies''), d)
        else (Inr row, d\<lparr>ak_policies := update_where (\<lambda>q. ap_key q = (tenant, i)) (\<lambda>_. row) (ak_policies d)\<rparr>))"

definition Repository_UpdateAccessPolicy ::
  "uuid_parser \<Rightarrow> uuid \<Rightarrow> Policy \<Rightarrow> string \<Rightarrow> string \<Rightarrow> (access_db, Policy) io"
where
  "Repository_UpdateAccessPolicy pg_uuid eventID p actor request =
     transaction (
       bindE (liftE (pg_uuid (pol_TenantID p))) (\<lambda>tenant.
       bindE (liftE (pg_uuid (pol_ID p))) (\<lambda>i.
       bindE (update_policy p tenant i) (\<lambda>row.
       bindE (policyAudit pg_uuid eventID (scanPolicy (pol_TenantID p) row) ''updated'' actor request) (\<lambda>_.
         returnE (scanPolicy (pol_TenantID p) row))))))"

text \<open>A policy that a key refers to cannot be deleted.\<close>

definition delete_policy :: "uuid \<Rightarrow> uuid \<Rightarrow> (access_db, InferenceAccessPolicy) io" where
  "delete_policy tenant i d =
     (case policy_at d tenant i of
        None \<Rightarrow> (Inl (Sentinel accesspolicy_ErrNotFound), d)
      | Some row \<Rightarrow>
        if list_ex (\<lambda>k. k_tenant k = tenant \<and> k_policy_id k = Some i) (ak_keys d)
        then (Inl (Sentinel accesspolicy_ErrInUse), d)
        else (Inr row, d\<lparr>ak_policies := delete_where (\<lambda>q. ap_key q = (tenant, i)) (ak_policies d)\<rparr>))"

definition Repository_DeleteAccessPolicy ::
  "uuid_parser \<Rightarrow> uuid \<Rightarrow> string \<Rightarrow> string \<Rightarrow> string \<Rightarrow> string \<Rightarrow> (access_db, unit) io"
where
  "Repository_DeleteAccessPolicy pg_uuid eventID tenantID i actor request =
     transaction (
       bindE (liftE (pg_uuid tenantID)) (\<lambda>tenant.
       bindE (liftE (pg_uuid i)) (\<lambda>policy.
       bindE (delete_policy tenant policy) (\<lambda>row.
         policyAudit pg_uuid eventID (scanPolicy tenantID row) ''deleted'' actor request))))"

definition bind_policy :: "uuid \<Rightarrow> uuid \<Rightarrow> uuid \<Rightarrow> (access_db, unit) io" where
  "bind_policy tenant key policy d =
     (if key_at d tenant key \<noteq> None \<and> policy_at d tenant policy = None
      then (Inl (pg_foreign ''inference_access_keys''), d)
      else (Inr (), d\<lparr>ak_keys := update_where (\<lambda>k. k_tenant k = tenant \<and> k_id k = key)
        (\<lambda>k. k\<lparr>k_policy_id := Some policy, k_version := k_version k + 1\<rparr>) (ak_keys d)\<rparr>))"

definition Repository_BindAccessPolicy ::
  "uuid_parser \<Rightarrow> uuid_parser \<Rightarrow> uuid \<Rightarrow> string \<Rightarrow> string \<Rightarrow> string \<Rightarrow> string \<Rightarrow> string \<Rightarrow> (access_db, Record) io"
where
  "Repository_BindAccessPolicy uuid_Parse pg_uuid eventID tenantID keyID policyID actor request =
     bindE (liftE (requireUUID uuid_Parse ''tenant_id'' tenantID)) (\<lambda>tenantUUID.
     bindE (liftE (requireUUID uuid_Parse ''id'' keyID)) (\<lambda>keyUUID.
     transaction (
       bindE (liftE (pg_uuid tenantID)) (\<lambda>tenant.
       bindE (liftE (pg_uuid keyID)) (\<lambda>key.
       bindE (found_or (Sentinel accesskey_ErrNotFound) (LockInferenceAccessKey tenant key)) (\<lambda>_.
       bindE (liftE (pg_uuid policyID)) (\<lambda>policy.
       bindE (share_policy (Sentinel accesspolicy_ErrNotFound) tenant policy) (\<lambda>_.
       bindE (bind_policy tenant key policy) (\<lambda>_.
       bindE (AppendInferenceAccessKeyAudit (key_event tenant eventID key ''policy_bound'' actor request
                [(''policy_id'', policyID)])) (\<lambda>_.
       bindE (GetInferenceAccessKey tenantUUID keyUUID) (\<lambda>row.
         returnE (accessKeyRecord row))))))))))))"

end
