(* ===== verification/Access_Service.thy ===== *)
theory Access_Service
  imports Access_Repository
begin

text \<open>
  The credential service of \<^verbatim>\<open>internal/biz/accesskey\<close> (\<^verbatim>\<open>access_key.go\<close>, \<^verbatim>\<open>secret.go\<close>) on the PostgreSQL repository,
  which is also its policy. Argon2id (\<open>IDKey\<close>) and the authenticated cipher are parameters; the bytes of
  \<^verbatim>\<open>rand.Read\<close> are the arguments \<open>rnd\<close>, an error when the reader fails. The clock reading is the argument
  \<open>clock\<close>.
\<close>

section \<open>Secrets\<close>

type_synonym key_derivation = "string \<Rightarrow> byte list \<Rightarrow> byte list"

definition secretPrefix :: string where "secretPrefix = ''iak_''"
definition hashVersion :: string where "hashVersion = ''argon2id-v1''"

definition keyPrefix :: "string \<Rightarrow> string" where
  "keyPrefix secret = (if length secret \<le> 16 then secret else take 16 secret)"

definition newSecret :: "byte list result \<Rightarrow> (string \<times> string) result" where
  "newSecret rnd =
     (case rnd of
        Inl err \<Rightarrow> Inl (Wrapf ''generate inference access key: '' err '''')
      | Inr buf \<Rightarrow> let secret = secretPrefix @ base64_Encode url_chars buf in Inr (secret, keyPrefix secret))"

definition hashSecret :: "key_derivation \<Rightarrow> byte list result \<Rightarrow> string \<Rightarrow> string result" where
  "hashSecret IDKey rnd secret =
     (case rnd of
        Inl err \<Rightarrow> Inl (Wrapf ''generate access-key hash salt: '' err '''')
      | Inr salt \<Rightarrow> Inr (strings_Join [hashVersion, base64_Encode std_chars salt,
          base64_Encode std_chars (IDKey secret salt)] ''$''))"

definition verifySecret :: "key_derivation \<Rightarrow> string \<Rightarrow> string \<Rightarrow> bool" where
  "verifySecret IDKey secret encoded =
     (case strings_Split CHR ''$'' encoded of
        [version, saltText, wantText] \<Rightarrow>
          version = hashVersion
          \<and> (case (base64_Decode std_chars saltText, base64_Decode std_chars wantText) of
               (Some salt, Some want) \<Rightarrow> length salt = 16 \<and> length want = 32 \<and> IDKey secret salt = want
             | _ \<Rightarrow> False)
      | _ \<Rightarrow> False)"

text \<open>\<^verbatim>\<open>cipher.AEAD\<close>: the sealed text carries the tag, opening fails on any change.\<close>

record AEAD =
  NonceSize :: nat
  Overhead :: nat
  Seal :: "byte list \<Rightarrow> byte list \<Rightarrow> byte list \<Rightarrow> byte list"
  Open :: "byte list \<Rightarrow> byte list \<Rightarrow> byte list \<Rightarrow> byte list option"

definition secretAAD :: "Record \<Rightarrow> byte list" where
  "secretAAD record = string_bytes (''inference-access-key/v1'' @ [CHR 0x00] @ rec_TenantID record @ [CHR 0x00] @ rec_ID record
     @ [CHR 0x00] @ rec_KeyPrefix record @ [CHR 0x00] @ rec_SecretHash record)"

definition SecretCipher_seal :: "AEAD option \<Rightarrow> byte list result \<Rightarrow> Record \<Rightarrow> string \<Rightarrow> string result" where
  "SecretCipher_seal c rnd record secret =
     (case c of
        None \<Rightarrow> Inl (Sentinel ErrSecretUnavailable)
      | Some aead \<Rightarrow>
        (case rnd of
           Inl err \<Rightarrow> Inl err
         | Inr nonce \<Rightarrow> Inr (''v1:'' @ base64_Encode url_chars
             (nonce @ Seal aead nonce (string_bytes secret) (secretAAD record)))))"

definition SecretCipher_open :: "AEAD option \<Rightarrow> Record \<Rightarrow> string result" where
  "SecretCipher_open c record =
     (case c of
        None \<Rightarrow> Inl (Sentinel ErrSecretUnavailable)
      | Some aead \<Rightarrow>
        if \<not> HasPrefix (rec_SecretCiphertext record) ''v1:'' then Inl (Sentinel ErrSecretUnavailable)
        else
          (case base64_Decode url_chars (TrimPrefix (rec_SecretCiphertext record) ''v1:'') of
             None \<Rightarrow> Inl (Sentinel ErrSecretUnavailable)
           | Some sealed \<Rightarrow>
             if length sealed < NonceSize aead + Overhead aead then Inl (Sentinel ErrSecretUnavailable)
             else
               (case Open aead (take (NonceSize aead) sealed) (drop (NonceSize aead) sealed) (secretAAD record) of
                  None \<Rightarrow> Inl (Sentinel ErrSecretUnavailable)
                | Some plain \<Rightarrow>
                  let secret = bytes_string plain in
                  if length secret \<noteq> 47 \<or> keyPrefix secret \<noteq> rec_KeyPrefix record \<or> \<not> HasPrefix secret secretPrefix
                  then Inl (Sentinel ErrSecretUnavailable) else Inr secret)))"

section \<open>The service\<close>

record Service =
  svc_PolicyConfigured :: bool
  svc_Cipher :: "AEAD option"

record KeyCreateInput =
  kc_TenantID :: string
  kc_RequestID :: string
  kc_Name :: string
  kc_PolicyID :: string
  kc_AllowedServiceIDs :: "string list"
  kc_AllowedModelNames :: "string list"
  kc_RequestsPerSecond :: "32 word"
  kc_RequestsPerMinute :: "32 word"
  kc_RequestsPerHour :: "32 word"
  kc_ExpiresAt :: "gotime option"
  kc_CreatedBy :: string
  kc_IdempotencyKey :: string

text \<open>\<^verbatim>\<open>CreateResult\<close> and \<^verbatim>\<open>RotateResult\<close>.\<close>

record SecretResult =
  sr_Record :: Record
  sr_Secret :: string
  sr_Replayed :: bool

definition uuid_Nil :: uuid where
  "uuid_Nil = ''00000000-0000-0000-0000-000000000000''"

definition trimmed_input :: "KeyCreateInput \<Rightarrow> KeyCreateInput" where
  "trimmed_input inp = inp\<lparr>kc_Name := TrimSpace (kc_Name inp), kc_TenantID := TrimSpace (kc_TenantID inp),
     kc_CreatedBy := TrimSpace (kc_CreatedBy inp), kc_IdempotencyKey := TrimSpace (kc_IdempotencyKey inp)\<rparr>"

text \<open>The policy of a key to create: its canonical identifier, and nothing that belongs to the policy itself.\<close>

definition create_policy :: "uuid_parser \<Rightarrow> gotime \<Rightarrow> KeyCreateInput \<Rightarrow> uuid result" where
  "create_policy uuid_Parse clock inp =
     (let invalid = Inl (Wrapf '''' (Sentinel accesskey_ErrInvalidInput)
            '': a policy ID is required; scope and limits belong to the policy'') in
      case uuid_Parse (TrimSpace (kc_PolicyID inp)) of
        Inl err \<Rightarrow> invalid
      | Inr policyID \<Rightarrow>
        if policyID = uuid_Nil \<or> policyID \<noteq> kc_PolicyID inp \<or> kc_AllowedServiceIDs inp \<noteq> []
           \<or> kc_AllowedModelNames inp \<noteq> [] \<or> kc_RequestsPerSecond inp \<noteq> 0 \<or> kc_RequestsPerMinute inp \<noteq> 0
           \<or> kc_RequestsPerHour inp \<noteq> 0
           \<or> (case kc_ExpiresAt inp of None \<Rightarrow> False | Some t \<Rightarrow> \<not> t > clock)
        then invalid else Inr policyID)"

definition sameExpiry :: "gotime option \<Rightarrow> gotime option \<Rightarrow> bool" where
  "sameExpiry a b = (a = b)"

text \<open>\<open>rnd 0\<close>, \<open>rnd 1\<close> and \<open>rnd 2\<close> are the bytes of the secret, the salt and the nonce; \<open>newID\<close> and \<open>eventID\<close> are fresh.\<close>

definition Service_Create ::
  "uuid_parser \<Rightarrow> key_derivation \<Rightarrow> (nat \<Rightarrow> byte list result) \<Rightarrow> uuid \<Rightarrow> uuid \<Rightarrow> gotime \<Rightarrow> Service \<Rightarrow> KeyCreateInput
    \<Rightarrow> (access_db, SecretResult) io"
where
  "Service_Create uuid_Parse IDKey rnd newID eventID clock svc raw =
     (let inp = trimmed_input raw in
      if kc_TenantID inp = '''' \<or> kc_Name inp = '''' \<or> kc_CreatedBy inp = ''''
      then failE (Wrapf '''' (Sentinel accesskey_ErrInvalidInput) '': tenant, name and actor are required'')
      else
        bindE (liftE (create_policy uuid_Parse clock inp)) (\<lambda>policyID.
        bindE (liftE (newSecret (rnd 0))) (\<lambda>(secret, prefix).
        bindE (liftE (hashSecret IDKey (rnd 1) secret)) (\<lambda>hash.
          let record = empty_record\<lparr>rec_TenantID := kc_TenantID inp, rec_ID := newID, rec_Name := kc_Name inp,
                rec_KeyPrefix := prefix, rec_SecretHash := hash, rec_HashVersion := hashVersion,
                rec_PolicyID := policyID, rec_ExpiresAt := kc_ExpiresAt inp, rec_CreatedBy := kc_CreatedBy inp,
                rec_CreateIdempotencyKey := kc_IdempotencyKey inp, rec_Version := 1\<rparr> in
          bindE (liftE (SecretCipher_seal (svc_Cipher svc) (rnd 2) record secret)) (\<lambda>ciphertext.
          bindE (Repository_Create uuid_Parse eventID (record\<lparr>rec_SecretCiphertext := ciphertext\<rparr>)
                   (TrimSpace (kc_RequestID inp))) (\<lambda>created.
            if pr_Replayed created then
              if rec_Name (pr_Record created) \<noteq> kc_Name inp \<or> rec_PolicyID (pr_Record created) \<noteq> policyID
                 \<or> \<not> sameExpiry (rec_ExpiresAt (pr_Record created)) (kc_ExpiresAt inp)
              then failE (Sentinel ErrIdempotencyReplay)
              else returnE \<lparr>sr_Record = pr_Record created, sr_Secret = '''', sr_Replayed = True\<rparr>
            else returnE \<lparr>sr_Record = pr_Record created, sr_Secret = secret, sr_Replayed = False\<rparr>))))))"

text \<open>The plain secret of a record that has a sealed one.\<close>

definition reveal :: "AEAD option \<Rightarrow> Record \<Rightarrow> Record result" where
  "reveal c record =
     (if rec_SecretCiphertext record = '''' then Inr record
      else case SecretCipher_open c record of
        Inl err \<Rightarrow> Inl err
      | Inr secret \<Rightarrow> Inr (record\<lparr>rec_Secret := secret\<rparr>))"

fun reveal_all :: "AEAD option \<Rightarrow> Record list \<Rightarrow> Record list result" where
  "reveal_all c [] = Inr []"
| "reveal_all c (r # rs) =
     (case reveal c r of
        Inl err \<Rightarrow> Inl err
      | Inr r' \<Rightarrow> (case reveal_all c rs of Inl err \<Rightarrow> Inl err | Inr rs' \<Rightarrow> Inr (r' # rs')))"

definition Service_List ::
  "uuid_parser \<Rightarrow> Service \<Rightarrow> string \<Rightarrow> ListOptions \<Rightarrow> (access_db, Record list \<times> int) io"
where
  "Service_List uuid_Parse svc tenantID options =
     (let options = (if lo_Limit options = 0 then options\<lparr>lo_Limit := 20\<rparr> else options) in
      if lo_Limit options < 1 \<or> lo_Limit options > 100 \<or> lo_Offset options < 0
      then failE (Wrapf '''' (Sentinel accesskey_ErrInvalidInput) '': invalid access-key page'')
      else
        let options = options\<lparr>lo_ServedModelName := TrimSpace (lo_ServedModelName options)\<rparr> in
        if CHR 0x00 \<in> set (lo_ServedModelName options)
        then failE (Wrapf '''' (Sentinel accesskey_ErrInvalidInput) '': invalid model name'')
        else
          bindE (Repository_List uuid_Parse (TrimSpace tenantID) options) (\<lambda>(items, total).
          bindE (liftE (reveal_all (svc_Cipher svc) items)) (\<lambda>items.
            returnE (items, total))))"

definition Service_Get :: "uuid_parser \<Rightarrow> Service \<Rightarrow> string \<Rightarrow> string \<Rightarrow> (access_db, Record) io" where
  "Service_Get uuid_Parse svc tenantID i =
     bindE (Repository_Get uuid_Parse (TrimSpace tenantID) (TrimSpace i)) (\<lambda>record.
       liftE (reveal (svc_Cipher svc) record))"

definition Service_Revoke ::
  "uuid_parser \<Rightarrow> uuid \<Rightarrow> string \<Rightarrow> string \<Rightarrow> string \<Rightarrow> string \<Rightarrow> (access_db, Record) io"
where
  "Service_Revoke uuid_Parse eventID tenantID i actor requestID =
     Repository_Revoke uuid_Parse eventID (TrimSpace tenantID) (TrimSpace i) (TrimSpace actor) (TrimSpace requestID)"

definition Service_Rotate ::
  "uuid_parser \<Rightarrow> key_derivation \<Rightarrow> (nat \<Rightarrow> byte list result) \<Rightarrow> uuid \<Rightarrow> Service \<Rightarrow> string \<Rightarrow> string \<Rightarrow> string \<Rightarrow> string \<Rightarrow> string
    \<Rightarrow> (access_db, SecretResult) io"
where
  "Service_Rotate uuid_Parse IDKey rnd eventID svc tenantID i idempotencyKey actor requestID =
     bindE (liftE (newSecret (rnd 0))) (\<lambda>(secret, prefix).
     bindE (liftE (hashSecret IDKey (rnd 1) secret)) (\<lambda>hash.
     bindE (liftE (SecretCipher_seal (svc_Cipher svc) (rnd 2)
              (empty_record\<lparr>rec_TenantID := TrimSpace tenantID, rec_ID := TrimSpace i, rec_KeyPrefix := prefix,
                 rec_SecretHash := hash\<rparr>) secret)) (\<lambda>ciphertext.
     bindE (Repository_Rotate uuid_Parse eventID (TrimSpace tenantID) (TrimSpace i)
              \<lparr>ri_KeyPrefix = prefix, ri_SecretHash = hash, ri_HashVersion = hashVersion,
               ri_SecretCiphertext = ciphertext, ri_Idempotency = TrimSpace idempotencyKey,
               ri_Actor = TrimSpace actor, ri_RequestID = TrimSpace requestID\<rparr>) (\<lambda>result.
       returnE \<lparr>sr_Record = pr_Record result, sr_Secret = (if pr_Replayed result then '''' else secret),
                sr_Replayed = pr_Replayed result\<rparr>))))"

text \<open>A refusal that names no key.\<close>

definition invalid_key :: CheckResult where
  "invalid_key = \<lparr>chk_Record = empty_record, chk_Allowed = False, chk_DenialCode = ''invalid_key'', chk_RetryAfter = 0,
     chk_PolicyVersion = 0\<rparr>"

text \<open>Sealing the secret of a key that was stored before secrets were recoverable.\<close>

definition archive_legacy ::
  "uuid_parser \<Rightarrow> byte list result \<Rightarrow> Service \<Rightarrow> Record \<Rightarrow> string \<Rightarrow> CheckResult \<Rightarrow> (access_db, CheckResult) io"
where
  "archive_legacy uuid_Parse rnd svc record apiKey result =
     (if rec_SecretCiphertext record \<noteq> '''' then returnE result
      else
        bindE (liftE (SecretCipher_seal (svc_Cipher svc) rnd record apiKey)) (\<lambda>ciphertext.
        bindE (Repository_ArchiveSecret uuid_Parse record ciphertext) (\<lambda>_.
          returnE result)))"

text \<open>The check of a request once its key is known.\<close>

definition check_key ::
  "uuid_parser \<Rightarrow> byte list result \<Rightarrow> gotime \<Rightarrow> Service \<Rightarrow> Record \<Rightarrow> string \<Rightarrow> string \<Rightarrow> string \<Rightarrow> int
    \<Rightarrow> (access_db, CheckResult) io"
where
  "check_key uuid_Parse rnd clock svc record apiKey serviceID model cost =
     (if rec_RevokedAt record \<noteq> None then returnE (denied record ''revoked'')
      else if (case rec_ExpiresAt record of None \<Rightarrow> False | Some t \<Rightarrow> \<not> t > clock)
      then returnE (denied record ''expired'')
      else if \<not> svc_PolicyConfigured svc then failE (Errorf ''inference access policy is not configured'')
      else
        bindE (Repository_Resolve (TrimSpace model)) (\<lambda>resolved.
          if resolved = '''' \<or> TrimSpace serviceID \<noteq> '''' \<and> TrimSpace serviceID \<noteq> resolved
          then returnE (denied record ''scope_denied'')
          else
            bindE (Repository_ConsumeAccess uuid_Parse record resolved (TrimSpace model) clock
                     (if cost < 1 then 1 else cost)) (\<lambda>result.
              if \<not> chk_Allowed result then returnE result
              else archive_legacy uuid_Parse rnd svc record apiKey result)))"

definition Service_Check ::
  "uuid_parser \<Rightarrow> key_derivation \<Rightarrow> byte list result \<Rightarrow> gotime \<Rightarrow> Service \<Rightarrow> string \<Rightarrow> string \<Rightarrow> string \<Rightarrow> int
    \<Rightarrow> (access_db, CheckResult) io"
where
  "Service_Check uuid_Parse IDKey rnd clock svc rawKey serviceID model cost =
     (let apiKey = TrimSpace rawKey in
      if apiKey = '''' \<or> \<not> HasPrefix apiKey secretPrefix then returnE invalid_key
      else
        bindE (tryE (Repository_GetByPrefix (keyPrefix apiKey))) (\<lambda>found.
          case found of
            Inl err \<Rightarrow> if errors_Is err accesskey_ErrNotFound then returnE invalid_key else failE err
          | Inr record \<Rightarrow>
            if \<not> verifySecret IDKey apiKey (rec_SecretHash record) then returnE invalid_key
            else check_key uuid_Parse rnd clock svc record apiKey serviceID model cost))"

end
