(* ===== verification/Access_Server.thy ===== *)
theory Access_Server
  imports Access_Service
begin

text \<open>
  The gRPC methods on access keys and policies (\<^verbatim>\<open>internal/service/access_key.go\<close>, \<^verbatim>\<open>access_policy.go\<close>), the
  client of the gateway (\<^verbatim>\<open>internal/data/inferenceaccess/client.go\<close>) and the HTTP handler that the gateway
  calls before it lets a request pass (\<^verbatim>\<open>internal/service/gatewayauthz/http.go\<close>). A method gets the tenant
  and the actor that the transport has authenticated; the checks for a nil request and a server without
  its service are left out. A message timestamp is a Go time.
\<close>

section \<open>Access keys\<close>

record identity =
  ctx_tenant :: "string option"
  ctx_actor :: string

definition TenantID :: "identity \<Rightarrow> string option" where
  "TenantID ctx = (case ctx_tenant ctx of Some t \<Rightarrow> if t = '''' then None else Some t | None \<Rightarrow> None)"

definition requireAccessKeyTenant :: "identity \<Rightarrow> string result" where
  "requireAccessKeyTenant ctx =
     (case TenantID ctx of
        None \<Rightarrow> Inl (GrpcStatus Unauthenticated ''tenant identity is required'')
      | Some t \<Rightarrow> if TrimSpace t = '''' then Inl (GrpcStatus Unauthenticated ''tenant identity is required'') else Inr t)"

definition accessKeyStatusError :: "error \<Rightarrow> error" where
  "accessKeyStatusError err =
     (if errors_Is err accesskey_ErrNotFound then GrpcStatus NotFound ''inference access key not found''
      else if errors_Is err ErrAlreadyRevoked then GrpcStatus FailedPrecondition ''inference access key is revoked''
      else if errors_Is err accesskey_ErrInvalidInput then GrpcStatus InvalidArgument (error_text err)
      else if errors_Is err ErrIdempotencyReplay
      then GrpcStatus AlreadyExists ''idempotency key has a different request''
      else if errors_Is err ErrScopeDenied then GrpcStatus PermissionDenied ''inference access key scope denied''
      else if errors_Is err ErrSecretUnavailable
      then GrpcStatus Unavailable ''inference access key secret unavailable''
      else GrpcStatus InternalCode ''inference access key persistence failed'')"

text \<open>\<^verbatim>\<open>x, err := m(); if err != nil { return nil, status(err) }\<close>.\<close>

definition status_of :: "(error \<Rightarrow> error) \<Rightarrow> ('s, 'a) io \<Rightarrow> ('s, 'a) io" where
  "status_of f m s = (case m s of (Inl err, t) \<Rightarrow> (Inl (f err), t) | (Inr a, t) \<Rightarrow> (Inr a, t))"

record AccessKeyMsg =
  km_Id :: string
  km_Name :: string
  km_KeyPrefix :: string
  km_PolicyId :: string
  km_CreatedBy :: string
  km_Version :: int
  km_Secret :: "string option"
  km_CreatedAt :: "gotime option"
  km_ExpiresAt :: "gotime option"
  km_RevokedAt :: "gotime option"
  km_LastUsedAt :: "gotime option"

definition accessKeyProto :: "Record \<Rightarrow> AccessKeyMsg" where
  "accessKeyProto item =
     \<lparr>km_Id = rec_ID item, km_Name = rec_Name item, km_KeyPrefix = rec_KeyPrefix item, km_PolicyId = rec_PolicyID item,
      km_CreatedBy = rec_CreatedBy item, km_Version = rec_Version item,
      km_Secret = (if rec_Secret item = '''' then None else Some (rec_Secret item)),
      km_CreatedAt = (if rec_CreatedAt item = zero_time then None else Some (rec_CreatedAt item)),
      km_ExpiresAt = rec_ExpiresAt item, km_RevokedAt = rec_RevokedAt item, km_LastUsedAt = rec_LastUsedAt item\<rparr>"

text \<open>
  \<^verbatim>\<open>accessKeyTimestampValue\<close>: a message timestamp is seconds and nanoseconds; \<^verbatim>\<open>CheckValid\<close> wants the years
  1 to 9999 and less than a second of nanoseconds.
\<close>

record timestamp =
  ts_Seconds :: int
  ts_Nanos :: int

definition CheckValid :: "timestamp \<Rightarrow> error option" where
  "CheckValid ts =
     (if ts_Seconds ts < - 62135596800 then Some (Errorf ''proto: timestamp before 0001-01-01'')
      else if ts_Seconds ts > 253402300799 then Some (Errorf ''proto: timestamp after 9999-12-31'')
      else if ts_Nanos ts < 0 \<or> ts_Nanos ts \<ge> 1000000000 then Some (Errorf ''proto: timestamp has out-of-range nanos'')
      else None)"

definition accessKeyTimestampValue :: "timestamp option \<Rightarrow> gotime option result" where
  "accessKeyTimestampValue v =
     (case v of
        None \<Rightarrow> Inr None
      | Some ts \<Rightarrow>
        (case CheckValid ts of Some err \<Rightarrow> Inl err | None \<Rightarrow> Inr (Some (ts_Seconds ts * 1000000000 + ts_Nanos ts))))"

record CreateKeyRequest =
  ck_RequestId :: string
  ck_Name :: string
  ck_PolicyId :: string
  ck_AllowedServiceIds :: "string list"
  ck_AllowedModelNames :: "string list"
  ck_RequestsPerSecond :: "32 word"
  ck_RequestsPerMinute :: "32 word"
  ck_RequestsPerHour :: "32 word"
  ck_ExpiresAt :: "timestamp option"
  ck_IdempotencyKey :: string

record KeySecretResponse =
  ks_Key :: AccessKeyMsg
  ks_Secret :: string
  ks_Replayed :: bool

definition secret_response :: "SecretResult \<Rightarrow> KeySecretResponse" where
  "secret_response r = \<lparr>ks_Key = accessKeyProto (sr_Record r), ks_Secret = sr_Secret r, ks_Replayed = sr_Replayed r\<rparr>"

definition CreateInferenceAccessKey ::
  "uuid_parser \<Rightarrow> key_derivation \<Rightarrow> (nat \<Rightarrow> byte list result) \<Rightarrow> uuid \<Rightarrow> uuid \<Rightarrow> gotime \<Rightarrow> Service \<Rightarrow> identity \<Rightarrow> CreateKeyRequest
    \<Rightarrow> (access_db, KeySecretResponse) io"
where
  "CreateInferenceAccessKey uuid_Parse IDKey rnd newID eventID clock svc ctx req =
     bindE (liftE (requireAccessKeyTenant ctx)) (\<lambda>tenant.
       if TrimSpace (ck_RequestId req) = '''' then failE (GrpcStatus InvalidArgument ''request_id is required'')
       else
         bindE (status_of (\<lambda>err. GrpcStatus InvalidArgument (error_text err))
                  (liftE (accessKeyTimestampValue (ck_ExpiresAt req)))) (\<lambda>expiresAt.
         bindE (status_of accessKeyStatusError (Service_Create uuid_Parse IDKey rnd newID eventID clock svc
                  \<lparr>kc_TenantID = tenant, kc_RequestID = ck_RequestId req, kc_Name = ck_Name req,
                   kc_PolicyID = ck_PolicyId req, kc_AllowedServiceIDs = ck_AllowedServiceIds req,
                   kc_AllowedModelNames = ck_AllowedModelNames req,
                   kc_RequestsPerSecond = ck_RequestsPerSecond req,
                   kc_RequestsPerMinute = ck_RequestsPerMinute req, kc_RequestsPerHour = ck_RequestsPerHour req,
                   kc_ExpiresAt = expiresAt, kc_CreatedBy = ctx_actor ctx,
                   kc_IdempotencyKey = ck_IdempotencyKey req\<rparr>)) (\<lambda>result.
           returnE (secret_response result))))"

record ListKeysRequest =
  lk_Page :: "32 word"
  lk_PageSize :: "32 word"
  lk_ServedModelName :: "string option"

text \<open>The page of a list request: its limit and offset, or \<open>None\<close> when it is out of range.\<close>

definition page_of :: "32 word \<Rightarrow> 32 word \<Rightarrow> (int \<times> int) option" where
  "page_of rawPage rawSize =
     (let page = (if rawPage = 0 then 1 else rawPage); size = (if rawSize = 0 then 20 else rawSize) in
      if sint page < 1 \<or> sint page > 100 \<or> sint size < 1 \<or> sint size > 100 then None
      else Some (sint size, sint ((page - 1) * size)))"

definition ListInferenceAccessKeys_rpc ::
  "uuid_parser \<Rightarrow> Service \<Rightarrow> identity \<Rightarrow> ListKeysRequest \<Rightarrow> (access_db, AccessKeyMsg list \<times> int) io"
where
  "ListInferenceAccessKeys_rpc uuid_Parse svc ctx req =
     bindE (liftE (requireAccessKeyTenant ctx)) (\<lambda>tenant.
       case page_of (lk_Page req) (lk_PageSize req) of
         None \<Rightarrow> failE (GrpcStatus InvalidArgument ''page and page_size must be between 1 and 100'')
       | Some (limit, offset) \<Rightarrow>
         let model = TrimSpace (textValue (lk_ServedModelName req)) in
         if lk_ServedModelName req \<noteq> None \<and> (model = '''' \<or> CHR 0x00 \<in> set model)
         then failE (GrpcStatus InvalidArgument ''served_model_name must be nonempty'')
         else
           bindE (status_of accessKeyStatusError (Service_List uuid_Parse svc tenant
                    \<lparr>lo_Limit = limit, lo_Offset = offset, lo_ServedModelName = model\<rparr>)) (\<lambda>(items, total).
             returnE (map accessKeyProto items, total)))"

definition GetInferenceAccessKey_rpc ::
  "uuid_parser \<Rightarrow> Service \<Rightarrow> identity \<Rightarrow> string \<Rightarrow> (access_db, AccessKeyMsg) io"
where
  "GetInferenceAccessKey_rpc uuid_Parse svc ctx i =
     (if TrimSpace i = '''' then failE (GrpcStatus InvalidArgument ''id is required'')
      else
        bindE (liftE (requireAccessKeyTenant ctx)) (\<lambda>tenant.
        bindE (status_of accessKeyStatusError (Service_Get uuid_Parse svc tenant i)) (\<lambda>item.
          returnE (accessKeyProto item))))"

definition RevokeInferenceAccessKey_rpc ::
  "uuid_parser \<Rightarrow> uuid \<Rightarrow> identity \<Rightarrow> string \<Rightarrow> string \<Rightarrow> (access_db, AccessKeyMsg) io"
where
  "RevokeInferenceAccessKey_rpc uuid_Parse eventID ctx i requestID =
     (if TrimSpace i = '''' then failE (GrpcStatus InvalidArgument ''id is required'')
      else if TrimSpace requestID = '''' then failE (GrpcStatus InvalidArgument ''request_id is required'')
      else
        bindE (liftE (requireAccessKeyTenant ctx)) (\<lambda>tenant.
        bindE (status_of accessKeyStatusError
                 (Service_Revoke uuid_Parse eventID tenant i (ctx_actor ctx) requestID)) (\<lambda>item.
          returnE (accessKeyProto item))))"

definition RotateInferenceAccessKey_rpc ::
  "uuid_parser \<Rightarrow> key_derivation \<Rightarrow> (nat \<Rightarrow> byte list result) \<Rightarrow> uuid \<Rightarrow> Service \<Rightarrow> identity \<Rightarrow> string \<Rightarrow> string \<Rightarrow> string
    \<Rightarrow> (access_db, KeySecretResponse) io"
where
  "RotateInferenceAccessKey_rpc uuid_Parse IDKey rnd eventID svc ctx i requestID idempotencyKey =
     (if TrimSpace i = '''' then failE (GrpcStatus InvalidArgument ''id is required'')
      else if TrimSpace requestID = '''' then failE (GrpcStatus InvalidArgument ''request_id is required'')
      else
        bindE (liftE (requireAccessKeyTenant ctx)) (\<lambda>tenant.
        bindE (status_of accessKeyStatusError
                 (Service_Rotate uuid_Parse IDKey rnd eventID svc tenant i idempotencyKey (ctx_actor ctx) requestID))
          (\<lambda>result. returnE (secret_response result))))"

section \<open>The check\<close>

record CheckAccessRequest =
  ca_ApiKey :: string
  ca_ServiceId :: string
  ca_ServedModelName :: string
  ca_RequestCost :: "32 word"
  ca_RequestId :: string

record CheckAccessResponse =
  cs_Allowed :: bool
  cs_DenialCode :: string
  cs_PolicyVersion :: int
  cs_KeyId :: string
  cs_TenantId :: string
  cs_RetryAfterSeconds :: "32 word"

text \<open>\<^verbatim>\<open>int32((retry + 999*time.Millisecond) / time.Second)\<close>, \<open>0\<close> without a wait; division of a positive number.\<close>

definition retry_seconds :: "duration \<Rightarrow> 32 word" where
  "retry_seconds retry = (if retry > 0 then of_int ((retry + 999000000) div 1000000000) else 0)"

definition check_response :: "CheckResult \<Rightarrow> CheckAccessResponse" where
  "check_response result =
     \<lparr>cs_Allowed = chk_Allowed result, cs_DenialCode = chk_DenialCode result,
      cs_PolicyVersion = chk_PolicyVersion result,
      cs_KeyId = rec_ID (chk_Record result),
      cs_TenantId = (if rec_ID (chk_Record result) \<noteq> '''' then rec_TenantID (chk_Record result) else ''''),
      cs_RetryAfterSeconds = retry_seconds (chk_RetryAfter result)\<rparr>"

definition CheckInferenceAccess ::
  "uuid_parser \<Rightarrow> key_derivation \<Rightarrow> byte list result \<Rightarrow> gotime \<Rightarrow> Service \<Rightarrow> CheckAccessRequest
    \<Rightarrow> (access_db, CheckAccessResponse) io"
where
  "CheckInferenceAccess uuid_Parse IDKey rnd clock svc req =
     (if TrimSpace (ca_ApiKey req) = '''' then failE (GrpcStatus InvalidArgument ''api_key is required'')
      else
        bindE (status_of (\<lambda>_. GrpcStatus Unavailable ''inference access check unavailable'')
                 (Service_Check uuid_Parse IDKey rnd clock svc (ca_ApiKey req) (ca_ServiceId req)
                    (ca_ServedModelName req) (sint (ca_RequestCost req)))) (\<lambda>result.
          returnE (check_response result)))"

section \<open>Access policies\<close>

definition validPolicyUUID :: "uuid_parser \<Rightarrow> string \<Rightarrow> bool" where
  "validPolicyUUID uuid_Parse s =
     (case uuid_Parse s of Inl err \<Rightarrow> False | Inr i \<Rightarrow> i \<noteq> uuid_Nil \<and> i = s)"

definition policyRequestActor :: "identity \<Rightarrow> string \<Rightarrow> string result" where
  "policyRequestActor ctx request =
     (if TrimSpace (ctx_actor ctx) = '''' \<or> TrimSpace request = ''''
      then Inl (GrpcStatus InvalidArgument ''actor and request_id are required'')
      else Inr (TrimSpace (ctx_actor ctx)))"

text \<open>The message of a policy carries the fields of \<^verbatim>\<open>Policy\<close> except for the tenant; an absent message is \<open>None\<close>.\<close>

definition policyFromProto :: "uuid_parser \<Rightarrow> Policy option \<Rightarrow> string \<Rightarrow> bool \<Rightarrow> Policy result" where
  "policyFromProto uuid_Parse msg tenant updating =
     (case msg of
        None \<Rightarrow> Inl (GrpcStatus InvalidArgument ''invalid policy identity or version'')
      | Some p \<Rightarrow>
        if updating \<and> \<not> validPolicyUUID uuid_Parse (pol_ID p)
           \<or> \<not> updating \<and> (pol_ID p \<noteq> '''' \<or> pol_Version p \<noteq> 0)
        then Inl (GrpcStatus InvalidArgument ''invalid policy identity or version'')
        else case Normalize_Policy (p\<lparr>pol_TenantID := tenant, pol_Version := 0\<rparr>) of
          Inl err \<Rightarrow> Inl (GrpcStatus InvalidArgument ''invalid policy'')
        | Inr q \<Rightarrow> Inr q)"

definition policyStatus :: "error \<Rightarrow> error" where
  "policyStatus err =
     (if errors_Is err accesspolicy_ErrNotFound \<or> errors_Is err accesskey_ErrNotFound
      then GrpcStatus NotFound ''policy or key not found''
      else if errors_Is err accesspolicy_ErrInUse then GrpcStatus FailedPrecondition ''policy is bound to an access key''
      else if errors_Is err accesspolicy_ErrInvalidInput then GrpcStatus InvalidArgument ''invalid policy''
      else GrpcStatus Unavailable ''policy repository unavailable'')"

definition CreateInferenceAccessPolicy ::
  "uuid_parser \<Rightarrow> uuid_parser \<Rightarrow> uuid \<Rightarrow> uuid \<Rightarrow> identity \<Rightarrow> Policy option \<Rightarrow> string \<Rightarrow> (access_db, Policy) io"
where
  "CreateInferenceAccessPolicy uuid_Parse pg_uuid newID eventID ctx msg request =
     bindE (liftE (requireAccessKeyTenant ctx)) (\<lambda>tenant.
     bindE (liftE (policyRequestActor ctx request)) (\<lambda>actor.
     bindE (liftE (policyFromProto uuid_Parse msg tenant False)) (\<lambda>p.
       status_of policyStatus (Repository_CreateAccessPolicy pg_uuid newID eventID p actor request))))"

definition GetInferenceAccessPolicy ::
  "uuid_parser \<Rightarrow> uuid_parser \<Rightarrow> identity \<Rightarrow> string \<Rightarrow> (access_db, Policy) io"
where
  "GetInferenceAccessPolicy uuid_Parse pg_uuid ctx i =
     bindE (liftE (requireAccessKeyTenant ctx)) (\<lambda>tenant.
       if \<not> validPolicyUUID uuid_Parse i then failE (GrpcStatus InvalidArgument ''valid id required'')
       else status_of policyStatus (Repository_GetAccessPolicy pg_uuid tenant i))"

definition ListInferenceAccessPolicies ::
  "uuid_parser \<Rightarrow> identity \<Rightarrow> 32 word \<Rightarrow> 32 word \<Rightarrow> (access_db, Policy list \<times> int) io"
where
  "ListInferenceAccessPolicies pg_uuid ctx page pageSize =
     bindE (liftE (requireAccessKeyTenant ctx)) (\<lambda>tenant.
       case page_of page pageSize of
         None \<Rightarrow> failE (GrpcStatus InvalidArgument ''invalid page'')
       | Some (limit, offset) \<Rightarrow> status_of policyStatus (Repository_ListAccessPolicies pg_uuid tenant limit offset))"

definition UpdateInferenceAccessPolicy ::
  "uuid_parser \<Rightarrow> uuid_parser \<Rightarrow> uuid \<Rightarrow> identity \<Rightarrow> Policy option \<Rightarrow> string \<Rightarrow> (access_db, Policy) io"
where
  "UpdateInferenceAccessPolicy uuid_Parse pg_uuid eventID ctx msg request =
     bindE (liftE (requireAccessKeyTenant ctx)) (\<lambda>tenant.
     bindE (liftE (policyRequestActor ctx request)) (\<lambda>actor.
     bindE (liftE (policyFromProto uuid_Parse msg tenant True)) (\<lambda>p.
       status_of policyStatus (Repository_UpdateAccessPolicy pg_uuid eventID p actor request))))"

definition DeleteInferenceAccessPolicy ::
  "uuid_parser \<Rightarrow> uuid_parser \<Rightarrow> uuid \<Rightarrow> identity \<Rightarrow> string \<Rightarrow> string \<Rightarrow> (access_db, unit) io"
where
  "DeleteInferenceAccessPolicy uuid_Parse pg_uuid eventID ctx i request =
     bindE (liftE (requireAccessKeyTenant ctx)) (\<lambda>tenant.
       if \<not> validPolicyUUID uuid_Parse i then failE (GrpcStatus InvalidArgument ''valid id required'')
       else
         bindE (liftE (policyRequestActor ctx request)) (\<lambda>actor.
           status_of policyStatus (Repository_DeleteAccessPolicy pg_uuid eventID tenant i actor request)))"

definition BindInferenceAccessKeyPolicy ::
  "uuid_parser \<Rightarrow> uuid_parser \<Rightarrow> uuid \<Rightarrow> identity \<Rightarrow> string \<Rightarrow> string \<Rightarrow> string \<Rightarrow> (access_db, AccessKeyMsg) io"
where
  "BindInferenceAccessKeyPolicy uuid_Parse pg_uuid eventID ctx keyID policyID request =
     bindE (liftE (requireAccessKeyTenant ctx)) (\<lambda>tenant.
       if \<not> validPolicyUUID uuid_Parse keyID \<or> \<not> validPolicyUUID uuid_Parse policyID
       then failE (GrpcStatus InvalidArgument ''valid key_id and policy_id required'')
       else
         bindE (liftE (policyRequestActor ctx request)) (\<lambda>actor.
         bindE (status_of policyStatus
                  (Repository_BindAccessPolicy uuid_Parse pg_uuid eventID tenant keyID policyID actor request)) (\<lambda>item.
           returnE (accessKeyProto item))))"

section \<open>The gateway\<close>

record AuthzResult =
  az_Allowed :: bool
  az_TenantID :: string
  az_InferenceKeyID :: string
  az_DenialCode :: string
  az_RetryAfterSeconds :: "32 word"
  az_PolicyVersion :: int

definition Client_Check ::
  "(CheckAccessRequest \<Rightarrow> ('s, CheckAccessResponse) io) \<Rightarrow> CheckAccessRequest \<Rightarrow> ('s, AuthzResult) io"
where
  "Client_Check call inp =
     bindE (call inp) (\<lambda>r.
       returnE \<lparr>az_Allowed = cs_Allowed r, az_TenantID = cs_TenantId r, az_InferenceKeyID = cs_KeyId r,
         az_DenialCode = cs_DenialCode r, az_RetryAfterSeconds = cs_RetryAfterSeconds r,
         az_PolicyVersion = cs_PolicyVersion r\<rparr>)"

text \<open>
  An HTTP request to the handler. \<open>hr_Values name\<close> are the values of a header, whose names are canonical
  keys in Go and so compare without case.
\<close>

record HttpRequest =
  hr_Method :: string
  hr_Path :: string
  hr_Values :: "string \<Rightarrow> string list"

record HttpResponse =
  hs_Status :: nat
  hs_Headers :: "(string \<times> string) list"

definition header_Get :: "HttpRequest \<Rightarrow> string \<Rightarrow> string" where
  "header_Get r name = (case hr_Values r name of [] \<Rightarrow> '''' | v # _ \<Rightarrow> v)"

definition singleHeader :: "HttpRequest \<Rightarrow> string \<Rightarrow> string option" where
  "singleHeader r name = (case hr_Values r name of [v] \<Rightarrow> Some (TrimSpace v) | _ \<Rightarrow> None)"

definition denialStatus :: "string \<Rightarrow> nat" where
  "denialStatus code =
     (let c = TrimSpace code in
      if c = ''invalid_key'' \<or> c = ''expired'' \<or> c = ''revoked'' then 401
      else if c = ''rate_limited'' then 429
      else 403)"

definition commonHeaders :: "(string \<times> string) list" where
  "commonHeaders = [(''Cache-Control'', ''no-store''), (''X-Content-Type-Options'', ''nosniff'')]"

definition reply :: "nat \<Rightarrow> (string \<times> string) list \<Rightarrow> HttpResponse" where
  "reply status headers = \<lparr>hs_Status = status, hs_Headers = commonHeaders @ headers\<rparr>"

definition decision_reply :: "AuthzResult \<Rightarrow> HttpResponse" where
  "decision_reply result =
     (if az_Allowed result then
        if TrimSpace (az_TenantID result) = '''' \<or> TrimSpace (az_InferenceKeyID result) = '''' then reply 503 []
        else reply 200 [(''x-ani-tenant-id'', az_TenantID result), (''x-ani-inference-key-id'', az_InferenceKeyID result)]
      else
        let status = denialStatus (az_DenialCode result) in
        reply status (if status = 429 \<and> sint (az_RetryAfterSeconds result) > 0
                      then [(''Retry-After'', FormatInt (sint (az_RetryAfterSeconds result)))] else []))"

text \<open>\<open>checker\<close> is \<open>None\<close> when the handler has none; \<open>newID\<close> is the identifier of a request that brings none.\<close>

definition Handler_ServeHTTP ::
  "(CheckAccessRequest \<Rightarrow> ('s, AuthzResult) io) option \<Rightarrow> string \<Rightarrow> string \<Rightarrow> HttpRequest \<Rightarrow> 's \<Rightarrow> HttpResponse \<times> 's"
where
  "Handler_ServeHTTP checker requiredSource newID r s =
     (if hr_Method r \<noteq> ''POST'' \<or> hr_Path r \<noteq> ''/authz'' then (reply 404 [], s)
      else case checker of
        None \<Rightarrow> (reply 503 [], s)
      | Some check \<Rightarrow>
        if TrimSpace requiredSource \<noteq> ''''
           \<and> TrimSpace (header_Get r ''x-ani-authz-source'') \<noteq> TrimSpace requiredSource then (reply 403 [], s)
        else case singleHeader r ''x-api-key'' of
          None \<Rightarrow> (reply 401 [], s)
        | Some apiKey \<Rightarrow>
          if TrimSpace apiKey = '''' then (reply 401 [], s)
          else case singleHeader r ''x-higress-llm-model'' of
            None \<Rightarrow> (reply 403 [], s)
          | Some model \<Rightarrow>
            if TrimSpace model = '''' then (reply 403 [], s)
            else
              let requestID = TrimSpace (header_Get r ''x-request-id'') in
              case check \<lparr>ca_ApiKey = apiKey, ca_ServiceId = '''', ca_ServedModelName = TrimSpace model,
                     ca_RequestCost = 1, ca_RequestId = (if requestID = '''' then newID else requestID)\<rparr> s of
                (Inl err, t) \<Rightarrow> (reply 503 [], t)
              | (Inr result, t) \<Rightarrow> (decision_reply result, t))"

text \<open>The handler with its client on the server of the credential service.\<close>

definition authz_request ::
  "uuid_parser \<Rightarrow> key_derivation \<Rightarrow> byte list result \<Rightarrow> gotime \<Rightarrow> Service \<Rightarrow> string \<Rightarrow> HttpRequest \<Rightarrow> access_db
    \<Rightarrow> HttpResponse \<times> access_db"
where
  "authz_request uuid_Parse IDKey rnd clock svc newID r d =
     Handler_ServeHTTP (Some (Client_Check (CheckInferenceAccess uuid_Parse IDKey rnd clock svc))) ''higress'' newID r d"

end
