(* ===== verification/Access_System.thy ===== *)
theory Access_System
  imports Access_Server
begin

text \<open>
  What every operation on access keys and policies keeps: the rows satisfy the constraints of their
  tables, and a key only moves forward. A key keeps its identity and its expiry, its version grows with
  every change of its credentials or its policy, and a revoked key keeps its credentials and stays
  revoked. \<open>access_step\<close> is any call of the repository, of the credential service or of the gateway, and any
  move of the control plane next to them.
\<close>

section \<open>Records of rows\<close>

lemma record_of_key [simp]:
  "rec_TenantID (accessKeyRecord k) = k_tenant k" "rec_ID (accessKeyRecord k) = k_id k"
  "rec_Version (accessKeyRecord k) = k_version k" "rec_SecretHash (accessKeyRecord k) = k_secret_hash k"
  "rec_SecretCiphertext (accessKeyRecord k) = textValue (k_secret_ciphertext k)"
  "rec_KeyPrefix (accessKeyRecord k) = k_key_prefix k"
  by (simp_all add: accessKeyRecord_def)

section \<open>Guarantees of fallible code\<close>

definition ensures :: "('s \<Rightarrow> 's \<Rightarrow> bool) \<Rightarrow> ('s, 'a) io \<Rightarrow> bool" where
  "ensures R m \<longleftrightarrow> (\<forall>s r t. m s = (r, t) \<longrightarrow> R s t)"

lemma ensuresI: "(\<And>s r t. m s = (r, t) \<Longrightarrow> R s t) \<Longrightarrow> ensures R m"
  by (simp add: ensures_def)

lemma ensuresD: "ensures R m \<Longrightarrow> m s = (r, t) \<Longrightarrow> R s t"
  by (simp add: ensures_def)

locale guarantee =
  fixes R :: "'s \<Rightarrow> 's \<Rightarrow> bool"
  assumes R_refl: "R s s" and R_trans: "R s t \<Longrightarrow> R t u \<Longrightarrow> R s u"
begin

lemma ensures_same: "(\<And>s. snd (m s) = s) \<Longrightarrow> ensures R m"
  by (rule ensuresI) (metis R_refl snd_conv)

lemma ensures_pure: "ensures R (returnE a)" "ensures R (failE e)" "ensures R (liftE x)"
  by (rule ensures_same, simp add: returnE_def failE_def liftE_def)+

lemma ensures_lift_bindE: "(\<And>a. x = Inr a \<Longrightarrow> ensures R (f a)) \<Longrightarrow> ensures R (bindE (liftE x) f)"
  by (cases x) (auto simp: ensures_def bindE_def liftE_def R_refl)

lemma ensures_bindE: "ensures R m \<Longrightarrow> (\<And>a. ensures R (f a)) \<Longrightarrow> ensures R (bindE m f)"
  by (rule ensuresI, simp add: bindE_def split: prod.splits sum.splits) (metis ensuresD R_trans)+

lemma ensures_tryE: "ensures R m \<Longrightarrow> ensures R (tryE m)"
  by (auto simp: ensures_def)

lemma ensures_transaction: "ensures R m \<Longrightarrow> ensures R (transaction m)"
  by (rule ensuresI, simp add: transaction_def split: prod.splits sum.splits) (metis ensuresD R_refl)+

lemma ensures_commit_if: "ensures R m \<Longrightarrow> ensures R (commit_if p m)"
  by (rule ensuresI, simp add: commit_if_def split: prod.splits sum.splits if_splits) (metis ensuresD R_refl)+

lemma ensures_status: "ensures R m \<Longrightarrow> ensures R (status_of f m)"
  by (auto simp: ensures_def status_of_def split: prod.splits sum.splits)

lemma ensures_found_or: "ensures R m \<Longrightarrow> ensures R (found_or e m)"
  unfolding found_or_def
  by (rule ensures_bindE, erule ensures_tryE) (auto simp: ensures_pure split: sum.split)

lemma ensures_if: "(p \<Longrightarrow> ensures R a) \<Longrightarrow> (\<not> p \<Longrightarrow> ensures R b) \<Longrightarrow> ensures R (if p then a else b)"
  by simp

lemma ensures_option:
  "(x = None \<Longrightarrow> ensures R a) \<Longrightarrow> (\<And>v. x = Some v \<Longrightarrow> ensures R (f v)) \<Longrightarrow> ensures R (case x of None \<Rightarrow> a | Some v \<Rightarrow> f v)"
  by (cases x) simp_all

lemma ensures_sum:
  "(\<And>e. x = Inl e \<Longrightarrow> ensures R (f e)) \<Longrightarrow> (\<And>v. x = Inr v \<Longrightarrow> ensures R (g v))
    \<Longrightarrow> ensures R (case x of Inl e \<Rightarrow> f e | Inr v \<Rightarrow> g v)"
  by (cases x) simp_all

lemma ensures_pair: "(\<And>a b. x = (a, b) \<Longrightarrow> ensures R (f a b)) \<Longrightarrow> ensures R (case x of (a, b) \<Rightarrow> f a b)"
  by (cases x) simp

lemma ensures_steps: "(\<And>s t. step s t \<Longrightarrow> R s t) \<Longrightarrow> step\<^sup>*\<^sup>* s t \<Longrightarrow> R s t"
  by (erule rtranclp_induct) (auto intro: R_refl R_trans)

end

section \<open>Constraints of the tables\<close>

definition idempotent_keys :: "InferenceAccessKey list \<Rightarrow> bool" where
  "idempotent_keys ks \<longleftrightarrow> distinct (map (\<lambda>k. (k_tenant k, k_create_idempotency_key k))
     (filter (\<lambda>k. k_create_idempotency_key k \<noteq> None) ks))"

definition key_ok :: "access_db \<Rightarrow> InferenceAccessKey \<Rightarrow> bool" where
  "key_ok d k \<longleftrightarrow> key_checks k \<and> uuid_text (k_tenant k) \<and> uuid_text (k_id k)
     \<and> pred_option (\<lambda>p. policy_at d (k_tenant k) p \<noteq> None) (k_policy_id k)"

definition bucket_ok :: "access_db \<Rightarrow> InferenceAccessKeyRateBucket \<Rightarrow> bool" where
  "bucket_ok d b \<longleftrightarrow> 0 \<le> rb_count b \<and> rb_window b \<in> {''second'', ''minute'', ''hour''} \<and> key_at d (rb_tenant b) (rb_key b) \<noteq> None"

definition access_ok :: "access_db \<Rightarrow> bool" where
  "access_ok d \<longleftrightarrow> keyed k_key (ak_keys d) \<and> keyed k_key_prefix (ak_keys d) \<and> idempotent_keys (ak_keys d)
     \<and> list_all (key_ok d) (ak_keys d) \<and> keyed ap_key (ak_policies d) \<and> list_all policy_checks (ak_policies d)
     \<and> keyed rb_id (ak_buckets d) \<and> list_all (bucket_ok d) (ak_buckets d)"

text \<open>How a key may change.\<close>

definition credentials :: "InferenceAccessKey \<Rightarrow> string \<times> string \<times> time option" where
  "credentials k = (k_key_prefix k, k_secret_hash k, k_revoked_at k)"

definition evolves :: "InferenceAccessKey \<Rightarrow> InferenceAccessKey \<Rightarrow> bool" where
  "evolves k k' \<longleftrightarrow> k_key k' = k_key k \<and> k_expires_at k' = k_expires_at k
     \<and> (k_version k' = k_version k \<and> credentials k' = credentials k \<and> k_policy_id k' = k_policy_id k
        \<or> k_version k < k_version k' \<and> (k_revoked_at k = None \<or> credentials k' = credentials k))"

definition access_le :: "access_db \<Rightarrow> access_db \<Rightarrow> bool" where
  "access_le d d' \<longleftrightarrow> (access_ok d \<longrightarrow> access_ok d' \<and> (\<forall>k \<in> set (ak_keys d). \<exists>k' \<in> set (ak_keys d'). evolves k k'))"

lemma evolves_refl [simp]: "evolves k k"
  by (simp add: evolves_def)

lemma evolves_self [intro]: "k \<in> S \<Longrightarrow> \<exists>x \<in> S. evolves k x"
  by (rule bexI [of _ k]) simp_all

lemma evolves_trans: "evolves a b \<Longrightarrow> evolves b c \<Longrightarrow> evolves a c"
  by (auto simp: evolves_def credentials_def)

lemma access_le_refl: "access_le d d"
  by (auto simp: access_le_def)

lemma access_le_trans: "access_le a b \<Longrightarrow> access_le b c \<Longrightarrow> access_le a c"
  unfolding access_le_def by (meson evolves_trans)

interpretation access: guarantee access_le
  by unfold_locales (rule access_le_refl, erule access_le_trans)

lemmas access_intros =
  access.ensures_lift_bindE access.ensures_pure access.ensures_transaction access.ensures_commit_if
  access.ensures_status access.ensures_found_or access.ensures_tryE access.ensures_if access.ensures_option
  access.ensures_sum access.ensures_pair access.ensures_bindE

section \<open>Statements\<close>

lemma key_at_eq: "keyed k_key (ak_keys d) \<Longrightarrow> k \<in> set (ak_keys d) \<Longrightarrow> key_at d (k_tenant k) (k_id k) = Some k"
  unfolding key_at_def by (rule find_keyed [of k_key]) (auto simp: k_key_def)

lemma key_at_None: "key_at d tenant i = None \<longleftrightarrow> (tenant, i) \<notin> k_key ` set (ak_keys d)"
  by (auto simp: key_at_def find_eq_None k_key_def)

lemma policy_at_None: "policy_at d tenant i = None \<longleftrightarrow> (tenant, i) \<notin> ap_key ` set (ak_policies d)"
  by (auto simp: policy_at_def find_eq_None ap_key_def)

lemma key_ok_frame: "ak_policies d' = ak_policies d \<Longrightarrow> key_ok d' = key_ok d"
  by (simp add: fun_eq_iff key_ok_def policy_at_def)

lemma bucket_ok_frame: "ak_keys d' = ak_keys d \<Longrightarrow> bucket_ok d' = bucket_ok d"
  by (simp add: fun_eq_iff bucket_ok_def key_at_def)

lemma key_ok_same:
  "key_ok d k \<Longrightarrow> key_checks k' \<Longrightarrow> k_tenant k' = k_tenant k \<Longrightarrow> k_id k' = k_id k \<Longrightarrow> k_policy_id k' = k_policy_id k
    \<Longrightarrow> key_ok d k'"
  by (simp add: key_ok_def)

lemma access_le_frame:
  assumes "ak_keys d' = ak_keys d" "ak_policies d' = ak_policies d" "ak_buckets d' = ak_buckets d"
  shows "access_le d d'"
proof -
  have "key_ok d' = key_ok d" "bucket_ok d' = bucket_ok d"
    by (rule key_ok_frame bucket_ok_frame, simp add: assms)+
  then show ?thesis using assms by (auto simp: access_le_def access_ok_def)
qed

lemma access_reads:
  "ensures access_le (GetInferenceAccessKey t i)" "ensures access_le (LockInferenceAccessKey t i)"
  "ensures access_le (GetInferenceAccessKeyByPrefix p)"
  "ensures access_le (GetInferenceAccessKeyByCreateIdempotency t c)"
  "ensures access_le (GetInferenceAccessKeyByRotationIdempotency t i c)"
  "ensures access_le (CountInferenceAccessKeys t m)" "ensures access_le (ListInferenceAccessKeys t m a b)"
  "ensures access_le (share_policy e t i)" "ensures access_le (lookupPublishedModel m)"
  "ensures access_le (LockPolicyServiceShared t i)"
  by (rule access.ensures_same, auto simp: GetInferenceAccessKey_def LockInferenceAccessKey_def
      GetInferenceAccessKeyByPrefix_def GetInferenceAccessKeyByCreateIdempotency_def
      GetInferenceAccessKeyByRotationIdempotency_def CountInferenceAccessKeys_def ListInferenceAccessKeys_def
      share_policy_def lookupPublishedModel_def LockPolicyServiceShared_def one_def failE_def returnE_def
      split: option.split)+

lemma access_audits:
  "ensures access_le (AppendInferenceAccessKeyAudit ev)"
  "ensures access_le (policyAudit pg e p name a r)"
proof -
  show "ensures access_le (AppendInferenceAccessKeyAudit ev)"
    by (rule ensuresI, rule access_le_frame) (auto simp: AppendInferenceAccessKeyAudit_def split: if_splits)
  show "ensures access_le (policyAudit pg e p name a r)"
    unfolding policyAudit_def
    by (intro access.ensures_lift_bindE, rule ensuresI, rule access_le_frame) (auto split: if_splits)
qed

text \<open>An update of keys that keeps identities and idempotency keys.\<close>

lemma access_le_update:
  assumes d': "d' = d\<lparr>ak_keys := update_where p f (ak_keys d)\<rparr>"
    and f: "\<And>k. k_key (f k) = k_key k" "\<And>k. k_create_idempotency_key (f k) = k_create_idempotency_key k"
    and new: "\<And>k. access_ok d \<Longrightarrow> k \<in> set (ak_keys d) \<Longrightarrow> p k \<Longrightarrow> key_ok d (f k) \<and> evolves k (f k)"
    and prefixes: "access_ok d \<Longrightarrow> keyed k_key_prefix (update_where p f (ak_keys d))"
  shows "access_le d d'"
proof (unfold access_le_def, intro impI conjI)
  assume ok: "access_ok d"
  have keys: "k_key ` set (ak_keys d') = k_key ` set (ak_keys d)"
    unfolding set_map [symmetric] by (simp add: d' map_update_where f)
  have "keyed k_key (ak_keys d')" using ok by (simp add: d' keyed_update_where f access_ok_def)
  moreover have "idempotent_keys (ak_keys d')"
  proof -
    let ?g = "\<lambda>k. (k_tenant k, k_create_idempotency_key k)"
    let ?P = "\<lambda>x. snd x \<noteq> None"
    have "idempotent_keys ks = distinct (filter ?P (map ?g ks))" for ks
      by (simp add: idempotent_keys_def filter_map comp_def)
    moreover have "map ?g (update_where p f (ak_keys d)) = map ?g (ak_keys d)"
      using f by (auto simp: update_where_def k_key_def)
    ultimately show ?thesis using ok by (simp add: d' access_ok_def)
  qed
  moreover have "list_all (key_ok d') (ak_keys d')"
  proof -
    have "key_ok d' = key_ok d" by (rule key_ok_frame) (simp add: d')
    moreover have "key_ok d k" if "k \<in> set (ak_keys d)" for k
      using ok that by (simp add: access_ok_def list_all_iff)
    ultimately show ?thesis using new [OF ok] by (auto simp: list_all_iff d' set_update_where)
  qed
  moreover have "list_all (bucket_ok d') (ak_buckets d')"
    using ok keys by (auto simp: list_all_iff access_ok_def bucket_ok_def key_at_None d')
  ultimately show "access_ok d'" using ok prefixes by (simp add: access_ok_def d')
  show "\<forall>k \<in> set (ak_keys d). \<exists>k' \<in> set (ak_keys d'). evolves k k'"
  proof
    fix k
    assume k: "k \<in> set (ak_keys d)"
    then have "(if p k then f k else k) \<in> set (ak_keys d')" by (auto simp: d' set_update_where)
    moreover have "evolves k (if p k then f k else k)" using new [OF ok k] by simp
    ultimately show "\<exists>k' \<in> set (ak_keys d'). evolves k k'" by blast
  qed
qed

lemma access_le_update_key:
  assumes "update_key p f d = (r, d')"
    and "\<And>k. k_key (f k) = k_key k" "\<And>k. k_create_idempotency_key (f k) = k_create_idempotency_key k"
    and "\<And>k. access_ok d \<Longrightarrow> k \<in> set (ak_keys d) \<Longrightarrow> p k \<Longrightarrow> key_ok d (f k) \<and> evolves k (f k)"
    and "access_ok d \<Longrightarrow> keyed k_key_prefix (update_where p f (ak_keys d))"
  shows "access_le d d'"
  using assms access_le_refl access_le_update [where d' = d' and d = d and p = p and f = f]
  by (auto simp: update_key_def split: option.splits)

lemma key_ok_mem: "access_ok d \<Longrightarrow> k \<in> set (ak_keys d) \<Longrightarrow> key_ok d k"
  by (simp add: access_ok_def list_all_iff)

lemma access_revoke: "ensures access_le (RevokeInferenceAccessKey t i)"
proof (rule ensuresI)
  fix d r d'
  assume "RevokeInferenceAccessKey t i d = (r, d')"
  then show "access_le d d'"
    unfolding RevokeInferenceAccessKey_def
    by (rule access_le_update_key)
      (auto simp: k_key_def key_ok_def key_checks_def evolves_def credentials_def keyed_update_where access_ok_def
        list_all_iff split: option.splits)
qed

lemma keyed_rotated:
  assumes "keyed k_key ks" and "keyed k_key_prefix ks"
    and "\<And>k. k \<in> set ks \<Longrightarrow> k_key_prefix k = x \<Longrightarrow> k_key k = key"
    and "\<And>k. p k \<Longrightarrow> k_key k = key" and "\<And>k. k_key_prefix (f k) = x"
  shows "keyed k_key_prefix (update_where p f ks)"
  using assms(1-3)
proof (induction ks)
  case (Cons a ks)
  have tail: "keyed k_key_prefix (update_where p f ks)"
    using Cons by (simp add: keyed_def)
  have "k_key_prefix (if p a then f a else a) \<notin> k_key_prefix ` set (update_where p f ks)"
  proof
    assume "k_key_prefix (if p a then f a else a) \<in> k_key_prefix ` set (update_where p f ks)"
    then obtain b where b: "b \<in> set ks" "k_key_prefix (if p a then f a else a) = k_key_prefix (if p b then f b else b)"
      by (auto simp: set_update_where)
    have "k_key a \<noteq> k_key b" "k_key_prefix a \<noteq> k_key_prefix b"
      using Cons.prems(1,2) b(1) by (auto simp: keyed_def image_iff)
    then show False using b Cons.prems(3) [of a] Cons.prems(3) [of b] assms(4) [of a] assms(4) [of b] assms(5)
      by (auto split: if_splits)
  qed
  moreover have "update_where p f (a # ks) = (if p a then f a else a) # update_where p f ks"
    by (simp add: update_where_def)
  ultimately show ?case using tail by (simp only: keyed_def list.map distinct.simps set_map simp_thms)
qed (simp add: update_where_def)

lemma access_rotate: "ensures access_le (RotateInferenceAccessKey t i x h v c s)"
proof (rule ensuresI)
  fix d r d'
  let ?p = "\<lambda>k. k_tenant k = t \<and> k_id k = i \<and> k_revoked_at k = None"
  assume run: "RotateInferenceAccessKey t i x h v c s d = (r, d')"
  show "access_le d d'"
  proof (cases "find ?p (ak_keys d) \<noteq> None \<and> list_ex (\<lambda>k. k_key_prefix k = x \<and> k_key k \<noteq> (t, i)) (ak_keys d)")
    case True
    with run show ?thesis by (simp add: RotateInferenceAccessKey_def Let_def access_le_refl)
  next
    case False
    then have upd: "update_key ?p (rotated_row x h v c s) d = (r, d')"
      using run unfolding RotateInferenceAccessKey_def Let_def by (simp only: if_False)
    show ?thesis
    proof (cases "find ?p (ak_keys d)")
      case None
      with upd show ?thesis by (simp add: update_key_def access_le_refl)
    next
      case (Some k0)
      with False have free: "k_key k = (t, i)" if "k \<in> set (ak_keys d)" "k_key_prefix k = x" for k
        using that by (auto simp: list_ex_iff)
      have "keyed k_key_prefix (update_where ?p (rotated_row x h v c s) (ak_keys d))" if "access_ok d"
        by (rule keyed_rotated [of _ x "(t, i)"]) (use that free in \<open>auto simp: access_ok_def rotated_row_def k_key_def\<close>)
      moreover have "key_ok d (rotated_row x h v c s k) \<and> evolves k (rotated_row x h v c s k)"
        if "access_ok d" "k \<in> set (ak_keys d)" "?p k" for k
        using key_ok_mem [OF that(1,2)] that(3)
        by (auto simp: rotated_row_def k_key_def key_checks_def key_ok_def evolves_def)
      ultimately show ?thesis
        by (intro access_le_update_key [OF upd]) (simp_all add: rotated_row_def k_key_def)
    qed
  qed
qed

lemma access_archive: "ensures access_le (ArchiveInferenceAccessKeySecret t i v h c)"
proof (rule ensuresI)
  fix d r d'
  assume "ArchiveInferenceAccessKeySecret t i v h c d = (r, d')"
  then have "d' = d\<lparr>ak_keys := update_where (\<lambda>k. k_tenant k = t \<and> k_id k = i \<and> k_version k = v \<and> k_secret_hash k = h
      \<and> k_secret_ciphertext k = None \<and> k_revoked_at k = None) (k_secret_ciphertext_update (\<lambda>_. c)) (ak_keys d)\<rparr>"
    by (simp add: ArchiveInferenceAccessKeySecret_def Let_def)
  then show "access_le d d'"
    by (rule access_le_update)
      (auto simp: k_key_def key_ok_def key_checks_def evolves_def credentials_def keyed_update_where access_ok_def list_all_iff)
qed

lemma access_used: "ensures access_le (MarkInferenceAccessKeyUsed t i)"
proof (rule ensuresI)
  fix d r d'
  assume "MarkInferenceAccessKeyUsed t i d = (r, d')"
  then have "d' = d\<lparr>ak_keys := update_where (\<lambda>k. k_tenant k = t \<and> k_id k = i)
      (k_last_used_at_update (\<lambda>_. Some (now (control d)))) (ak_keys d)\<rparr>"
    by (simp add: MarkInferenceAccessKeyUsed_def)
  then show "access_le d d'"
    by (rule access_le_update)
      (auto simp: k_key_def key_ok_def key_checks_def evolves_def credentials_def keyed_update_where access_ok_def list_all_iff)
qed

lemma access_bind: "ensures access_le (bind_policy t i p)"
proof (rule ensuresI)
  fix d r d'
  assume run: "bind_policy t i p d = (r, d')"
  show "access_le d d'"
  proof (cases "key_at d t i \<noteq> None \<and> policy_at d t p = None")
    case False
    then have "d' = d\<lparr>ak_keys := update_where (\<lambda>k. k_tenant k = t \<and> k_id k = i)
        (\<lambda>k. k\<lparr>k_policy_id := Some p, k_version := k_version k + 1\<rparr>) (ak_keys d)\<rparr>"
      using run unfolding bind_policy_def by (simp only: if_False) simp
    then show ?thesis
    proof (rule access_le_update)
      fix k
      assume "access_ok d" "k \<in> set (ak_keys d)" "k_tenant k = t \<and> k_id k = i"
      moreover from this have "key_at d t i \<noteq> None" by (auto simp: key_at_None k_key_def)
      ultimately show "key_ok d (k\<lparr>k_policy_id := Some p, k_version := k_version k + 1\<rparr>)
          \<and> evolves k (k\<lparr>k_policy_id := Some p, k_version := k_version k + 1\<rparr>)"
        using False key_ok_mem [of d k]
        by (auto simp: key_ok_def key_checks_def evolves_def credentials_def k_key_def)
    qed (auto simp: k_key_def keyed_update_where access_ok_def)
  qed (use run in \<open>simp add: bind_policy_def access_le_refl\<close>)
qed

lemma access_insert:
  assumes "uuid_text (k_tenant arg)" and "uuid_text (k_id arg)"
  shows "ensures access_le (InsertInferenceAccessKey arg)"
proof (rule ensuresI)
  fix d d' :: access_db and r
  define row where "row = arg\<lparr>k_revoked_at := None, k_created_at := now (control d), k_last_used_at := None,
    k_version := 1, k_rotation_idempotency_key := None\<rparr>"
  assume run: "InsertInferenceAccessKey arg d = (r, d')"
  show "access_le d d'"
  proof (cases r)
    case Inl
    with run show ?thesis
      by (auto simp: InsertInferenceAccessKey_def Let_def access_le_refl split: if_splits option.splits)
  next
    case Inr
    with run have checks: "key_checks row" "k_key row \<notin> k_key ` set (ak_keys d)"
        "k_key_prefix row \<notin> k_key_prefix ` set (ak_keys d)"
        "pred_option (\<lambda>p. policy_at d (k_tenant row) p \<noteq> None) (k_policy_id row)"
        "k_create_idempotency_key row = None \<or> \<not> list_ex (\<lambda>k. k_tenant k = k_tenant row
           \<and> k_create_idempotency_key k = k_create_idempotency_key row) (ak_keys d)"
        "d' = d\<lparr>ak_keys := ak_keys d @ [row]\<rparr>"
      unfolding InsertInferenceAccessKey_def Let_def row_def [symmetric]
      by (auto split: if_splits option.splits)
    show ?thesis
    proof (unfold access_le_def, intro impI conjI)
      assume ok: "access_ok d"
      have "idempotent_keys (ak_keys d @ [row])"
        using checks(5) ok by (auto simp: idempotent_keys_def access_ok_def list_ex_iff)
      moreover have "key_ok d' = key_ok d"
        by (rule key_ok_frame) (simp add: checks(6))
      moreover have "key_ok d row" using checks(1,4) assms by (simp add: key_ok_def row_def)
      moreover have "list_all (bucket_ok d') (ak_buckets d)"
        using ok by (auto simp: access_ok_def list_all_iff bucket_ok_def key_at_None checks(6))
      ultimately show "access_ok d'"
        using ok checks by (simp add: access_ok_def keyed_append_one)
      show "\<forall>k \<in> set (ak_keys d). \<exists>k' \<in> set (ak_keys d'). evolves k k'"
        by (auto simp: checks(6) intro: bexI [of _ k for k])
    qed
  qed
qed

lemma access_consume_bucket: "ensures access_le (ConsumeInferenceAccessKeyRateBucket t i w st c mx)"
proof (rule ensuresI)
  fix d r d'
  assume run: "ConsumeInferenceAccessKeyRateBucket t i w st c mx d = (r, d')"
  show "access_le d d'"
  proof (cases r)
    case Inl
    with run show ?thesis
      by (auto simp: ConsumeInferenceAccessKeyRateBucket_def Let_def access_le_refl split: if_splits option.splits)
  next
    case (Inr n)
    let ?same = "\<lambda>b. rb_id b = (t, i, w, st)"
    let ?new = "\<lparr>rb_tenant = t, rb_key = i, rb_window = w, rb_start = st, rb_count = c\<rparr>"
    from Inr run have c: "0 \<le> c" "w \<in> {''second'', ''minute'', ''hour''}"
      by (auto simp: ConsumeInferenceAccessKeyRateBucket_def Let_def split: if_splits)
    show ?thesis
    proof (cases "find ?same (ak_buckets d)")
      case None
      with Inr run c have d': "d' = d\<lparr>ak_buckets := ak_buckets d @ [?new]\<rparr>" and k: "key_at d t i \<noteq> None"
        by (auto simp: ConsumeInferenceAccessKeyRateBucket_def Let_def split: if_splits)
      have "bucket_ok d' = bucket_ok d" "key_ok d' = key_ok d"
        by (rule key_ok_frame bucket_ok_frame, simp add: d')+
      moreover have "rb_id ?new \<notin> rb_id ` set (ak_buckets d)" using None by (auto simp: find_eq_None rb_id_def)
      moreover have "bucket_ok d ?new" using c k by (simp add: bucket_ok_def)
      ultimately show ?thesis by (auto simp: access_le_def access_ok_def d' keyed_append_one)
    next
      case (Some b)
      with Inr run c have d': "d' = d\<lparr>ak_buckets := update_where ?same (rb_count_update (\<lambda>n. n + c)) (ak_buckets d)\<rparr>"
        by (auto simp: ConsumeInferenceAccessKeyRateBucket_def Let_def split: if_splits)
      have "bucket_ok d' = bucket_ok d" "key_ok d' = key_ok d"
        by (rule key_ok_frame bucket_ok_frame, simp add: d')+
      moreover have "keyed rb_id (ak_buckets d') = keyed rb_id (ak_buckets d)"
        by (simp add: d' keyed_update_where rb_id_def)
      ultimately show ?thesis using c
        by (auto simp: access_le_def access_ok_def list_all_iff d' set_update_where bucket_ok_def)
    qed
  qed
qed

text \<open>A change of the policies that keeps every policy that a key refers to.\<close>

lemma access_le_policies:
  assumes d': "d' = d\<lparr>ak_policies := ps\<rparr>"
    and ps: "access_ok d \<Longrightarrow> keyed ap_key ps \<and> list_all policy_checks ps"
    and used: "\<And>k p. access_ok d \<Longrightarrow> k \<in> set (ak_keys d) \<Longrightarrow> k_policy_id k = Some p \<Longrightarrow>
      (k_tenant k, p) \<in> ap_key ` set (ak_policies d) \<Longrightarrow> (k_tenant k, p) \<in> ap_key ` set ps"
  shows "access_le d d'"
proof (unfold access_le_def, intro impI conjI)
  assume ok: "access_ok d"
  have "bucket_ok d' = bucket_ok d" by (simp add: fun_eq_iff bucket_ok_def key_at_def d')
  moreover have "list_all (key_ok d') (ak_keys d)"
  proof (unfold list_all_iff, rule ballI)
    fix k
    assume k: "k \<in> set (ak_keys d)"
    show "key_ok d' k"
      using key_ok_mem [OF ok k] used [OF ok k] by (cases "k_policy_id k") (simp_all add: key_ok_def policy_at_None d')
  qed
  ultimately show "access_ok d'" using ok ps by (simp add: access_ok_def d')
qed (auto simp: d')

lemma access_policies:
  "ensures access_le (insert_policy row)" "ensures access_le (update_policy p t i)" "ensures access_le (delete_policy t i)"
proof -
  show "ensures access_le (insert_policy row)"
  proof (rule ensuresI)
    fix d r d'
    assume "insert_policy row d = (r, d')"
    then show "access_le d d'"
      using access_le_policies [where d' = d' and d = d and ps = "ak_policies d @ [row]"]
      by (auto simp: insert_policy_def access_le_refl keyed_append_one access_ok_def split: if_splits)
  qed
  show "ensures access_le (update_policy p t i)"
  proof (rule ensuresI)
    fix d r d'
    assume run: "update_policy p t i d = (r, d')"
    show "access_le d d'"
    proof (cases "policy_at d t i")
      case (Some old)
      define row where "row = (edited_policy p old)\<lparr>ap_version := ap_version old + 1\<rparr>"
      have key: "ap_key row = (t, i)"
        using find_Some_mem [OF Some [unfolded policy_at_def]] by (simp add: row_def edited_policy_def ap_key_def)
      have "map ap_key (update_where (\<lambda>q. ap_key q = (t, i)) (\<lambda>_. row) (ak_policies d)) = map ap_key (ak_policies d)"
        by (auto simp: update_where_def key)
      then have "keyed ap_key (update_where (\<lambda>q. ap_key q = (t, i)) (\<lambda>_. row) (ak_policies d)) = keyed ap_key (ak_policies d)"
          "ap_key ` set (update_where (\<lambda>q. ap_key q = (t, i)) (\<lambda>_. row) (ak_policies d)) = ap_key ` set (ak_policies d)"
        by (simp_all add: keyed_def flip: set_map)
      then show ?thesis
        using run Some access_le_policies [where d' = d' and d = d and ps = "update_where (\<lambda>q. ap_key q = (t, i)) (\<lambda>_. row) (ak_policies d)"]
        by (auto simp: update_policy_def row_def [symmetric] Let_def access_le_refl access_ok_def list_all_iff set_update_where
            split: if_splits)
    qed (use run in \<open>simp add: update_policy_def access_le_refl\<close>)
  qed
  show "ensures access_le (delete_policy t i)"
  proof (rule ensuresI)
    fix d r d'
    assume run: "delete_policy t i d = (r, d')"
    show "access_le d d'"
    proof (cases r)
      case Inl
      with run show ?thesis by (auto simp: delete_policy_def access_le_refl split: if_splits option.splits)
    next
      case Inr
      with run have d': "d' = d\<lparr>ak_policies := delete_where (\<lambda>q. ap_key q = (t, i)) (ak_policies d)\<rparr>"
        and free: "\<not> list_ex (\<lambda>k. k_tenant k = t \<and> k_policy_id k = Some i) (ak_keys d)"
        by (auto simp: delete_policy_def split: if_splits option.splits)
      show ?thesis
      proof (rule access_le_policies [OF d'])
        fix k p
        assume "k \<in> set (ak_keys d)" "k_policy_id k = Some p" "(k_tenant k, p) \<in> ap_key ` set (ak_policies d)"
        then show "(k_tenant k, p) \<in> ap_key ` set (delete_where (\<lambda>q. ap_key q = (t, i)) (ak_policies d))"
          using free by (auto simp: list_ex_iff delete_where_def image_iff)
      qed (auto simp: access_ok_def delete_where_def keyed_def list_all_iff distinct_map_filter)
    qed
  qed
qed

lemma access_insert_policy: "ensures access_le (\<lambda>d. insert_policy (f d) d)"
  by (rule ensuresI) (erule ensuresD [OF access_policies(1)])

lemmas access_statements =
  access_insert_policy
  access_reads access_audits access_revoke access_rotate access_archive access_used access_bind access_consume_bucket
  access_policies


section \<open>Operations\<close>

lemma access_windows: "ensures access_le (consume_windows t i clock cost ws)"
proof (induction ws)
  case (Cons w ws)
  then show ?case by (cases w) (auto intro!: access_intros access_statements)
qed (simp add: access_intros)

lemma access_buckets: "ensures access_le (consumeKeyBuckets t i r clock cost)"
  unfolding consumeKeyBuckets_def by (intro access_intros access_windows access_statements)

lemma access_consume: "ensures access_le (Repository_ConsumeAccess P r s m clock cost)"
  unfolding Repository_ConsumeAccess_def consume_publication_def consume_key_def consume_policy_def
  by (intro access_intros access_buckets access_statements)

lemma access_create_row:
  assumes "uuid_text tenant" and "uuid_text i"
  shows "ensures access_le (create_key_row ev tenant i policy inp request)"
  unfolding create_key_row_def
  by (intro access_intros access_statements access_insert) (simp_all add: new_key_row_def assms)

lemma requireUUID_text: "uuid_parser_ok P \<Longrightarrow> requireUUID P l v = Inr u \<Longrightarrow> uuid_text u"
  by (auto simp: requireUUID_def uuid_parser_ok_def split: sum.splits)

lemma access_create: "uuid_parser_ok P \<Longrightarrow> ensures access_le (Repository_Create P ev inp request)"
  unfolding Repository_Create_def create_key_replay_def
  by (intro access_intros access_statements access_create_row) (auto dest: requireUUID_text)

lemma access_methods:
  "ensures access_le (Repository_Revoke P ev t i a q)"
  "ensures access_le (Repository_Rotate P ev t i inp)"
  "ensures access_le (Repository_ArchiveSecret P r c)"
  "ensures access_le (Repository_GetByPrefix x)"
  "ensures access_le (Repository_Resolve m)"
  "ensures access_le (Repository_CreateAccessPolicy pg n ev p a q)"
  "ensures access_le (Repository_UpdateAccessPolicy pg ev p a q)"
  "ensures access_le (Repository_DeleteAccessPolicy pg ev t i a q)"
  "ensures access_le (Repository_BindAccessPolicy P pg ev t i pol a q)"
  unfolding Repository_Revoke_def Repository_Rotate_def rotate_replay_def rotate_row_def Repository_ArchiveSecret_def
    Repository_GetByPrefix_def Repository_Resolve_def Repository_CreateAccessPolicy_def Repository_UpdateAccessPolicy_def
    Repository_DeleteAccessPolicy_def Repository_BindAccessPolicy_def
  by (intro access_intros access_statements)+

lemma access_rpcs:
  "uuid_parser_ok P \<Longrightarrow> ensures access_le (CreateInferenceAccessKey P IDKey rnd n ev clock svc ctx req)"
  "ensures access_le (RevokeInferenceAccessKey_rpc P ev ctx i q)"
  "ensures access_le (RotateInferenceAccessKey_rpc P IDKey rnd ev svc ctx i q c)"
  "ensures access_le (CheckInferenceAccess P IDKey rn clock svc chk)"
  "ensures access_le (CreateInferenceAccessPolicy P pg n ev ctx msg q)"
  "ensures access_le (UpdateInferenceAccessPolicy P pg ev ctx msg q)"
  "ensures access_le (DeleteInferenceAccessPolicy P pg ev ctx i q)"
  "ensures access_le (BindInferenceAccessKeyPolicy P pg ev ctx i pol q)"
  unfolding CreateInferenceAccessKey_def Service_Create_def RevokeInferenceAccessKey_rpc_def Service_Revoke_def
    RotateInferenceAccessKey_rpc_def Service_Rotate_def CheckInferenceAccess_def Service_Check_def check_key_def
    archive_legacy_def CreateInferenceAccessPolicy_def UpdateInferenceAccessPolicy_def DeleteInferenceAccessPolicy_def
    BindInferenceAccessKeyPolicy_def Let_def
  by (intro access_intros access_methods access_create access_consume, assumption?)+

section \<open>The system\<close>

text \<open>
  A call of one of the methods that write, for any caller and any request, or a move of the control plane,
  which does not write the tables of access keys.
\<close>

inductive access_step :: "uuid_parser \<Rightarrow> access_db \<Rightarrow> access_db \<Rightarrow> bool" for P :: uuid_parser where
  create_key: "CreateInferenceAccessKey P IDKey rnd n ev clock svc ctx req d = (r, d') \<Longrightarrow> access_step P d d'"
| revoke_key: "RevokeInferenceAccessKey_rpc P ev ctx i q d = (r, d') \<Longrightarrow> access_step P d d'"
| rotate_key: "RotateInferenceAccessKey_rpc P IDKey rnd ev svc ctx i q c d = (r, d') \<Longrightarrow> access_step P d d'"
| check_access: "CheckInferenceAccess P IDKey rn clock svc chk d = (r, d') \<Longrightarrow> access_step P d d'"
| create_access_policy: "CreateInferenceAccessPolicy P pg n ev ctx msg q d = (r, d') \<Longrightarrow> access_step P d d'"
| update_access_policy: "UpdateInferenceAccessPolicy P pg ev ctx msg q d = (r, d') \<Longrightarrow> access_step P d d'"
| delete_access_policy: "DeleteInferenceAccessPolicy P pg ev ctx i q d = (r, d') \<Longrightarrow> access_step P d d'"
| bind_access_policy: "BindInferenceAccessKeyPolicy P pg ev ctx i pol q d = (r, d') \<Longrightarrow> access_step P d d'"
| control_move: "access_step P d (d\<lparr>control := c\<rparr>)"

lemma access_step_le:
  assumes "uuid_parser_ok P" and "access_step P d d'"
  shows "access_le d d'"
  using assms(2)
  by cases ((erule access_rpcs(2-) [THEN ensuresD] access_rpcs(1) [OF assms(1), THEN ensuresD])+,
      simp add: access_le_frame)

definition access_start :: "access_db \<Rightarrow> bool" where
  "access_start d \<longleftrightarrow> ak_keys d = [] \<and> ak_policies d = [] \<and> ak_buckets d = []"

interpretation keys: inductive_invariant access_start "\<lambda>d d'. uuid_parser_ok P \<and> access_step P d d'" access_ok
proof
  fix d d'
  show "access_start d \<Longrightarrow> access_ok d"
    by (simp add: access_start_def access_ok_def keyed_def idempotent_keys_def)
  show "access_ok d \<Longrightarrow> uuid_parser_ok P \<and> access_step P d d' \<Longrightarrow> access_ok d'"
    by (auto simp: access_le_def dest: access_step_le)
qed

lemma access_steps_le: "uuid_parser_ok P \<Longrightarrow> (access_step P)\<^sup>*\<^sup>* d d' \<Longrightarrow> access_le d d'"
  by (rule access.ensures_steps [of "access_step P"]) (rule access_step_le)

end
