(* ===== verification/Access_Sample.thy ===== *)
theory Access_Sample
  imports Access_System
begin

text \<open>
  A concrete run of the access service on which the properties are evaluated: a tenant with one published
  model, a policy, a key, its first request, a revocation and two rotations. The key derivation and the
  cipher are small functions that have the laws which the properties ask for.
\<close>

section \<open>A concrete system\<close>

definition sample_published :: db where
  "sample_published = sample_db\<lparr>
     specs := [\<lparr>sp_tenant = sample_tenant, sp_id = sample_token, sp_service = sample_id, sp_generation = 3,
       sp_model_id = None, sp_model_version_id = sample_token, sp_artifact_provider = ''s3'', sp_artifact_ref = ''m'',
       sp_artifact_sha256 = '''', sp_image_ref = ''i'', sp_served_model_name = ''llama'', sp_engine_runtime = ''vllm'',
       sp_command_argv = JNull, sp_resources = \<lparr>Requests = [], Limits = [], SpecGPU = None\<rparr>, sp_replicas = 1,
       sp_spec_json = JNull, sp_created_at = 10, sp_runtime_mode = ''deployment'', sp_worker_replicas = 1,
       sp_endpoint_container_port = None, sp_endpoint_service_port = None, sp_endpoint_target_port = None,
       sp_endpoint_protocol = None, sp_runtime_provider = ''kserve'', sp_gpu_request = None, sp_gpu_plan = None,
       sp_gpu_plan_digest = None\<rparr>],
     publications := [\<lparr>p_tenant = sample_tenant, p_service = sample_id, p_generation = 3,
       p_desired_phase = ''published'', p_observed_phase = ''published'', p_invocation_url = '''', p_last_error = '''',
       p_observed_at = None, p_updated_at = 30\<rparr>]\<rparr>"

definition sample_access :: access_db where
  "sample_access = \<lparr>control = sample_published, ak_keys = [], ak_audit = [], ak_buckets = [], ak_policies = [],
     ak_policy_audit = []\<rparr>"

definition sample_derivation :: key_derivation where
  "sample_derivation secret salt = take 32 (string_bytes secret @ salt @ replicate 32 0)"

definition sample_aead :: AEAD where
  "sample_aead = \<lparr>NonceSize = 12, Overhead = 1, Seal = (\<lambda>nonce plain aad. plain @ [sum_list aad]),
     Open = (\<lambda>nonce sealed aad. if sealed \<noteq> [] \<and> last sealed = sum_list aad then Some (butlast sealed) else None)\<rparr>"

definition sample_svc :: Service where
  "sample_svc = \<lparr>svc_PolicyConfigured = True, svc_Cipher = Some sample_aead\<rparr>"

definition sample_rnd :: "nat \<Rightarrow> byte list result" where
  "sample_rnd n = (if n = 0 then Inr (replicate 32 7) else if n = 1 then Inr (replicate 16 9) else Inr (replicate 12 1))"

definition sample_ctx :: identity where
  "sample_ctx = \<lparr>ctx_tenant = Some sample_tenant, ctx_actor = ''alice''\<rparr>"

definition sample_policy :: Policy where
  "sample_policy = \<lparr>pol_ID = '''', pol_TenantID = '''', pol_Name = ''basic'', pol_AllowedModelNames = [''llama''],
     pol_RequestsPerSecond = 1, pol_RequestsPerMinute = 10, pol_RequestsPerHour = 0, pol_Version = 0\<rparr>"

definition sample_with_policy :: "Policy result \<times> access_db" where
  "sample_with_policy = CreateInferenceAccessPolicy strict_parser strict_parser sample_token sample_id sample_ctx
     (Some sample_policy) ''r1'' sample_access"

text \<open>The state after the first call, written out.\<close>

definition sample_policy_row :: InferenceAccessPolicy where
  "sample_policy_row = \<lparr>ap_tenant = sample_tenant, ap_id = sample_token, ap_name = ''basic'', ap_allowed_model_names = [''llama''],
     ap_requests_per_second = 1, ap_requests_per_minute = 10, ap_requests_per_hour = 0, ap_version = 1, ap_created_at = 100\<rparr>"

definition sample_policied :: access_db where
  "sample_policied = sample_access\<lparr>ak_policies := [sample_policy_row],
     ak_policy_audit := [\<lparr>pa_tenant = sample_tenant, pa_event_id = sample_id, pa_policy = sample_token,
       pa_event_type = ''created'', pa_actor = ''alice'', pa_request_id = ''r1'',
       pa_payload = scanPolicy sample_tenant sample_policy_row\<rparr>]\<rparr>"

lemma sample_policied_state: "snd sample_with_policy = sample_policied"
  by code_simp

definition sample_key_request :: CreateKeyRequest where
  "sample_key_request = \<lparr>ck_RequestId = ''r2'', ck_Name = ''key'', ck_PolicyId = sample_token, ck_AllowedServiceIds = [],
     ck_AllowedModelNames = [], ck_RequestsPerSecond = 0, ck_RequestsPerMinute = 0, ck_RequestsPerHour = 0,
     ck_ExpiresAt = None, ck_IdempotencyKey = ''''\<rparr>"

definition sample_http :: "string \<Rightarrow> HttpRequest" where
  "sample_http secret = \<lparr>hr_Method = ''POST'', hr_Path = ''/authz'', hr_Values = (\<lambda>name.
     if name = ''x-api-key'' then [secret]
     else if name = ''x-higress-llm-model'' then [''llama'']
     else if name = ''x-ani-authz-source'' then [''higress''] else [])\<rparr>"


definition sample_secret :: string where
  "sample_secret = ''iak_BwcHBwcHBwcHBwcHBwcHBwcHBwcHBwcHBwcHBwcHBwc''"

definition sample_key :: InferenceAccessKey where
  "sample_key =
     \<lparr>k_tenant = sample_tenant, k_id = sample_operation_id, k_name = ''key'', k_key_prefix = ''iak_BwcHBwcHBwcH'',
      k_secret_hash = ''argon2id-v1$CQkJCQkJCQkJCQkJCQkJCQ$aWFrX0J3Y0hCd2NIQndjSEJ3Y0hCd2NIQndjSEJ3Y0g'',
      k_hash_version = ''argon2id-v1'', k_allowed_service_ids = [], k_allowed_model_names = [],
      k_requests_per_second = 0, k_requests_per_minute = 0, k_requests_per_hour = 0, k_expires_at = None,
      k_revoked_at = None, k_created_by = ''alice'', k_created_at = 100, k_last_used_at = None, k_version = 1,
      k_create_idempotency_key = None, k_rotation_idempotency_key = None,
      k_secret_ciphertext =
        Some ''v1:AQEBAQEBAQEBAQEBaWFrX0J3Y0hCd2NIQndjSEJ3Y0hCd2NIQndjSEJ3Y0hCd2NIQndjSEJ3Y0hCd2MA'',
      k_policy_id = Some sample_token\<rparr>"

text \<open>The state after the two calls, written out.\<close>

definition sample_keyed :: access_db where
  "sample_keyed = sample_policied\<lparr>ak_keys := [sample_key],
     ak_audit := [key_event sample_tenant sample_id sample_operation_id ''created'' ''alice'' ''r2''
       [(''key_id'', sample_operation_id), (''key_prefix'', ''iak_BwcHBwcHBwcH'')]]\<rparr>"

definition sample_input :: KeyCreateInput where
  "sample_input = \<lparr>kc_TenantID = sample_tenant, kc_RequestID = ''r2'', kc_Name = ''key'', kc_PolicyID = sample_token,
     kc_AllowedServiceIDs = [], kc_AllowedModelNames = [], kc_RequestsPerSecond = 0, kc_RequestsPerMinute = 0,
     kc_RequestsPerHour = 0, kc_ExpiresAt = None, kc_CreatedBy = ''alice'', kc_IdempotencyKey = ''''\<rparr>"

definition sample_new_key :: "SecretResult result \<times> access_db" where
  "sample_new_key = Service_Create strict_parser sample_derivation sample_rnd sample_operation_id sample_id 5000 sample_svc
     sample_input sample_policied"

lemma sample_new_key_result:
  "sample_new_key =
     (Inr \<lparr>sr_Record = accessKeyRecord sample_key, sr_Secret = sample_secret, sr_Replayed = False\<rparr>, sample_keyed)"
  by code_simp

definition sample_with_key :: "KeySecretResponse result \<times> access_db" where
  "sample_with_key = CreateInferenceAccessKey strict_parser sample_derivation sample_rnd sample_operation_id sample_id
     5000 sample_svc sample_ctx sample_key_request sample_policied"

lemma sample_keyed_state: "snd sample_with_key = sample_keyed"
proof -
  have "requireAccessKeyTenant sample_ctx = Inr sample_tenant" "TrimSpace (ck_RequestId sample_key_request) \<noteq> ''''"
      "accessKeyTimestampValue (ck_ExpiresAt sample_key_request) = Inr None"
    by code_simp+
  then show ?thesis
    using sample_new_key_result unfolding sample_new_key_def sample_input_def
    by (simp add: sample_with_key_def CreateInferenceAccessKey_def bindE_def liftE_def status_of_def returnE_def
        sample_key_request_def sample_ctx_def)
qed

definition sample_passed :: "HttpResponse \<times> access_db" where
  "sample_passed = authz_request strict_parser sample_derivation (sample_rnd 2) 6000 sample_svc ''x''
     (sample_http sample_secret) sample_keyed"

lemma sample_policy_step: "access_step strict_parser sample_access sample_policied"
  unfolding sample_policied_state [symmetric] sample_with_policy_def
  by (rule access_step.create_access_policy [OF prod.collapse [symmetric]])

lemma sample_key_step: "access_step strict_parser sample_policied sample_keyed"
  unfolding sample_keyed_state [symmetric] sample_with_key_def
  by (rule access_step.create_key [OF prod.collapse [symmetric]])

lemma sample_key_reachable: "reachable access_start (access_step strict_parser) sample_keyed"
proof -
  have "reachable access_start (access_step strict_parser) sample_access"
    by (rule reachable.start) (simp add: access_start_def sample_access_def)
  from reachable.next_state [OF reachable.next_state [OF this sample_policy_step] sample_key_step] show ?thesis .
qed

lemma sample_passed_status: "hs_Status (fst sample_passed) = 200"
  by code_simp


section \<open>Revocation and rotation\<close>

definition sample_revoked :: "AccessKeyMsg result \<times> access_db" where
  "sample_revoked = RevokeInferenceAccessKey_rpc strict_parser sample_token sample_ctx sample_operation_id ''r3'' sample_keyed"

text \<open>The state after the revocation, written out.\<close>

definition sample_dead_key :: InferenceAccessKey where
  "sample_dead_key = sample_key\<lparr>k_revoked_at := Some 100, k_version := 2\<rparr>"

definition sample_dead :: access_db where
  "sample_dead = sample_keyed\<lparr>ak_keys := [sample_dead_key], ak_audit := ak_audit sample_keyed @
     [key_event sample_tenant sample_token sample_operation_id ''revoked'' ''alice'' ''r3'' [(''key_id'', sample_operation_id)]]\<rparr>"

lemma sample_dead_state: "snd sample_revoked = sample_dead"
  by code_simp

lemma sample_dead_step: "access_step strict_parser sample_keyed sample_dead"
  unfolding sample_dead_state [symmetric] sample_revoked_def
  by (rule access_step.revoke_key [OF prod.collapse [symmetric]])

lemma sample_dead_reachable: "reachable access_start (access_step strict_parser) sample_dead"
  by (rule reachable.next_state [OF sample_key_reachable sample_dead_step])

text \<open>A parser that also reads the spelling with \<^verbatim>\<open>urn:uuid:\<close>.\<close>

definition urn_parser :: uuid_parser where
  "urn_parser s = strict_parser (TrimPrefix s ''urn:uuid:'')"

lemma uuid_text_no_urn: "uuid_text s \<Longrightarrow> \<not> HasPrefix s ''urn:uuid:''"
proof
  assume s: "uuid_text s" "HasPrefix s ''urn:uuid:''"
  then have "s ! 0 = CHR ''u''" by (cases s) (simp_all add: HasPrefix_def)
  moreover have "is_lower_hex (s ! 0)" using s(1) by (auto simp: uuid_text_def dest: bspec [of _ _ 0])
  ultimately show False by (simp add: is_lower_hex_def is_digit_def)
qed

lemma urn_parser_ok: "uuid_parser_ok urn_parser"
  using strict_parser_ok by (auto simp: uuid_parser_ok_def urn_parser_def TrimPrefix_def uuid_text_no_urn)

definition sample_new_rnd :: "nat \<Rightarrow> byte list result" where
  "sample_new_rnd n = (if n = 0 then Inr (replicate 32 8) else sample_rnd n)"

definition sample_new_secret :: string where
  "sample_new_secret = ''iak_CAgICAgICAgICAgICAgICAgICAgICAgICAgICAgICAg''"

definition sample_spelling :: string where
  "sample_spelling = ''urn:uuid:'' @ sample_operation_id"

definition sample_respelled :: "SecretResult result \<times> access_db" where
  "sample_respelled = Service_Rotate urn_parser sample_derivation sample_new_rnd sample_token sample_svc sample_tenant
     sample_spelling '''' ''alice'' ''r4'' sample_keyed"

definition sample_respelled_key :: InferenceAccessKey where
  "sample_respelled_key = sample_key\<lparr>k_key_prefix := ''iak_CAgICAgICAgI'',
     k_secret_hash := ''argon2id-v1$CQkJCQkJCQkJCQkJCQkJCQ$aWFrX0NBZ0lDQWdJQ0FnSUNBZ0lDQWdJQ0FnSUNBZ0k'',
     k_version := 2,
     k_secret_ciphertext :=
       Some ''v1:AQEBAQEBAQEBAQEBaWFrX0NBZ0lDQWdJQ0FnSUNBZ0lDQWdJQ0FnSUNBZ0lDQWdJQ0FnSUNBZ0lDQWf8''\<rparr>"

lemma sample_respelled_result:
  "fst sample_respelled =
     Inr \<lparr>sr_Record = accessKeyRecord sample_respelled_key, sr_Secret = sample_new_secret, sr_Replayed = False\<rparr>"
  by code_simp

lemma sample_aead_laws:
  "Open sample_aead nonce (Seal sample_aead nonce plain aad) aad' = (if sum_list aad = sum_list aad' then Some plain else None)"
  "length (Seal sample_aead nonce plain aad) = length plain + Overhead sample_aead"
  by (simp_all add: sample_aead_def)

lemma length_sample_derivation [simp]: "length (sample_derivation secret salt) = 32"
  by (simp add: sample_derivation_def)

end
