(* ===== verification/Access_Secrets.thy ===== *)
theory Access_Secrets
  imports Access_Sample
begin

text \<open>
  The secret of an access key: what \<^verbatim>\<open>Create\<close> and \<^verbatim>\<open>Rotate\<close> hand out is what the check accepts and what
  \<^verbatim>\<open>Get\<close> shows again, as long as the caller spells the identifiers the way the table prints them.
  \<open>derivation_ok\<close> and \<open>aead_ok\<close> are the parts of the contracts of Argon2 and of \<^verbatim>\<open>cipher.AEAD\<close> that the code
  relies on.
\<close>

section \<open>Hashes\<close>

definition derivation_ok :: "key_derivation \<Rightarrow> bool" where
  "derivation_ok IDKey \<longleftrightarrow> (\<forall>secret salt. length (IDKey secret salt) = 32)"

lemma hash_verifies:
  assumes "derivation_ok IDKey" and "length salt = 16" and "hashSecret IDKey (Inr salt) secret = Inr h"
  shows "verifySecret IDKey secret h"
proof -
  have "CHR ''$'' \<notin> set std_chars" "CHR ''$'' \<notin> set hashVersion" by code_simp+
  then have free: "CHR ''$'' \<notin> set hashVersion" "CHR ''$'' \<notin> set (base64_Encode std_chars bs)" for bs
    using base64_Encode_chars [OF alphabets_ok(1)] by blast+
  have "h = hashVersion @ CHR ''$'' # base64_Encode std_chars salt @ CHR ''$'' # base64_Encode std_chars (IDKey secret salt)"
    using assms(3) by (simp add: hashSecret_def)
  then have "strings_Split CHR ''$'' h = [hashVersion, base64_Encode std_chars salt, base64_Encode std_chars (IDKey secret salt)]"
    by (simp add: Split_append Split_free free)
  then show ?thesis
    using assms(1,2) by (simp add: verifySecret_def base64_round_trip derivation_ok_def)
qed

lemma newSecret_shape:
  assumes "newSecret (Inr buf) = Inr (secret, short)" and "length buf = 32"
  shows "length secret = 47" "keyPrefix secret = short" "HasPrefix secret secretPrefix"
  using assms by (auto simp: newSecret_def Let_def length_base64 secretPrefix_def HasPrefix_def)

section \<open>Sealed secrets\<close>

definition aead_ok :: "AEAD \<Rightarrow> bool" where
  "aead_ok a \<longleftrightarrow> (\<forall>nonce plain aad. length nonce = NonceSize a \<longrightarrow>
     length (Seal a nonce plain aad) = length plain + Overhead a \<and> Open a nonce (Seal a nonce plain aad) aad = Some plain)"

text \<open>Opening a sealed secret under the row it is stored in.\<close>

lemma open_sealed:
  assumes "aead_ok a" and "length nonce = NonceSize a" and "SecretCipher_seal (Some a) (Inr nonce) sealed secret = Inr c"
    and "rec_SecretCiphertext row = c" and "length secret = 47" and "HasPrefix secret secretPrefix"
    and "rec_KeyPrefix row = keyPrefix secret"
  shows "secretAAD row = secretAAD sealed \<Longrightarrow> SecretCipher_open (Some a) row = Inr secret"
    and "Open a nonce (Seal a nonce (string_bytes secret) (secretAAD sealed)) (secretAAD row) = None
      \<Longrightarrow> SecretCipher_open (Some a) row = Inl (Sentinel ErrSecretUnavailable)"
proof -
  let ?box = "Seal a nonce (string_bytes secret) (secretAAD sealed)"
  have c: "rec_SecretCiphertext row = ''v1:'' @ base64_Encode url_chars (nonce @ ?box)"
    using assms(3,4) by (simp add: SecretCipher_seal_def)
  have box: "length ?box = length (string_bytes secret) + Overhead a" "Open a nonce ?box (secretAAD sealed) = Some (string_bytes secret)"
    using assms(1,2) by (simp_all add: aead_ok_def)
  have opened: "SecretCipher_open (Some a) row =
      (case Open a nonce ?box (secretAAD row) of
         None \<Rightarrow> Inl (Sentinel ErrSecretUnavailable)
       | Some plain \<Rightarrow> let secret = bytes_string plain in
           if length secret \<noteq> 47 \<or> keyPrefix secret \<noteq> rec_KeyPrefix row \<or> \<not> HasPrefix secret secretPrefix
           then Inl (Sentinel ErrSecretUnavailable) else Inr secret)"
    using box(1) assms(2)
    by (simp only: SecretCipher_open_def c HasPrefix_append TrimPrefix_append base64_round_trip [OF alphabets_ok(2)]
        option.case not_True_eq_False if_False) (simp add: string_bytes_def)
  show "SecretCipher_open (Some a) row = Inr secret" if "secretAAD row = secretAAD sealed"
    using opened box(2) that assms(5-7) by simp
  show "SecretCipher_open (Some a) row = Inl (Sentinel ErrSecretUnavailable)" if "Open a nonce ?box (secretAAD row) = None"
    using opened that by simp
qed

section \<open>Stored rows\<close>

lemma find_update_where:
  "(\<And>r. q (f r) = q r) \<Longrightarrow> find q (update_where p f rs) = map_option (\<lambda>r. if p r then f r else r) (find q rs)"
  by (induction rs) (auto simp: update_where_def)

lemma find_append: "find q (xs @ ys) = (case find q xs of None \<Rightarrow> find q ys | Some x \<Rightarrow> Some x)"
  by (induction xs) auto

lemma key_at_audit [simp]: "key_at (d\<lparr>ak_audit := x\<rparr>) t i = key_at d t i"
  by (simp add: key_at_def)

lemma insert_stored:
  assumes "InsertInferenceAccessKey arg d = (Inr row, d')"
  shows "row = arg\<lparr>k_revoked_at := None, k_created_at := now (control d), k_last_used_at := None, k_version := 1,
      k_rotation_idempotency_key := None\<rparr>"
    and "key_at d' (k_tenant row) (k_id row) = Some row"
proof -
  have new: "ak_keys d' = ak_keys d @ [row] \<and> k_key row \<notin> k_key ` set (ak_keys d)" and
      row: "row = arg\<lparr>k_revoked_at := None, k_created_at := now (control d), k_last_used_at := None, k_version := 1,
        k_rotation_idempotency_key := None\<rparr>"
    using assms by (auto simp: InsertInferenceAccessKey_def Let_def split: if_splits option.splits)
  then have "find (\<lambda>k. k_tenant k = k_tenant row \<and> k_id k = k_id row) (ak_keys d) = None"
    by (auto simp: find_eq_None k_key_def image_iff)
  with new show "key_at d' (k_tenant row) (k_id row) = Some row" by (simp add: key_at_def find_append)
  show "row = arg\<lparr>k_revoked_at := None, k_created_at := now (control d), k_last_used_at := None, k_version := 1,
      k_rotation_idempotency_key := None\<rparr>" by (rule row)
qed

lemma audit_keeps_keys: "AppendInferenceAccessKeyAudit ev d = (r, d') \<Longrightarrow> ak_keys d' = ak_keys d"
  by (auto simp: AppendInferenceAccessKeyAudit_def split: if_splits)

lemma create_row_stored:
  assumes "create_key_row ev tenant i policy inp request d = (Inr c, d')" and "\<not> pr_Replayed c"
  obtains row where "key_at d' tenant i = Some row" "pr_Record c = accessKeyRecord row" "k_key_prefix row = rec_KeyPrefix inp"
    "k_secret_hash row = rec_SecretHash inp" "k_secret_ciphertext row = textParam (rec_SecretCiphertext inp)"
    "k_tenant row = tenant" "k_id row = i"
proof -
  obtain x d1 where ins: "InsertInferenceAccessKey (new_key_row tenant i policy inp) d = (x, d1)" by fastforce
  show ?thesis
  proof (cases x)
    case (Inl e)
    with assms ins show ?thesis
      by (auto simp: create_key_row_def bindE_def tryE_def share_policy_def returnE_def failE_def replayed_key_def
          split: option.splits sum.splits if_splits prod.splits)
  next
    case (Inr row)
    with assms ins have c: "pr_Record c = accessKeyRecord row" "ak_keys d' = ak_keys d1"
      by (auto simp: create_key_row_def bindE_def tryE_def share_policy_def returnE_def
          split: option.splits sum.splits prod.splits dest: audit_keeps_keys)
    note row = insert_stored [OF ins [unfolded Inr]]
    have ids: "k_tenant row = tenant" "k_id row = i" by (simp_all add: row(1) new_key_row_def)
    show ?thesis
    proof (rule that [of row])
      show "key_at d' tenant i = Some row" using row(2) c(2) ids by (simp add: key_at_def)
    qed (simp_all add: c ids, simp_all add: row(1) new_key_row_def)
  qed
qed

lemma rotate_row_stored:
  assumes "rotate_row ev tenant i spelled inp d = (Inr c, d')" and "key_at d tenant i = Some current" and "k_revoked_at current = None"
  obtains row where "key_at d' tenant i = Some row" "pr_Record c = accessKeyRecord row" "k_key_prefix row = ri_KeyPrefix inp"
    "k_secret_hash row = ri_SecretHash inp" "k_secret_ciphertext row = textParam (ri_SecretCiphertext inp)"
    "k_tenant row = tenant" "k_id row = i"
proof -
  let ?p = "\<lambda>k. k_tenant k = tenant \<and> k_id k = i \<and> k_revoked_at k = None"
  let ?f = "rotated_row (ri_KeyPrefix inp) (ri_SecretHash inp) (ri_HashVersion inp) (textParam (ri_Idempotency inp))
    (textParam (ri_SecretCiphertext inp))"
  have cur: "k_tenant current = tenant" "k_id current = i"
    using find_Some_mem [OF assms(2) [unfolded key_at_def]] by simp_all
  have live: "find ?p ks = Some current"
    if "find (\<lambda>k. k_tenant k = tenant \<and> k_id k = i) ks = Some current" for ks
    using that assms(3) by (induction ks) (auto split: if_splits)
  obtain x d1 where run: "RotateInferenceAccessKey tenant i (ri_KeyPrefix inp) (ri_SecretHash inp) (ri_HashVersion inp)
      (textParam (ri_Idempotency inp)) (textParam (ri_SecretCiphertext inp)) d = (x, d1)" by fastforce
  obtain row where row: "x = Inr row"
    using assms(1) run
    by (cases x) (auto simp: rotate_row_def bindE_def tryE_def failE_def split: if_splits sum.splits prod.splits)
  with run live [OF assms(2) [unfolded key_at_def]] have "row = ?f current" "ak_keys d1 = update_where ?p ?f (ak_keys d)"
    by (auto simp: RotateInferenceAccessKey_def update_key_def Let_def split: if_splits)
  moreover have "pr_Record c = accessKeyRecord row" "ak_keys d' = ak_keys d1"
    using assms(1) run row
    by (auto simp: rotate_row_def bindE_def tryE_def returnE_def split: sum.splits prod.splits dest: audit_keeps_keys)
  moreover have "find (\<lambda>k. k_tenant k = tenant \<and> k_id k = i) (update_where ?p ?f (ak_keys d)) = Some (?f current)"
    using assms(2,3) cur unfolding key_at_def by (subst find_update_where) (simp_all add: rotated_row_def)
  ultimately show ?thesis using that [of row] cur by (simp add: key_at_def rotated_row_def)
qed


lemma requireUUID_same: "uuid_parser_ok P \<Longrightarrow> uuid_text v \<Longrightarrow> requireUUID P l v = Inr v"
  by (simp add: requireUUID_def uuid_parser_ok_def)

lemma uuid_trim: "uuid_text s \<Longrightarrow> TrimSpace s = s"
proof (rule TrimSpace_chars [of "\<lambda>c. is_lower_hex c \<or> c = CHR ''-''"])
  assume s: "uuid_text s"
  have "is_lower_hex (s ! n) \<or> s ! n = CHR ''-''" if "n < length s" for n
  proof -
    have "n \<in> {0..<36}" using that s by (simp only: uuid_text_def atLeastLessThan_iff) simp
    from bspec [OF conjunct2 [OF s [unfolded uuid_text_def]] this] show ?thesis by (metis (full_types))
  qed
  then show "list_all (\<lambda>c. is_lower_hex c \<or> c = CHR ''-'') s" by (simp add: list_all_length)
qed (simp add: white_space_def is_lower_hex_def is_digit_def)

lemma get_stored:
  assumes "requireUUID P ''tenant_id'' (TrimSpace t) = Inr tenant" and "requireUUID P ''id'' (TrimSpace i) = Inr u"
    and "key_at d tenant u = Some row"
  shows "Service_Get P svc t i d = (reveal (svc_Cipher svc) (accessKeyRecord row), d)"
  using assms
  by (simp add: Service_Get_def Repository_Get_def found_or_def GetInferenceAccessKey_def one_def bindE_def tryE_def liftE_def
      returnE_def split: sum.split)

text \<open>The bytes that one call reads from \<^verbatim>\<open>crypto/rand\<close>.\<close>

definition random_bytes :: "(nat \<Rightarrow> byte list result) \<Rightarrow> AEAD \<Rightarrow> byte list \<Rightarrow> byte list \<Rightarrow> byte list \<Rightarrow> bool" where
  "random_bytes rnd a buf salt nonce \<longleftrightarrow> rnd 0 = Inr buf \<and> length buf = 32 \<and> rnd 1 = Inr salt \<and> length salt = 16
     \<and> rnd 2 = Inr nonce \<and> length nonce = NonceSize a"

lemma sealed_text: "SecretCipher_seal c rnd record secret = Inr t \<Longrightarrow> t \<noteq> '''' \<and> textValue (textParam t) = t"
  by (auto simp: SecretCipher_seal_def textParam_def textValue_def split: option.splits sum.splits)

lemma reveal_row:
  assumes "textValue (k_secret_ciphertext row) \<noteq> ''''"
  shows "reveal c (accessKeyRecord row) =
    (case SecretCipher_open c (accessKeyRecord row) of
       Inl err \<Rightarrow> Inl err | Inr secret \<Rightarrow> Inr ((accessKeyRecord row)\<lparr>rec_Secret := secret\<rparr>))"
  using assms by (simp add: reveal_def)

section \<open>Creation\<close>

lemma create_replayed: "create_key_replay tenant inp d = (Inr (Some c), d') \<Longrightarrow> pr_Replayed c"
  by (auto simp: create_key_replay_def bindE_def tryE_def returnE_def failE_def replayed_key_def
      split: if_splits sum.splits prod.splits)

lemma repository_create_new:
  assumes "Repository_Create P ev inp request d = (Inr c, d')" and "\<not> pr_Replayed c"
  shows "\<exists>tenant i policy d1. requireUUID P ''tenant_id'' (rec_TenantID inp) = Inr tenant
    \<and> requireUUID P ''id'' (rec_ID inp) = Inr i \<and> create_key_row ev tenant i policy inp request d1 = (Inr c, d')"
proof -
  obtain tenant where tenant: "requireUUID P ''tenant_id'' (rec_TenantID inp) = Inr tenant"
    using assms(1) by (cases "requireUUID P ''tenant_id'' (rec_TenantID inp)") (auto simp: Repository_Create_def bindE_def liftE_def)
  obtain i where i: "requireUUID P ''id'' (rec_ID inp) = Inr i"
    using assms(1) tenant by (cases "requireUUID P ''id'' (rec_ID inp)") (auto simp: Repository_Create_def bindE_def liftE_def)
  obtain policy where policy: "requireUUID P ''policy_id'' (rec_PolicyID inp) = Inr policy"
    using assms(1) tenant i
    by (cases "requireUUID P ''policy_id'' (rec_PolicyID inp)") (auto simp: Repository_Create_def bindE_def liftE_def)
  obtain found d1 where "create_key_replay tenant inp d = (Inr found, d1)"
      "(case found of Some result \<Rightarrow> returnE result | None \<Rightarrow> create_key_row ev tenant i policy inp request) d1 = (Inr c, d')"
    using assms(1) unfolding Repository_Create_def bindE_eq_Inr liftE_eq transaction_Inr tenant i policy by blast
  with assms(2) tenant i show ?thesis by (cases found) (auto simp: returnE_def dest: create_replayed)
qed

lemma service_create_stored:
  assumes "Service_Create P IDKey rnd newID ev clock svc inp d = (Inr r, d')" and "\<not> sr_Replayed r"
    and "svc_Cipher svc = Some a" and "random_bytes rnd a buf salt nonce"
  obtains tenant i row c where
    "requireUUID P ''tenant_id'' (TrimSpace (kc_TenantID inp)) = Inr tenant" "requireUUID P ''id'' newID = Inr i"
    "key_at d' tenant i = Some row" "sr_Record r = accessKeyRecord row" "k_tenant row = tenant" "k_id row = i"
    "newSecret (Inr buf) = Inr (sr_Secret r, k_key_prefix row)"
    "hashSecret IDKey (Inr salt) (sr_Secret r) = Inr (k_secret_hash row)"
    "SecretCipher_seal (Some a) (Inr nonce) (empty_record\<lparr>rec_TenantID := TrimSpace (kc_TenantID inp), rec_ID := newID,
       rec_KeyPrefix := k_key_prefix row, rec_SecretHash := k_secret_hash row\<rparr>) (sr_Secret r) = Inr c"
    "k_secret_ciphertext row = textParam c"
proof -
  obtain secret short where new: "newSecret (Inr buf) = Inr (secret, short)" by (simp add: newSecret_def Let_def)
  obtain hash where hash: "hashSecret IDKey (Inr salt) secret = Inr hash" by (simp add: hashSecret_def)
  let ?sealed = "empty_record\<lparr>rec_TenantID := TrimSpace (kc_TenantID inp), rec_ID := newID, rec_KeyPrefix := short,
    rec_SecretHash := hash\<rparr>"
  obtain c where seal: "SecretCipher_seal (Some a) (Inr nonce) ?sealed secret = Inr c" by (simp add: SecretCipher_seal_def)
  have aad: "SecretCipher_seal (Some a) (Inr nonce) x secret = Inr c"
    if "rec_TenantID x = rec_TenantID ?sealed" "rec_ID x = newID" "rec_KeyPrefix x = short" "rec_SecretHash x = hash" for x
    using seal that by (simp add: SecretCipher_seal_def secretAAD_def)
  obtain policy created where create: "Repository_Create P ev created (TrimSpace (kc_RequestID inp)) d = (Inr policy, d')"
      "\<not> pr_Replayed policy" "sr_Record r = pr_Record policy" "sr_Secret r = secret" "rec_TenantID created = TrimSpace (kc_TenantID inp)"
      "rec_ID created = newID" "rec_KeyPrefix created = short" "rec_SecretHash created = hash" "rec_SecretCiphertext created = c"
    using assms new hash
    by (auto simp: Service_Create_def Let_def trimmed_input_def random_bytes_def bindE_eq_Inr aad returnE_def failE_def
        split: if_splits)
  obtain tenant i pol d1 where ids: "requireUUID P ''tenant_id'' (TrimSpace (kc_TenantID inp)) = Inr tenant"
      "requireUUID P ''id'' newID = Inr i" "create_key_row ev tenant i pol created (TrimSpace (kc_RequestID inp)) d1 = (Inr policy, d')"
    using repository_create_new [OF create(1,2)] unfolding create(5,6) by blast
  from ids(3) create(2) show ?thesis
  proof (rule create_row_stored)
    fix row
    assume "key_at d' tenant i = Some row" "pr_Record policy = accessKeyRecord row" "k_key_prefix row = rec_KeyPrefix created"
      "k_secret_hash row = rec_SecretHash created" "k_secret_ciphertext row = textParam (rec_SecretCiphertext created)"
      "k_tenant row = tenant" "k_id row = i"
    then show ?thesis using that [of tenant i row c] ids(1,2) new hash seal create(3-) by simp
  qed
qed



lemma sample_aead_ok: "aead_ok sample_aead"
  by (simp add: aead_ok_def sample_aead_laws)

lemma sample_derivation_ok: "derivation_ok sample_derivation"
  by (simp add: derivation_ok_def)


section \<open>Rotation\<close>

lemma repository_rotate_new:
  assumes "Repository_Rotate P ev t i inp d = (Inr c, d')" and "\<not> pr_Replayed c"
  shows "\<exists>tenant u d1 current. requireUUID P ''tenant_id'' t = Inr tenant \<and> requireUUID P ''id'' i = Inr u
    \<and> key_at d1 tenant u = Some current \<and> k_revoked_at current = None \<and> rotate_row ev tenant u i inp d1 = (Inr c, d')"
proof -
  obtain tenant where tenant: "requireUUID P ''tenant_id'' t = Inr tenant"
    using assms(1) by (cases "requireUUID P ''tenant_id'' t") (auto simp: Repository_Rotate_def bindE_def liftE_def)
  obtain u where u: "requireUUID P ''id'' i = Inr u"
    using assms(1) tenant by (cases "requireUUID P ''id'' i") (auto simp: Repository_Rotate_def bindE_def liftE_def)
  obtain current found d1 d2 where lock: "found_or (Sentinel accesskey_ErrNotFound) (LockInferenceAccessKey tenant u) d = (Inr current, d1)"
      and replay: "rotate_replay tenant u inp d1 = (Inr found, d2)"
      and rest: "(case found of Some result \<Rightarrow> returnE result
         | None \<Rightarrow> if k_revoked_at current \<noteq> None then failE (Sentinel ErrAlreadyRevoked) else rotate_row ev tenant u i inp) d2 = (Inr c, d')"
    using assms(1) unfolding Repository_Rotate_def bindE_eq_Inr liftE_eq transaction_Inr tenant u by blast
  have cur: "d1 = d" "key_at d tenant u = Some current"
    using lock by (auto simp: found_or_def bindE_def tryE_def LockInferenceAccessKey_def one_def returnE_def failE_def
        split: option.splits sum.splits if_splits)
  have same: "d2 = d1" and new: "found = None \<or> (\<exists>x. found = Some x \<and> pr_Replayed x)"
    using replay by (auto simp: rotate_replay_def bindE_def tryE_def GetInferenceAccessKeyByRotationIdempotency_def one_def returnE_def
        failE_def replayed_key_def split: option.splits sum.splits if_splits)
  show ?thesis
  proof (cases found)
    case None
    with rest cur same tenant u show ?thesis by (auto simp: failE_def split: if_splits)
  next
    case (Some x)
    with rest new assms(2) show ?thesis by (auto simp: returnE_def)
  qed
qed

lemma service_rotate_stored:
  assumes "Service_Rotate P IDKey rnd ev svc t i key actor request d = (Inr r, d')" and "\<not> sr_Replayed r"
    and "svc_Cipher svc = Some a" and "random_bytes rnd a buf salt nonce"
  obtains tenant u row c where
    "requireUUID P ''tenant_id'' (TrimSpace t) = Inr tenant" "requireUUID P ''id'' (TrimSpace i) = Inr u"
    "key_at d' tenant u = Some row" "sr_Record r = accessKeyRecord row" "k_tenant row = tenant" "k_id row = u"
    "newSecret (Inr buf) = Inr (sr_Secret r, k_key_prefix row)"
    "hashSecret IDKey (Inr salt) (sr_Secret r) = Inr (k_secret_hash row)"
    "SecretCipher_seal (Some a) (Inr nonce) (empty_record\<lparr>rec_TenantID := TrimSpace t, rec_ID := TrimSpace i,
       rec_KeyPrefix := k_key_prefix row, rec_SecretHash := k_secret_hash row\<rparr>) (sr_Secret r) = Inr c"
    "k_secret_ciphertext row = textParam c"
proof -
  obtain secret short where new: "newSecret (Inr buf) = Inr (secret, short)" by (simp add: newSecret_def Let_def)
  obtain hash where hash: "hashSecret IDKey (Inr salt) secret = Inr hash" by (simp add: hashSecret_def)
  let ?sealed = "empty_record\<lparr>rec_TenantID := TrimSpace t, rec_ID := TrimSpace i, rec_KeyPrefix := short, rec_SecretHash := hash\<rparr>"
  obtain c where seal: "SecretCipher_seal (Some a) (Inr nonce) ?sealed secret = Inr c" by (simp add: SecretCipher_seal_def)
  obtain x inp where rotate: "Repository_Rotate P ev (TrimSpace t) (TrimSpace i) inp d = (Inr x, d')"
      "\<not> pr_Replayed x" "sr_Record r = pr_Record x" "sr_Secret r = secret"
      "ri_KeyPrefix inp = short" "ri_SecretHash inp = hash" "ri_SecretCiphertext inp = c"
    using assms new hash seal
    by (auto simp: Service_Rotate_def random_bytes_def bindE_eq_Inr returnE_def split: if_splits)
  obtain tenant u d1 current where ids: "requireUUID P ''tenant_id'' (TrimSpace t) = Inr tenant"
      "requireUUID P ''id'' (TrimSpace i) = Inr u"
      "rotate_row ev tenant u (TrimSpace i) inp d1 = (Inr x, d')" "key_at d1 tenant u = Some current" "k_revoked_at current = None"
    using repository_rotate_new [OF rotate(1,2)] by blast
  from ids(3-) show ?thesis
  proof (rule rotate_row_stored)
    fix row
    assume "key_at d' tenant u = Some row" "pr_Record x = accessKeyRecord row" "k_key_prefix row = ri_KeyPrefix inp"
      "k_secret_hash row = ri_SecretHash inp" "k_secret_ciphertext row = textParam (ri_SecretCiphertext inp)"
      "k_tenant row = tenant" "k_id row = u"
    then show ?thesis using that [of tenant u row c] ids(1,2) new hash seal rotate(3-) by simp
  qed
qed


text \<open>
  C27: \<^verbatim>\<open>Rotate\<close> seals the new secret under the identifiers as the caller spelled them, not as the row has
  them. When the spelling differs, so that the cipher refuses the row's identifiers, the key works but
  \<^verbatim>\<open>Get\<close> reports its secret as unavailable.
\<close>

theorem respelled_rotation_hides_secret:
  assumes "derivation_ok IDKey" and "svc_Cipher svc = Some a" and "aead_ok a" and "random_bytes rnd a buf salt nonce"
    and "Service_Rotate P IDKey rnd ev svc t i key actor request d = (Inr r, d')" and "\<not> sr_Replayed r"
    and "Open a nonce (Seal a nonce (string_bytes (sr_Secret r))
      (secretAAD ((sr_Record r)\<lparr>rec_TenantID := TrimSpace t, rec_ID := TrimSpace i\<rparr>))) (secretAAD (sr_Record r)) = None"
  shows "verifySecret IDKey (sr_Secret r) (rec_SecretHash (sr_Record r))
    \<and> Service_Get P svc t i d' = (Inl (Sentinel ErrSecretUnavailable), d')"
  using assms(5,6,2,4)
proof (rule service_rotate_stored)
  fix tenant u row c
  assume ids: "requireUUID P ''tenant_id'' (TrimSpace t) = Inr tenant" "requireUUID P ''id'' (TrimSpace i) = Inr u"
    and row: "key_at d' tenant u = Some row" "sr_Record r = accessKeyRecord row" "k_tenant row = tenant" "k_id row = u"
      "newSecret (Inr buf) = Inr (sr_Secret r, k_key_prefix row)"
      "hashSecret IDKey (Inr salt) (sr_Secret r) = Inr (k_secret_hash row)"
      "SecretCipher_seal (Some a) (Inr nonce) (empty_record\<lparr>rec_TenantID := TrimSpace t, rec_ID := TrimSpace i,
         rec_KeyPrefix := k_key_prefix row, rec_SecretHash := k_secret_hash row\<rparr>) (sr_Secret r) = Inr c"
      "k_secret_ciphertext row = textParam c"
  note shape = newSecret_shape [OF row(5)]
  have c: "c \<noteq> ''''" "textValue (k_secret_ciphertext row) = c" using sealed_text [OF row(7)] row(8) by simp_all
  have "SecretCipher_open (Some a) (accessKeyRecord row) = Inl (Sentinel ErrSecretUnavailable)"
    by (rule open_sealed(2) [OF assms(3) _ row(7)])
      (use assms(4,7) shape c row(2) in \<open>simp_all add: random_bytes_def secretAAD_def\<close>)
  then have "reveal (svc_Cipher svc) (accessKeyRecord row) = Inl (Sentinel ErrSecretUnavailable)"
    using reveal_row [of row] c assms(2) by simp
  moreover have "Service_Get P svc t i d' = (reveal (svc_Cipher svc) (accessKeyRecord row), d')"
    using ids row(1) by (rule get_stored)
  moreover have "verifySecret IDKey (sr_Secret r) (k_secret_hash row)"
    by (rule hash_verifies [OF assms(1) _ row(6)]) (use assms(4) in \<open>simp add: random_bytes_def\<close>)
  ultimately show ?thesis using row(2) by simp
qed

theorem respelled_rotation_hides_secret_witness:
  "verifySecret sample_derivation sample_new_secret (k_secret_hash sample_respelled_key) \<and>
   fst (Service_Get urn_parser sample_svc sample_tenant sample_spelling (snd sample_respelled)) =
     Inl (Sentinel ErrSecretUnavailable)"
proof -
  have aad: "sum_list (secretAAD ((accessKeyRecord sample_respelled_key)\<lparr>rec_TenantID := TrimSpace sample_tenant,
      rec_ID := TrimSpace sample_spelling\<rparr>)) \<noteq> sum_list (secretAAD (accessKeyRecord sample_respelled_key))"
    by code_simp
  have bytes: "random_bytes sample_new_rnd sample_aead (replicate 32 8) (replicate 16 9) (replicate 12 1)"
    by (simp add: random_bytes_def sample_new_rnd_def sample_rnd_def sample_aead_def)
  have run: "Service_Rotate urn_parser sample_derivation sample_new_rnd sample_token sample_svc sample_tenant
      sample_spelling '''' ''alice'' ''r4'' sample_keyed =
      (Inr \<lparr>sr_Record = accessKeyRecord sample_respelled_key, sr_Secret = sample_new_secret, sr_Replayed = False\<rparr>, snd sample_respelled)"
    using sample_respelled_result by (simp add: sample_respelled_def prod_eq_iff)
  show ?thesis
    using respelled_rotation_hides_secret [OF sample_derivation_ok _ sample_aead_ok bytes run] aad
    by (simp add: sample_svc_def sample_aead_laws)
qed

end
