(* ===== verification/Access_Facts.thy ===== *)
theory Access_Facts
  imports Access_Secrets
begin

text \<open>
  Properties of access keys, their policies and the gateway that span their components.
\<close>

section \<open>Decisions\<close>

definition unexpired :: "gotime \<Rightarrow> InferenceAccessKey \<Rightarrow> bool" where
  "unexpired clock k \<longleftrightarrow> (case k_expires_at k of None \<Rightarrow> True | Some t \<Rightarrow> clock < t * 1000)"

text \<open>The one service that a model is published for, running and published at its desired generation.\<close>

definition publishes :: "InferenceService \<Rightarrow> InferencePublication \<Rightarrow> InferenceSpec \<Rightarrow> string \<Rightarrow> bool" where
  "publishes s p sp model \<longleftrightarrow> (p_tenant p, p_service p) = s_key s \<and> (sp_tenant sp, sp_service sp) = s_key s
     \<and> sp_generation sp = p_generation p \<and> sp_served_model_name sp = model"

definition serves :: "db \<Rightarrow> uuid \<Rightarrow> uuid \<Rightarrow> string \<Rightarrow> bool" where
  "serves d tenant service model \<longleftrightarrow>
     (\<exists>s \<in> set (services d). \<exists>p \<in> set (publications d). \<exists>sp \<in> set (specs d).
        s_key s = (tenant, service) \<and> publishes s p sp model \<and> rp_Effective (published_model_row s p))
     \<and> (\<forall>s \<in> set (services d). \<forall>p \<in> set (publications d). \<forall>sp \<in> set (specs d).
          publishes s p sp model \<and> (p_observed_phase p \<noteq> ''withdrawn'' \<or> p_desired_phase p \<noteq> ''withdrawn'')
          \<longrightarrow> s_key s = (tenant, service))"

definition same_owner :: "ResolvePublishedModelRow \<Rightarrow> ResolvePublishedModelRow \<Rightarrow> bool" where
  "same_owner row r \<longleftrightarrow> rp_TenantID r = rp_TenantID row \<and> rp_ServiceID r = rp_ServiceID row"

lemma lookup_rows_Some:
  "lookup_rows acc eff rows = Some row \<Longrightarrow>
     list_all (same_owner row) rows \<and> pred_option (same_owner row) acc \<and> (eff \<or> list_ex rp_Effective rows)"
proof (induction acc eff rows rule: lookup_rows.induct)
  case (1 acc eff)
  then show ?case by (simp add: same_owner_def split: if_splits)
next
  case (2 eff r rows)
  then show ?case by auto
next
  case (3 resolved eff r rows)
  then have found: "lookup_rows (Some r) (eff \<or> rp_Effective r) rows = Some row"
    and same: "rp_TenantID r = rp_TenantID resolved" "rp_ServiceID r = rp_ServiceID resolved"
    by (auto split: if_splits)
  have "list_all (same_owner row) rows" "same_owner row r" "(eff \<or> rp_Effective r) \<or> list_ex rp_Effective rows"
    using 3(1) [OF _ found] same by auto
  with same show ?case by (auto simp: same_owner_def [of row r] same_owner_def [of row resolved])
qed

lemma concat_mapI: "x \<in> set xs \<Longrightarrow> P x \<Longrightarrow> y \<in> set (f x) \<Longrightarrow> y \<in> set (concat (map f (filter P xs)))"
  by auto

lemma ResolvePublishedModel_mem:
  "r \<in> set (ResolvePublishedModel d model) \<longleftrightarrow>
     (\<exists>s \<in> set (services d). \<exists>p \<in> set (publications d). \<exists>sp \<in> set (specs d).
        publishes s p sp model \<and> (p_observed_phase p \<noteq> ''withdrawn'' \<or> p_desired_phase p \<noteq> ''withdrawn'')
        \<and> r = published_model_row s p)"
    (is "_ \<longleftrightarrow> ?R")
proof
  assume "r \<in> set (ResolvePublishedModel d model)"
  then obtain p s sp where "p \<in> set (publications d)" "s \<in> set (services d)" "sp \<in> set (specs d)"
      "p_observed_phase p \<noteq> ''withdrawn'' \<or> p_desired_phase p \<noteq> ''withdrawn''" "publishes s p sp model"
      "r = published_model_row s p"
    by (auto simp: ResolvePublishedModel_def publishes_def s_key_def)
  then show ?R by blast
next
  assume ?R
  then obtain s p sp where rows: "s \<in> set (services d)" "p \<in> set (publications d)" "sp \<in> set (specs d)"
      "p_observed_phase p \<noteq> ''withdrawn'' \<or> p_desired_phase p \<noteq> ''withdrawn''" "publishes s p sp model"
      "r = published_model_row s p"
    by blast
  then have "r \<in> set (map (\<lambda>sp. published_model_row s p)
        (filter (\<lambda>sp. sp_tenant sp = p_tenant p \<and> sp_service sp = p_service p
          \<and> sp_generation sp = p_generation p \<and> sp_served_model_name sp = model) (specs d)))"
    by (auto simp: publishes_def s_key_def)
  moreover have "s_tenant s = p_tenant p \<and> s_id s = p_service p" using rows(5) by (simp add: publishes_def s_key_def)
  ultimately show "r \<in> set (ResolvePublishedModel d model)"
    unfolding ResolvePublishedModel_def
    by (intro concat_mapI [of p] concat_mapI [of s]) (use rows(1,2,4) in simp_all)
qed

lemma lookup_serves:
  assumes "lookup_rows None False (ResolvePublishedModel d model) = Some row"
  shows "serves d (rp_TenantID row) (rp_ServiceID row) model"
proof -
  have rows: "same_owner row r" if "r \<in> set (ResolvePublishedModel d model)" for r
    using lookup_rows_Some [OF assms] that by (simp add: list_all_iff)
  obtain r where r: "r \<in> set (ResolvePublishedModel d model)" "rp_Effective r"
    using lookup_rows_Some [OF assms] by (auto simp: list_ex_iff)
  then obtain s p sp where "s \<in> set (services d)" "p \<in> set (publications d)" "sp \<in> set (specs d)"
      "publishes s p sp model" "r = published_model_row s p"
    by (auto simp: ResolvePublishedModel_mem)
  with r rows [OF r(1)] have "\<exists>s \<in> set (services d). \<exists>p \<in> set (publications d). \<exists>sp \<in> set (specs d).
      s_key s = (rp_TenantID row, rp_ServiceID row) \<and> publishes s p sp model \<and> rp_Effective (published_model_row s p)"
    by (intro bexI [of _ s] bexI [of _ p] bexI [of _ sp]) (simp_all add: s_key_def published_model_row_def same_owner_def)
  moreover have "s_key s = (rp_TenantID row, rp_ServiceID row)"
    if "s \<in> set (services d)" "p \<in> set (publications d)" "sp \<in> set (specs d)" "publishes s p sp model"
      "p_observed_phase p \<noteq> ''withdrawn'' \<or> p_desired_phase p \<noteq> ''withdrawn''" for s p sp
  proof -
    have "published_model_row s p \<in> set (ResolvePublishedModel d model)"
      using that by (auto simp: ResolvePublishedModel_mem)
    from rows [OF this] show ?thesis by (simp add: s_key_def published_model_row_def same_owner_def)
  qed
  ultimately show ?thesis unfolding serves_def by blast
qed

lemma consume_publication_served:
  assumes "consume_publication record service model d = (Inr True, d')"
  shows "d' = d \<and> serves (control d) (rec_TenantID record) service model"
  using assms
  by (auto simp: consume_publication_def bindE_eq_Inr lookupPublishedModel_def LockPolicyServiceShared_def one_def
      returnE_def failE_def split: option.splits sum.splits if_splits dest: lookup_serves)

lemma consume_key_allowed:
  assumes "consume_key tenant key record k model clock cost d = (Inr result, d')" and "chk_Allowed result"
  obtains pid p where "k_version k = rec_Version record" "k_revoked_at k = None" "unexpired clock k"
    "k_policy_id k = Some pid" "policy_at d tenant pid = Some p" "model \<in> set (ap_allowed_model_names p)"
    "consumeKeyBuckets tenant key (limits_of p record) clock cost d = (Inr (True, 0), d')"
    "chk_Record result = limits_of p record"
  using assms
  by (auto simp: consume_key_def consume_policy_def consumeKeyBuckets_def bindE_eq_Inr share_policy_def denied_def unexpired_def returnE_def
      failE_def split: if_splits option.splits sum.splits prod.splits)


text \<open>What the rows say when a request with the secret \<open>apiKey\<close> for \<open>model\<close> may pass.\<close>

definition authorized ::
  "key_derivation \<Rightarrow> gotime \<Rightarrow> string \<Rightarrow> string \<Rightarrow> access_db \<Rightarrow> InferenceAccessKey \<Rightarrow> InferenceAccessPolicy \<Rightarrow> bool"
where
  "authorized IDKey clock apiKey model d k p \<longleftrightarrow>
     k \<in> set (ak_keys d) \<and> k_key_prefix k = keyPrefix apiKey \<and> verifySecret IDKey apiKey (k_secret_hash k)
     \<and> k_revoked_at k = None \<and> unexpired clock k
     \<and> p \<in> set (ak_policies d) \<and> ap_tenant p = k_tenant k \<and> k_policy_id k = Some (ap_id p)
     \<and> model \<in> set (ap_allowed_model_names p)
     \<and> (\<exists>service. serves (control d) (k_tenant k) service model)"

lemma policy_at_mem: "policy_at d t i = Some p \<Longrightarrow> p \<in> set (ak_policies d) \<and> ap_tenant p = t \<and> ap_id p = i"
  unfolding policy_at_def by (drule find_Some_mem) simp

lemma consume_access_allowed:
  assumes run: "Repository_ConsumeAccess P (accessKeyRecord k0) service model clock cost d = (Inr result, d')"
    and allowed: "chk_Allowed result" and P: "uuid_parser_ok P" and k0: "uuid_text (k_tenant k0)" "uuid_text (k_id k0)"
  obtains k pid p where "key_at d (k_tenant k0) (k_id k0) = Some k" "k_version k = k_version k0" "k_revoked_at k = None"
    "unexpired clock k" "k_policy_id k = Some pid" "policy_at d (k_tenant k0) pid = Some p"
    "model \<in> set (ap_allowed_model_names p)" "serves (control d) (k_tenant k0) service model"
    "consumeKeyBuckets (k_tenant k0) (k_id k0) (limits_of p (accessKeyRecord k0)) clock cost d = (Inr (True, 0), d')"
    "chk_Record result = limits_of p (accessKeyRecord k0)"
proof -
  from run allowed obtain d1 where pub: "consume_publication (accessKeyRecord k0) service model d = (Inr True, d1)"
    by (auto simp: Repository_ConsumeAccess_def commit_if_def bindE_eq_Inr denied_def returnE_def
        split: prod.splits sum.splits if_splits)
  note served = consume_publication_served [OF pub]
  obtain k where k: "key_at d (k_tenant k0) (k_id k0) = Some k"
      "consume_key (k_tenant k0) (k_id k0) (accessKeyRecord k0) k model clock cost d = (Inr result, d')"
  proof (cases "key_at d (k_tenant k0) (k_id k0)")
    case None
    with run allowed pub served show ?thesis
      by (auto simp: Repository_ConsumeAccess_def commit_if_def bindE_def returnE_def failE_def denied_def
          requireUUID_same [OF P] k0 LockInferenceAccessKey_def one_def tryE_def liftE_def split: if_splits)
  next
    case (Some k)
    with run allowed pub served
    have "consume_key (k_tenant k0) (k_id k0) (accessKeyRecord k0) k model clock cost d = (Inr result, d')"
      by (auto simp: Repository_ConsumeAccess_def commit_if_def bindE_def returnE_def requireUUID_same [OF P] k0
          LockInferenceAccessKey_def one_def tryE_def liftE_def split: prod.splits sum.splits if_splits)
    with Some that show ?thesis by blast
  qed
  from consume_key_allowed [OF k(2) allowed] k(1) served that show ?thesis by (metis record_of_key(1,3))
qed


lemma archive_legacy_result:
  "archive_legacy P rnd svc record apiKey result d = (Inr x, d') \<Longrightarrow> x = result \<and> ak_buckets d' = ak_buckets d"
  by (auto simp: archive_legacy_def Repository_ArchiveSecret_def ArchiveInferenceAccessKeySecret_def Let_def bindE_eq_Inr
      returnE_def failE_def split: if_splits)

lemma check_key_allowed:
  assumes run: "check_key P rnd clock svc (accessKeyRecord k) apiKey serviceID model cost d = (Inr result, d')"
    and allowed: "chk_Allowed result"
  obtains service d1 where
    "Repository_ConsumeAccess P (accessKeyRecord k) service (TrimSpace model) clock (if cost < 1 then 1 else cost) d
       = (Inr result, d1)" "ak_buckets d' = ak_buckets d1"
proof -
  have "\<exists>service d1. Repository_ConsumeAccess P (accessKeyRecord k) service (TrimSpace model) clock
      (if cost < 1 then 1 else cost) d = (Inr result, d1) \<and> ak_buckets d' = ak_buckets d1"
    using assms
    by (auto simp: check_key_def bindE_eq_Inr returnE_def failE_def denied_def Repository_Resolve_def lookupPublishedModel_def
        split: if_splits dest: archive_legacy_result)
  with that show ?thesis by blast
qed

lemma service_check_allowed:
  assumes run: "Service_Check P IDKey rnd clock svc rawKey serviceID model cost d = (Inr result, d')"
    and allowed: "chk_Allowed result" and P: "uuid_parser_ok P" and ok: "access_ok d"
  obtains k p d1 where "authorized IDKey clock (TrimSpace rawKey) (TrimSpace model) d k p"
    "chk_Record result = limits_of p (accessKeyRecord k)"
    "consumeKeyBuckets (k_tenant k) (k_id k) (limits_of p (accessKeyRecord k)) clock (if cost < 1 then 1 else cost) d
       = (Inr (True, 0), d1)" "ak_buckets d' = ak_buckets d1"
proof -
  obtain k where k: "find (\<lambda>k. k_key_prefix k = keyPrefix (TrimSpace rawKey)) (ak_keys d) = Some k"
      "verifySecret IDKey (TrimSpace rawKey) (k_secret_hash k)"
      "check_key P rnd clock svc (accessKeyRecord k) (TrimSpace rawKey) serviceID model cost d = (Inr result, d')"
    using run allowed
    by (auto simp: Service_Check_def Let_def Repository_GetByPrefix_def found_or_def GetInferenceAccessKeyByPrefix_def
        one_def bindE_def tryE_def returnE_def failE_def invalid_key_def split: if_splits option.splits)
  have mem: "k \<in> set (ak_keys d)" "k_key_prefix k = keyPrefix (TrimSpace rawKey)"
    using find_Some_mem [OF k(1)] by auto
  have uuids: "uuid_text (k_tenant k)" "uuid_text (k_id k)" using key_ok_mem [OF ok mem(1)] by (simp_all add: key_ok_def)
  have at: "key_at d (k_tenant k) (k_id k) = Some k" using ok mem(1) by (simp add: key_at_eq access_ok_def)
  obtain service d1 where consume: "Repository_ConsumeAccess P (accessKeyRecord k) service (TrimSpace model) clock
      (if cost < 1 then 1 else cost) d = (Inr result, d1)" "ak_buckets d' = ak_buckets d1"
    using check_key_allowed [OF k(3) allowed] .
  from consume(1) allowed P uuids show ?thesis
  proof (rule consume_access_allowed)
    fix k' pid p
    assume "key_at d (k_tenant k) (k_id k) = Some k'" and k': "k_revoked_at k' = None" "unexpired clock k'"
        "k_policy_id k' = Some pid" "policy_at d (k_tenant k) pid = Some p" "TrimSpace model \<in> set (ap_allowed_model_names p)"
        "serves (control d) (k_tenant k) service (TrimSpace model)"
      and last: "consumeKeyBuckets (k_tenant k) (k_id k) (limits_of p (accessKeyRecord k)) clock
          (if cost < 1 then 1 else cost) d = (Inr (True, 0), d1)" "chk_Record result = limits_of p (accessKeyRecord k)"
    with at have "k' = k" by simp
    then have "authorized IDKey clock (TrimSpace rawKey) (TrimSpace model) d k p"
      using k' k(2) mem policy_at_mem [OF k'(4)] by (auto simp: authorized_def)
    from that [OF this last(2,1) consume(2)] show ?thesis .
  qed
qed


lemma access_reachable: "uuid_parser_ok P \<Longrightarrow> reachable access_start (access_step P) d \<Longrightarrow> access_ok d"
  using keys.inv_reachable [of P d] by simp

section \<open>Tables\<close>

text \<open>
  C16: In every state that calls of the service reach, the tables of keys, policies and rate buckets satisfy
  their constraints: identities and key prefixes are unique, a key's create idempotency key is unique for
  its tenant, limits and counts are not negative, identifiers are canonical and every policy and key that
  a row refers to exists.
\<close>

theorem access_rows_typed:
  assumes "uuid_parser_ok P" and "reachable access_start (access_step P) d"
  shows "access_ok d"
  using assms by (rule access_reachable)

theorem access_rows_typed_witness: "access_ok sample_keyed \<and> ak_keys sample_keyed = [sample_key]"
  using access_rows_typed [OF strict_parser_ok sample_key_reachable] by (simp add: sample_keyed_def)




section \<open>The gateway\<close>

lemma TrimSpace_Nil: "TrimSpace [] = []"
  by code_simp

lemma decision_reply_pass:
  "hs_Status (decision_reply result) = 200 \<longleftrightarrow>
     az_Allowed result \<and> TrimSpace (az_TenantID result) \<noteq> '''' \<and> TrimSpace (az_InferenceKeyID result) \<noteq> ''''"
  by (simp add: decision_reply_def reply_def denialStatus_def Let_def)

text \<open>A request passes only after a check of the credential service that allows it.\<close>

lemma gateway_passed:
  assumes "authz_request P IDKey rnd clock svc newID r d = (resp, d')" and "hs_Status resp = 200"
  obtains apiKey model result where
    "singleHeader r ''x-api-key'' = Some apiKey" "singleHeader r ''x-higress-llm-model'' = Some model"
    "Service_Check P IDKey rnd clock svc apiKey '''' model 1 d = (Inr result, d')" "chk_Allowed result"
    "resp = decision_reply \<lparr>az_Allowed = True, az_TenantID = cs_TenantId (check_response result),
       az_InferenceKeyID = cs_KeyId (check_response result), az_DenialCode = chk_DenialCode result,
       az_RetryAfterSeconds = cs_RetryAfterSeconds (check_response result), az_PolicyVersion = chk_PolicyVersion result\<rparr>"
proof -
  obtain apiKey model result where *:
      "singleHeader r ''x-api-key'' = Some apiKey" "singleHeader r ''x-higress-llm-model'' = Some model"
      "Service_Check P IDKey rnd clock svc apiKey '''' (TrimSpace model) 1 d = (Inr result, d')"
      "resp = decision_reply \<lparr>az_Allowed = cs_Allowed (check_response result), az_TenantID = cs_TenantId (check_response result),
       az_InferenceKeyID = cs_KeyId (check_response result), az_DenialCode = cs_DenialCode (check_response result),
       az_RetryAfterSeconds = cs_RetryAfterSeconds (check_response result),
       az_PolicyVersion = cs_PolicyVersion (check_response result)\<rparr>"
    using assms
    by (auto simp: authz_request_def Handler_ServeHTTP_def Let_def reply_def Client_Check_def CheckInferenceAccess_def
        status_of_def bindE_def returnE_def failE_def split: if_splits option.splits prod.splits sum.splits)
  have "TrimSpace model = model" using *(2) by (auto simp: singleHeader_def split: list.splits)
  moreover have "chk_Allowed result" using assms(2) *(4) by (simp add: decision_reply_pass check_response_def)
  ultimately show ?thesis using that * by (simp add: check_response_def)
qed

lemma gateway_authorized:
  assumes "uuid_parser_ok P" and "reachable access_start (access_step P) d"
    and "authz_request P IDKey rnd clock svc newID r d = (resp, d')" and "hs_Status resp = 200"
  shows "\<exists>apiKey model k p. singleHeader r ''x-api-key'' = Some apiKey
    \<and> singleHeader r ''x-higress-llm-model'' = Some model
    \<and> authorized IDKey clock apiKey model d k p
    \<and> hs_Headers resp = commonHeaders @ [(''x-ani-tenant-id'', k_tenant k), (''x-ani-inference-key-id'', k_id k)]"
proof (rule gateway_passed [OF assms(3,4)])
  fix apiKey model result
  assume *: "singleHeader r ''x-api-key'' = Some apiKey" "singleHeader r ''x-higress-llm-model'' = Some model"
    "Service_Check P IDKey rnd clock svc apiKey '''' model 1 d = (Inr result, d')" "chk_Allowed result"
    "resp = decision_reply \<lparr>az_Allowed = True, az_TenantID = cs_TenantId (check_response result),
       az_InferenceKeyID = cs_KeyId (check_response result), az_DenialCode = chk_DenialCode result,
       az_RetryAfterSeconds = cs_RetryAfterSeconds (check_response result), az_PolicyVersion = chk_PolicyVersion result\<rparr>"
  have trim: "TrimSpace apiKey = apiKey" "TrimSpace model = model"
    using *(1,2) by (auto simp: singleHeader_def split: list.splits)
  obtain k p where "authorized IDKey clock apiKey model d k p" "chk_Record result = limits_of p (accessKeyRecord k)"
    using service_check_allowed [OF *(3,4) assms(1) access_reachable [OF assms(1,2)]] unfolding trim by metis
  moreover from this(2) have "hs_Headers resp = commonHeaders @ [(''x-ani-tenant-id'', k_tenant k), (''x-ani-inference-key-id'', k_id k)]"
    using assms(4) unfolding *(5)
    by (auto simp: decision_reply_def reply_def check_response_def limits_of_def TrimSpace_Nil split: if_splits)
  ultimately show ?thesis using *(1,2) by blast
qed

text \<open>
  C4: The gateway lets a request pass only if its one \<^verbatim>\<open>x-api-key\<close> is the secret of a key that is neither
  revoked nor expired and whose policy, of the same tenant, allows the requested model, and that model is
  published, at its desired generation, by exactly one service, a running one of that tenant. The reply
  names this tenant and this key.
\<close>

theorem gateway_allows_only_authorized:
  assumes "uuid_parser_ok P" and "reachable access_start (access_step P) d"
    and "authz_request P IDKey rnd clock svc newID r d = (resp, d')" and "hs_Status resp = 200"
  shows "\<exists>apiKey model k p. singleHeader r ''x-api-key'' = Some apiKey
    \<and> singleHeader r ''x-higress-llm-model'' = Some model
    \<and> authorized IDKey clock apiKey model d k p
    \<and> hs_Headers resp = commonHeaders @ [(''x-ani-tenant-id'', k_tenant k), (''x-ani-inference-key-id'', k_id k)]"
  using assms by (rule gateway_authorized)

theorem gateway_allows_only_authorized_witness:
  "hs_Status (fst sample_passed) = 200 \<and>
   (\<exists>apiKey model k p. singleHeader (sample_http sample_secret) ''x-api-key'' = Some apiKey
    \<and> singleHeader (sample_http sample_secret) ''x-higress-llm-model'' = Some model
    \<and> authorized sample_derivation 6000 apiKey model sample_keyed k p
    \<and> hs_Headers (fst sample_passed) = commonHeaders @ [(''x-ani-tenant-id'', k_tenant k), (''x-ani-inference-key-id'', k_id k)])"
  using gateway_allows_only_authorized [OF strict_parser_ok sample_key_reachable
      prod.collapse [of sample_passed, symmetric, unfolded sample_passed_def]] sample_passed_status
  by (simp only: sample_passed_def simp_thms)


text \<open>The buckets of a key hold a request of \<open>cost\<close> and stay within the limits.\<close>

definition counted ::
  "access_db \<Rightarrow> uuid \<Rightarrow> uuid \<Rightarrow> gotime \<Rightarrow> int \<Rightarrow> string \<times> 32 word \<times> duration \<Rightarrow> bool"
where
  "counted d tenant key clock cost = (\<lambda>(name, limit, len). sint limit \<le> 0 \<or>
     list_ex (\<lambda>b. rb_id b = (tenant, key, name, truncate_time clock len div 1000)
       \<and> cost \<le> rb_count b \<and> rb_count b \<le> sint limit) (ak_buckets d))"

lemma consume_bucket_counted:
  assumes "ConsumeInferenceAccessKeyRateBucket t i w st c mx d = (Inr n, d')" and "access_ok d"
  shows "list_ex (\<lambda>b. rb_id b = (t, i, w, st) \<and> c \<le> rb_count b \<and> rb_count b \<le> mx) (ak_buckets d')"
proof -
  have "0 \<le> rb_count b" if "b \<in> set (ak_buckets d)" for b
    using assms(2) that by (simp add: access_ok_def list_all_iff bucket_ok_def)
  then have nonneg: "0 \<le> rb_count b" if "find (\<lambda>b. rb_id b = (t, i, w, st)) (ak_buckets d) = Some b" for b
    using find_Some_mem [OF that] by blast
  show ?thesis
  proof (cases "find (\<lambda>b. rb_id b = (t, i, w, st)) (ak_buckets d)")
    case None
    with assms(1) show ?thesis
      by (auto simp: ConsumeInferenceAccessKeyRateBucket_def Let_def rb_id_def split: if_splits)
  next
    case (Some b)
    let ?b = "rb_count_update (\<lambda>n. n + c) b"
    from Some assms(1) have run: "rb_count b \<le> mx - c"
        "ak_buckets d' = update_where (\<lambda>b. rb_id b = (t, i, w, st)) (rb_count_update (\<lambda>n. n + c)) (ak_buckets d)"
      by (auto simp: ConsumeInferenceAccessKeyRateBucket_def Let_def split: if_splits)
    have "?b \<in> set (ak_buckets d')" "rb_id ?b = (t, i, w, st)"
      using find_Some_mem [OF Some] by (auto simp: run(2) set_update_where rb_id_def)
    then show ?thesis using run(1) nonneg [OF Some] unfolding list_ex_iff by (intro bexI [of _ ?b]) simp_all
  qed
qed

lemma consume_bucket_other:
  assumes "ConsumeInferenceAccessKeyRateBucket t i w st c mx d = (r, d')" and "name \<noteq> w"
    and "counted d t i clock cost (name, limit, len)"
  shows "counted d' t i clock cost (name, limit, len)"
  using assms
  by (fastforce simp: ConsumeInferenceAccessKeyRateBucket_def Let_def list_ex_iff set_update_where rb_id_def counted_def
      split: if_splits option.splits)

lemma consume_windows_keep:
  assumes "consume_windows t i clock cost ws d = (r, d')" and "counted d t i clock cost w" and "fst w \<notin> fst ` set ws"
  shows "counted d' t i clock cost w"
  using assms
proof (induction ws arbitrary: d)
  case (Cons v ws)
  obtain name limit len where v: "v = (name, limit, len)" by (cases v)
  show ?case
  proof (cases "sint limit \<le> 0")
    case False
    obtain x d1 where one: "ConsumeInferenceAccessKeyRateBucket t i name (truncate_time clock len div 1000) cost (sint limit) d
        = (x, d1)" by fastforce
    have "counted d1 t i clock cost w"
      using consume_bucket_other [OF one] Cons.prems(2,3) v by (cases w) auto
    with Cons False one v show ?thesis
      by (auto simp: bindE_def tryE_def returnE_def failE_def split: sum.splits if_splits)
  qed (use Cons v in auto)
qed (simp add: returnE_def)

lemma consume_windows_counted:
  assumes "consume_windows t i clock cost ws d = (Inr None, d')" and "access_ok d" and "distinct (map fst ws)"
  shows "list_all (counted d' t i clock cost) ws"
  using assms
proof (induction ws arbitrary: d)
  case (Cons v ws)
  obtain name limit len where v: "v = (name, limit, len)" by (cases v)
  show ?case
  proof (cases "sint limit \<le> 0")
    case True
    with Cons v show ?thesis by (simp add: counted_def)
  next
    case False
    obtain n d1 where one: "ConsumeInferenceAccessKeyRateBucket t i name (truncate_time clock len div 1000) cost (sint limit) d
        = (Inr n, d1)" and rest: "consume_windows t i clock cost ws d1 = (Inr None, d')"
      using Cons.prems(1) False v
      by (auto simp: bindE_def tryE_def returnE_def failE_def split: sum.splits if_splits prod.splits)
    have "access_ok d1" using ensuresD [OF access_consume_bucket one] Cons.prems(2) by (simp add: access_le_def)
    then have "list_all (counted d' t i clock cost) ws" using Cons.IH [OF rest] Cons.prems(3) by simp
    moreover have "counted d1 t i clock cost v"
      using consume_bucket_counted [OF one Cons.prems(2)] v by (simp add: counted_def)
    then have "counted d' t i clock cost v"
      using consume_windows_keep [OF rest] Cons.prems(3) by simp
    ultimately show ?thesis by simp
  qed
qed simp

lemma consume_buckets_counted:
  assumes "consumeKeyBuckets t i record clock cost d = (Inr (True, x), d')" and "access_ok d"
  shows "list_all (counted d' t i clock cost) (rate_windows record)"
proof -
  obtain d1 where "consume_windows t i clock cost (rate_windows record) d = (Inr None, d1)" "ak_buckets d' = ak_buckets d1"
    using assms(1)
    by (auto simp: consumeKeyBuckets_def bindE_eq_Inr MarkInferenceAccessKeyUsed_def returnE_def split: option.splits)
  with consume_windows_counted [OF this(1) assms(2)] show ?thesis
    by (simp add: rate_windows_def counted_def)
qed




lemma commit_if_refused: "commit_if q m d = (Inr a, d') \<Longrightarrow> \<not> q a \<Longrightarrow> d' = d"
  by (auto simp: commit_if_def split: prod.splits sum.splits)

lemma service_check_refused:
  assumes "Service_Check P IDKey rnd clock svc rawKey serviceID model cost d = (Inr result, d')" and "\<not> chk_Allowed result"
  shows "d' = d"
proof -
  have "d' = d" if "check_key P rnd clock svc k apiKey serviceID model cost d = (Inr result, d')" for k apiKey
    using that assms(2) archive_legacy_result [of P rnd svc k apiKey _ _ result d']
    by (auto simp: check_key_def bindE_eq_Inr Repository_Resolve_def lookupPublishedModel_def returnE_def failE_def
        Repository_ConsumeAccess_def split: if_splits dest: commit_if_refused)
  with assms show ?thesis
    by (auto simp: Service_Check_def Let_def Repository_GetByPrefix_def found_or_def GetInferenceAccessKeyByPrefix_def
        one_def bindE_def tryE_def returnE_def failE_def split: if_splits option.splits)
qed

text \<open>
  C24: A request that the gateway refuses leaves no trace: unless it passes or the check is unavailable, no
  bucket, key or audit row changes.
\<close>

theorem refused_request_changes_nothing:
  assumes "authz_request P IDKey rnd clock svc newID r d = (resp, d')"
    and "hs_Status resp \<noteq> 200" and "hs_Status resp \<noteq> 503"
  shows "d' = d"
proof -
  have "d' = d" if "Service_Check P IDKey rnd clock svc apiKey '''' model 1 d = (Inr result, d')"
      "hs_Status (decision_reply \<lparr>az_Allowed = chk_Allowed result, az_TenantID = t, az_InferenceKeyID = i,
         az_DenialCode = c, az_RetryAfterSeconds = s, az_PolicyVersion = v\<rparr>) \<notin> {200, 503}" for apiKey model result t i c s v
    using service_check_refused [OF that(1)] that(2) by (auto simp: decision_reply_def reply_def split: if_splits)
  with assms show ?thesis
    by (auto simp: authz_request_def Handler_ServeHTTP_def Let_def reply_def Client_Check_def CheckInferenceAccess_def
        status_of_def bindE_def returnE_def failE_def check_response_def split: if_splits option.splits prod.splits sum.splits)
qed

theorem refused_request_changes_nothing_witness:
  "snd (authz_request strict_parser sample_derivation (sample_rnd 2) 6000 sample_svc ''x'' (sample_http ''iak_other'')
     sample_keyed) = sample_keyed"
proof -
  let ?reply = "authz_request strict_parser sample_derivation (sample_rnd 2) 6000 sample_svc ''x'' (sample_http ''iak_other'') sample_keyed"
  have "hs_Status (fst ?reply) = 401" by code_simp
  then show ?thesis using refused_request_changes_nothing [OF prod.collapse [of ?reply, symmetric]] by simp
qed


section \<open>Retries\<close>

lemma truncate_wait: "0 < len \<Longrightarrow> 0 < truncate_time clock len + len - clock \<and> truncate_time clock len + len - clock \<le> len"
  using pos_mod_bound [of len clock] pos_mod_sign [of len clock] by (simp add: truncate_time_def)

lemma consume_windows_wait:
  "consume_windows t i clock cost ws d = (Inr (Some retry), d') \<Longrightarrow>
     \<exists>(name, limit, len) \<in> set ws. retry = truncate_time clock len + len - clock"
proof (induction ws arbitrary: d)
  case (Cons w ws)
  obtain name limit len where w: "w = (name, limit, len)" by (cases w)
  show ?case
  proof (cases "sint limit \<le> 0")
    case True
    with Cons w show ?thesis by auto
  next
    case False
    obtain x d1 where "ConsumeInferenceAccessKeyRateBucket t i name (truncate_time clock len div 1000) cost (sint limit) d = (x, d1)"
      by fastforce
    with Cons w False show ?thesis
      by (auto simp: bindE_def tryE_def returnE_def failE_def split: sum.splits if_splits)
  qed
qed (simp add: returnE_def)

lemma sint_seconds: "0 \<le> n \<Longrightarrow> n < 2 ^ 31 \<Longrightarrow> sint (of_int n :: 32 word) = n"
  by (subst signed_of_int) (simp add: signed_take_bit_int_eq_self)


definition sample_counted :: access_db where
  "sample_counted = sample_keyed\<lparr>ak_buckets := [\<lparr>rb_tenant = sample_tenant, rb_key = sample_operation_id,
     rb_window = ''second'', rb_start = 0, rb_count = 1\<rparr>]\<rparr>"



section \<open>Revocation\<close>

lemma evolved_key:
  assumes "uuid_parser_ok P" and "reachable access_start (access_step P) d" and "(access_step P)\<^sup>*\<^sup>* d d'"
    and "k \<in> set (ak_keys d)"
  obtains k' where "k' \<in> set (ak_keys d')" "evolves k k'" "access_ok d'"
  using access_steps_le [OF assms(1,3)] access_reachable [OF assms(1,2)] assms(4) by (auto simp: access_le_def)

lemma same_key: "access_ok d \<Longrightarrow> k \<in> set (ak_keys d) \<Longrightarrow> k' \<in> set (ak_keys d) \<Longrightarrow> k_key k = k_key k' \<Longrightarrow> k = k'"
  by (auto simp: access_ok_def dest: keyed_unique)

text \<open>
  C10: A revoked key stays revoked with the credentials it had, whatever calls follow, and no later request
  passes the gateway in its name.
\<close>

theorem revoked_key_stays_refused:
  assumes "uuid_parser_ok P" and "reachable access_start (access_step P) d" and "(access_step P)\<^sup>*\<^sup>* d d'"
    and "k \<in> set (ak_keys d)" and "k_revoked_at k \<noteq> None"
  shows "(\<exists>k' \<in> set (ak_keys d'). k_key k' = k_key k \<and> credentials k' = credentials k)
    \<and> \<not> (hs_Status (fst (authz_request P IDKey rnd clock svc newID r d')) = 200
      \<and> hs_Headers (fst (authz_request P IDKey rnd clock svc newID r d'))
        = commonHeaders @ [(''x-ani-tenant-id'', k_tenant k), (''x-ani-inference-key-id'', k_id k)])"
proof -
  let ?reply = "authz_request P IDKey rnd clock svc newID r d'"
  obtain k' where k': "k' \<in> set (ak_keys d')" "evolves k k'" "access_ok d'" using assms(1-4) by (rule evolved_key)
  have same: "k_key k' = k_key k" "credentials k' = credentials k" using k'(2) assms(5) by (auto simp: evolves_def)
  have reach: "reachable access_start (access_step P) d'"
    using assms(3,2) by (induction rule: rtranclp_induct) (auto intro: reachable.next_state)
  have False if passed: "hs_Status (fst ?reply) = 200" and headers: "hs_Headers (fst ?reply) =
      commonHeaders @ [(''x-ani-tenant-id'', k_tenant k), (''x-ani-inference-key-id'', k_id k)]"
  proof -
    obtain apiKey model k2 p where "authorized IDKey clock apiKey model d' k2 p" "hs_Headers (fst ?reply) =
        commonHeaders @ [(''x-ani-tenant-id'', k_tenant k2), (''x-ani-inference-key-id'', k_id k2)]"
      using gateway_authorized [OF assms(1) reach prod.collapse [of ?reply, symmetric] passed] by blast
    with headers have "k2 \<in> set (ak_keys d')" "k_revoked_at k2 = None" "k_key k2 = k_key k'"
      using same(1) by (simp_all add: authorized_def k_key_def)
    moreover from this have "k2 = k'" by (intro same_key [OF k'(3) _ k'(1)])
    ultimately show False using same(2) assms(5) by (simp add: credentials_def)
  qed
  then show ?thesis using k'(1) same by blast
qed

theorem revoked_key_stays_refused_witness:
  "\<not> (hs_Status (fst (authz_request strict_parser sample_derivation (sample_rnd 2) 6000 sample_svc ''x''
        (sample_http sample_secret) sample_dead)) = 200
      \<and> hs_Headers (fst (authz_request strict_parser sample_derivation (sample_rnd 2) 6000 sample_svc ''x''
        (sample_http sample_secret) sample_dead))
        = commonHeaders @ [(''x-ani-tenant-id'', k_tenant sample_dead_key), (''x-ani-inference-key-id'', k_id sample_dead_key)])"
proof -
  have "sample_dead_key \<in> set (ak_keys sample_dead)" "k_revoked_at sample_dead_key \<noteq> None"
    by (simp_all add: sample_dead_def sample_dead_key_def)
  from revoked_key_stays_refused [OF strict_parser_ok sample_dead_reachable rtranclp.rtrancl_refl this] show ?thesis by blast
qed

text \<open>
  C9: A decision is fenced by the version of the key it was made for: when the credentials or the policy of
  a key change between the reading of its row and the count of the request, the request is refused and
  nothing is counted.
\<close>

theorem changed_key_is_refused:
  assumes "uuid_parser_ok P" and "reachable access_start (access_step P) d" and "(access_step P)\<^sup>*\<^sup>* d d'"
    and "k \<in> set (ak_keys d)" and "k' \<in> set (ak_keys d')" and "k_key k' = k_key k"
    and "credentials k' \<noteq> credentials k \<or> k_policy_id k' \<noteq> k_policy_id k"
    and "Repository_ConsumeAccess P (accessKeyRecord k) service model clock cost d' = (Inr result, d'')"
  shows "\<not> chk_Allowed result \<and> d'' = d'"
proof -
  obtain k1 where k1: "k1 \<in> set (ak_keys d')" "evolves k k1" "access_ok d'" using assms(1-4) by (rule evolved_key)
  have "k1 = k'" using same_key [OF k1(3,1) assms(5)] k1(2) assms(6) by (simp add: evolves_def)
  with k1(2) assms(7) have version: "k_version k' \<noteq> k_version k" by (auto simp: evolves_def)
  have uuids: "uuid_text (k_tenant k)" "uuid_text (k_id k)"
    using key_ok_mem [OF access_reachable [OF assms(1,2)] assms(4)] by (simp_all add: key_ok_def)
  have at: "key_at d' (k_tenant k) (k_id k) = Some k'"
    using key_at_eq [OF _ assms(5)] k1(3) assms(6) by (simp add: access_ok_def k_key_def)
  have "\<not> chk_Allowed result"
  proof
    assume "chk_Allowed result"
    from assms(8) this assms(1) uuids show False
      by (rule consume_access_allowed) (use at version in auto)
  qed
  then show ?thesis using assms(8) unfolding Repository_ConsumeAccess_def by (blast dest: commit_if_refused)
qed

theorem changed_key_is_refused_witness:
  "\<exists>result. Repository_ConsumeAccess strict_parser (accessKeyRecord sample_key) sample_id ''llama'' 6000 1 sample_dead
     = (Inr result, sample_dead) \<and> \<not> chk_Allowed result"
proof -
  let ?run = "Repository_ConsumeAccess strict_parser (accessKeyRecord sample_key) sample_id ''llama'' 6000 1 sample_dead"
  have "\<not> isl (fst ?run)" by code_simp
  then obtain result where run: "?run = (Inr result, snd ?run)"
    by (cases "fst ?run") (auto simp: prod_eq_iff)
  have "sample_key \<in> set (ak_keys sample_keyed)" "sample_dead_key \<in> set (ak_keys sample_dead)"
      "k_key sample_dead_key = k_key sample_key"
      "credentials sample_dead_key \<noteq> credentials sample_key \<or> k_policy_id sample_dead_key \<noteq> k_policy_id sample_key"
    by (simp_all add: sample_keyed_def sample_dead_def sample_dead_key_def k_key_def credentials_def sample_key_def)
  from changed_key_is_refused [OF strict_parser_ok sample_key_reachable
      r_into_rtranclp [where r = "access_step strict_parser", OF sample_dead_step] this run]
  show ?thesis using run by metis
qed

end
