(* ===== verification/Spec2Isabelle.thy ===== *)
theory Spec2Isabelle
  imports Work_System Store_Facts Aggregate_Facts Access_Facts
begin

text \<open>
  A verification library of the inference control plane \<^verbatim>\<open>ani-inference-service\<close>.
\<close>

end
